(* ===== verification/GoPrelude.thy ===== *)
theory GoPrelude
  imports Main "HOL-Library.AList"
begin

text \<open>
  What the components share: the Go language and the parts of its standard library that
  Holepunch uses.

  \<^item> A Go \<^verbatim>\<open>string\<close> is a byte string: type \<^typ>\<open>string\<close>, whose characters are the 256 bytes.
  \<^item> A Go \<^verbatim>\<open>error\<close> is its message (type \<open>gerror\<close>); a call that returns a value or an error
    has type \<open>gerror + 'a\<close>.
  \<^item> A Go \<^verbatim>\<open>map[K]V\<close> is an association list with distinct keys (type \<open>gomap\<close>). The order of
    the list stands for the order in which one \<^verbatim>\<open>range\<close> loop visits the map, which Go leaves
    open: lemmas about a loop over a map hold for every list, hence for every order.
  \<^item> \<^verbatim>\<open>strings.HasPrefix\<close>, \<^verbatim>\<open>TrimPrefix\<close>, \<^verbatim>\<open>Contains\<close>, \<^verbatim>\<open>Cut\<close>, \<^verbatim>\<open>Split\<close>, \<^verbatim>\<open>Join\<close>, \<^verbatim>\<open>TrimSpace\<close>,
    \<^verbatim>\<open>ToLower\<close>, the UTF-8 decoding of a \<^verbatim>\<open>range\<close> loop over a string, \<^verbatim>\<open>strconv.Itoa\<close>,
    \<^verbatim>\<open>unicode.IsControl\<close> and \<^verbatim>\<open>unicode.IsSpace\<close>.

  The collections \<open>go_simps\<close> (string and map facts) and \<open>handler_defs\<close> (definitions of
  handlers, unfolded by the lemmas on whole requests) carry the component proofs.
\<close>

named_theorems go_simps
named_theorems handler_defs

type_synonym gerror = string
type_synonym 'a result = "gerror + 'a"

section \<open>Association lists as Go maps\<close>

type_synonym ('k, 'v) gomap = "('k \<times> 'v) list"
type_synonym headers = "(string, string) gomap"
type_synonym strset = "(string, unit) gomap"

abbreviation go_wf :: "('k, 'v) gomap \<Rightarrow> bool" where
  "go_wf m \<equiv> distinct (map fst m)"

definition mput :: "'k \<Rightarrow> 'v \<Rightarrow> ('k, 'v) gomap \<Rightarrow> ('k, 'v) gomap" where
  "mput k v m = AList.update k v m"

definition mhas :: "('k, 'v) gomap \<Rightarrow> 'k \<Rightarrow> bool" where
  "mhas m k = (map_of m k \<noteq> None)"

text \<open>Reading a missing key of a \<^verbatim>\<open>map[string]string\<close> gives the zero value.\<close>

definition sget :: "('k, string) gomap \<Rightarrow> 'k \<Rightarrow> string" where
  "sget m k = (case map_of m k of None \<Rightarrow> [] | Some v \<Rightarrow> v)"

lemma map_of_mput [simp, go_simps]: "map_of (mput k v m) = (map_of m)(k \<mapsto> v)"
  by (simp add: mput_def update_conv')

lemma go_wf_mput [simp, intro]: "go_wf m \<Longrightarrow> go_wf (mput k v m)"
  by (simp add: mput_def distinct_update)

lemma keys_mput [simp, go_simps]: "fst ` set (mput k v m) = insert k (fst ` set m)"
  by (simp add: mput_def dom_update)

lemma mput_Nil [simp, go_simps]: "mput k v [] = [(k, v)]"
  by (simp add: mput_def)

lemma mput_Cons [simp, go_simps]:
  "mput k v ((k', v') # m) = (if k' = k then (k, v) # m else (k', v') # mput k v m)"
  by (auto simp: mput_def)

lemma mhas_iff [simp, go_simps]: "mhas m k \<longleftrightarrow> k \<in> fst ` set m"
  by (simp add: mhas_def map_of_eq_None_iff)

lemma sget_mput [simp, go_simps]: "sget (mput k v m) k' = (if k' = k then v else sget m k')"
  by (simp add: sget_def)

lemma sget_Nil [simp, go_simps]: "sget [] k = []"
  by (simp add: sget_def)

lemma sget_Cons [simp, go_simps]: "sget ((k', v) # m) k = (if k = k' then v else sget m k)"
  by (simp add: sget_def)

text \<open>Copying one map into another, key by key.\<close>

definition mput_all :: "('k, 'v) gomap \<Rightarrow> ('k, 'v) gomap \<Rightarrow> ('k, 'v) gomap" where
  "mput_all kvs m = fold (\<lambda>(k, v). mput k v) kvs m"

lemma mput_all_simps [simp]:
  "mput_all [] m = m"
  "mput_all ((k, v) # kvs) m = mput_all kvs (mput k v m)"
  by (simp_all add: mput_all_def)

lemma keys_mput_all [simp, go_simps]:
  "fst ` set (mput_all kvs m) = fst ` set kvs \<union> fst ` set m"
proof (induction kvs arbitrary: m)
  case (Cons kv kvs)
  then show ?case by (cases kv) simp
qed simp

lemma go_wf_mput_all [simp, intro]: "go_wf m \<Longrightarrow> go_wf (mput_all kvs m)"
  by (induction kvs arbitrary: m) auto

lemma map_of_mput_all: "map_of (mput_all kvs m) = map_of m ++ map_of (rev kvs)"
proof (induction kvs arbitrary: m)
  case (Cons kv kvs)
  then show ?case
    by (cases kv) (auto simp: map_add_def fun_eq_iff split: option.splits)
qed simp

section \<open>Strings\<close>

definition HasPrefix :: "string \<Rightarrow> string \<Rightarrow> bool" where
  "HasPrefix s p = (take (length p) s = p)"

definition HasSuffix :: "string \<Rightarrow> string \<Rightarrow> bool" where
  "HasSuffix s p = HasPrefix (rev s) (rev p)"

definition TrimPrefix :: "string \<Rightarrow> string \<Rightarrow> string" where
  "TrimPrefix s p = (if HasPrefix s p then drop (length p) s else s)"

fun Contains :: "string \<Rightarrow> string \<Rightarrow> bool" where
  "Contains [] sub = (sub = [])"
| "Contains (c # s) sub = (HasPrefix (c # s) sub \<or> Contains s sub)"

lemma HasPrefix_append [simp, go_simps]: "HasPrefix (p @ s) p"
  by (simp add: HasPrefix_def)

lemma HasPrefix_Nil [simp, go_simps]: "HasPrefix s []"
  by (simp add: HasPrefix_def)

lemma HasPrefix_Nil2 [simp, go_simps]: "HasPrefix [] p = (p = [])"
  by (auto simp: HasPrefix_def)

lemma HasPrefix_Cons [simp, go_simps]:
  "HasPrefix (c # s) (d # p) = (c = d \<and> HasPrefix s p)"
  by (auto simp: HasPrefix_def)

lemma HasPrefix_iff: "HasPrefix s p \<longleftrightarrow> (\<exists>t. s = p @ t)"
  by (metis HasPrefix_append HasPrefix_def append_take_drop_id)

lemma HasPrefix_length: "HasPrefix s p \<Longrightarrow> length p \<le> length s"
  by (auto simp: HasPrefix_iff)

lemma TrimPrefix_append [simp, go_simps]: "TrimPrefix (p @ s) p = s"
  by (simp add: TrimPrefix_def)

lemma Contains_iff: "Contains s sub \<longleftrightarrow> (\<exists>a b. s = a @ sub @ b)"
proof (induction s)
  case (Cons c s)
  show ?case
  proof
    assume "Contains (c # s) sub"
    then consider "HasPrefix (c # s) sub" | "Contains s sub" by auto
    then show "\<exists>a b. c # s = a @ sub @ b"
      by cases (use Cons.IH in \<open>auto simp: HasPrefix_iff intro: exI [of _ "[]"]\<close>,
        metis append_Cons)
  next
    assume "\<exists>a b. c # s = a @ sub @ b"
    then show "Contains (c # s) sub"
      by (metis Cons.IH Contains.simps(2) HasPrefix_append append_eq_Cons_conv)
  qed
qed auto

text \<open>\<^verbatim>\<open>strings.Cut(s, sep)\<close> for a one-byte separator: before, after, found.\<close>

fun Cut :: "char \<Rightarrow> string \<Rightarrow> string \<times> string \<times> bool" where
  "Cut sep [] = ([], [], False)"
| "Cut sep (c # s) =
     (if c = sep then ([], s, True)
      else case Cut sep s of (a, b, f) \<Rightarrow> (c # a, b, f))"

lemma Cut_found: "Cut sep s = (a, b, True) \<Longrightarrow> s = a @ sep # b \<and> sep \<notin> set a"
  by (induction s arbitrary: a) (auto split: if_splits prod.splits)

lemma Cut_not_found: "Cut sep s = (a, b, False) \<Longrightarrow> a = s \<and> b = [] \<and> sep \<notin> set s"
  by (induction s arbitrary: a) (auto split: if_splits prod.splits)

lemma Cut_append [simp]: "sep \<notin> set a \<Longrightarrow> Cut sep (a @ sep # b) = (a, b, True)"
  by (induction a) auto

text \<open>\<^verbatim>\<open>strings.Split(s, sep)\<close>; \<open>acc\<close> holds the current part, reversed.\<close>

function split_aux :: "string \<Rightarrow> string \<Rightarrow> string \<Rightarrow> string list" where
  "split_aux sep acc [] = [rev acc]"
| "split_aux sep acc (c # s) =
     (if sep \<noteq> [] \<and> HasPrefix (c # s) sep
      then rev acc # split_aux sep [] (drop (length sep) (c # s))
      else split_aux sep (c # acc) s)"
  by pat_completeness auto
termination
  by (relation "measure (\<lambda>(sep, acc, s). length s)") auto

definition Split :: "string \<Rightarrow> string \<Rightarrow> string list" where
  "Split s sep = split_aux sep [] s"

fun Join :: "string list \<Rightarrow> string \<Rightarrow> string" where
  "Join [] sep = []"
| "Join [x] sep = x"
| "Join (x # y # xs) sep = x @ sep @ Join (y # xs) sep"

lemma split_aux_not_Nil [simp]: "split_aux sep acc s \<noteq> []"
  by (induction sep acc s rule: split_aux.induct) auto

lemma Split_not_Nil [simp]: "Split s sep \<noteq> []"
  by (simp add: Split_def)

lemma Join_Cons: "xs \<noteq> [] \<Longrightarrow> Join (x # xs) sep = x @ sep @ Join xs sep"
  by (cases xs) auto

lemma Join_split_aux: "sep \<noteq> [] \<Longrightarrow> Join (split_aux sep acc s) sep = rev acc @ s"
proof (induction sep acc s rule: split_aux.induct)
  case (2 sep acc c s)
  show ?case
  proof (cases "HasPrefix (c # s) sep")
    case True
    then have "sep @ drop (length sep) (c # s) = c # s"
      by (metis HasPrefix_def append_take_drop_id)
    with 2 True show ?thesis by (simp add: Join_Cons)
  qed (use 2 in simp)
qed simp

lemma Join_Split: "sep \<noteq> [] \<Longrightarrow> Join (Split s sep) sep = s"
  by (simp add: Split_def Join_split_aux)

lemma split_aux_single:
  "c \<notin> set s \<Longrightarrow> split_aux [c] acc (s @ t) =
     (case split_aux [c] (rev s @ acc) t of xs \<Rightarrow> xs)"
  by (induction s arbitrary: acc) auto

lemma Split_first: "c \<notin> set a \<Longrightarrow> Split (a @ c # b) [c] = a # Split b [c]"
  by (simp add: Split_def split_aux_single)

lemma Split_none: "c \<notin> set a \<Longrightarrow> Split a [c] = [a]"
  using split_aux_single [of c a "[]" "[]"] by (simp add: Split_def)

section \<open>UTF-8\<close>

text \<open>
  The decoding of Go's \<^verbatim>\<open>range\<close> loop over a string: the rune at the head and its width.
  An invalid byte is the replacement rune \<^verbatim>\<open>U+FFFD\<close> of width 1.
\<close>

abbreviation byte_val :: "char \<Rightarrow> nat" where
  "byte_val c \<equiv> of_char c"

definition is_cont :: "nat \<Rightarrow> nat \<Rightarrow> char \<Rightarrow> bool" where
  "is_cont lo hi c = (lo \<le> byte_val c \<and> byte_val c \<le> hi)"

definition rune_error :: nat where
  "rune_error = 65533"

fun utf8_two :: "nat \<Rightarrow> string \<Rightarrow> nat \<times> nat" where
  "utf8_two b (c1 # _) =
     (if is_cont 128 191 c1 then ((b - 192) * 64 + (byte_val c1 - 128), 2) else (rune_error, 1))"
| "utf8_two b _ = (rune_error, 1)"

fun utf8_three :: "nat \<Rightarrow> string \<Rightarrow> nat \<times> nat" where
  "utf8_three b (c1 # c2 # _) =
     (if is_cont (if b = 224 then 160 else 128) (if b = 237 then 159 else 191) c1
         \<and> is_cont 128 191 c2
      then ((b - 224) * 4096 + (byte_val c1 - 128) * 64 + (byte_val c2 - 128), 3)
      else (rune_error, 1))"
| "utf8_three b _ = (rune_error, 1)"

fun utf8_four :: "nat \<Rightarrow> string \<Rightarrow> nat \<times> nat" where
  "utf8_four b (c1 # c2 # c3 # _) =
     (if is_cont (if b = 240 then 144 else 128) (if b = 244 then 143 else 191) c1
         \<and> is_cont 128 191 c2 \<and> is_cont 128 191 c3
      then ((b - 240) * 262144 + (byte_val c1 - 128) * 4096
            + (byte_val c2 - 128) * 64 + (byte_val c3 - 128), 4)
      else (rune_error, 1))"
| "utf8_four b _ = (rune_error, 1)"

fun utf8_step :: "string \<Rightarrow> nat \<times> nat" where
  "utf8_step [] = (rune_error, 0)"
| "utf8_step (c # cs) =
     (let b = byte_val c in
      if b < 128 then (b, 1)
      else if 194 \<le> b \<and> b \<le> 223 then utf8_two b cs
      else if 224 \<le> b \<and> b \<le> 239 then utf8_three b cs
      else if 240 \<le> b \<and> b \<le> 244 then utf8_four b cs
      else (rune_error, 1))"

lemma utf8_multi_width:
  "0 < snd (utf8_two b s)" "0 < snd (utf8_three b s)" "0 < snd (utf8_four b s)"
proof -
  show "0 < snd (utf8_two b s)" by (cases "(b, s)" rule: utf8_two.cases) simp_all
  show "0 < snd (utf8_three b s)" by (cases "(b, s)" rule: utf8_three.cases) simp_all
  show "0 < snd (utf8_four b s)" by (cases "(b, s)" rule: utf8_four.cases) simp_all
qed

lemma utf8_step_width: "s \<noteq> [] \<Longrightarrow> 0 < snd (utf8_step s)"
  by (cases s) (simp_all add: Let_def utf8_multi_width)

lemma utf8_multi_high:
  "list_all (\<lambda>c. 128 \<le> byte_val c) (take (snd (utf8_two b s) - 1) s)"
  "list_all (\<lambda>c. 128 \<le> byte_val c) (take (snd (utf8_three b s) - 1) s)"
  "list_all (\<lambda>c. 128 \<le> byte_val c) (take (snd (utf8_four b s) - 1) s)"
proof -
  show "list_all (\<lambda>c. 128 \<le> byte_val c) (take (snd (utf8_two b s) - 1) s)"
    by (cases "(b, s)" rule: utf8_two.cases) (simp_all add: is_cont_def)
  show "list_all (\<lambda>c. 128 \<le> byte_val c) (take (snd (utf8_three b s) - 1) s)"
    by (cases "(b, s)" rule: utf8_three.cases) (auto simp: is_cont_def split: if_splits)
  show "list_all (\<lambda>c. 128 \<le> byte_val c) (take (snd (utf8_four b s) - 1) s)"
    by (cases "(b, s)" rule: utf8_four.cases) (auto simp: is_cont_def split: if_splits)
qed

text \<open>The bytes of a rune that starts with a byte from 128 on are all of that kind.\<close>

lemma utf8_step_high:
  assumes "128 \<le> byte_val d"
  shows "list_all (\<lambda>c. 128 \<le> byte_val c) (take (snd (utf8_step (d # cs))) (d # cs))"
  using assms utf8_multi_high [where b = "byte_val d" and s = cs]
  by (auto simp: Let_def take_Cons' utf8_multi_width split: if_splits)

lemma utf8_step_Cons: "(r, w) = utf8_step (c # cs) \<Longrightarrow> 0 < w"
  using utf8_step_width [of "c # cs"] by (metis list.distinct(1) snd_conv)

text \<open>The runes of a string, each with the bytes it was decoded from.\<close>

function utf8_chunks :: "string \<Rightarrow> (nat \<times> string) list" where
  "utf8_chunks [] = []"
| "utf8_chunks (c # cs) =
     (case utf8_step (c # cs) of (r, w) \<Rightarrow>
        (r, take w (c # cs)) # utf8_chunks (drop w (c # cs)))"
  by pat_completeness auto
termination
  by (relation "measure length") (auto simp del: utf8_step.simps dest!: utf8_step_Cons)

definition runes :: "string \<Rightarrow> nat list" where
  "runes s = map fst (utf8_chunks s)"

lemma utf8_chunks_concat: "concat (map snd (utf8_chunks s)) = s"
  by (induction s rule: utf8_chunks.induct) (auto split: prod.splits)

lemma ascii_byte_is_rune: "c \<in> set s \<Longrightarrow> byte_val c < 128 \<Longrightarrow> byte_val c \<in> set (runes s)"
proof (induction s rule: utf8_chunks.induct)
  case (2 d cs)
  obtain r w where rw: "utf8_step (d # cs) = (r, w)" by fastforce
  then have chunks: "runes (d # cs) = r # runes (drop w (d # cs))"
    by (simp add: runes_def del: utf8_step.simps)
  have "c \<in> set (take w (d # cs)) \<or> c \<in> set (drop w (d # cs))"
    using "2.prems"(1) by (metis append_take_drop_id Un_iff set_append)
  then show ?case
  proof
    assume c: "c \<in> set (take w (d # cs))"
    then have "byte_val d < 128"
      using utf8_step_high [of d cs] rw "2.prems"(2) by (fastforce simp: list_all_iff)
    then have "r = byte_val d" "w = 1" using rw by auto
    then show ?thesis using c chunks by simp
  next
    assume "c \<in> set (drop w (d # cs))"
    then show ?thesis using "2.IH" [OF rw [symmetric]] "2.prems"(2) chunks by simp
  qed
qed simp

definition is_ascii :: "string \<Rightarrow> bool" where
  "is_ascii s = list_all (\<lambda>c. byte_val c < 128) s"

lemma utf8_chunks_ascii: "is_ascii s \<Longrightarrow> utf8_chunks s = map (\<lambda>c. (byte_val c, [c])) s"
  by (induction s) (auto simp: is_ascii_def)

lemma runes_ascii: "is_ascii s \<Longrightarrow> runes s = map byte_val s"
  by (simp add: runes_def utf8_chunks_ascii comp_def)

text \<open>\<^verbatim>\<open>unicode.IsControl\<close>, \<^verbatim>\<open>unicode.IsSpace\<close>.\<close>

definition IsControl :: "nat \<Rightarrow> bool" where
  "IsControl r = (r < 32 \<or> (127 \<le> r \<and> r < 160))"

definition IsSpace :: "nat \<Rightarrow> bool" where
  "IsSpace r = (9 \<le> r \<and> r \<le> 13 \<or> r = 32 \<or> r = 133 \<or> r = 160 \<or> r = 5760
     \<or> 8192 \<le> r \<and> r \<le> 8202 \<or> r = 8232 \<or> r = 8233 \<or> r = 8239 \<or> r = 8287 \<or> r = 12288)"

definition TrimSpace :: "string \<Rightarrow> string" where
  "TrimSpace s =
     (let keep = dropWhile (\<lambda>(r, _). IsSpace r)
      in concat (map snd (rev (keep (rev (keep (utf8_chunks s)))))))"

text \<open>
  \<^verbatim>\<open>strings.ToLower\<close>. Of the runes outside ASCII, only \<^verbatim>\<open>U+0130\<close> and \<^verbatim>\<open>U+212A\<close> lower to an
  ASCII letter; the others keep their value here. Every use of the function in the program
  looks its result up among ASCII names or is applied to an HTTP header name.
\<close>

definition lower_byte :: "char \<Rightarrow> char" where
  "lower_byte c = (if 65 \<le> byte_val c \<and> byte_val c \<le> 90 then char_of (byte_val c + 32) else c)"

definition ToLower :: "string \<Rightarrow> string" where
  "ToLower s =
     concat (map (\<lambda>(r, bs). if r = 304 then ''i'' else if r = 8490 then ''k''
                             else map lower_byte bs) (utf8_chunks s))"

lemma ToLower_ascii: "is_ascii s \<Longrightarrow> ToLower s = map lower_byte s"
  by (induction s) (auto simp: ToLower_def utf8_chunks_ascii is_ascii_def)

lemma lower_byte_idem [simp]: "lower_byte (lower_byte c) = lower_byte c"
  by (auto simp: lower_byte_def)

section \<open>Numbers\<close>

fun itoa :: "nat \<Rightarrow> string" where
  "itoa n = (if n < 10 then [char_of (48 + n)] else itoa (n div 10) @ [char_of (48 + n mod 10)])"

declare itoa.simps [simp del]

definition is_digit :: "char \<Rightarrow> bool" where
  "is_digit c = (48 \<le> byte_val c \<and> byte_val c \<le> 57)"

definition digits_val :: "string \<Rightarrow> nat" where
  "digits_val s = foldl (\<lambda>n c. n * 10 + (byte_val c - 48)) 0 s"

lemma itoa_not_Nil [simp]: "itoa n \<noteq> []"
  by (subst itoa.simps) simp

lemma digit_char_val: "d < 10 \<Longrightarrow> byte_val (char_of (48 + d :: nat)) = 48 + d"
  by simp

lemma itoa_digits: "list_all is_digit (itoa n)"
proof (induction n rule: itoa.induct)
  case (1 n)
  have "n mod 10 < 10" by simp
  then show ?case
    using 1 by (subst itoa.simps) (auto simp: is_digit_def [of "char_of _"])
qed

lemma digits_val_itoa [simp]: "digits_val (itoa n) = n"
proof (induction n rule: itoa.induct)
  case (1 n)
  have "n mod 10 < 10" by simp
  then show ?case
    using 1 by (subst itoa.simps) (auto simp: digits_val_def)
qed

lemma itoa_inject: "itoa m = itoa n \<longleftrightarrow> m = n"
  by (metis digits_val_itoa)

end
