(* ===== verification/Codec.thy ===== *)
theory Codec
  imports GoPrelude
begin

text \<open>
  The text encodings of Go's standard library that the program uses: \<^verbatim>\<open>encoding/base64\<close> (the
  raw and padded, URL and standard variants) and \<^verbatim>\<open>encoding/hex\<close>. The lemmas are the round
  trip of the raw encodings, their alphabet, and that both encoders are injective; the cache
  keys and the cipher rest on them.
\<close>

section \<open>Base64\<close>

datatype b64_alphabet = URLAlphabet | StdAlphabet

definition b64_char :: "b64_alphabet \<Rightarrow> nat \<Rightarrow> char" where
  "b64_char al n =
     (if n < 26 then char_of (65 + n)
      else if n < 52 then char_of (71 + n)
      else if n < 62 then char_of (n - 4)
      else if n = 62 then (case al of URLAlphabet \<Rightarrow> CHR ''-'' | StdAlphabet \<Rightarrow> CHR ''+'')
      else (case al of URLAlphabet \<Rightarrow> CHR ''_'' | StdAlphabet \<Rightarrow> CHR ''/''))"

definition b64_val :: "b64_alphabet \<Rightarrow> char \<Rightarrow> nat option" where
  "b64_val al c =
     (let b = byte_val c in
      if 65 \<le> b \<and> b \<le> 90 then Some (b - 65)
      else if 97 \<le> b \<and> b \<le> 122 then Some (b - 71)
      else if 48 \<le> b \<and> b \<le> 57 then Some (b + 4)
      else if c = b64_char al 62 then Some 62
      else if c = b64_char al 63 then Some 63
      else None)"

fun b64_encode_raw :: "b64_alphabet \<Rightarrow> string \<Rightarrow> string" where
  "b64_encode_raw al [] = []"
| "b64_encode_raw al [x] =
     (let a = byte_val x in [b64_char al (a div 4), b64_char al (a mod 4 * 16)])"
| "b64_encode_raw al [x, y] =
     (let a = byte_val x; b = byte_val y in
      [b64_char al (a div 4), b64_char al (a mod 4 * 16 + b div 16), b64_char al (b mod 16 * 4)])"
| "b64_encode_raw al (x # y # z # s) =
     (let a = byte_val x; b = byte_val y; c = byte_val z in
      b64_char al (a div 4) # b64_char al (a mod 4 * 16 + b div 16)
      # b64_char al (b mod 16 * 4 + c div 64) # b64_char al (c mod 64)
      # b64_encode_raw al s)"

text \<open>\<^verbatim>\<open>RawURLEncoding.EncodeToString\<close>.\<close>

definition RawURLEncode :: "string \<Rightarrow> string" where
  "RawURLEncode s = b64_encode_raw URLAlphabet s"

text \<open>
  The decoders skip carriage returns and line feeds anywhere, do not check the unused low bits
  of the last character, and refuse every other character outside the alphabet.
\<close>

definition skip_newlines :: "string \<Rightarrow> string" where
  "skip_newlines s = filter (\<lambda>c. byte_val c \<noteq> 10 \<and> byte_val c \<noteq> 13) s"

fun b64_vals :: "b64_alphabet \<Rightarrow> string \<Rightarrow> nat list option" where
  "b64_vals al [] = Some []"
| "b64_vals al (c # s) =
     (case b64_val al c of None \<Rightarrow> None
      | Some v \<Rightarrow> map_option (\<lambda>vs. v # vs) (b64_vals al s))"

fun b64_unpack :: "nat list \<Rightarrow> string option" where
  "b64_unpack [] = Some []"
| "b64_unpack [p] = None"
| "b64_unpack [p, q] = Some [char_of (p * 4 + q div 16)]"
| "b64_unpack [p, q, r] = Some [char_of (p * 4 + q div 16), char_of (q mod 16 * 16 + r div 4)]"
| "b64_unpack (p # q # r # t # s) =
     map_option (\<lambda>bs. char_of (p * 4 + q div 16) # char_of (q mod 16 * 16 + r div 4)
                       # char_of (r mod 4 * 64 + t) # bs) (b64_unpack s)"

definition b64_decode_raw :: "b64_alphabet \<Rightarrow> string \<Rightarrow> string option" where
  "b64_decode_raw al s = Option.bind (b64_vals al (skip_newlines s)) b64_unpack"

text \<open>With padding: the text is a multiple of four and ends in at most two \<^verbatim>\<open>=\<close>.\<close>

definition b64_decode_pad :: "b64_alphabet \<Rightarrow> string \<Rightarrow> string option" where
  "b64_decode_pad al s =
     (let t = skip_newlines s;
          body = (if HasSuffix t ''=='' then take (length t - 2) t
                  else if HasSuffix t ''='' then take (length t - 1) t else t)
      in if length t mod 4 \<noteq> 0 then None
         else Option.bind (b64_vals al body) b64_unpack)"

definition b64_err :: gerror where
  "b64_err = ''illegal base64 data''"

definition of_option :: "gerror \<Rightarrow> 'a option \<Rightarrow> 'a result" where
  "of_option e v = (case v of None \<Rightarrow> Inl e | Some x \<Rightarrow> Inr x)"

text \<open>\<^verbatim>\<open>DecodeString\<close> of the four encodings.\<close>

definition RawURLDecode :: "string \<Rightarrow> string result" where
  "RawURLDecode s = of_option b64_err (b64_decode_raw URLAlphabet s)"

definition URLDecode :: "string \<Rightarrow> string result" where
  "URLDecode s = of_option b64_err (b64_decode_pad URLAlphabet s)"

definition RawStdDecode :: "string \<Rightarrow> string result" where
  "RawStdDecode s = of_option b64_err (b64_decode_raw StdAlphabet s)"

definition StdDecode :: "string \<Rightarrow> string result" where
  "StdDecode s = of_option b64_err (b64_decode_pad StdAlphabet s)"

lemma of_option_simps [simp]: "of_option e None = Inl e" "of_option e (Some x) = Inr x"
  by (simp_all add: of_option_def)

subsection \<open>Round trip\<close>

lemma b64_char_cases:
  assumes "(n :: nat) < 64"
  obtains "n < 26" | "26 \<le> n" "n < 52" | "52 \<le> n" "n < 62" | "n = 62" | "n = 63"
  using assms by linarith

lemma b64_val_char [simp]: "n < 64 \<Longrightarrow> b64_val al (b64_char al n) = Some n"
  by (erule b64_char_cases; cases al) (auto simp: b64_val_def b64_char_def Let_def)

definition url_safe :: "char \<Rightarrow> bool" where
  "url_safe c = (let b = byte_val c in 65 \<le> b \<and> b \<le> 90 \<or> 97 \<le> b \<and> b \<le> 122
     \<or> 48 \<le> b \<and> b \<le> 57 \<or> c = CHR ''-'' \<or> c = CHR ''_'')"

lemma b64_char_url_safe: "n < 64 \<Longrightarrow> url_safe (b64_char URLAlphabet n)"
  by (erule b64_char_cases) (auto simp: url_safe_def b64_char_def Let_def)

lemma b64_char_not_newline:
  "n < 64 \<Longrightarrow> byte_val (b64_char al n) \<noteq> 10 \<and> byte_val (b64_char al n) \<noteq> 13"
  by (erule b64_char_cases; cases al) (auto simp: b64_char_def)

lemma byte_val_less [simp]: "byte_val c < 256"
  by (metis of_char_mod_256 mod_less_divisor zero_less_numeral)

lemma byte_sextets:
  fixes a b c :: nat
  assumes "a < 256" "b < 256" "c < 256"
  shows "a div 4 < 64" "a mod 4 * 16 < 64" "a mod 4 * 16 + b div 16 < 64"
    "b mod 16 * 4 < 64" "b mod 16 * 4 + c div 64 < 64" "c mod 64 < 64"
    "b div 16 div 16 = 0" "b div 16 mod 16 = b div 16"
    "c div 64 div 4 = 0" "c div 64 mod 4 = c div 64"
proof -
  have lt: "a div 4 < 64" "b div 16 < 16" "c div 64 < 4"
    using assms by (simp_all add: less_mult_imp_div_less)
  have md: "a mod 4 < 4" "b mod 16 < 16" "c mod 64 < 64" by simp_all
  show "a div 4 < 64" "a mod 4 * 16 < 64" "a mod 4 * 16 + b div 16 < 64"
    "b mod 16 * 4 < 64" "b mod 16 * 4 + c div 64 < 64" "c mod 64 < 64"
    using lt md by linarith+
  show "b div 16 div 16 = 0" "b div 16 mod 16 = b div 16"
    "c div 64 div 4 = 0" "c div 64 mod 4 = c div 64"
    using lt by simp_all
qed

lemmas byte_sextets_val [simp] = byte_sextets [OF byte_val_less byte_val_less byte_val_less]

lemma b64_encode_newlines: "skip_newlines (b64_encode_raw al s) = b64_encode_raw al s"
  by (induction al s rule: b64_encode_raw.induct)
    (simp_all add: Let_def skip_newlines_def b64_char_not_newline)

lemma b64_encode_url_safe: "list_all url_safe (b64_encode_raw URLAlphabet s)"
  by (induction URLAlphabet s rule: b64_encode_raw.induct)
    (simp_all add: Let_def b64_char_url_safe)

lemma b64_unpack_encode:
  "Option.bind (b64_vals al (b64_encode_raw al s)) b64_unpack = Some s"
proof (induction al s rule: b64_encode_raw.induct)
  case (4 al x y z s)
  then have "Option.bind (b64_vals al (b64_encode_raw al s)) b64_unpack = Some s" by blast
  then obtain vs where "b64_vals al (b64_encode_raw al s) = Some vs" "b64_unpack vs = Some s"
    by (auto simp only: bind_eq_Some_conv)
  then show ?case by (simp add: Let_def)
qed (simp_all add: Let_def)

lemma b64_raw_roundtrip: "b64_decode_raw al (b64_encode_raw al s) = Some s"
  by (simp add: b64_decode_raw_def b64_encode_newlines b64_unpack_encode)

lemma RawURL_roundtrip [simp]: "RawURLDecode (RawURLEncode s) = Inr s"
  by (simp add: RawURLDecode_def RawURLEncode_def b64_raw_roundtrip)

lemma RawURLEncode_inject [simp]: "RawURLEncode s = RawURLEncode t \<longleftrightarrow> s = t"
  by (metis RawURL_roundtrip sum.inject(2))

lemma RawURLEncode_url_safe: "list_all url_safe (RawURLEncode s)"
  by (simp add: RawURLEncode_def b64_encode_url_safe)

lemma RawURLEncode_no_dot: "CHR ''.'' \<notin> set (RawURLEncode s)"
  using RawURLEncode_url_safe [of s] by (auto simp: list_all_iff url_safe_def Let_def)

lemma b64_encode_length: "length (b64_encode_raw al s) = (length s * 4 + 2) div 3"
  by (induction al s rule: b64_encode_raw.induct) (simp_all add: Let_def)

text \<open>A text with a character outside the alphabet does not decode.\<close>

lemma b64_vals_bad: "c \<in> set s \<Longrightarrow> b64_val al c = None \<Longrightarrow> b64_vals al s = None"
  by (induction s) (auto split: option.splits)

lemma RawURLDecode_bad:
  assumes "c \<in> set s" "b64_val URLAlphabet c = None" "byte_val c \<noteq> 10" "byte_val c \<noteq> 13"
  shows "RawURLDecode s = Inl b64_err"
proof -
  have "c \<in> set (skip_newlines s)" using assms by (simp add: skip_newlines_def)
  then show ?thesis
    using assms(2) by (simp add: RawURLDecode_def b64_decode_raw_def b64_vals_bad)
qed

section \<open>Hexadecimal\<close>

definition hex_digit :: "nat \<Rightarrow> char" where
  "hex_digit n = (if n < 10 then char_of (48 + n) else char_of (87 + n))"

definition HexEncode :: "string \<Rightarrow> string" where
  "HexEncode s = concat (map (\<lambda>c. [hex_digit (byte_val c div 16), hex_digit (byte_val c mod 16)]) s)"

lemma HexEncode_simps [simp]:
  "HexEncode [] = []"
  "HexEncode (c # s) = hex_digit (byte_val c div 16) # hex_digit (byte_val c mod 16) # HexEncode s"
  by (simp_all add: HexEncode_def)

lemma HexEncode_length [simp]: "length (HexEncode s) = 2 * length s"
  by (induction s) auto

lemma hex_digit_inject: "m < 16 \<Longrightarrow> n < 16 \<Longrightarrow> hex_digit m = hex_digit n \<longleftrightarrow> m = n"
  by (auto simp: hex_digit_def dest: arg_cong [where f = "of_char :: char \<Rightarrow> nat"] split: if_splits)

lemma HexEncode_inject [simp]: "HexEncode s = HexEncode t \<longleftrightarrow> s = t"
proof (induction s arbitrary: t)
  case Nil
  then show ?case by (cases t) auto
next
  case (Cons c s)
  show ?case
  proof (cases t)
    case (Cons d t')
    have "byte_val c div 16 = byte_val d div 16 \<Longrightarrow> byte_val c mod 16 = byte_val d mod 16
        \<Longrightarrow> c = d"
      by (metis div_mult_mod_eq of_char_eq_iff)
    then show ?thesis
      using Cons Cons.IH hex_digit_inject byte_val_less [of c] byte_val_less [of d]
      by (auto simp: less_mult_imp_div_less)
  qed auto
qed

lemma hex_digit_alnum:
  "n < 16 \<Longrightarrow> 48 \<le> byte_val (hex_digit n) \<and> byte_val (hex_digit n) \<le> 57
     \<or> 97 \<le> byte_val (hex_digit n) \<and> byte_val (hex_digit n) \<le> 102"
  by (auto simp: hex_digit_def)

end
