(* ===== verification/Digest.thy ===== *)
theory Digest
  imports Codec "HOL-Library.Word"
begin

unbundle bit_operations_syntax

text \<open>
  The checksums of Go's standard library that the program uses: \<^verbatim>\<open>crypto/sha256.Sum256\<close> (cache
  keys of OAuth sessions, names of Envoy resources) and \<^verbatim>\<open>hash/crc32.ChecksumIEEE\<close> (the version
  of a snapshot), over 32-bit words. The lemmas used elsewhere are the lengths of the results.
\<close>

section \<open>SHA-256\<close>

type_synonym u32 = "32 word"

definition sha_K :: "u32 list" where
  "sha_K = [
    1116352408, 1899447441, 3049323471, 3921009573, 961987163, 1508970993, 2453635748, 2870763221,
    3624381080, 310598401, 607225278, 1426881987, 1925078388, 2162078206, 2614888103, 3248222580,
    3835390401, 4022224774, 264347078, 604807628, 770255983, 1249150122, 1555081692, 1996064986,
    2554220882, 2821834349, 2952996808, 3210313671, 3336571891, 3584528711, 113926993, 338241895,
    666307205, 773529912, 1294757372, 1396182291, 1695183700, 1986661051, 2177026350, 2456956037,
    2730485921, 2820302411, 3259730800, 3345764771, 3516065817, 3600352804, 4094571909, 275423344,
    430227734, 506948616, 659060556, 883997877, 958139571, 1322822218, 1537002063, 1747873779,
    1955562222, 2024104815, 2227730452, 2361852424, 2428436474, 2756734187, 3204031479, 3329325298]"

definition sha_H0 :: "u32 list" where
  "sha_H0 = [
    0x6a09e667, 0xbb67ae85, 0x3c6ef372, 0xa54ff53a, 0x510e527f, 0x9b05688c, 0x1f83d9ab,
    0x5be0cd19]"


definition big_sigma0 :: "u32 \<Rightarrow> u32" where
  "big_sigma0 x = word_rotr 2 x XOR word_rotr 13 x XOR word_rotr 22 x"

definition big_sigma1 :: "u32 \<Rightarrow> u32" where
  "big_sigma1 x = word_rotr 6 x XOR word_rotr 11 x XOR word_rotr 25 x"

definition small_sigma0 :: "u32 \<Rightarrow> u32" where
  "small_sigma0 x = word_rotr 7 x XOR word_rotr 18 x XOR drop_bit 3 x"

definition small_sigma1 :: "u32 \<Rightarrow> u32" where
  "small_sigma1 x = word_rotr 17 x XOR word_rotr 19 x XOR drop_bit 10 x"

text \<open>The message is padded with \<^verbatim>\<open>0x80\<close>, zeros and its length in bits as eight bytes.\<close>

definition nat_bytes_be :: "nat \<Rightarrow> nat \<Rightarrow> nat list" where
  "nat_bytes_be k n = map (\<lambda>i. n div 256 ^ (k - 1 - i) mod 256) [0..<k]"

definition sha_pad :: "string \<Rightarrow> nat list" where
  "sha_pad s =
     (let n = length s
      in map byte_val s @ 128 # replicate ((119 - n mod 64) mod 64) 0 @ nat_bytes_be 8 (8 * n))"

fun words_be :: "nat list \<Rightarrow> u32 list" where
  "words_be (a # b # c # d # bs) =
     word_of_nat (((a * 256 + b) * 256 + c) * 256 + d) # words_be bs"
| "words_be _ = []"

text \<open>The schedule keeps the last sixteen words; the step returns the word to use now.\<close>

fun sha_rounds :: "u32 list \<Rightarrow> u32 list \<Rightarrow> u32 list \<Rightarrow> u32 list" where
  "sha_rounds (k # ks) (w # ws) [a, b, c, d, e, f, g, h] =
     (let t1 = h + big_sigma1 e + ((e AND f) XOR (NOT e AND g)) + k + w;
          t2 = big_sigma0 a + ((a AND b) XOR (a AND c) XOR (b AND c));
          w' = small_sigma1 (ws ! 13) + ws ! 8 + small_sigma0 (ws ! 0) + w
      in sha_rounds ks (ws @ [w']) [t1 + t2, a, b, c, d + t1, e, f, g])"
| "sha_rounds _ _ st = st"

definition sha_block :: "u32 list \<Rightarrow> u32 list \<Rightarrow> u32 list" where
  "sha_block blk st = map2 (+) st (sha_rounds sha_K blk st)"

function sha_blocks :: "u32 list \<Rightarrow> u32 list \<Rightarrow> u32 list" where
  "sha_blocks ws st =
     (if length ws < 16 then st else sha_blocks (drop 16 ws) (sha_block (take 16 ws) st))"
  by pat_completeness auto
termination
  by (relation "measure (\<lambda>(ws, st). length ws)") auto

declare sha_blocks.simps [simp del]

definition Sum256 :: "string \<Rightarrow> string" where
  "Sum256 s =
     concat (map (\<lambda>w. map char_of (nat_bytes_be 4 (unat w))) (sha_blocks (words_be (sha_pad s)) sha_H0))"

lemma sha_rounds_length:
  "length st = 8 \<Longrightarrow> length (sha_rounds ks ws st) = 8"
  by (induction ks ws st rule: sha_rounds.induct) (auto simp: Let_def)

lemma sha_blocks_length: "length st = 8 \<Longrightarrow> length (sha_blocks ws st) = 8"
proof (induction ws st rule: sha_blocks.induct)
  case (1 ws st)
  then show ?case
    by (subst sha_blocks.simps) (simp add: sha_block_def sha_rounds_length)
qed

lemma Sum256_length [simp]: "length (Sum256 s) = 32"
proof -
  have "length (sha_blocks ws sha_H0) = 8" for ws
    by (rule sha_blocks_length) (simp add: sha_H0_def)
  then show ?thesis
    by (simp add: Sum256_def length_concat comp_def nat_bytes_be_def sum_list_triv)
qed

section \<open>CRC-32\<close>

definition crc_shift :: "u32 \<Rightarrow> u32" where
  "crc_shift c = (if bit c 0 then drop_bit 1 c XOR 0xedb88320 else drop_bit 1 c)"

definition crc_byte :: "char \<Rightarrow> u32 \<Rightarrow> u32" where
  "crc_byte b c = (crc_shift ^^ 8) (c XOR word_of_nat (byte_val b))"

definition ChecksumIEEE :: "string \<Rightarrow> u32" where
  "ChecksumIEEE s = NOT (fold crc_byte s (NOT 0))"

text \<open>\<^verbatim>\<open>fmt.Sprintf("%08x", n)\<close> for a 32-bit number.\<close>

definition hex08 :: "u32 \<Rightarrow> string" where
  "hex08 n = HexEncode (map char_of (nat_bytes_be 4 (unat n)))"

lemma hex08_length [simp]: "length (hex08 n) = 8"
  by (simp add: hex08_def nat_bytes_be_def)

end
