(* ===== verification/GoUrl.thy ===== *)
theory GoUrl
  imports Codec
begin

text \<open>
  Go's \<^verbatim>\<open>net/url\<close> and \<^verbatim>\<open>path\<close> packages as the program uses them: \<^verbatim>\<open>url.Parse\<close> with its escape
  rules, \<^verbatim>\<open>URL.String\<close>, \<^verbatim>\<open>Hostname\<close>, \<^verbatim>\<open>Port\<close>, \<^verbatim>\<open>JoinPath\<close>, \<^verbatim>\<open>Query\<close>/\<^verbatim>\<open>Encode\<close> and
  \<^verbatim>\<open>path.Clean\<close>. The model follows Go 1.26 (the version of \<^verbatim>\<open>go.mod\<close>): a second colon in the
  host is refused and a bracketed host must be an IPv6 address. The lemmas are about \<^verbatim>\<open>Hostname\<close>
  and \<^verbatim>\<open>Port\<close> of a \<^verbatim>\<open>host:port\<close> pair and about the shape of a cleaned path.
\<close>

section \<open>Escaping\<close>

datatype encoding = EncPath | EncHost | EncZone | EncUserPassword | EncQueryComponent | EncFragment

definition is_alnum :: "char \<Rightarrow> bool" where
  "is_alnum c = (let b = byte_val c in 97 \<le> b \<and> b \<le> 122 \<or> 65 \<le> b \<and> b \<le> 90 \<or> 48 \<le> b \<and> b \<le> 57)"

definition is_hex :: "char \<Rightarrow> bool" where
  "is_hex c = (let b = byte_val c in 48 \<le> b \<and> b \<le> 57 \<or> 97 \<le> b \<and> b \<le> 102 \<or> 65 \<le> b \<and> b \<le> 70)"

definition unhex :: "char \<Rightarrow> nat" where
  "unhex c = (let b = byte_val c in
     if 48 \<le> b \<and> b \<le> 57 then b - 48 else if 97 \<le> b \<and> b \<le> 102 then b - 87
     else if 65 \<le> b \<and> b \<le> 70 then b - 55 else 0)"

definition host_chars :: string where
  "host_chars = ''!$&()*+,;=:[]<>'' @ [char_of (34 :: nat), char_of (39 :: nat)]"

definition shouldEscape :: "char \<Rightarrow> encoding \<Rightarrow> bool" where
  "shouldEscape c mode =
     (if is_alnum c then False
      else if (mode = EncHost \<or> mode = EncZone) \<and> c \<in> set host_chars then False
      else if c \<in> set ''-_.~'' then False
      else if c \<in> set ''$&+,/:;=?@'' \<and> mode = EncPath then c = CHR ''?''
      else if c \<in> set ''$&+,/:;=?@'' \<and> mode = EncUserPassword then c \<in> set ''@/?:''
      else if c \<in> set ''$&+,/:;=?@'' \<and> mode = EncQueryComponent then True
      else if c \<in> set ''$&+,/:;=?@'' \<and> mode = EncFragment then False
      else if mode = EncFragment \<and> c \<in> set ''!()*'' then False
      else True)"

fun unescape :: "encoding \<Rightarrow> string \<Rightarrow> string option" where
  "unescape mode [] = Some []"
| "unescape mode (c # s) =
     (if c = CHR ''%'' then
        (case s of
           h # l # t \<Rightarrow>
             (let v = unhex h * 16 + unhex l; pct25 = (h = CHR ''2'' \<and> l = CHR ''5'') in
              if \<not> is_hex h \<or> \<not> is_hex l then None
              else if mode = EncHost \<and> unhex h < 8 \<and> \<not> pct25 then None
              else if mode = EncZone \<and> \<not> pct25 \<and> v \<noteq> 32 \<and> shouldEscape (char_of v) EncHost then None
              else map_option (\<lambda>r. char_of v # r) (unescape mode t))
         | _ \<Rightarrow> None)
      else if (mode = EncHost \<or> mode = EncZone) \<and> byte_val c < 128 \<and> shouldEscape c mode then None
      else if c = CHR ''+'' \<and> mode = EncQueryComponent then map_option (\<lambda>r. CHR '' '' # r) (unescape mode s)
      else map_option (\<lambda>r. c # r) (unescape mode s))"

definition upper_hex :: "nat \<Rightarrow> char" where
  "upper_hex n = (if n < 10 then char_of (48 + n) else char_of (55 + n))"

definition escape :: "encoding \<Rightarrow> string \<Rightarrow> string" where
  "escape mode s =
     concat (map (\<lambda>c. if c = CHR '' '' \<and> mode = EncQueryComponent then ''+''
                      else if shouldEscape c mode
                      then [CHR ''%'', upper_hex (byte_val c div 16), upper_hex (byte_val c mod 16)]
                      else [c]) s)"

section \<open>The URL record\<close>

record url =
  Scheme :: string
  Opaque :: string
  User :: "(string \<times> string option) option"
  Host :: string
  Path :: string
  RawPath :: string
  OmitHost :: bool
  ForceQuery :: bool
  RawQuery :: string
  Fragment :: string
  RawFragment :: string

definition empty_url :: url where
  "empty_url = \<lparr>Scheme = [], Opaque = [], User = None, Host = [], Path = [], RawPath = [],
     OmitHost = False, ForceQuery = False, RawQuery = [], Fragment = [], RawFragment = []\<rparr>"

definition validOptionalPort :: "string \<Rightarrow> bool" where
  "validOptionalPort p =
     (case p of [] \<Rightarrow> True | c # ds \<Rightarrow> c = CHR '':'' \<and> list_all is_digit ds)"

text \<open>\<^verbatim>\<open>strings.LastIndexByte\<close> as a split: what precedes the last \<open>c\<close>, and what follows it.\<close>

definition cut_last :: "char \<Rightarrow> string \<Rightarrow> (string \<times> string) option" where
  "cut_last c s =
     (if c \<in> set s
      then Some (rev (tl (dropWhile (\<lambda>x. x \<noteq> c) (rev s))), rev (takeWhile (\<lambda>x. x \<noteq> c) (rev s)))
      else None)"

definition splitHostPort :: "string \<Rightarrow> string \<times> string" where
  "splitHostPort hostPort =
     (let (host, port) =
        (case cut_last (CHR '':'') hostPort of
           Some (h, p) \<Rightarrow> if validOptionalPort (CHR '':'' # p) then (h, p) else (hostPort, [])
         | None \<Rightarrow> (hostPort, []));
        host' = (if HasPrefix host ''['' \<and> HasSuffix host '']'' then butlast (tl host) else host)
      in (host', port))"

definition Hostname :: "url \<Rightarrow> string" where
  "Hostname u = fst (splitHostPort (Host u))"

definition Port :: "url \<Rightarrow> string" where
  "Port u = snd (splitHostPort (Host u))"

section \<open>IPv6 literals\<close>

text \<open>\<^verbatim>\<open>netip.ParseAddr\<close>, reduced to whether the text is an IPv6 address.\<close>

definition valid_ipv4_field :: "string \<Rightarrow> bool" where
  "valid_ipv4_field f =
     (f \<noteq> [] \<and> list_all is_digit f \<and> length f \<le> 3 \<and> digits_val f \<le> 255
      \<and> (length f > 1 \<longrightarrow> hd f \<noteq> CHR ''0''))"

definition valid_ipv4 :: "string \<Rightarrow> bool" where
  "valid_ipv4 s = (let fs = Split s ''.'' in length fs = 4 \<and> list_all valid_ipv4_field fs)"

function ip6_loop :: "nat \<Rightarrow> bool \<Rightarrow> string \<Rightarrow> (nat \<times> bool \<times> string) option" where
  "ip6_loop i ell s =
     (if 16 \<le> i then Some (i, ell, s)
      else let g = takeWhile is_hex s; r = dropWhile is_hex s in
        if g = [] \<or> 4 < length g then None
        else (case r of
            [] \<Rightarrow> Some (i + 2, ell, [])
          | c # r' \<Rightarrow>
             (if c = CHR ''.'' then
                (if (\<not> ell \<and> i \<noteq> 12) \<or> 16 < i + 4 \<or> \<not> valid_ipv4 s then None
                 else Some (i + 4, ell, []))
              else if c \<noteq> CHR '':'' \<or> r' = [] then None
              else if hd r' = CHR '':'' then
                (if ell then None
                 else if tl r' = [] then Some (i + 2, True, [])
                 else ip6_loop (i + 2) True (tl r'))
              else ip6_loop (i + 2) ell r')))"
  by pat_completeness auto
termination
  by (relation "measure (\<lambda>(i, ell, s). 16 - i)") auto

declare ip6_loop.simps [simp del]

definition valid_ipv6 :: "string \<Rightarrow> bool" where
  "valid_ipv6 t =
     (let (s, zone, zoned) = Cut (CHR ''%'') t in
      if zoned \<and> zone = [] then False
      else let lead = HasPrefix s ''::''; s' = (if lead then drop 2 s else s) in
        if lead \<and> s' = [] then True
        else (case ip6_loop 0 lead s' of
                None \<Rightarrow> False
              | Some (i, ell, rest) \<Rightarrow> rest = [] \<and> (if i < 16 then ell else \<not> ell)))"

definition valid_ip_literal :: "string \<Rightarrow> bool" where
  "valid_ip_literal s =
     (case dropWhile (\<lambda>c. c \<notin> set ''.:%'') s of c # _ \<Rightarrow> c = CHR '':'' \<and> valid_ipv6 s | [] \<Rightarrow> False)"

section \<open>Parsing\<close>

fun getScheme_aux :: "string \<Rightarrow> string \<Rightarrow> string \<Rightarrow> (string \<times> string) option" where
  "getScheme_aux raw acc [] = Some ([], raw)"
| "getScheme_aux raw acc (c # s) =
     (let b = byte_val c in
      if 97 \<le> b \<and> b \<le> 122 \<or> 65 \<le> b \<and> b \<le> 90 then getScheme_aux raw (c # acc) s
      else if is_digit c \<or> c \<in> set ''+-.'' then
        (if acc = [] then Some ([], raw) else getScheme_aux raw (c # acc) s)
      else if c = CHR '':'' then (if acc = [] then None else Some (rev acc, s))
      else Some ([], raw))"

definition getScheme :: "string \<Rightarrow> (string \<times> string) option" where
  "getScheme raw = getScheme_aux raw [] raw"

definition index_pct25 :: "string \<Rightarrow> (string \<times> string) option" where
  "index_pct25 s =
     (case filter (\<lambda>i. HasPrefix (drop i s) ''%25'') [0..<length s] of
        [] \<Rightarrow> None | i # _ \<Rightarrow> Some (take i s, drop i s))"

definition parseHost :: "string \<Rightarrow> string option" where
  "parseHost host =
     (if CHR ''['' \<in> set host then
        (if \<not> HasPrefix host ''['' then None
         else case cut_last (CHR '']'') host of
           None \<Rightarrow> None
         | Some (h, colonPort) \<Rightarrow>
            (let hostname = tl h in
             if CHR ''['' \<in> set hostname \<or> \<not> validOptionalPort colonPort then None
             else
               (case (case index_pct25 hostname of
                        Some (hp, zp) \<Rightarrow>
                          (case (unescape EncHost hp, unescape EncZone zp) of
                             (Some a, Some b) \<Rightarrow> Some (a @ b) | _ \<Rightarrow> None)
                      | None \<Rightarrow> unescape EncHost hostname) of
                  None \<Rightarrow> None
                | Some un \<Rightarrow>
                    if valid_ip_literal un then Some (''['' @ un @ '']'' @ colonPort) else None)))
      else
        (case Cut (CHR '':'') host of (h, p, colon) \<Rightarrow>
           if colon \<and> \<not> validOptionalPort (CHR '':'' # p) then None
           else unescape EncHost host))"

definition validUserinfo :: "string \<Rightarrow> bool" where
  "validUserinfo s =
     list_all (\<lambda>c. is_alnum c \<or> c \<in> set ''-._:~!$&()*+,;=%@'' \<or> byte_val c = 39) s"

definition parseUserinfo :: "string \<Rightarrow> (string \<times> string option) option" where
  "parseUserinfo ui =
     (case Cut (CHR '':'') ui of (n, p, colon) \<Rightarrow>
        if colon then
          (case (unescape EncUserPassword n, unescape EncUserPassword p) of
             (Some a, Some b) \<Rightarrow> Some (a, Some b) | _ \<Rightarrow> None)
        else map_option (\<lambda>a. (a, None)) (unescape EncUserPassword ui))"

definition parseAuthority ::
    "string \<Rightarrow> ((string \<times> string option) option \<times> string) option" where
  "parseAuthority a =
     (case cut_last (CHR ''@'') a of
        None \<Rightarrow> map_option (\<lambda>h. (None, h)) (parseHost a)
      | Some (ui, h) \<Rightarrow>
          (case parseHost h of
             None \<Rightarrow> None
           | Some host \<Rightarrow>
               if \<not> validUserinfo ui then None
               else map_option (\<lambda>usr. (Some usr, host)) (parseUserinfo ui)))"

definition setPath :: "string \<Rightarrow> url \<Rightarrow> url option" where
  "setPath p u =
     map_option (\<lambda>pa. u\<lparr>Path := pa, RawPath := (if escape EncPath pa = p then [] else p)\<rparr>)
       (unescape EncPath p)"

definition setFragment :: "string \<Rightarrow> url \<Rightarrow> url option" where
  "setFragment f u =
     map_option (\<lambda>fr. u\<lparr>Fragment := fr, RawFragment := (if escape EncFragment fr = f then [] else f)\<rparr>)
       (unescape EncFragment f)"

definition split_query :: "string \<Rightarrow> url \<Rightarrow> string \<times> url" where
  "split_query rest u =
     (if HasSuffix rest ''?'' \<and> count_list rest (CHR ''?'') = 1
      then (butlast rest, u\<lparr>ForceQuery := True\<rparr>)
      else case Cut (CHR ''?'') rest of (r, q, _) \<Rightarrow> (r, u\<lparr>RawQuery := q\<rparr>))"

definition parse_hier :: "string \<Rightarrow> url \<Rightarrow> url option" where
  "parse_hier rest u =
     (if HasPrefix rest ''//'' \<and> (Scheme u \<noteq> [] \<or> \<not> HasPrefix rest ''///'') then
        (let a = drop 2 rest;
             auth = takeWhile (\<lambda>c. c \<noteq> CHR ''/'') a; path = dropWhile (\<lambda>c. c \<noteq> CHR ''/'') a
         in Option.bind (parseAuthority auth)
              (\<lambda>(usr, h). setPath path (u\<lparr>User := usr, Host := h\<rparr>)))
      else setPath rest
        (if Scheme u \<noteq> [] \<and> HasPrefix rest ''/'' then u\<lparr>OmitHost := True\<rparr> else u))"

definition parse_nofrag :: "string \<Rightarrow> url option" where
  "parse_nofrag raw =
     (if list_ex (\<lambda>c. byte_val c < 32 \<or> byte_val c = 127) raw then None
      else if raw = ''*'' then Some (empty_url\<lparr>Path := ''*''\<rparr>)
      else Option.bind (getScheme raw) (\<lambda>(sch, rest0).
        (let (rest, u) = split_query rest0 (empty_url\<lparr>Scheme := ToLower sch\<rparr>) in
         if \<not> HasPrefix rest ''/'' \<and> Scheme u \<noteq> [] then Some (u\<lparr>Opaque := rest\<rparr>)
         else if \<not> HasPrefix rest ''/''
              \<and> CHR '':'' \<in> set (takeWhile (\<lambda>c. c \<noteq> CHR ''/'') rest) then None
         else parse_hier rest u)))"

definition url_Parse :: "string \<Rightarrow> url result" where
  "url_Parse raw =
     (case Cut (CHR ''#'') raw of (u, frag, _) \<Rightarrow>
        of_option (''parse '' @ raw)
          (Option.bind (parse_nofrag u) (\<lambda>v. if frag = [] then Some v else setFragment frag v)))"

section \<open>Printing\<close>

definition validEncodedPath :: "string \<Rightarrow> bool" where
  "validEncodedPath s =
     list_all (\<lambda>c. c \<in> set ''!$&()*+,;=:@[]%'' \<or> byte_val c = 39 \<or> \<not> shouldEscape c EncPath) s"

definition EscapedPath :: "url \<Rightarrow> string" where
  "EscapedPath u =
     (if RawPath u \<noteq> [] \<and> validEncodedPath (RawPath u) \<and> unescape EncPath (RawPath u) = Some (Path u)
      then RawPath u
      else if Path u = ''*'' then ''*'' else escape EncPath (Path u))"

definition validEncodedFragment :: "string \<Rightarrow> bool" where
  "validEncodedFragment s =
     list_all (\<lambda>c. c \<in> set ''!$&()*+,;=:@[]%'' \<or> byte_val c = 39 \<or> \<not> shouldEscape c EncFragment) s"

definition EscapedFragment :: "url \<Rightarrow> string" where
  "EscapedFragment u =
     (if RawFragment u \<noteq> [] \<and> validEncodedFragment (RawFragment u)
         \<and> unescape EncFragment (RawFragment u) = Some (Fragment u)
      then RawFragment u else escape EncFragment (Fragment u))"

definition userinfo_String :: "string \<times> string option \<Rightarrow> string" where
  "userinfo_String ui =
     (case ui of (n, pw) \<Rightarrow> escape EncUserPassword n @
        (case pw of None \<Rightarrow> [] | Some p \<Rightarrow> '':'' @ escape EncUserPassword p))"

definition url_authority :: "url \<Rightarrow> string" where
  "url_authority u =
     (if Scheme u = [] \<and> Host u = [] \<and> User u = None then []
      else if OmitHost u \<and> Host u = [] \<and> User u = None then []
      else (if Host u \<noteq> [] \<or> Path u \<noteq> [] \<or> User u \<noteq> None then ''//'' else [])
        @ (case User u of None \<Rightarrow> [] | Some ui \<Rightarrow> userinfo_String ui @ ''@'')
        @ escape EncHost (Host u))"

definition url_hier :: "url \<Rightarrow> string" where
  "url_hier u =
     (let pre = (if Scheme u \<noteq> [] then Scheme u @ '':'' else []) @ url_authority u;
          path = EscapedPath u;
          sep = (if path \<noteq> [] \<and> hd path \<noteq> CHR ''/'' \<and> Host u \<noteq> [] then ''/'' else []);
          dot = (if pre @ sep = [] \<and> CHR '':'' \<in> set (takeWhile (\<lambda>c. c \<noteq> CHR ''/'') path)
                 then ''./'' else [])
      in pre @ sep @ dot @ path)"

definition url_String :: "url \<Rightarrow> string" where
  "url_String u =
     (if Opaque u \<noteq> [] then (if Scheme u \<noteq> [] then Scheme u @ '':'' else []) @ Opaque u
      else url_hier u)
     @ (if ForceQuery u \<or> RawQuery u \<noteq> [] then ''?'' @ RawQuery u else [])
     @ (if Fragment u \<noteq> [] then ''#'' @ EscapedFragment u else [])"

section \<open>Paths\<close>

text \<open>
  \<^verbatim>\<open>path.Clean\<close>: the elements are read left to right onto a stack (reversed); an empty element
  and \<^verbatim>\<open>.\<close> are dropped, and \<^verbatim>\<open>..\<close> removes the element before it, unless there is none, where a
  rooted path drops it and a relative one keeps it.
\<close>

definition clean_step :: "bool \<Rightarrow> string \<Rightarrow> string list \<Rightarrow> string list" where
  "clean_step rooted e st =
     (if e = [] \<or> e = ''.'' then st
      else if e = ''..'' then
        (case st of
           [] \<Rightarrow> if rooted then [] else [''..'']
         | x # st' \<Rightarrow> if x = ''..'' then ''..'' # st else st')
      else e # st)"

definition clean_elems :: "bool \<Rightarrow> string list \<Rightarrow> string list" where
  "clean_elems rooted es = rev (fold (clean_step rooted) es [])"

definition path_Clean :: "string \<Rightarrow> string" where
  "path_Clean p =
     (if p = [] then ''.''
      else let rooted = (hd p = CHR ''/''); es = clean_elems rooted (Split p ''/'') in
        if rooted then ''/'' @ Join es ''/''
        else if es = [] then ''.'' else Join es ''/'')"

definition path_Join :: "string list \<Rightarrow> string" where
  "path_Join es =
     (let ne = dropWhile (\<lambda>e. e = []) es in
      if ne = [] then [] else path_Clean (Join ne ''/''))"

definition JoinPath :: "url \<Rightarrow> string \<Rightarrow> url" where
  "JoinPath u e =
     (let e0 = EscapedPath u;
          p = (if HasPrefix e0 ''/'' then path_Join [e0, e] else tl (path_Join [''/'' @ e0, e]));
          p' = (if HasSuffix e ''/'' \<and> \<not> HasSuffix p ''/'' then p @ ''/'' else p)
      in (case setPath p' u of None \<Rightarrow> u | Some v \<Rightarrow> v))"

section \<open>Queries\<close>

text \<open>\<^verbatim>\<open>URL.Query\<close>: pairs that do not decode are dropped. Values keep their order per key.\<close>

definition parse_pair :: "string \<Rightarrow> (string \<times> string) option" where
  "parse_pair kv =
     (if kv = [] \<or> CHR '';'' \<in> set kv then None
      else case Cut (CHR ''='') kv of (k, v, _) \<Rightarrow>
        (case (unescape EncQueryComponent k, unescape EncQueryComponent v) of
           (Some a, Some b) \<Rightarrow> Some (a, b) | _ \<Rightarrow> None))"

definition parse_Query :: "string \<Rightarrow> (string \<times> string) list" where
  "parse_Query q = List.map_filter parse_pair (Split q ''&'')"

definition query_Set :: "string \<Rightarrow> string \<Rightarrow> (string \<times> string) list \<Rightarrow> (string \<times> string) list" where
  "query_Set k v q = filter (\<lambda>(k', _). k' \<noteq> k) q @ [(k, v)]"

fun str_le :: "string \<Rightarrow> string \<Rightarrow> bool" where
  "str_le [] t = True"
| "str_le (c # s) [] = False"
| "str_le (c # s) (d # t) =
     (if byte_val c < byte_val d then True else if c = d then str_le s t else False)"

fun ins_pair :: "string \<times> 'v \<Rightarrow> (string \<times> 'v) list \<Rightarrow> (string \<times> 'v) list" where
  "ins_pair p [] = [p]"
| "ins_pair p (q # qs) = (if str_le (fst p) (fst q) then p # q # qs else q # ins_pair p qs)"

definition sort_pairs :: "(string \<times> 'v) list \<Rightarrow> (string \<times> 'v) list" where
  "sort_pairs ps = foldr ins_pair ps []"

definition query_Encode :: "(string \<times> string) list \<Rightarrow> string" where
  "query_Encode q =
     Join (map (\<lambda>(k, v). escape EncQueryComponent k @ ''='' @ escape EncQueryComponent v)
             (sort_pairs q)) ''&''"

section \<open>Facts\<close>

lemma takeWhile_neq_id: "c \<notin> set p \<Longrightarrow> takeWhile (\<lambda>x. x \<noteq> c) (p @ c # q) = p"
  by (induction p) auto

lemma dropWhile_neq_id: "c \<notin> set p \<Longrightarrow> dropWhile (\<lambda>x. x \<noteq> c) (p @ c # q) = c # q"
  by (induction p) auto

lemma cut_last_append: "c \<notin> set p \<Longrightarrow> cut_last c (h @ c # p) = Some (h, p)"
  using takeWhile_neq_id [of c "rev p" "rev h"] dropWhile_neq_id [of c "rev p" "rev h"]
  by (simp add: cut_last_def)

lemma digits_no_colon: "list_all is_digit p \<Longrightarrow> CHR '':'' \<notin> set p"
  by (auto simp: list_all_iff is_digit_def)

lemma splitHostPort_port:
  assumes "list_all is_digit p" "\<not> HasPrefix h ''[''"
  shows "splitHostPort (h @ CHR '':'' # p) = (h, p)"
  using assms cut_last_append [OF digits_no_colon, of p h]
  by (simp add: splitHostPort_def validOptionalPort_def)

lemma splitHostPort_plain:
  assumes "CHR '':'' \<notin> set h" "\<not> HasPrefix h ''[''"
  shows "splitHostPort h = (h, [])"
  using assms by (simp add: splitHostPort_def cut_last_def)

text \<open>A cleaned rooted path has no empty, \<^verbatim>\<open>.\<close> or \<^verbatim>\<open>..\<close> element: it cannot climb.\<close>

definition plain_elem :: "string \<Rightarrow> bool" where
  "plain_elem e = (e \<noteq> [] \<and> e \<noteq> ''.'' \<and> e \<noteq> ''..'')"

lemma clean_step_plain: "list_all plain_elem st \<Longrightarrow> list_all plain_elem (clean_step True e st)"
  by (cases st) (auto simp: clean_step_def plain_elem_def)

lemma clean_fold_plain:
  "list_all plain_elem st \<Longrightarrow> list_all plain_elem (fold (clean_step True) es st)"
  by (induction es arbitrary: st) (auto simp: clean_step_plain)

lemma clean_elems_plain: "list_all plain_elem (clean_elems True es)"
  using clean_fold_plain [of "[]" es] by (simp add: clean_elems_def list_all_iff)

lemma clean_step_subset: "set (clean_step r e st) \<subseteq> insert e (set st)"
  by (cases st) (auto simp: clean_step_def)

lemma clean_fold_subset: "set (fold (clean_step r) es st) \<subseteq> set es \<union> set st"
proof (induction es arbitrary: st)
  case (Cons e es)
  show ?case using Cons.IH [of "clean_step r e st"] clean_step_subset [of r e st] by auto
qed simp

lemma clean_elems_subset: "set (clean_elems r es) \<subseteq> set es"
  using clean_fold_subset [of r es "[]"] by (simp add: clean_elems_def)

lemma path_Clean_rooted:
  "path_Clean (CHR ''/'' # p) = ''/'' @ Join (clean_elems True (Split (CHR ''/'' # p) ''/'')) ''/''"
  by (simp add: path_Clean_def)

lemma split_aux_no_sep: "e \<in> set (split_aux [c] acc s) \<Longrightarrow> c \<notin> set acc \<Longrightarrow> c \<notin> set e"
  by (induction "[c]" acc s rule: split_aux.induct) (auto split: if_splits)

lemma Split_no_sep: "e \<in> set (Split s [c]) \<Longrightarrow> c \<notin> set e"
  by (auto simp: Split_def dest: split_aux_no_sep)

lemma Split_Join:
  "es \<noteq> [] \<Longrightarrow> (\<And>e. e \<in> set es \<Longrightarrow> c \<notin> set e) \<Longrightarrow> Split (Join es [c]) [c] = es"
proof (induction es)
  case (Cons e es)
  then show ?case by (cases es) (auto simp: Split_none Split_first)
qed simp

text \<open>The keys of a query are sorted bytewise when it is encoded.\<close>

lemma set_ins_pair: "set (ins_pair p qs) = insert p (set qs)"
  by (induction qs) auto

lemma set_sort_pairs: "set (sort_pairs ps) = set ps"
  by (induction ps) (auto simp: sort_pairs_def set_ins_pair)

end
