(* ===== verification/GoJson.thy ===== *)
theory GoJson
  imports GoPrelude Complex_Main
begin

text \<open>
  \<^verbatim>\<open>encoding/json\<close> at the level of documents. A byte string that the program marshals, stores,
  publishes or receives is a \<open>payload\<close>: the JSON document it holds, or \<^term>\<open>None\<close> when its
  bytes are not JSON. Reading a text is in the theory \<open>JsonText\<close>; writing one is not modelled,
  a written document is read back as it was. Here is the decoding of a document into Go values: a member is matched to a struct field by its name
  without regard to case, later members overwrite earlier ones, \<^verbatim>\<open>null\<close> leaves a value as it is,
  a missing member leaves the zero value, and a type mismatch is an error.
\<close>

datatype json =
    JNull
  | JBool bool
  | JNum rat
  | JStr string
  | JArr "json list"
  | JObj "(string \<times> json) list"

type_synonym payload = "json option"

definition type_err :: gerror where
  "type_err = ''json: cannot unmarshal value into Go value''"

definition syntax_err :: gerror where
  "syntax_err = ''json: invalid character''"

definition decode_string :: "json \<Rightarrow> string \<Rightarrow> string result" where
  "decode_string j old =
     (case j of JStr s \<Rightarrow> Inr s | JNull \<Rightarrow> Inr old | _ \<Rightarrow> Inl type_err)"

definition decode_bool :: "json \<Rightarrow> bool \<Rightarrow> bool result" where
  "decode_bool j old =
     (case j of JBool b \<Rightarrow> Inr b | JNull \<Rightarrow> Inr old | _ \<Rightarrow> Inl type_err)"

text \<open>\<open>dec\<close> decodes an element over its zero value; \<^verbatim>\<open>null\<close> makes the slice nil.\<close>

fun decode_elems :: "(json \<Rightarrow> 'a result) \<Rightarrow> json list \<Rightarrow> 'a list result" where
  "decode_elems dec [] = Inr []"
| "decode_elems dec (j # js) =
     (case dec j of Inl e \<Rightarrow> Inl e
      | Inr x \<Rightarrow> (case decode_elems dec js of Inl e \<Rightarrow> Inl e | Inr xs \<Rightarrow> Inr (x # xs)))"

definition decode_list :: "(json \<Rightarrow> 'a result) \<Rightarrow> json \<Rightarrow> 'a list \<Rightarrow> 'a list result" where
  "decode_list dec j old =
     (case j of JArr js \<Rightarrow> decode_elems dec js | JNull \<Rightarrow> Inr [] | _ \<Rightarrow> Inl type_err)"

definition decode_strings :: "json \<Rightarrow> string list \<Rightarrow> string list result" where
  "decode_strings = decode_list (\<lambda>j. decode_string j [])"

type_synonym 'r fields = "(string \<times> (json \<Rightarrow> 'r \<Rightarrow> 'r result)) list"

text \<open>A field of a record, from the decoder of its type, its selector and its update.\<close>

definition json_field ::
    "string \<Rightarrow> (json \<Rightarrow> 'a \<Rightarrow> 'a result) \<Rightarrow> ('r \<Rightarrow> 'a) \<Rightarrow> ('a \<Rightarrow> 'r \<Rightarrow> 'r)
       \<Rightarrow> string \<times> (json \<Rightarrow> 'r \<Rightarrow> 'r result)" where
  "json_field name dec sel upd =
     (name, \<lambda>j r. (case dec j (sel r) of Inl e \<Rightarrow> Inl e | Inr x \<Rightarrow> Inr (upd x r)))"

definition find_field :: "'r fields \<Rightarrow> string \<Rightarrow> (json \<Rightarrow> 'r \<Rightarrow> 'r result) option" where
  "find_field fs k = map_option snd (List.find (\<lambda>(n, _). ToLower n = ToLower k) fs)"

text \<open>\<open>strict\<close> is \<^verbatim>\<open>Decoder.DisallowUnknownFields\<close>.\<close>

fun decode_members :: "bool \<Rightarrow> 'r fields \<Rightarrow> (string \<times> json) list \<Rightarrow> 'r \<Rightarrow> 'r result" where
  "decode_members strict fs [] r = Inr r"
| "decode_members strict fs ((k, j) # ms) r =
     (case find_field fs k of
        None \<Rightarrow> if strict then Inl (''json: unknown field '' @ k) else decode_members strict fs ms r
      | Some dec \<Rightarrow>
          (case dec j r of Inl e \<Rightarrow> Inl e | Inr r' \<Rightarrow> decode_members strict fs ms r'))"

definition decode_struct :: "bool \<Rightarrow> 'r fields \<Rightarrow> json \<Rightarrow> 'r \<Rightarrow> 'r result" where
  "decode_struct strict fs j r =
     (case j of JObj ms \<Rightarrow> decode_members strict fs ms r | JNull \<Rightarrow> Inr r | _ \<Rightarrow> Inl type_err)"

text \<open>\<^verbatim>\<open>json.Unmarshal\<close> of a byte string.\<close>

definition unmarshal :: "(json \<Rightarrow> 'a result) \<Rightarrow> payload \<Rightarrow> 'a result" where
  "unmarshal dec b = (case b of None \<Rightarrow> Inl syntax_err | Some j \<Rightarrow> dec j)"

definition JStrs :: "string list \<Rightarrow> json" where
  "JStrs xs = JArr (map JStr xs)"

lemma unmarshal_simps [simp]:
  "unmarshal dec None = Inl syntax_err" "unmarshal dec (Some j) = dec j"
  by (simp_all add: unmarshal_def)

lemma decode_string_simps [simp]:
  "decode_string (JStr s) old = Inr s" "decode_string JNull old = Inr old"
  by (simp_all add: decode_string_def)

lemma decode_bool_simps [simp]:
  "decode_bool (JBool b) old = Inr b" "decode_bool JNull old = Inr old"
  by (simp_all add: decode_bool_def)

lemma decode_elems_strs: "decode_elems (\<lambda>j. decode_string j []) (map JStr xs) = Inr xs"
  by (induction xs) auto

lemma decode_strings_JStrs [simp]: "decode_strings (JStrs xs) old = Inr xs"
  by (simp add: decode_strings_def decode_list_def JStrs_def decode_elems_strs)

lemma decode_elems_Inr:
  "decode_elems dec js = Inr xs \<Longrightarrow> list_all2 (\<lambda>j x. dec j = Inr x) js xs"
  by (induction js arbitrary: xs) (auto split: sum.splits)

lemma decode_struct_JObj [simp]:
  "decode_struct strict fs (JObj ms) r = decode_members strict fs ms r"
  by (simp add: decode_struct_def)

lemma find_field_Nil [simp]: "find_field [] k = None"
  by (simp add: find_field_def)

lemma find_json_field [simp]:
  "find_field (json_field n dec sel upd # fs) k =
     (if ToLower n = ToLower k
      then Some (\<lambda>j r. (case dec j (sel r) of Inl e \<Rightarrow> Inl e | Inr x \<Rightarrow> Inr (upd x r)))
      else find_field fs k)"
  by (simp add: find_field_def json_field_def)

end
