(* ===== verification/Keys.thy ===== *)
theory Keys
  imports Digest GoUrl GoJson
begin

text \<open>
  \<^verbatim>\<open>internal/ctls/keys\<close>: the header names, the cache keys (\<^verbatim>\<open>keys.go\<close>) and \<^verbatim>\<open>URLString\<close>, a URL
  with the key it is looked up by (\<^verbatim>\<open>urlstring.go\<close>). The lemmas: the keys of access tokens and
  of subtokens are injective, the three kinds of key never meet, and every key is made of
  characters that a NATS key-value bucket accepts.
\<close>

section \<open>Headers\<close>

definition CookieHeader :: string where "CookieHeader = ''cookie''"
definition CommunityHeader :: string where "CommunityHeader = ''x-wormhole-community''"
definition Oauth2ProxyAccessTokenHeader :: string where
  "Oauth2ProxyAccessTokenHeader = ''x-auth-request-access-token''"
definition RequestIDHeader :: string where "RequestIDHeader = ''x-request-id''"
definition RouteIDHeader :: string where "RouteIDHeader = ''x-piko-endpoint''"
definition SetCookieHeader :: string where "SetCookieHeader = ''set-cookie''"
definition TraceparentHeader :: string where "TraceparentHeader = ''traceparent''"
definition VersionHeader :: string where "VersionHeader = ''x-holepunch-version''"
definition XForwardHostHeader :: string where "XForwardHostHeader = ''x-forwarded-host''"
definition XForwardProtoHeader :: string where "XForwardProtoHeader = ''x-forwarded-proto''"
definition XForwardURIHeader :: string where "XForwardURIHeader = ''x-forwarded-uri''"
definition WormholeHostHeader :: string where "WormholeHostHeader = ''x-wormhole-host''"
definition WormholeSchemeHeader :: string where "WormholeSchemeHeader = ''x-wormhole-scheme''"

lemmas header_defs = CookieHeader_def CommunityHeader_def Oauth2ProxyAccessTokenHeader_def
  RequestIDHeader_def RouteIDHeader_def SetCookieHeader_def TraceparentHeader_def
  VersionHeader_def XForwardHostHeader_def XForwardProtoHeader_def XForwardURIHeader_def
  WormholeHostHeader_def WormholeSchemeHeader_def

definition DefaultRemovableHeaders :: "string list" where
  "DefaultRemovableHeaders =
     [CommunityHeader, Oauth2ProxyAccessTokenHeader, RouteIDHeader, VersionHeader,
      WormholeHostHeader, WormholeSchemeHeader]"

section \<open>Cache keys\<close>

definition WormholeAccessToken :: "string \<Rightarrow> string" where
  "WormholeAccessToken tokenID = ''wat.v1.'' @ RawURLEncode tokenID"

definition WormholeOauthSession :: "string \<Rightarrow> string" where
  "WormholeOauthSession accessToken = ''wos.v1-'' @ HexEncode (Sum256 accessToken)"

definition WormholeAccessSubtoken :: "string \<Rightarrow> string \<Rightarrow> string" where
  "WormholeAccessSubtoken parentID externalID =
     ''was.v1.'' @ RawURLEncode parentID @ ''.'' @ RawURLEncode externalID"

section \<open>URL strings\<close>

text \<open>The field \<^verbatim>\<open>URL\<close> is a pointer: \<^term>\<open>None\<close> is nil, as in the zero value.\<close>

record URLString =
  Key :: string
  URL :: "url option"
  Raw :: string

definition zero_URLString :: URLString where
  "zero_URLString = \<lparr>Key = [], URL = None, Raw = []\<rparr>"

definition normalizeURL :: "url \<Rightarrow> string" where
  "normalizeURL parsed =
     (let hostname = Hostname parsed in
      if hostname = [] then url_String parsed else TrimPrefix hostname ''www.'')"

definition NormalizeURL :: "string \<Rightarrow> URLString result" where
  "NormalizeURL str =
     (case url_Parse str of
        Inl e \<Rightarrow> Inl e
      | Inr parsed \<Rightarrow> Inr \<lparr>Key = normalizeURL parsed, URL = Some parsed, Raw = str\<rparr>)"

definition URLString_UnmarshalJSON :: "json \<Rightarrow> URLString \<Rightarrow> URLString result" where
  "URLString_UnmarshalJSON b u =
     (case decode_string b [] of
        Inl e \<Rightarrow> Inl e
      | Inr str \<Rightarrow>
          (case url_Parse str of
             Inl e \<Rightarrow> Inl e
           | Inr parsed \<Rightarrow> Inr \<lparr>Key = normalizeURL parsed, URL = Some parsed, Raw = str\<rparr>))"

definition URLString_MarshalJSON :: "URLString \<Rightarrow> json" where
  "URLString_MarshalJSON u = JStr (Raw u)"

section \<open>Facts\<close>

lemma WormholeAccessToken_inject: "WormholeAccessToken a = WormholeAccessToken b \<longleftrightarrow> a = b"
  by (simp add: WormholeAccessToken_def)

lemma WormholeAccessSubtoken_split:
  "Cut (CHR ''.'') (drop 7 (WormholeAccessSubtoken p e)) = (RawURLEncode p, RawURLEncode e, True)"
  by (simp add: WormholeAccessSubtoken_def RawURLEncode_no_dot)

lemma WormholeAccessSubtoken_inject:
  "WormholeAccessSubtoken p e = WormholeAccessSubtoken p' e' \<longleftrightarrow> p = p' \<and> e = e'"
  by (metis Pair_inject RawURLEncode_inject WormholeAccessSubtoken_split)

lemma cache_keys_disjoint:
  "WormholeAccessToken t \<noteq> WormholeAccessSubtoken p e"
  "WormholeAccessToken t \<noteq> WormholeOauthSession a"
  "WormholeOauthSession a \<noteq> WormholeAccessSubtoken p e"
  by (simp_all add: WormholeAccessToken_def WormholeAccessSubtoken_def WormholeOauthSession_def)

text \<open>The key syntax of a NATS bucket: letters, digits and \<^verbatim>\<open>-/_=.\<close>, no leading or ending dot.\<close>

definition nats_key_char :: "char \<Rightarrow> bool" where
  "nats_key_char c = (is_alnum c \<or> c \<in> set ''-/_=.'')"

lemma url_safe_nats: "url_safe c \<Longrightarrow> nats_key_char c"
  by (auto simp: url_safe_def nats_key_char_def is_alnum_def Let_def)

lemma hex_nats: "list_all nats_key_char (HexEncode s)"
proof (induction s)
  case (Cons c s)
  have "byte_val c div 16 < 16" by (simp add: less_mult_imp_div_less)
  then show ?case
    using Cons hex_digit_alnum [of "byte_val c div 16"] hex_digit_alnum [of "byte_val c mod 16"]
    by (auto simp: nats_key_char_def is_alnum_def Let_def)
qed simp

lemma RawURLEncode_nats: "list_all nats_key_char (RawURLEncode s)"
  using RawURLEncode_url_safe [of s] by (auto simp: list_all_iff intro: url_safe_nats)

lemma cache_keys_nats:
  "list_all nats_key_char (WormholeAccessToken t)"
  "list_all nats_key_char (WormholeOauthSession a)"
  "list_all nats_key_char (WormholeAccessSubtoken p e)"
  by (simp_all add: WormholeAccessToken_def WormholeOauthSession_def WormholeAccessSubtoken_def
      RawURLEncode_nats hex_nats nats_key_char_def is_alnum_def)

lemma NormalizeURL_Inr:
  "NormalizeURL s = Inr u \<Longrightarrow>
     \<exists>p. url_Parse s = Inr p \<and> URL u = Some p \<and> Key u = normalizeURL p \<and> Raw u = s"
  by (auto simp: NormalizeURL_def split: sum.splits)

text \<open>A decoded URL string keeps the raw text, so encoding it again gives the same document.\<close>

lemma URLString_json_roundtrip:
  "URLString_UnmarshalJSON (JStr s) u = Inr v \<Longrightarrow>
     URLString_MarshalJSON v = JStr s \<and> NormalizeURL s = Inr v"
  by (auto simp: URLString_UnmarshalJSON_def URLString_MarshalJSON_def NormalizeURL_def
      split: sum.splits)

lemma normalizeURL_www:
  assumes "Host u = ''www.'' @ h @ CHR '':'' # p" "list_all is_digit p" "h \<noteq> []"
  shows "normalizeURL u = h"
  using assms splitHostPort_port [of p "''www.'' @ h"]
  by (simp add: normalizeURL_def Hostname_def TrimPrefix_def)

end
