(* ===== verification/Errs.thy ===== *)
theory Errs
  imports Keys
begin

text \<open>
  \<^verbatim>\<open>internal/ctls/errs/errs.go\<close>: the error a request ends with. A \<^verbatim>\<open>*StatusError\<close> is a record;
  the methods that change it return the changed record, and a nil pointer is \<^term>\<open>None\<close> where it
  can occur. The body is the JSON document of the response. Logging (\<^verbatim>\<open>LogError\<close>) is the list
  of messages with their level.
\<close>

datatype ErrorType = InternalErr | AuthErr | BadRequestErr | RedirectErr | NotFoundErr

record StatusError =
  seDetails :: string
  seMsg :: string
  seType :: ErrorType
  seInternal :: "gerror option"
  seCode :: int
  seUrl :: string
  seHeaders :: "headers option"

text \<open>The gRPC status codes.\<close>

definition codes_OK :: int where "codes_OK = 0"
definition codes_Unknown :: int where "codes_Unknown = 2"
definition codes_InvalidArgument :: int where "codes_InvalidArgument = 3"
definition codes_NotFound :: int where "codes_NotFound = 5"
definition codes_Internal :: int where "codes_Internal = 13"
definition codes_Unauthenticated :: int where "codes_Unauthenticated = 16"

lemmas codes_defs = codes_OK_def codes_Unknown_def codes_InvalidArgument_def codes_NotFound_def
  codes_Internal_def codes_Unauthenticated_def

fun errorMsg :: "ErrorType \<Rightarrow> string" where
  "errorMsg AuthErr = ''Unauthorized''"
| "errorMsg BadRequestErr = ''Bad Request''"
| "errorMsg InternalErr = ''Internal Server Error''"
| "errorMsg RedirectErr = ''Found''"
| "errorMsg NotFoundErr = ''Not Found''"

fun errType_code :: "ErrorType \<Rightarrow> int" where
  "errType_code AuthErr = codes_Unauthenticated"
| "errType_code BadRequestErr = codes_InvalidArgument"
| "errType_code InternalErr = codes_Internal"
| "errType_code NotFoundErr = codes_NotFound"
| "errType_code RedirectErr = codes_Unknown"

type_synonym StatusErrOption = "StatusError \<Rightarrow> StatusError"

definition WithHeaders :: "headers \<Rightarrow> StatusErrOption" where
  "WithHeaders hs r =
     (let base = (case seHeaders r of None \<Rightarrow> [] | Some h \<Rightarrow> h)
      in r\<lparr>seHeaders := Some (fold (\<lambda>(k, v). mput (ToLower k) v) hs base)\<rparr>)"

text \<open>\<^verbatim>\<open>cookie.String()\<close> is computed by the caller's cookie; only its text is used.\<close>

definition WithSetCookie :: "string \<Rightarrow> StatusErrOption" where
  "WithSetCookie cookieText = WithHeaders [(SetCookieHeader, cookieText)]"

definition newStatusError ::
    "ErrorType \<Rightarrow> gerror option \<Rightarrow> string \<Rightarrow> string \<Rightarrow> StatusErrOption list \<Rightarrow> StatusError" where
  "newStatusError t internal userDetails u opts =
     fold (\<lambda>opt r. opt r) opts
       \<lparr>seDetails = userDetails, seMsg = errorMsg t, seType = t, seInternal = internal,
        seCode = errType_code t, seUrl = u, seHeaders = None\<rparr>"

definition NewAuthErr :: "gerror \<Rightarrow> string \<Rightarrow> StatusErrOption list \<Rightarrow> StatusError" where
  "NewAuthErr err userDetails opts = newStatusError AuthErr (Some err) userDetails [] opts"

definition NewNotFoundErr :: "gerror \<Rightarrow> StatusErrOption list \<Rightarrow> StatusError" where
  "NewNotFoundErr err opts = newStatusError NotFoundErr (Some err) [] [] opts"

definition NewBadReqErr :: "gerror \<Rightarrow> string \<Rightarrow> StatusErrOption list \<Rightarrow> StatusError" where
  "NewBadReqErr err userDetails opts = newStatusError BadRequestErr (Some err) userDetails [] opts"

definition NewInternalErr :: "gerror \<Rightarrow> string \<Rightarrow> StatusErrOption list \<Rightarrow> StatusError" where
  "NewInternalErr err userDetails opts = newStatusError InternalErr (Some err) userDetails [] opts"

definition NewRedirectErr :: "string \<Rightarrow> StatusErrOption list \<Rightarrow> StatusError" where
  "NewRedirectErr u opts = newStatusError RedirectErr (Some ''redirect required'') [] u opts"

definition SimpleAuthErr :: "gerror \<Rightarrow> StatusError" where
  "SimpleAuthErr err = newStatusError AuthErr (Some err) [] [] []"

definition SimpleBadReqErr :: "gerror \<Rightarrow> StatusError" where
  "SimpleBadReqErr err = newStatusError BadRequestErr (Some err) [] [] []"

definition SimpleInternalErr :: "gerror \<Rightarrow> StatusError" where
  "SimpleInternalErr err = newStatusError InternalErr (Some err) [] [] []"

lemmas new_err_defs = NewAuthErr_def NewNotFoundErr_def NewBadReqErr_def NewInternalErr_def
  NewRedirectErr_def SimpleAuthErr_def SimpleBadReqErr_def SimpleInternalErr_def
  newStatusError_def

definition Body :: "StatusError \<Rightarrow> json" where
  "Body r =
     JObj ([(''code'', JNum (of_int (seCode r))), (''message'', JStr (seMsg r))]
       @ (if seDetails r \<noteq> [] then [(''details'', JStrs [seDetails r])] else []))"

definition Code :: "StatusError \<Rightarrow> int" where
  "Code r = seCode r"

definition Error :: "StatusError \<Rightarrow> string" where
  "Error r =
     (case seInternal r of Some e \<Rightarrow> seMsg r @ '': '' @ e | None \<Rightarrow> seMsg r)"

definition ExpandDetails :: "string \<Rightarrow> StatusError \<Rightarrow> StatusError" where
  "ExpandDetails d r =
     (if seDetails r = [] then r\<lparr>seDetails := d\<rparr> else r\<lparr>seDetails := seDetails r @ '': '' @ d\<rparr>)"

definition Headers :: "StatusError \<Rightarrow> headers option" where
  "Headers r = seHeaders r"

definition ExpandInternal :: "gerror option \<Rightarrow> StatusError \<Rightarrow> StatusError" where
  "ExpandInternal err r =
     (case err of
        None \<Rightarrow> r
      | Some e \<Rightarrow>
          (case seInternal r of
             None \<Rightarrow> r\<lparr>seInternal := Some e\<rparr>
           | Some i \<Rightarrow> r\<lparr>seInternal := Some (e @ '': '' @ i)\<rparr>))"

datatype level = LevelDebug | LevelInfo | LevelWarn | LevelError

definition LogError :: "StatusError \<Rightarrow> (level \<times> string) list" where
  "LogError r =
     (case seInternal r of
        None \<Rightarrow> []
      | Some e \<Rightarrow>
          (case seType r of
             InternalErr \<Rightarrow> [(LevelError, e)]
           | RedirectErr \<Rightarrow> []
           | _ \<Rightarrow> [(LevelError, e)]))
     @ [(LevelDebug, ''request error: '' @ Error r)]
     @ (if seType r = RedirectErr then [(LevelInfo, ''redirecting request to '' @ seUrl r)] else [])"

definition RedirectRequired :: "StatusError \<Rightarrow> bool \<times> string" where
  "RedirectRequired r = (if seType r = RedirectErr then (True, seUrl r) else (False, []))"

section \<open>Facts\<close>

lemma new_errs_type [simp]:
  "seType (NewAuthErr e d []) = AuthErr"
  "seType (NewNotFoundErr e []) = NotFoundErr"
  "seType (NewBadReqErr e d []) = BadRequestErr"
  "seType (NewInternalErr e d []) = InternalErr"
  "seType (NewRedirectErr u []) = RedirectErr"
  "seType (SimpleAuthErr e) = AuthErr"
  "seType (SimpleBadReqErr e) = BadRequestErr"
  "seType (SimpleInternalErr e) = InternalErr"
  by (simp_all add: new_err_defs)

text \<open>What every \<^verbatim>\<open>StatusError\<close> of the program satisfies: its seCode and message are its type's.\<close>

definition err_ok :: "StatusError \<Rightarrow> bool" where
  "err_ok r = (seCode r = errType_code (seType r) \<and> seMsg r = errorMsg (seType r))"

lemma WithHeaders_keeps [simp]:
  "seType (WithHeaders h r) = seType r" "seCode (WithHeaders h r) = seCode r"
  "seMsg (WithHeaders h r) = seMsg r" "seDetails (WithHeaders h r) = seDetails r"
  "seUrl (WithHeaders h r) = seUrl r" "seInternal (WithHeaders h r) = seInternal r"
  by (simp_all add: WithHeaders_def Let_def)

lemma new_errs_ok [simp, intro]:
  "err_ok (NewAuthErr e d [])" "err_ok (NewNotFoundErr e [])" "err_ok (NewBadReqErr e d [])"
  "err_ok (NewInternalErr e d [])" "err_ok (NewRedirectErr u [])"
  "err_ok (SimpleAuthErr e)" "err_ok (SimpleBadReqErr e)" "err_ok (SimpleInternalErr e)"
  by (simp_all add: new_err_defs err_ok_def)

lemma err_ok_updates:
  "err_ok r \<Longrightarrow> err_ok (ExpandDetails d r)"
  "err_ok r \<Longrightarrow> err_ok (ExpandInternal e r)"
  "err_ok r \<Longrightarrow> err_ok (WithHeaders h r)"
  by (auto simp: err_ok_def ExpandDetails_def ExpandInternal_def split: option.splits)

end
