(* ===== verification/Rules.thy ===== *)
theory Rules
  imports Errs
begin

text \<open>
  \<^verbatim>\<open>internal/ctls/rules\<close>: the validation of tokens, headers and URLs. The four custom rules are
  predicates on strings; the regular expressions are written out. Of the vendored validator
  library the rules \<^verbatim>\<open>uuid\<close>, \<^verbatim>\<open>omitempty\<close>, \<^verbatim>\<open>required\<close> and \<^verbatim>\<open>dive\<close> are used: \<^verbatim>\<open>uuid\<close> is its
  regular expression, the others are written out where a tag uses them. The text of a
  validation error is the parameter-free \<open>vErr\<close>. Name resolution (\<^verbatim>\<open>net.LookupIP\<close>) is a
  parameter of the URL check.
\<close>

section \<open>Regular expressions and limits\<close>

definition maxHeaderKB :: nat where
  "maxHeaderKB = 8192"

definition maximumHeader :: "string \<Rightarrow> bool" where
  "maximumHeader s = (maxHeaderKB < length s)"

text \<open>\<^verbatim>\<open>^[A-Fa-f0-9-]{36}\.[A-Za-z0-9\-_\.=/]{1,128}$\<close>\<close>

definition reqTokenRegexp :: "string \<Rightarrow> bool" where
  "reqTokenRegexp s =
     (let secret = drop 37 s in
      list_all (\<lambda>c. is_hex c \<or> c = CHR ''-'') (take 36 s) \<and> 37 < length s
      \<and> s ! 36 = CHR ''.''
      \<and> list_all (\<lambda>c. is_alnum c \<or> c \<in> set ''-_.=/'') secret
      \<and> length secret \<le> 128)"

text \<open>\<^verbatim>\<open>^[a-zA-Z0-9][a-zA-Z0-9\-_\.]{0,128}$\<close>\<close>

definition kidRegexp :: "string \<Rightarrow> bool" where
  "kidRegexp s =
     (case s of [] \<Rightarrow> False
      | c # r \<Rightarrow> is_alnum c \<and> list_all (\<lambda>c. is_alnum c \<or> c \<in> set ''-_.'') r \<and> length r \<le> 128)"

text \<open>\<^verbatim>\<open>^[0-9a-f]{8}-[0-9a-f]{4}-[0-9a-f]{4}-[0-9a-f]{4}-[0-9a-f]{12}$\<close>\<close>

definition is_lower_hex :: "char \<Rightarrow> bool" where
  "is_lower_hex c = (let b = byte_val c in 48 \<le> b \<and> b \<le> 57 \<or> 97 \<le> b \<and> b \<le> 102)"

definition uUIDRegex :: "string \<Rightarrow> bool" where
  "uUIDRegex s =
     (length s = 36 \<and>
      list_all (\<lambda>i. if i \<in> {8, 13, 18, 23} then s ! i = CHR ''-'' else is_lower_hex (s ! i)) [0..<36])"

section \<open>Custom rules\<close>

definition optionalStrField :: "string \<Rightarrow> (string \<Rightarrow> bool) \<Rightarrow> bool" where
  "optionalStrField s re = (if maximumHeader s then False else if s = [] then True else re s)"

definition checkReqToken :: "string \<Rightarrow> bool" where
  "checkReqToken s = optionalStrField s reqTokenRegexp"

definition checkKID :: "string \<Rightarrow> bool" where
  "checkKID s = optionalStrField s kidRegexp"

definition disallowedHeaders :: "string list" where
  "disallowedHeaders =
     [''host'', ''x-forwarded-for'', ''x-real-ip'', ''x-envoy-internal'',
      ''x-envoy-decorator-operation'']"

definition isTokenChar :: "nat \<Rightarrow> bool" where
  "isTokenChar r =
     (97 \<le> r \<and> r \<le> 122 \<or> 65 \<le> r \<and> r \<le> 90 \<or> 48 \<le> r \<and> r \<le> 57
      \<or> r \<in> set (map byte_val ''!#$%&*+-.^_`|~'') \<or> r = 39)"

definition ValidateHeaderName :: "string \<Rightarrow> unit result" where
  "ValidateHeaderName name =
     (if ToLower name \<in> set disallowedHeaders then Inl (''header '' @ name @ '' is not allowed'')
      else if list_all isTokenChar (runes name) then Inr ()
      else Inl (''invalid header name: '' @ name))"

definition ValidateHeaderValue :: "string \<Rightarrow> unit result" where
  "ValidateHeaderValue value =
     (if list_ex (\<lambda>r. IsControl r \<and> r \<noteq> 9) (runes value)
      then Inl ''invalid control character in header value'' else Inr ())"

definition validateHeaderVal :: "string \<Rightarrow> bool" where
  "validateHeaderVal s =
     (if maximumHeader s then False else if s = [] then True else ValidateHeaderValue s = Inr ())"

definition checkHeaderVal :: "string list \<Rightarrow> bool" where
  "checkHeaderVal vs = list_all validateHeaderVal vs"

section \<open>URLs\<close>

definition allowedSchemes :: "string list" where
  "allowedSchemes = [''http'', ''https'']"

definition blockedHostPatterns :: "string list" where
  "blockedHostPatterns = [''localhost'', ''kubernetes.default'', ''.internal'']"

text \<open>An address is its four or sixteen bytes, as a \<^verbatim>\<open>net.IP\<close>.\<close>

type_synonym ip = "nat list"

definition to4 :: "ip \<Rightarrow> ip option" where
  "to4 a = (if length a = 4 then Some a
            else if length a = 16 \<and> take 10 a = replicate 10 0 \<and> a ! 10 = 255 \<and> a ! 11 = 255
            then Some (drop 12 a) else None)"

definition IsLoopback :: "ip \<Rightarrow> bool" where
  "IsLoopback a = (case to4 a of Some b \<Rightarrow> b ! 0 = 127 | None \<Rightarrow> a = replicate 15 0 @ [1])"

definition IsLinkLocalUnicast :: "ip \<Rightarrow> bool" where
  "IsLinkLocalUnicast a =
     (case to4 a of Some b \<Rightarrow> b ! 0 = 169 \<and> b ! 1 = 254
      | None \<Rightarrow> length a = 16 \<and> a ! 0 = 254 \<and> a ! 1 div 64 = 2)"

definition IsUnspecified :: "ip \<Rightarrow> bool" where
  "IsUnspecified a = (to4 a = Some [0, 0, 0, 0] \<or> a = replicate 16 0)"

definition validatePublicIP :: "ip \<Rightarrow> unit result" where
  "validatePublicIP a =
     (if IsLoopback a then Inl ''loopback addresses not allowed''
      else if IsLinkLocalUnicast a then Inl ''link-local addresses not allowed''
      else if IsUnspecified a then Inl ''unspecified addresses not allowed''
      else Inr ())"

fun validate_ips :: "string \<Rightarrow> ip list \<Rightarrow> unit result" where
  "validate_ips hostname [] = Inr ()"
| "validate_ips hostname (a # as) =
     (case validatePublicIP a of
        Inl e \<Rightarrow> Inl (''hostname '' @ hostname @ '' resolves to invalid IP: '' @ e)
      | Inr _ \<Rightarrow> validate_ips hostname as)"

definition validatePublicURL :: "(string \<Rightarrow> ip list result) \<Rightarrow> string \<Rightarrow> unit result" where
  "validatePublicURL lookupIP hostname =
     (case List.find (\<lambda>blocked. Contains (ToLower hostname) blocked) blockedHostPatterns of
        Some blocked \<Rightarrow> Inl (''hostname '' @ hostname @ '' matches blocked pattern '' @ blocked)
      | None \<Rightarrow>
          (case lookupIP hostname of
             Inl e \<Rightarrow> Inl (''cannot resolve hostname '' @ hostname @ '': '' @ e)
           | Inr ips \<Rightarrow> validate_ips hostname ips))"

definition ValidateURL :: "(string \<Rightarrow> ip list result) \<Rightarrow> string \<Rightarrow> bool \<Rightarrow> url result" where
  "ValidateURL lookupIP str enforceResolution =
     (if maximumHeader str then Inl ''proposed URL surpassed maximum header size''
      else case url_Parse str of
        Inl e \<Rightarrow> Inl (''invalid URL: '' @ e)
      | Inr parsed \<Rightarrow>
          (if ToLower (Scheme parsed) \<notin> set allowedSchemes
           then Inl (''unsupported URL scheme '' @ Scheme parsed @ '': only http and https allowed'')
           else if Hostname parsed = [] then Inl ''URL must have a hostname''
           else if enforceResolution then
             (case validatePublicURL lookupIP (Hostname parsed) of
                Inl e \<Rightarrow> Inl (''invalid destination URL: '' @ e)
              | Inr _ \<Rightarrow> Inr parsed)
           else Inr parsed))"

definition validateWormholeURL :: "string \<Rightarrow> bool" where
  "validateWormholeURL s =
     (if s = [] then True
      else case ValidateURL (\<lambda>_. Inl []) s False of Inl _ \<Rightarrow> False | Inr _ \<Rightarrow> True)"

definition checkWormholeURL :: "URLString \<Rightarrow> bool" where
  "checkWormholeURL v = validateWormholeURL (Raw v)"

section \<open>The validator\<close>

definition vErr :: gerror where
  "vErr = ''field validation failed''"

definition wrapValidationError :: "gerror option \<Rightarrow> StatusError option" where
  "wrapValidationError err = map_option (\<lambda>e. NewBadReqErr e e []) err"

text \<open>\<^verbatim>\<open>Var(field, tag)\<close> and \<^verbatim>\<open>Struct\<close>, for the check that the tag names.\<close>

definition Var :: "('a \<Rightarrow> bool) \<Rightarrow> 'a \<Rightarrow> StatusError option" where
  "Var check field = wrapValidationError (if check field then None else Some vErr)"

definition Struct :: "('a \<Rightarrow> bool) \<Rightarrow> 'a \<Rightarrow> StatusError option" where
  "Struct check s = wrapValidationError (if check s then None else Some vErr)"

definition SafeHeader :: "(string \<Rightarrow> bool) \<Rightarrow> headers \<Rightarrow> string \<Rightarrow> string \<Rightarrow> StatusError + string" where
  "SafeHeader check hs key tag =
     (let tar = sget hs key in
      if check tar then Inr tar
      else Inl (NewBadReqErr vErr (''failed to validated '' @ key @ '' header with '' @ tag) []))"

text \<open>The tag \<^verbatim>\<open>omitempty,uuid\<close>.\<close>

definition omitempty_uuid :: "string \<Rightarrow> bool" where
  "omitempty_uuid s = (s = [] \<or> uUIDRegex s)"

section \<open>Facts\<close>

lemma Var_None [simp]: "Var check x = None \<longleftrightarrow> check x"
  by (simp add: Var_def wrapValidationError_def)

lemma Var_Some: "Var check x = Some e \<Longrightarrow> e = NewBadReqErr vErr vErr [] \<and> \<not> check x"
  by (auto simp: Var_def wrapValidationError_def split: if_splits)

lemma reqToken_parts:
  assumes "reqTokenRegexp s"
  shows "s = take 36 s @ CHR ''.'' # drop 37 s" and "length (take 36 s) = 36"
    and "CHR ''.'' \<notin> set (take 36 s)"
proof -
  have len: "36 < length s" and dot: "s ! 36 = CHR ''.''"
    using assms by (auto simp: reqTokenRegexp_def Let_def)
  have "drop 36 s = CHR ''.'' # drop 37 s"
    using Cons_nth_drop_Suc [OF len] dot by simp
  then show "s = take 36 s @ CHR ''.'' # drop 37 s"
    by (metis append_take_drop_id)
  show "length (take 36 s) = 36" using len by simp
  have "list_all (\<lambda>c. is_hex c \<or> c = CHR ''-'') (take 36 s)"
    using assms by (simp add: reqTokenRegexp_def Let_def)
  then show "CHR ''.'' \<notin> set (take 36 s)"
    by (auto simp: list_all_iff is_hex_def Let_def)
qed

lemma reqToken_Split: "reqTokenRegexp s \<Longrightarrow> \<exists>r. Split s ''.'' = take 36 s # r"
  by (metis reqToken_parts(1,3) Split_first)

lemma reqToken_length: "reqTokenRegexp s \<Longrightarrow> 38 \<le> length s \<and> length s \<le> 165"
  by (auto simp: reqTokenRegexp_def Let_def)

lemma ValidateHeaderName_ascii:
  assumes "ValidateHeaderName name = Inr ()"
  shows "ToLower name \<notin> set disallowedHeaders" and "list_all isTokenChar (runes name)"
  using assms by (auto simp: ValidateHeaderName_def split: if_splits)

text \<open>A valid value carries no line break, so it cannot end a header line.\<close>

lemma ValidateHeaderValue_no_break:
  assumes "ValidateHeaderValue v = Inr ()" "c \<in> set v"
  shows "byte_val c \<noteq> 10 \<and> byte_val c \<noteq> 13 \<and> byte_val c \<noteq> 0"
  using assms ascii_byte_is_rune [of c v]
  by (fastforce simp: ValidateHeaderValue_def list_ex_iff IsControl_def split: if_splits)

lemma validate_ips_public:
  "validate_ips h ips = Inr () \<Longrightarrow> a \<in> set ips \<Longrightarrow>
     \<not> IsLoopback a \<and> \<not> IsLinkLocalUnicast a \<and> \<not> IsUnspecified a"
  by (induction ips) (auto simp: validatePublicIP_def split: if_splits)

end
