(* ===== verification/JsonText.thy ===== *)
theory JsonText
  imports GoJson
begin

text \<open>
  The text syntax of JSON as \<^verbatim>\<open>encoding/json\<close> reads it: white space, literals, numbers, strings
  with their escapes (an invalid UTF-8 byte or a lone surrogate becomes U+FFFD), arrays and
  objects, nested at most 10000 deep. The recursion runs on fuel; every step consumes a byte, so
  the length of the text is enough (\<open>json_parse\<close>).
\<close>

definition is_json_ws :: "char \<Rightarrow> bool" where
  "is_json_ws c = (byte_val c \<in> {9, 10, 13, 32})"

definition skip_ws :: "string \<Rightarrow> string" where
  "skip_ws s = dropWhile is_json_ws s"

definition quote_char :: char where "quote_char = CHR 0x22"
definition backslash :: char where "backslash = CHR 0x5C"

definition replacement :: string where
  "replacement = [CHR 0xEF, CHR 0xBF, CHR 0xBD]"

definition utf8_encode :: "nat \<Rightarrow> string" where
  "utf8_encode r =
     (if r < 128 then [char_of r]
      else if r < 2048 then [char_of (192 + r div 64), char_of (128 + r mod 64)]
      else if 55296 \<le> r \<and> r \<le> 57343 then replacement
      else if r < 65536
      then [char_of (224 + r div 4096), char_of (128 + r div 64 mod 64), char_of (128 + r mod 64)]
      else [char_of (240 + r div 262144), char_of (128 + r div 4096 mod 64),
            char_of (128 + r div 64 mod 64), char_of (128 + r mod 64)])"

definition hex_digit_val :: "char \<Rightarrow> nat option" where
  "hex_digit_val c =
     (let b = byte_val c in
      if 48 \<le> b \<and> b \<le> 57 then Some (b - 48)
      else if 97 \<le> b \<and> b \<le> 102 then Some (b - 87)
      else if 65 \<le> b \<and> b \<le> 70 then Some (b - 55) else None)"

fun hex4 :: "string \<Rightarrow> nat option" where
  "hex4 (a # b # c # d # _) =
     (case (hex_digit_val a, hex_digit_val b, hex_digit_val c, hex_digit_val d) of
        (Some w, Some x, Some y, Some z) \<Rightarrow> Some (w * 4096 + x * 256 + y * 16 + z)
      | _ \<Rightarrow> None)"
| "hex4 _ = None"

text \<open>The second half of a surrogate pair, when one follows.\<close>

definition low_surrogate :: "string \<Rightarrow> nat option" where
  "low_surrogate s =
     (if take 2 s = [backslash, CHR ''u''] then
        (case hex4 (drop 2 s) of
           Some r \<Rightarrow> if 56320 \<le> r \<and> r \<le> 57343 then Some r else None
         | None \<Rightarrow> None)
      else None)"

definition simple_escape :: "char \<Rightarrow> char option" where
  "simple_escape e =
     (if e = quote_char \<or> e = backslash \<or> e = CHR ''/'' then Some e
      else if e = CHR ''b'' then Some (CHR 0x08)
      else if e = CHR ''f'' then Some (CHR 0x0C)
      else if e = CHR ''n'' then Some (CHR 0x0A)
      else if e = CHR ''r'' then Some (CHR 0x0D)
      else if e = CHR ''t'' then Some (CHR 0x09) else None)"

text \<open>One character of a string: what it stands for, and the rest of the text.\<close>

definition json_escape :: "string \<Rightarrow> (string \<times> string) option" where
  "json_escape cs =
     (case cs of
        [] \<Rightarrow> None
      | e # r \<Rightarrow>
          if e = CHR ''u'' then
            (case hex4 r of
               None \<Rightarrow> None
             | Some hi \<Rightarrow>
                 if 55296 \<le> hi \<and> hi \<le> 56319 then
                   (case low_surrogate (drop 4 r) of
                      Some lo \<Rightarrow>
                        Some (utf8_encode (65536 + (hi - 55296) * 1024 + (lo - 56320)), drop 10 r)
                    | None \<Rightarrow> Some (replacement, drop 4 r))
                 else Some (utf8_encode hi, drop 4 r))
          else (case simple_escape e of Some c \<Rightarrow> Some ([c], r) | None \<Rightarrow> None))"

definition json_char :: "char \<Rightarrow> string \<Rightarrow> (string \<times> string) option" where
  "json_char c cs =
     (if c = backslash then json_escape cs
      else if byte_val c < 32 then None
      else if byte_val c < 128 then Some ([c], cs)
      else case utf8_step (c # cs) of
             (r, w) \<Rightarrow> Some (if w = 1 then replacement else take w (c # cs), drop w (c # cs)))"

fun json_str :: "nat \<Rightarrow> string \<Rightarrow> (string \<times> string) option" where
  "json_str 0 s = None"
| "json_str (Suc f) s =
     (case s of
        [] \<Rightarrow> None
      | c # cs \<Rightarrow>
          if c = quote_char then Some ([], cs)
          else case json_char c cs of
            None \<Rightarrow> None
          | Some (bs, rest) \<Rightarrow>
              (case json_str f rest of None \<Rightarrow> None | Some (t, rest') \<Rightarrow> Some (bs @ t, rest')))"

definition json_exponent :: "string \<Rightarrow> (int \<times> string) option" where
  "json_exponent s =
     (case s of
        [] \<Rightarrow> Some (0, [])
      | c # cs \<Rightarrow>
          if c \<noteq> CHR ''e'' \<and> c \<noteq> CHR ''E'' then Some (0, s)
          else (let (sg, r) = (case cs of
                       d # ds \<Rightarrow> if d = CHR ''+'' then (1, ds) else if d = CHR ''-'' then (-1, ds) else (1, cs)
                     | [] \<Rightarrow> (1, []));
                    ds = takeWhile is_digit r
                in if ds = [] then None else Some (sg * int (digits_val ds), dropWhile is_digit r)))"

definition json_fraction :: "string \<Rightarrow> (rat \<times> string) option" where
  "json_fraction s =
     (case s of
        c # cs \<Rightarrow>
          if c = CHR ''.'' then
            (let ds = takeWhile is_digit cs
             in if ds = [] then None
                else Some (of_nat (digits_val ds) / 10 ^ length ds, dropWhile is_digit cs))
          else Some (0, s)
      | [] \<Rightarrow> Some (0, []))"

definition json_number :: "string \<Rightarrow> (rat \<times> string) option" where
  "json_number s0 =
     (let (neg, s) = (case s0 of c # cs \<Rightarrow> if c = CHR ''-'' then (True, cs) else (False, s0) | [] \<Rightarrow> (False, []));
          ds = takeWhile is_digit s;
          ip = (if ds \<noteq> [] \<and> hd ds = CHR ''0'' then ''0'' else ds)
      in if ds = [] then None
         else case json_fraction (drop (length ip) s) of
           None \<Rightarrow> None
         | Some (fr, r1) \<Rightarrow>
             (case json_exponent r1 of
                None \<Rightarrow> None
              | Some (e, r2) \<Rightarrow>
                  (let m = of_nat (digits_val ip) + fr;
                       v = (if 0 \<le> e then m * 10 ^ nat e else m / 10 ^ nat (- e))
                   in Some (if neg then - v else v, r2))))"

definition maxNestingDepth :: nat where
  "maxNestingDepth = 10000"

fun json_value :: "nat \<Rightarrow> nat \<Rightarrow> string \<Rightarrow> (json \<times> string) option"
and json_elems :: "nat \<Rightarrow> nat \<Rightarrow> string \<Rightarrow> (json list \<times> string) option"
and json_members :: "nat \<Rightarrow> nat \<Rightarrow> string \<Rightarrow> ((string \<times> json) list \<times> string) option"
where
  "json_value 0 d s = None"
| "json_value (Suc f) d s =
     (case skip_ws s of
        [] \<Rightarrow> None
      | c # cs \<Rightarrow>
          if c = CHR ''{'' then
            (if maxNestingDepth \<le> d then None
             else case skip_ws cs of
               [] \<Rightarrow> None
             | x # xs \<Rightarrow>
                 if x = CHR ''}'' then Some (JObj [], xs)
                 else map_option (\<lambda>(ms, r). (JObj ms, r)) (json_members f (Suc d) (x # xs)))
          else if c = CHR ''['' then
            (if maxNestingDepth \<le> d then None
             else case skip_ws cs of
               [] \<Rightarrow> None
             | x # xs \<Rightarrow>
                 if x = CHR '']'' then Some (JArr [], xs)
                 else map_option (\<lambda>(js, r). (JArr js, r)) (json_elems f (Suc d) (x # xs)))
          else if c = quote_char then map_option (\<lambda>(t, r). (JStr t, r)) (json_str f cs)
          else if HasPrefix (c # cs) ''true'' then Some (JBool True, drop 4 (c # cs))
          else if HasPrefix (c # cs) ''false'' then Some (JBool False, drop 5 (c # cs))
          else if HasPrefix (c # cs) ''null'' then Some (JNull, drop 4 (c # cs))
          else map_option (\<lambda>(n, r). (JNum n, r)) (json_number (c # cs)))"
| "json_elems 0 d s = None"
| "json_elems (Suc f) d s =
     (case json_value f d s of
        None \<Rightarrow> None
      | Some (j, r) \<Rightarrow>
          (case skip_ws r of
             [] \<Rightarrow> None
           | x # xs \<Rightarrow>
               if x = CHR '']'' then Some ([j], xs)
               else if x = CHR '','' then map_option (\<lambda>(js, t). (j # js, t)) (json_elems f d xs)
               else None))"
| "json_members 0 d s = None"
| "json_members (Suc f) d s =
     (case skip_ws s of
        [] \<Rightarrow> None
      | c # cs \<Rightarrow>
          if c \<noteq> quote_char then None
          else case json_str f cs of
            None \<Rightarrow> None
          | Some (k, r) \<Rightarrow>
              (case skip_ws r of
                 [] \<Rightarrow> None
               | x # xs \<Rightarrow>
                   if x \<noteq> CHR '':'' then None
                   else case json_value f d xs of
                     None \<Rightarrow> None
                   | Some (j, r2) \<Rightarrow>
                       (case skip_ws r2 of
                          [] \<Rightarrow> None
                        | y # ys \<Rightarrow>
                            if y = CHR ''}'' then Some ([(k, j)], ys)
                            else if y = CHR '','' then map_option (\<lambda>(ms, t). ((k, j) # ms, t)) (json_members f d ys)
                            else None)))"

definition json_parse :: "string \<Rightarrow> payload" where
  "json_parse s =
     (case json_value (2 * length s + 2) 0 s of
        None \<Rightarrow> None
      | Some (j, r) \<Rightarrow> if skip_ws r = [] then Some j else None)"

lemma json_parse_Nil [simp]: "json_parse [] = None"
  by (simp add: json_parse_def skip_ws_def numeral_2_eq_2)

declare json_str.simps [simp del] json_value.simps [simp del] json_elems.simps [simp del] json_members.simps [simp del]

end
