(* ===== verification/Requests.thy ===== *)
theory Requests
  imports Rules JsonText
begin

text \<open>
  \<^verbatim>\<open>internal/ctls/requests\<close>: the HTTP client of the other services (\<^verbatim>\<open>requests.go\<close>), its error
  (\<^verbatim>\<open>err.go\<close>) and the helpers on requests and URLs (\<^verbatim>\<open>tools.go\<close>).

  The network is the parameter \<open>do\<close>, the \<^verbatim>\<open>Do\<close> method of the \<^verbatim>\<open>httpClient\<close> interface: it maps
  a request and the state \<^typ>\<open>'w\<close> of the world to a response or an error and the next state.
  A header map is keyed by the name in lower case, as \<^verbatim>\<open>http.Header\<close> identifies names up to
  case. A request body is the JSON document it holds, a response body its bytes.
\<close>

section \<open>Types\<close>

record RequestFailedError =
  rfErr :: "gerror option"
  rfStatus :: int
  rfURL :: string

definition rfe_Error :: "RequestFailedError \<Rightarrow> string" where
  "rfe_Error e =
     (case rfErr e of
        None \<Rightarrow> ''<nil>''
      | Some err \<Rightarrow>
          if rfStatus e \<noteq> 0
          then ''request to '' @ rfURL e @ '' failed (status='' @ itoa (nat (rfStatus e)) @ ''): '' @ err
          else ''internal request failure: '' @ err)"

definition rfe_Unwrap :: "RequestFailedError \<Rightarrow> gerror option" where
  "rfe_Unwrap e = rfErr e"

definition rfe_Code :: "RequestFailedError \<Rightarrow> int" where
  "rfe_Code e = rfStatus e"

text \<open>What the auth workflow knows of a request.\<close>

record RequestDetails =
  rdHeaders :: headers
  rdRouteID :: string
  rdCommunityID :: string
  rdHost :: string
  rdScheme :: string
  rdPath :: string

record cookie =
  ckName :: string
  ckValue :: string

type_synonym body = string

record http_request =
  hrMethod :: string
  hrURL :: string
  hrHeader :: headers
  hrCookies :: "cookie list"
  hrBody :: payload

record http_response =
  hsStatus :: int
  hsHeader :: "(string, string list) gomap"
  hsBody :: "body result"

type_synonym 'w httpDo = "http_request \<Rightarrow> 'w \<Rightarrow> http_response result \<times> 'w"

record spanContext =
  scValid :: bool
  scTraceID :: string
  scSpanID :: string
  scFlags :: char

section \<open>The client\<close>

definition traceparentFromContext :: "spanContext \<Rightarrow> string option" where
  "traceparentFromContext sc =
     (if scValid sc
      then Some (''00-'' @ scTraceID sc @ ''-'' @ scSpanID sc @ ''-'' @ HexEncode [scFlags sc])
      else None)"

definition handleInvalidResponse :: "http_response \<Rightarrow> gerror" where
  "handleInvalidResponse resp =
     (let msg = ''unexpected HTTP status code '' @ itoa (nat (hsStatus resp)) in
      case hsBody resp of Inl _ \<Rightarrow> msg | Inr b \<Rightarrow> msg @ '': '' @ b)"

definition set_headers :: "headers \<Rightarrow> headers" where
  "set_headers hs = fold (\<lambda>(k, v). mput (ToLower k) v) hs []"

definition build_request ::
    "spanContext \<Rightarrow> string \<Rightarrow> string \<Rightarrow> headers \<Rightarrow> cookie list \<Rightarrow> payload \<Rightarrow> http_request result" where
  "build_request sc meth u hs cookies body =
     (case url_Parse u of
        Inl e \<Rightarrow> Inl (''failed to create request: '' @ e)
      | Inr _ \<Rightarrow>
          (let h0 = set_headers hs;
               h1 = (if sget h0 TraceparentHeader = [] then
                       (case traceparentFromContext sc of
                          Some tp \<Rightarrow> mput TraceparentHeader tp h0 | None \<Rightarrow> h0)
                     else h0)
           in Inr \<lparr>hrMethod = meth, hrURL = u, hrHeader = h1, hrCookies = cookies, hrBody = body\<rparr>))"

text \<open>
  The result is the body, the status code and the headers, or an error with the status code
  (0 when there was no response).
\<close>

type_synonym run_result = "(gerror \<times> int) + (body \<times> int \<times> (string, string list) gomap)"

definition runRequest ::
    "'w httpDo \<Rightarrow> spanContext \<Rightarrow> string \<Rightarrow> string \<Rightarrow> headers \<Rightarrow> cookie list \<Rightarrow> payload \<Rightarrow> 'w
       \<Rightarrow> run_result \<times> 'w" where
  "runRequest do sc meth u hs cookies body w =
     (case build_request sc meth u hs cookies body of
        Inl e \<Rightarrow> (Inl (e, 0), w)
      | Inr req \<Rightarrow>
          (case do req w of
             (Inl e, w') \<Rightarrow> (Inl (''request failed: '' @ e, 0), w')
           | (Inr resp, w') \<Rightarrow>
               (if hsStatus resp < 200 \<or> 300 \<le> hsStatus resp
                then (Inl (handleInvalidResponse resp, hsStatus resp), w')
                else case hsBody resp of
                  Inl e \<Rightarrow> (Inl (''failed to read response body: '' @ e, hsStatus resp), w')
                | Inr b \<Rightarrow> (Inr (b, hsStatus resp, hsHeader resp), w'))))"

definition respSnippetMax :: nat where
  "respSnippetMax = 1024"

text \<open>\<open>dec\<close> is the decoding into the caller's variable.\<close>

definition runAndUnmarshal ::
    "'w httpDo \<Rightarrow> spanContext \<Rightarrow> string \<Rightarrow> string \<Rightarrow> headers \<Rightarrow> cookie list \<Rightarrow> payload
       \<Rightarrow> (json \<Rightarrow> 'a result) \<Rightarrow> 'w \<Rightarrow> (RequestFailedError + 'a) \<times> 'w" where
  "runAndUnmarshal do sc meth u hs cookies body dec w =
     (case runRequest do sc meth u hs cookies body w of
        (Inl (err, code), w') \<Rightarrow>
          (Inl \<lparr>rfErr = Some (''invalid request: '' @ err), rfStatus = code, rfURL = u\<rparr>, w')
      | (Inr (b, code, hdrs), w') \<Rightarrow>
          (case unmarshal dec (json_parse b) of
             Inl err \<Rightarrow>
               (let snippet = take respSnippetMax b in
                (Inl \<lparr>rfErr = Some (''invalid JSON: '' @ err @ ''; body starts with: '' @ snippet),
                      rfStatus = 0, rfURL = u\<rparr>, w'))
           | Inr v \<Rightarrow> (Inr v, w')))"

definition HeaderToStringMap :: "(string, string list) gomap \<Rightarrow> headers" where
  "HeaderToStringMap h =
     fold (\<lambda>(k, vals) out.
        (case List.find (\<lambda>v. v \<noteq> []) vals of None \<Rightarrow> out | Some v \<Rightarrow> mput (ToLower k) v out)) h []"

definition GetHeaders ::
    "'w httpDo \<Rightarrow> spanContext \<Rightarrow> string \<Rightarrow> headers \<Rightarrow> cookie list \<Rightarrow> 'w
       \<Rightarrow> (RequestFailedError + headers) \<times> 'w" where
  "GetHeaders do sc u hs cookies w =
     (case runRequest do sc ''GET'' u hs cookies None w of
        (Inl (err, code), w') \<Rightarrow>
          (Inl \<lparr>rfErr = Some (''invalid request: '' @ err), rfStatus = code, rfURL = u\<rparr>, w')
      | (Inr (b, code, hdrs), w') \<Rightarrow> (Inr (HeaderToStringMap hdrs), w'))"

definition GetJSON ::
    "'w httpDo \<Rightarrow> spanContext \<Rightarrow> string \<Rightarrow> headers \<Rightarrow> (json \<Rightarrow> 'a result) \<Rightarrow> 'w
       \<Rightarrow> (RequestFailedError + 'a) \<times> 'w" where
  "GetJSON do sc u hs dec w = runAndUnmarshal do sc ''GET'' u hs [] None dec w"

definition GetJSONCookies ::
    "'w httpDo \<Rightarrow> spanContext \<Rightarrow> string \<Rightarrow> headers \<Rightarrow> cookie list \<Rightarrow> (json \<Rightarrow> 'a result) \<Rightarrow> 'w
       \<Rightarrow> (RequestFailedError + 'a) \<times> 'w" where
  "GetJSONCookies do sc u hs cookies dec w = runAndUnmarshal do sc ''GET'' u hs cookies None dec w"

definition PostJSONBody ::
    "'w httpDo \<Rightarrow> spanContext \<Rightarrow> string \<Rightarrow> headers \<Rightarrow> json \<Rightarrow> (json \<Rightarrow> 'a result) \<Rightarrow> 'w
       \<Rightarrow> (RequestFailedError + 'a) \<times> 'w" where
  "PostJSONBody do sc u hs body dec w =
     runAndUnmarshal do sc ''POST'' u (mput ''content-type'' ''application/json'' hs) [] (Some body) dec w"

section \<open>Helpers on requests and URLs\<close>

record http_inbound =
  hiTLS :: bool
  hiHost :: string
  hiPath :: string
  hiHeader :: headers

definition IdentifyURL :: "http_inbound \<Rightarrow> string" where
  "IdentifyURL req =
     (let full = (if hiTLS req then ''https://'' else ''http://'') @ hiHost req in
      if hiPath req = [] then full @ sget (hiHeader req) ''x-forwarded-prefix''
      else full @ hiPath req)"

text \<open>\<^verbatim>\<open>strconv.Atoi\<close> of a string of digits fails from $2^{63}$ on; \<^verbatim>\<open>uint32\<close> then truncates.\<close>

definition IdentifyPort :: "url \<Rightarrow> u32" where
  "IdentifyPort u =
     (let port = Port u in
      if port \<noteq> [] \<and> list_all is_digit port \<and> digits_val port < 2 ^ 63
      then word_of_nat (digits_val port)
      else if Scheme u = ''https'' then 443
      else if Scheme u = ''http'' then 80
      else 0)"

definition IsLocalhost :: "url \<Rightarrow> bool" where
  "IsLocalhost u =
     (let hostname = Hostname u in
      hostname = ''localhost'' \<or> hostname = ''127.0.0.1'' \<or> HasPrefix hostname ''127.'')"

definition NormalizePath :: "url \<Rightarrow> string" where
  "NormalizePath src =
     (if Path src = [] then ''/''
      else let normalized = path_Clean (Path src) in
        if HasPrefix normalized ''/'' then normalized else ''/'' @ normalized)"

section \<open>Facts\<close>

text \<open>Every failure that carries a status code carries the code of the response.\<close>

lemma runRequest_success:
  assumes "runRequest do sc meth u hs cookies body w = (Inr (b, code, hdrs), w')"
  shows "200 \<le> code \<and> code < 300"
  using assms
  by (auto simp: runRequest_def split: sum.splits prod.splits if_splits)

lemma runRequest_error_code:
  assumes "runRequest do sc meth u hs cookies body w = (Inl (e, code), w')"
  shows "code = 0 \<or> (\<exists>req resp. do req w = (Inr resp, w') \<and> code = hsStatus resp)"
  using assms
  by (fastforce simp: runRequest_def split: sum.splits prod.splits if_splits)

text \<open>Every operation of the client makes at most one call, and changes the world by it alone.\<close>

lemma runRequest_world:
  assumes "runRequest do sc meth u hs cookies body w = (r, w')"
  shows "w' = w \<or> (\<exists>req res. do req w = (res, w'))"
  using assms
  by (auto simp: runRequest_def split: sum.splits prod.splits if_splits)

lemma runAndUnmarshal_world:
  assumes "runAndUnmarshal do sc meth u hs cookies body dec w = (r, w')"
  shows "w' = w \<or> (\<exists>req res. do req w = (res, w'))"
proof -
  obtain rr w1 where rr: "runRequest do sc meth u hs cookies body w = (rr, w1)" by fastforce
  then have "w1 = w'"
    using assms by (auto simp: runAndUnmarshal_def Let_def split: sum.splits prod.splits)
  then show ?thesis using runRequest_world [OF rr] by simp
qed

lemma GetHeaders_world:
  assumes "GetHeaders do sc u hs cookies w = (r, w')"
  shows "w' = w \<or> (\<exists>req res. do req w = (res, w'))"
proof -
  obtain rr w1 where rr: "runRequest do sc ''GET'' u hs cookies None w = (rr, w1)" by fastforce
  then have "w1 = w'" using assms by (auto simp: GetHeaders_def split: sum.splits prod.splits)
  then show ?thesis using runRequest_world [OF rr] by simp
qed

lemmas request_world = runRequest_world runAndUnmarshal_world GetHeaders_world

lemma NormalizePath_rooted: "HasPrefix (NormalizePath src) ''/''"
  by (simp add: NormalizePath_def Let_def)

lemma NormalizePath_absolute:
  assumes "Path src = CHR ''/'' # p"
  shows "NormalizePath src = ''/'' @ Join (clean_elems True (Split (Path src) ''/'')) ''/''"
  using assms by (simp add: NormalizePath_def Let_def path_Clean_rooted)

text \<open>No element of the normalised path of an absolute source climbs or stays.\<close>

lemma NormalizePath_no_traversal:
  assumes "Path src = CHR ''/'' # p"
  shows "\<exists>es. NormalizePath src = ''/'' @ Join es ''/'' \<and> list_all plain_elem es"
  using NormalizePath_absolute [OF assms] clean_elems_plain by blast

lemma IdentifyPort_explicit:
  assumes "Host u = h @ CHR '':'' # itoa n" "\<not> HasPrefix h ''[''" "n < 65536"
  shows "unat (IdentifyPort u) = n"
proof -
  have "Port u = itoa n"
    using assms(1,2) splitHostPort_port [OF itoa_digits, of h n] by (simp add: Port_def)
  then show ?thesis
    using assms(3) itoa_digits [of n]
    by (simp add: IdentifyPort_def Let_def unat_of_nat take_bit_nat_eq_self)
qed

end
