(* ===== verification/Args.thy ===== *)
theory Args
  imports Requests
begin

text \<open>
  \<^verbatim>\<open>internal/args\<close>: the configuration records, one per file, and the tables of command-line
  flags that fill them; \<^verbatim>\<open>internal/cmd/holepunch/cmds.go\<close>: the flags of each command.

  A flag names its environment variables, its default, whether it is required, its action, and
  its destination as the pair of a reader and a writer of the configuration. \<open>runFlags\<close> follows
  \<^verbatim>\<open>cli.Command.run\<close>: the defaults are written in the order of the flags, then the flags of the
  command line in their order, then for each flag not yet set its first environment variable
  that is defined; then the actions of the flags that were set run on the resulting values, and
  the required flags are checked. The parsing of a value from its text belongs to the cli
  library: values arrive with their type.
\<close>

section \<open>Flags\<close>

datatype flagval = FStr string | FBool bool | FInt int | FWord u32 | FStrs "string list"

record 'c flag =
  fName :: string
  fEnv :: "string list"
  fDefault :: flagval
  fRequired :: bool
  fAction :: "'c \<Rightarrow> flagval \<Rightarrow> gerror option"
  fGet :: "'c \<Rightarrow> flagval"
  fDest :: "flagval \<Rightarrow> 'c \<Rightarrow> 'c"

definition Millisecond :: int where "Millisecond = 1000000"
definition Second :: int where "Second = 1000 * Millisecond"
definition Minute :: int where "Minute = 60 * Second"
definition Hour :: int where "Hour = 60 * Minute"

lemmas duration_defs = Millisecond_def Second_def Minute_def Hour_def

definition envPrefix :: string where
  "envPrefix = ''HOLEPUNCH_''"

definition envWrapper :: "string list \<Rightarrow> string list" where
  "envWrapper names = map (\<lambda>str. envPrefix @ str) names"

definition noAction :: "'c \<Rightarrow> flagval \<Rightarrow> gerror option" where
  "noAction c v = None"

definition validateURLAction :: "'c \<Rightarrow> flagval \<Rightarrow> gerror option" where
  "validateURLAction c v =
     (case v of
        FStr s \<Rightarrow> (case url_Parse s of Inl _ \<Rightarrow> Some (''invalid URL '' @ s) | Inr _ \<Rightarrow> None)
      | _ \<Rightarrow> None)"

definition strFlag ::
    "string \<Rightarrow> string list \<Rightarrow> string \<Rightarrow> bool \<Rightarrow> ('c \<Rightarrow> flagval \<Rightarrow> gerror option)
       \<Rightarrow> ('c \<Rightarrow> string) \<Rightarrow> (string \<Rightarrow> 'c \<Rightarrow> 'c) \<Rightarrow> 'c flag" where
  "strFlag name env dv req act rd wr =
     \<lparr>fName = name, fEnv = env, fDefault = FStr dv, fRequired = req, fAction = act,
      fGet = (\<lambda>c. FStr (rd c)), fDest = (\<lambda>v c. case v of FStr s \<Rightarrow> wr s c | _ \<Rightarrow> c)\<rparr>"

definition boolFlag ::
    "string \<Rightarrow> string list \<Rightarrow> bool \<Rightarrow> bool \<Rightarrow> ('c \<Rightarrow> flagval \<Rightarrow> gerror option)
       \<Rightarrow> ('c \<Rightarrow> bool) \<Rightarrow> (bool \<Rightarrow> 'c \<Rightarrow> 'c) \<Rightarrow> 'c flag" where
  "boolFlag name env dv req act rd wr =
     \<lparr>fName = name, fEnv = env, fDefault = FBool dv, fRequired = req, fAction = act,
      fGet = (\<lambda>c. FBool (rd c)), fDest = (\<lambda>v c. case v of FBool s \<Rightarrow> wr s c | _ \<Rightarrow> c)\<rparr>"

definition intFlag ::
    "string \<Rightarrow> string list \<Rightarrow> int \<Rightarrow> bool \<Rightarrow> ('c \<Rightarrow> flagval \<Rightarrow> gerror option)
       \<Rightarrow> ('c \<Rightarrow> int) \<Rightarrow> (int \<Rightarrow> 'c \<Rightarrow> 'c) \<Rightarrow> 'c flag" where
  "intFlag name env dv req act rd wr =
     \<lparr>fName = name, fEnv = env, fDefault = FInt dv, fRequired = req, fAction = act,
      fGet = (\<lambda>c. FInt (rd c)), fDest = (\<lambda>v c. case v of FInt s \<Rightarrow> wr s c | _ \<Rightarrow> c)\<rparr>"

text \<open>A duration is its number of nanoseconds.\<close>

abbreviation durFlag ::
    "string \<Rightarrow> string list \<Rightarrow> int \<Rightarrow> bool \<Rightarrow> ('c \<Rightarrow> flagval \<Rightarrow> gerror option)
       \<Rightarrow> ('c \<Rightarrow> int) \<Rightarrow> (int \<Rightarrow> 'c \<Rightarrow> 'c) \<Rightarrow> 'c flag" where
  "durFlag \<equiv> intFlag"

definition wordFlag ::
    "string \<Rightarrow> string list \<Rightarrow> u32 \<Rightarrow> bool \<Rightarrow> ('c \<Rightarrow> flagval \<Rightarrow> gerror option)
       \<Rightarrow> ('c \<Rightarrow> u32) \<Rightarrow> (u32 \<Rightarrow> 'c \<Rightarrow> 'c) \<Rightarrow> 'c flag" where
  "wordFlag name env dv req act rd wr =
     \<lparr>fName = name, fEnv = env, fDefault = FWord dv, fRequired = req, fAction = act,
      fGet = (\<lambda>c. FWord (rd c)), fDest = (\<lambda>v c. case v of FWord s \<Rightarrow> wr s c | _ \<Rightarrow> c)\<rparr>"

definition strsFlag ::
    "string \<Rightarrow> string list \<Rightarrow> string list \<Rightarrow> bool \<Rightarrow> ('c \<Rightarrow> flagval \<Rightarrow> gerror option)
       \<Rightarrow> ('c \<Rightarrow> string list) \<Rightarrow> (string list \<Rightarrow> 'c \<Rightarrow> 'c) \<Rightarrow> 'c flag" where
  "strsFlag name env dv req act rd wr =
     \<lparr>fName = name, fEnv = env, fDefault = FStrs dv, fRequired = req, fAction = act,
      fGet = (\<lambda>c. FStrs (rd c)), fDest = (\<lambda>v c. case v of FStrs s \<Rightarrow> wr s c | _ \<Rightarrow> c)\<rparr>"

lemmas flag_defs = strFlag_def boolFlag_def intFlag_def wordFlag_def strsFlag_def

section \<open>Records\<close>

record GlobalSettings =
  Development :: bool

record Cacher =
  MaxFailures :: int
  RouteRefresh :: int

record Logging =
  LoggingDisable :: bool
  LoggingLevel :: string
  LoggingLocation :: string
  LoggingAddress :: string
  LoggingNetwork :: string
  OtelEndpoint :: string
  OtelInsecure :: bool
  OtelService :: string

record RouteRegistry =
  RegistryHost :: string
  RegistryFetch :: bool
  RegistryDuration :: int
  RoutePath :: string
  StaticCfg :: string
  RedirectAllowList :: "string list"

record Storage =
  Consumer :: string
  MaxValueSize :: int
  NatsReplicas :: int
  TokensTTL :: int
  StorageHost :: string
  StorageUser :: string
  StoragePassword :: string

record TokenService =
  TokenCipherKey :: string
  TokenExchangePath :: string
  TokenHeader :: string
  TokenHost :: string
  TokenServiceAdmin :: string
  OauthExchangePath :: string
  OauthProxy :: string
  OauthRedirectURL :: string
  SubtokenHeader :: string
  SubtokenPath :: string
  DevHostHeader :: string
  TokenHeaderDebug :: bool

record WebServer =
  ServerAddress :: string
  GRPCKeepaliveTime :: int
  GRPCKeepaliveTimeout :: int
  GRPCKeepaliveMinTime :: int
  GRPCMaxConcurrentStreams :: u32
  MaxRecvMsgSize :: int
  MaxSendMsgSize :: int

record XDS =
  AuthCluster :: string
  AuthTimeout :: int
  AuthMaxBytes :: u32
  ClusterName :: string
  CollectorCluster :: string
  CollectorEnabled :: bool
  CollectorService :: string
  ConnectTimeout :: int
  EnableWebSocket :: bool
  IdleTimeout :: int
  RequestTimeout :: int
  MaxStreamDuration :: int
  NodeName :: string
  ListenerPort :: u32
  ListenerAddress :: string
  xdsVersionHeader :: bool
  AllAuthHeaders :: bool

text \<open>The package variables of \<^verbatim>\<open>internal/cmd/holepunch/cmds.go\<close>.\<close>

record app =
  globalArgs :: GlobalSettings
  cacheArgs :: Cacher
  loggingArgs :: Logging
  routeRegArgs :: RouteRegistry
  storageArgs :: Storage
  tokenSvcArgs :: TokenService
  webArgs :: WebServer
  xdsArgs :: XDS

definition zero_app :: app where
  "zero_app =
     \<lparr>globalArgs =
        \<lparr>Development = False\<rparr>,
      cacheArgs =
        \<lparr>MaxFailures = 0, RouteRefresh = 0\<rparr>,
      loggingArgs =
        \<lparr>LoggingDisable = False, LoggingLevel = [], LoggingLocation = [], LoggingAddress
         = [], LoggingNetwork = [], OtelEndpoint = [], OtelInsecure = False, OtelService =
         []\<rparr>,
      routeRegArgs =
        \<lparr>RegistryHost = [], RegistryFetch = False, RegistryDuration = 0, RoutePath = [],
         StaticCfg = [], RedirectAllowList = []\<rparr>,
      storageArgs =
        \<lparr>Consumer = [], MaxValueSize = 0, NatsReplicas = 0, TokensTTL = 0, StorageHost =
         [], StorageUser = [], StoragePassword = []\<rparr>,
      tokenSvcArgs =
        \<lparr>TokenCipherKey = [], TokenExchangePath = [], TokenHeader = [], TokenHost = [],
         TokenServiceAdmin = [], OauthExchangePath = [], OauthProxy = [], OauthRedirectURL = [],
         SubtokenHeader = [], SubtokenPath = [], DevHostHeader = [], TokenHeaderDebug =
         False\<rparr>,
      webArgs =
        \<lparr>ServerAddress = [], GRPCKeepaliveTime = 0, GRPCKeepaliveTimeout = 0,
         GRPCKeepaliveMinTime = 0, GRPCMaxConcurrentStreams = 0, MaxRecvMsgSize = 0,
         MaxSendMsgSize = 0\<rparr>,
      xdsArgs =
        \<lparr>AuthCluster = [], AuthTimeout = 0, AuthMaxBytes = 0, ClusterName = [],
         CollectorCluster = [], CollectorEnabled = False, CollectorService = [], ConnectTimeout =
         0, EnableWebSocket = False, IdleTimeout = 0, RequestTimeout = 0, MaxStreamDuration = 0,
         NodeName = [], ListenerPort = 0, ListenerAddress = [], xdsVersionHeader = False,
         AllAuthHeaders = False\<rparr>\<rparr>"

text \<open>The actions that tie a flag to \<^verbatim>\<open>--development\<close>.\<close>

definition develActionBool :: "string \<Rightarrow> app \<Rightarrow> flagval \<Rightarrow> gerror option" where
  "develActionBool name c v =
     (case v of
        FBool enabled \<Rightarrow>
          if enabled \<and> \<not> Development (globalArgs c)
          then Some (''the --development flag must be set to enable --'' @ name) else None
      | _ \<Rightarrow> None)"

definition develActionString :: "string \<Rightarrow> app \<Rightarrow> flagval \<Rightarrow> gerror option" where
  "develActionString name c v =
     (case v of
        FStr s \<Rightarrow>
          if s \<noteq> [] \<and> \<not> Development (globalArgs c)
          then Some (''the --development flag must be set to enable --'' @ name) else None
      | _ \<Rightarrow> None)"

text \<open>The default of \<^verbatim>\<open>consumer-name\<close>, from \<^verbatim>\<open>os.Hostname\<close>.\<close>

definition defaultConsumer :: "string result \<Rightarrow> string" where
  "defaultConsumer hostname = (case hostname of Inl _ \<Rightarrow> ''localhost'' | Inr h \<Rightarrow> h)"

section \<open>Flag tables\<close>

definition GlobalFlags :: "app flag list \<Rightarrow> app flag list" where
  "GlobalFlags f =
     f @
     [boolFlag ''development'' (envWrapper [''DEVELOPMENT'']) False False noAction
        (Development \<circ> globalArgs) (\<lambda>v. globalArgs_update (Development_update (\<lambda>_. v)))]"

definition CacherFlags :: "app flag list \<Rightarrow> app flag list" where
  "CacherFlags f =
     f @
     [intFlag ''max-failures'' (envWrapper [''MAX_FAILURES'']) 8 False noAction
        (MaxFailures \<circ> cacheArgs) (\<lambda>v. cacheArgs_update (MaxFailures_update (\<lambda>_. v))),
      durFlag ''route-refresh'' (envWrapper [''ROUTE_REFRESH'']) (2 * Minute) False noAction
        (RouteRefresh \<circ> cacheArgs) (\<lambda>v. cacheArgs_update (RouteRefresh_update (\<lambda>_. v)))]"

definition LoggingFlags :: "string \<Rightarrow> app flag list \<Rightarrow> app flag list" where
  "LoggingFlags defServiceName f =
     f @
     [boolFlag ''logging-disable'' (envWrapper [''LOGGING_DISABLE'']) False False noAction
        (LoggingDisable \<circ> loggingArgs) (\<lambda>v. loggingArgs_update (LoggingDisable_update (\<lambda>_. v))),
      strFlag ''logging-level'' (envWrapper [''LOGGING_LEVEL'']) ''info'' False noAction
        (LoggingLevel \<circ> loggingArgs) (\<lambda>v. loggingArgs_update (LoggingLevel_update (\<lambda>_. v))),
      strFlag ''logging-location'' (envWrapper [''LOGGING_LOCATION'']) ''stdout'' False noAction
        (LoggingLocation \<circ> loggingArgs) (\<lambda>v. loggingArgs_update (LoggingLocation_update (\<lambda>_. v))),
      strFlag ''logging-network'' (envWrapper [''LOGGING_NETWORK'']) [] False noAction
        (LoggingNetwork \<circ> loggingArgs) (\<lambda>v. loggingArgs_update (LoggingNetwork_update (\<lambda>_. v))),
      strFlag ''logging-address'' (envWrapper [''LOGGING_ADDRESS'']) [] False noAction
        (LoggingAddress \<circ> loggingArgs) (\<lambda>v. loggingArgs_update (LoggingAddress_update (\<lambda>_. v)))] @
     (if defServiceName \<noteq> [] then
       [strFlag ''otel-endpoint'' (envWrapper [''OTEL_ENDPOINT'']) [] False noAction
          (OtelEndpoint \<circ> loggingArgs) (\<lambda>v. loggingArgs_update (OtelEndpoint_update (\<lambda>_. v))),
        boolFlag ''otel-insecure'' (envWrapper [''OTEL_INSECURE'']) True False noAction
          (OtelInsecure \<circ> loggingArgs) (\<lambda>v. loggingArgs_update (OtelInsecure_update (\<lambda>_. v))),
        strFlag ''otel-service'' (envWrapper [''OTEL_SERVICE_NAME'']) defServiceName False noAction
          (OtelService \<circ> loggingArgs) (\<lambda>v. loggingArgs_update (OtelService_update (\<lambda>_. v)))]
      else [])"

definition RouteRegistryFlags :: "app flag list \<Rightarrow> app flag list" where
  "RouteRegistryFlags f =
     f @
     [strFlag ''registry-host'' (envWrapper [''REGISTRY_HOST'']) [] True validateURLAction
        (RegistryHost \<circ> routeRegArgs) (\<lambda>v. routeRegArgs_update (RegistryHost_update (\<lambda>_. v))),
      strFlag ''route-path'' (envWrapper [''ROUTE_PATH'']) ''/api/v1/route'' False noAction
        (RoutePath \<circ> routeRegArgs) (\<lambda>v. routeRegArgs_update (RoutePath_update (\<lambda>_. v))),
      durFlag ''registry-duration'' (envWrapper [''REGISTRY_DURATION'']) (10 * Second) False noAction
        (RegistryDuration \<circ> routeRegArgs) (\<lambda>v. routeRegArgs_update (RegistryDuration_update (\<lambda>_. v))),
      boolFlag ''registry-fetch'' (envWrapper [''ROUTE_FETCH'']) False False noAction
        (RegistryFetch \<circ> routeRegArgs) (\<lambda>v. routeRegArgs_update (RegistryFetch_update (\<lambda>_. v))),
      strFlag ''static-config'' (envWrapper [''STATIC_CONFIG'']) [] False noAction
        (StaticCfg \<circ> routeRegArgs) (\<lambda>v. routeRegArgs_update (StaticCfg_update (\<lambda>_. v))),
      strsFlag ''redirect-allowlist'' (envWrapper [''REDIRECT_ALLOWLIST'']) [] False noAction
        (RedirectAllowList \<circ> routeRegArgs) (\<lambda>v. routeRegArgs_update (RedirectAllowList_update (\<lambda>_. v)))]"

definition StorageFlags :: "string \<Rightarrow> app flag list \<Rightarrow> app flag list" where
  "StorageFlags host f =
     f @
     [strFlag ''consumer-name'' (envWrapper [''CONSUMER_NAME'']) host False noAction
        (Consumer \<circ> storageArgs) (\<lambda>v. storageArgs_update (Consumer_update (\<lambda>_. v))),
      intFlag ''max-value-size'' (envWrapper [''NATS_MAX_VALUE_SIZE'']) (8 * 1024 * 1024) False noAction
        (MaxValueSize \<circ> storageArgs) (\<lambda>v. storageArgs_update (MaxValueSize_update (\<lambda>_. v))),
      intFlag ''nats-replicas'' (envWrapper [''NATS_REPLICAS'']) 1 False noAction
        (NatsReplicas \<circ> storageArgs) (\<lambda>v. storageArgs_update (NatsReplicas_update (\<lambda>_. v))),
      durFlag ''tokens-ttl'' (envWrapper [''TOKENS_TTL'']) (5 * Minute) False noAction
        (TokensTTL \<circ> storageArgs) (\<lambda>v. storageArgs_update (TokensTTL_update (\<lambda>_. v))),
      strFlag ''storage-host'' (envWrapper [''STORAGE_HOST'']) [] True noAction
        (StorageHost \<circ> storageArgs) (\<lambda>v. storageArgs_update (StorageHost_update (\<lambda>_. v))),
      strFlag ''storage-user'' (envWrapper [''STORAGE_USER'']) [] False noAction
        (StorageUser \<circ> storageArgs) (\<lambda>v. storageArgs_update (StorageUser_update (\<lambda>_. v))),
      strFlag ''storage-password'' (envWrapper [''STORAGE_PASSWORD'']) [] False noAction
        (StoragePassword \<circ> storageArgs) (\<lambda>v. storageArgs_update (StoragePassword_update (\<lambda>_. v)))]"

definition TokenServiceFlags :: "app flag list \<Rightarrow> app flag list" where
  "TokenServiceFlags f =
     f @
     [strFlag ''token-cipher-key'' (envWrapper [''TOKEN_CIPHER_KEY'']) [] False noAction
        (TokenCipherKey \<circ> tokenSvcArgs) (\<lambda>v. tokenSvcArgs_update (TokenCipherKey_update (\<lambda>_. v))),
      strFlag ''token-exchange-path'' (envWrapper [''TOKEN_EXCHANGE_PATH'']) ''/api/v1/token/jwt'' False noAction
        (TokenExchangePath \<circ> tokenSvcArgs) (\<lambda>v. tokenSvcArgs_update (TokenExchangePath_update (\<lambda>_. v))),
      strFlag ''token-header'' (envWrapper [''TOKEN_HEADER'']) ''x-token'' False noAction
        (TokenHeader \<circ> tokenSvcArgs) (\<lambda>v. tokenSvcArgs_update (TokenHeader_update (\<lambda>_. v))),
      strFlag ''token-host'' (envWrapper [''TOKEN_HOST'']) [] True validateURLAction
        (TokenHost \<circ> tokenSvcArgs) (\<lambda>v. tokenSvcArgs_update (TokenHost_update (\<lambda>_. v))),
      strFlag ''token-service-admin'' (envWrapper [''TOKEN_SERVICE_ADMIN'']) [] False noAction
        (TokenServiceAdmin \<circ> tokenSvcArgs) (\<lambda>v. tokenSvcArgs_update (TokenServiceAdmin_update (\<lambda>_. v))),
      strFlag ''oauth-exchange-path'' (envWrapper [''OAUTH_EXCHANGE_PATH'']) ''/api/v1/mfa/jwt'' False noAction
        (OauthExchangePath \<circ> tokenSvcArgs) (\<lambda>v. tokenSvcArgs_update (OauthExchangePath_update (\<lambda>_. v))),
      strFlag ''oauth-proxy'' (envWrapper [''OAUTH_PROXY'']) [] False validateURLAction
        (OauthProxy \<circ> tokenSvcArgs) (\<lambda>v. tokenSvcArgs_update (OauthProxy_update (\<lambda>_. v))),
      strFlag ''oauth-redirect-url'' (envWrapper [''OAUTH_REDIRECT_URL'']) [] False validateURLAction
        (OauthRedirectURL \<circ> tokenSvcArgs) (\<lambda>v. tokenSvcArgs_update (OauthRedirectURL_update (\<lambda>_. v))),
      strFlag ''subtoken-header'' (envWrapper [''SUBTOKEN_HEADER'']) ''x-subtoken'' False noAction
        (SubtokenHeader \<circ> tokenSvcArgs) (\<lambda>v. tokenSvcArgs_update (SubtokenHeader_update (\<lambda>_. v))),
      strFlag ''subtoken-path'' (envWrapper [''SUBTOKEN_PATH'']) ''/api/v1/admin/token'' False noAction
        (SubtokenPath \<circ> tokenSvcArgs) (\<lambda>v. tokenSvcArgs_update (SubtokenPath_update (\<lambda>_. v))),
      strFlag ''dev-host-header'' (envWrapper [''DEV_HOST_HEADER'']) [] False (develActionString ''dev-host-header'')
        (DevHostHeader \<circ> tokenSvcArgs) (\<lambda>v. tokenSvcArgs_update (DevHostHeader_update (\<lambda>_. v))),
      boolFlag ''token-header-debug'' (envWrapper [''TOKEN_HEADER_DEBUG'']) False False (develActionBool ''token-header-debug'')
        (TokenHeaderDebug \<circ> tokenSvcArgs) (\<lambda>v. tokenSvcArgs_update (TokenHeaderDebug_update (\<lambda>_. v)))]"

definition WebServerFlags :: "string \<Rightarrow> bool \<Rightarrow> app flag list \<Rightarrow> app flag list" where
  "WebServerFlags defAddress grpc f =
     f @
     [strFlag ''address'' (envWrapper [''ADDRESS'']) defAddress False noAction
        (ServerAddress \<circ> webArgs) (\<lambda>v. webArgs_update (ServerAddress_update (\<lambda>_. v)))] @
     (if grpc then
       [durFlag ''grpc-keepalive-time'' (envWrapper [''GRPC_KEEPALIVE_TIME'']) (30 * Second) False noAction
          (GRPCKeepaliveTime \<circ> webArgs) (\<lambda>v. webArgs_update (GRPCKeepaliveTime_update (\<lambda>_. v))),
        durFlag ''grpc-keepalive-timeout'' (envWrapper [''GRPC_KEEPALIVE_TIMEOUT'']) (5 * Second) False noAction
          (GRPCKeepaliveTime \<circ> webArgs) (\<lambda>v. webArgs_update (GRPCKeepaliveTime_update (\<lambda>_. v))),
        durFlag ''grpc-keepalive-min-time'' (envWrapper [''GRPC_KEEPALIVE_MIN_TIME'']) (30 * Second) False noAction
          (GRPCKeepaliveTime \<circ> webArgs) (\<lambda>v. webArgs_update (GRPCKeepaliveTime_update (\<lambda>_. v))),
        wordFlag ''grpc-max-concurrent-streams'' (envWrapper [''GRPC_MAX_CONCURRENT_STREAMS'']) 1000 False noAction
          (GRPCMaxConcurrentStreams \<circ> webArgs) (\<lambda>v. webArgs_update (GRPCMaxConcurrentStreams_update (\<lambda>_. v))),
        intFlag ''grpc-max-msg-recv'' (envWrapper [''GRPC_MAX_RECV_MSG_SIZE'']) 10485760 False noAction
          (MaxRecvMsgSize \<circ> webArgs) (\<lambda>v. webArgs_update (MaxRecvMsgSize_update (\<lambda>_. v))),
        intFlag ''grpc-max-msg-send'' (envWrapper [''GRPC_MAX_SEND_MSG_SIZE'']) 10485760 False noAction
          (MaxSendMsgSize \<circ> webArgs) (\<lambda>v. webArgs_update (MaxSendMsgSize_update (\<lambda>_. v)))]
      else [])"

definition XDSFlags :: "app flag list \<Rightarrow> app flag list" where
  "XDSFlags f =
     f @
     [strFlag ''auth-cluster'' (envWrapper [''AUTH_CLUSTER'']) ''auth_service'' False noAction
        (AuthCluster \<circ> xdsArgs) (\<lambda>v. xdsArgs_update (AuthCluster_update (\<lambda>_. v))),
      durFlag ''auth-timeout'' (envWrapper [''AUTH_TIMEOUT'']) (5 * Second) False noAction
        (AuthTimeout \<circ> xdsArgs) (\<lambda>v. xdsArgs_update (AuthTimeout_update (\<lambda>_. v))),
      wordFlag ''auth-max-bytes'' (envWrapper [''AUTH_MAX_BYTES'']) 8192 False noAction
        (AuthMaxBytes \<circ> xdsArgs) (\<lambda>v. xdsArgs_update (AuthMaxBytes_update (\<lambda>_. v))),
      strFlag ''xds-cluster'' (envWrapper [''XDS_CLUSTER_NAME'']) ''xds_cluster'' False noAction
        (ClusterName \<circ> xdsArgs) (\<lambda>v. xdsArgs_update (ClusterName_update (\<lambda>_. v))),
      durFlag ''connect-timeout'' (envWrapper [''CONNECT_TIMEOUT'']) (5 * Second) False noAction
        (ConnectTimeout \<circ> xdsArgs) (\<lambda>v. xdsArgs_update (ConnectTimeout_update (\<lambda>_. v))),
      strFlag ''collector-cluster'' (envWrapper [''COLLECTOR_CLUSTER'']) ''otel_collector'' False noAction
        (CollectorCluster \<circ> xdsArgs) (\<lambda>v. xdsArgs_update (CollectorCluster_update (\<lambda>_. v))),
      boolFlag ''collector-enabled'' (envWrapper [''COLLECTOR_ENABLED'']) False False noAction
        (CollectorEnabled \<circ> xdsArgs) (\<lambda>v. xdsArgs_update (CollectorEnabled_update (\<lambda>_. v))),
      strFlag ''collector-service'' (envWrapper [''COLLECTOR_SERVICE'']) ''wormhole-envoy'' False noAction
        (CollectorService \<circ> xdsArgs) (\<lambda>v. xdsArgs_update (CollectorService_update (\<lambda>_. v))),
      boolFlag ''enable-websocket'' (envWrapper [''ENABLE_WEBSOCKET'']) False False noAction
        (EnableWebSocket \<circ> xdsArgs) (\<lambda>v. xdsArgs_update (EnableWebSocket_update (\<lambda>_. v))),
      durFlag ''idle-timeout'' (envWrapper [''IDLE_TIMEOUT'']) (30 * Minute) False noAction
        (IdleTimeout \<circ> xdsArgs) (\<lambda>v. xdsArgs_update (IdleTimeout_update (\<lambda>_. v))),
      durFlag ''request-timeout'' (envWrapper [''REQUEST_TIMEOUT'']) (90 * Second) False noAction
        (RequestTimeout \<circ> xdsArgs) (\<lambda>v. xdsArgs_update (RequestTimeout_update (\<lambda>_. v))),
      durFlag ''max-stream-duration'' (envWrapper [''MAX_STREAM_DURATION'']) (12 * Hour) False noAction
        (MaxStreamDuration \<circ> xdsArgs) (\<lambda>v. xdsArgs_update (MaxStreamDuration_update (\<lambda>_. v))),
      strFlag ''node-name'' (envWrapper [''NODE_NAME'']) ''wormhole-node'' False noAction
        (NodeName \<circ> xdsArgs) (\<lambda>v. xdsArgs_update (NodeName_update (\<lambda>_. v))),
      wordFlag ''listener-port'' (envWrapper [''LISTENER_PORT'']) 3128 False noAction
        (ListenerPort \<circ> xdsArgs) (\<lambda>v. xdsArgs_update (ListenerPort_update (\<lambda>_. v))),
      strFlag ''listener-address'' (envWrapper [''LISTENER_ADDRESS'']) ''0.0.0.0'' False noAction
        (ListenerAddress \<circ> xdsArgs) (\<lambda>v. xdsArgs_update (ListenerAddress_update (\<lambda>_. v))),
      boolFlag ''version-header'' (envWrapper [''VERSION_HEADER'']) False False noAction
        (xdsVersionHeader \<circ> xdsArgs) (\<lambda>v. xdsArgs_update (xdsVersionHeader_update (\<lambda>_. v))),
      boolFlag ''all-auth-headers'' (envWrapper [''ALL_AUTH_HEADERS'']) False False (develActionBool ''all-auth-headers'')
        (AllAuthHeaders \<circ> xdsArgs) (\<lambda>v. xdsArgs_update (AllAuthHeaders_update (\<lambda>_. v)))]"

text \<open>\<^verbatim>\<open>GetValueOrFile\<close>: a value, or the contents of the file it names; \<open>readFile\<close> is \<^verbatim>\<open>os.ReadFile\<close>.\<close>

definition GetValueOrFile :: "(string \<Rightarrow> string result) \<Rightarrow> string \<Rightarrow> string" where
  "GetValueOrFile readFile proposedValue =
     (let v = TrimSpace proposedValue in
      if v = [] then []
      else case readFile (path_Clean v) of Inr b \<Rightarrow> TrimSpace b | Inl _ \<Rightarrow> v)"

section \<open>Commands\<close>

definition xdsCommand :: "string \<Rightarrow> app flag list" where
  "xdsCommand host =
     XDSFlags (TokenServiceFlags (WebServerFlags '':8080'' True (StorageFlags host
       (RouteRegistryFlags (LoggingFlags ''holepunch-xds'' [])))))"

definition authCmd :: "string \<Rightarrow> app flag list" where
  "authCmd host =
     TokenServiceFlags (WebServerFlags '':8081'' True (StorageFlags host
       (RouteRegistryFlags (LoggingFlags ''holepunch-auth'' []))))"

definition adminCmd :: "string \<Rightarrow> app flag list" where
  "adminCmd host =
     TokenServiceFlags (WebServerFlags '':8082'' False (StorageFlags host
       (RouteRegistryFlags (LoggingFlags ''holepunch-admin'' []))))"

definition cacherCmd :: "string \<Rightarrow> app flag list" where
  "cacherCmd host =
     CacherFlags (RouteRegistryFlags (StorageFlags host (LoggingFlags [] [])))"

section \<open>Running the flags\<close>

definition setDefaults :: "'c flag list \<Rightarrow> 'c \<Rightarrow> 'c" where
  "setDefaults fs c = fold (\<lambda>f. fDest f (fDefault f)) fs c"

definition setArg :: "'c flag list \<Rightarrow> string \<times> flagval \<Rightarrow> 'c \<Rightarrow> 'c" where
  "setArg fs a c =
     (case List.find (\<lambda>f. fName f = fst a) fs of None \<Rightarrow> c | Some f \<Rightarrow> fDest f (snd a) c)"

definition envValue :: "(string \<Rightarrow> flagval option) \<Rightarrow> 'c flag \<Rightarrow> flagval option" where
  "envValue env f = List.find (\<lambda>_. True) (List.map_filter env (fEnv f))"

definition setEnv :: "string list \<Rightarrow> (string \<Rightarrow> flagval option) \<Rightarrow> 'c flag \<Rightarrow> 'c \<Rightarrow> 'c" where
  "setEnv given env f c =
     (if fName f \<in> set given then c
      else case envValue env f of None \<Rightarrow> c | Some v \<Rightarrow> fDest f v c)"

definition isSet :: "string list \<Rightarrow> (string \<Rightarrow> flagval option) \<Rightarrow> 'c flag \<Rightarrow> bool" where
  "isSet given env f = (fName f \<in> set given \<or> envValue env f \<noteq> None)"

definition writeFlags ::
    "'c flag list \<Rightarrow> (string \<times> flagval) list \<Rightarrow> (string \<Rightarrow> flagval option) \<Rightarrow> 'c \<Rightarrow> 'c" where
  "writeFlags fs args env c =
     fold (setEnv (map fst args) env) fs (fold (setArg fs) args (setDefaults fs c))"

definition runFlags ::
    "'c flag list \<Rightarrow> (string \<times> flagval) list \<Rightarrow> (string \<Rightarrow> flagval option) \<Rightarrow> 'c \<Rightarrow> 'c result" where
  "runFlags fs args env c =
     (let c' = writeFlags fs args env c;
          given = filter (isSet (map fst args) env) fs
      in case List.map_filter (\<lambda>f. fAction f c' (fGet f c')) given of
           e # _ \<Rightarrow> Inl e
         | [] \<Rightarrow>
             (case filter (\<lambda>f. fRequired f \<and> \<not> isSet (map fst args) env f) fs of
                f # _ \<Rightarrow> Inl (''Required flag not set: '' @ fName f)
              | [] \<Rightarrow> Inr c'))"

section \<open>Facts\<close>

lemma find_flagD: "List.find P fs = Some f \<Longrightarrow> f \<in> set fs \<and> P f"
  by (auto simp: find_Some_iff)

text \<open>A quantity that no flag's destination touches keeps its value.\<close>

lemma writeFlags_keeps:
  assumes "\<And>f v c. f \<in> set fs \<Longrightarrow> q (fDest f v c) = q c"
  shows "q (writeFlags fs args env c) = q c"
proof -
  have def: "q (fold (\<lambda>f. fDest f (fDefault f)) gs c) = q c" if "set gs \<subseteq> set fs" for gs c
    using that by (induction gs arbitrary: c) (simp_all add: assms)
  have arg: "q (setArg fs a c) = q c" for a c
  proof (cases "List.find (\<lambda>f. fName f = fst a) fs")
    case (Some f)
    then show ?thesis using assms find_flagD [OF Some] by (simp add: setArg_def)
  qed (simp add: setArg_def)
  have args: "q (fold (setArg fs) as c) = q c" for as c
    by (induction as arbitrary: c) (simp_all add: arg)
  have env: "q (fold (setEnv given env) gs c) = q c" if "set gs \<subseteq> set fs" for gs given c
    using that by (induction gs arbitrary: c) (simp_all add: assms setEnv_def split: option.split)
  show ?thesis by (simp add: writeFlags_def setDefaults_def def args env)
qed

text \<open>A quantity that one flag alone writes has the default of that flag when it is not set.\<close>

lemma writeFlags_default:
  assumes f: "f \<in> set fs" "\<not> isSet (map fst args) env f"
    and other: "\<And>g v c. g \<in> set fs \<Longrightarrow> fName g \<noteq> fName f \<Longrightarrow> q (fDest g v c) = q c"
    and same: "\<And>g. g \<in> set fs \<Longrightarrow> fName g = fName f \<Longrightarrow> g = f"
    and own: "\<And>c. q (fDest f (fDefault f) c) = d"
  shows "q (writeFlags fs args env c) = d"
proof -
  have def: "q (fold (\<lambda>g. fDest g (fDefault g)) gs c) = (if f \<in> set gs then d else q c)"
    if "set gs \<subseteq> set fs" for gs c
    using that
  proof (induction gs arbitrary: c)
    case (Cons g gs)
    show ?case
    proof (cases "fName g = fName f")
      case True
      then have "g = f" using Cons.prems same by simp
      then show ?thesis using Cons by (simp add: own)
    next
      case False
      then have "g \<noteq> f" "q (fDest g (fDefault g) c) = q c" using Cons.prems other by auto
      then show ?thesis using Cons by simp
    qed
  qed simp
  have arg: "q (setArg fs a c) = q c" if "fst a \<noteq> fName f" for a c
  proof (cases "List.find (\<lambda>f. fName f = fst a) fs")
    case (Some g)
    then show ?thesis using that other find_flagD [OF Some] by (simp add: setArg_def)
  qed (simp add: setArg_def)
  have args: "q (fold (setArg fs) as c) = q c" if "fName f \<notin> fst ` set as" for as c
    using that by (induction as arbitrary: c) (auto simp: arg)
  have env: "q (setEnv (map fst args) env g c) = q c" if "g \<in> set fs" for g c
  proof (cases "fName g = fName f")
    case True
    then have "g = f" using that same by simp
    then show ?thesis using f(2) by (simp add: setEnv_def isSet_def)
  qed (use that other in \<open>simp add: setEnv_def split: option.split\<close>)
  have envs: "q (fold (setEnv (map fst args) env) gs c) = q c" if "set gs \<subseteq> set fs" for gs c
    using that by (induction gs arbitrary: c) (simp_all add: env)
  show ?thesis using f by (simp add: writeFlags_def setDefaults_def def args envs isSet_def)
qed

lemma runFlags_Inr: "runFlags fs args env c = Inr c' \<Longrightarrow> c' = writeFlags fs args env c"
  by (auto simp: runFlags_def Let_def split: list.splits)

lemma runFlags_action:
  assumes "runFlags fs args env c = Inr c'" "f \<in> set fs" "isSet (map fst args) env f"
  shows "fAction f c' (fGet f c') = None"
proof -
  have "List.map_filter (\<lambda>f. fAction f c' (fGet f c')) (filter (isSet (map fst args) env) fs) = []"
    using assms(1) runFlags_Inr [OF assms(1)] by (auto simp: runFlags_def Let_def split: list.splits)
  then show ?thesis using assms(2,3) by (auto simp: List.map_filter_def filter_empty_conv)
qed

lemma runFlags_required:
  assumes "runFlags fs args env c = Inr c'" "f \<in> set fs" "fRequired f"
  shows "isSet (map fst args) env f"
proof -
  have "filter (\<lambda>f. fRequired f \<and> \<not> isSet (map fst args) env f) fs = []"
    using assms(1) by (auto simp: runFlags_def Let_def split: list.splits)
  then show ?thesis using assms(2,3) by (auto simp: filter_empty_conv)
qed

end
