(* ===== verification/GoTime.thy ===== *)
theory GoTime
  imports GoPrelude
begin

text \<open>
  The texts of durations and instants of the standard library package \<^verbatim>\<open>time\<close>: \<^verbatim>\<open>Duration.String\<close> and
  the layout \<^verbatim>\<open>RFC3339Nano\<close>, which error messages, log attributes and spans contain.  A duration is a
  number of nanoseconds; an instant is given by its Unix seconds, its nanoseconds and the offset of
  its time zone in seconds.
\<close>

definition pad0 :: "nat \<Rightarrow> nat \<Rightarrow> string" where
  "pad0 width n = (let s = itoa n in replicate (width - length s) CHR ''0'' @ s)"

text \<open>A fraction of \<open>prec\<close> digits without its trailing zeros, and without the point if it is zero.\<close>

definition fmtFrac :: "nat \<Rightarrow> nat \<Rightarrow> string" where
  "fmtFrac prec v =
     (let ds = rev (dropWhile (\<lambda>c. c = CHR ''0'') (rev (pad0 prec (v mod 10 ^ prec))))
      in if ds = [] then [] else CHR ''.'' # ds)"

definition unitText :: "nat \<Rightarrow> nat \<Rightarrow> string \<Rightarrow> string" where
  "unitText prec u name = itoa (u div 10 ^ prec) @ fmtFrac prec u @ name"

definition micro :: string where
  "micro = [char_of (194 :: nat), char_of (181 :: nat), CHR ''s'']"

definition duration_String :: "int \<Rightarrow> string" where
  "duration_String d =
     (let u = nat \<bar>d\<bar>; sign = (if d < 0 then ''-'' else []); secs = u div 10 ^ 9; mins = secs div 60 in
      if u = 0 then ''0s''
      else if u < 10 ^ 3 then sign @ unitText 0 u ''ns''
      else if u < 10 ^ 6 then sign @ unitText 3 u micro
      else if u < 10 ^ 9 then sign @ unitText 6 u ''ms''
      else sign
        @ (if mins = 0 then []
           else (if mins div 60 = 0 then [] else itoa (mins div 60) @ ''h'') @ itoa (mins mod 60) @ ''m'')
        @ itoa (secs mod 60) @ fmtFrac 9 u @ ''s'')"

text \<open>Year, month and day of a number of days since 1970-01-01 in the Gregorian calendar.\<close>

definition civil :: "int \<Rightarrow> int \<times> nat \<times> nat" where
  "civil days =
     (let z = days + 719468; era = z div 146097; doe = z mod 146097;
          yoe = (doe - doe div 1460 + doe div 36524 - doe div 146096) div 365;
          doy = doe - (365 * yoe + yoe div 4 - yoe div 100);
          mp = (5 * doy + 2) div 153;
          d = doy - (153 * mp + 2) div 5 + 1;
          m = (if mp < 10 then mp + 3 else mp - 9)
      in (yoe + era * 400 + (if m \<le> 2 then 1 else 0), nat m, nat d))"

definition fmtZone :: "int \<Rightarrow> string" where
  "fmtZone offset =
     (let m = nat \<bar>offset\<bar> div 60 in
      if offset = 0 then ''Z''
      else (if offset < 0 then ''-'' else ''+'') @ pad0 2 (m div 60) @ '':'' @ pad0 2 (m mod 60))"

definition RFC3339Nano :: "int \<Rightarrow> nat \<Rightarrow> int \<Rightarrow> string" where
  "RFC3339Nano unixSec nsec offset =
     (let t = unixSec + offset; (y, m, d) = civil (t div 86400); s = nat (t mod 86400) in
      (if y < 0 then ''-'' else []) @ pad0 4 (nat \<bar>y\<bar>) @ ''-'' @ pad0 2 m @ ''-'' @ pad0 2 d @ ''T''
        @ pad0 2 (s div 3600) @ '':'' @ pad0 2 (s div 60 mod 60) @ '':'' @ pad0 2 (s mod 60)
        @ fmtFrac 9 nsec @ fmtZone offset)"

end
