(* ===== verification/Streams.thy ===== *)
theory Streams
  imports Args GoTime
begin

text \<open>
  \<^verbatim>\<open>internal/ctls/streams\<close>: the key-value store (\<^verbatim>\<open>kvstore.go\<close>), the route stream (\<^verbatim>\<open>pubsub.go\<close>)
  and their set-up on a NATS connection (\<^verbatim>\<open>streams.go\<close>).

  The NATS client is not part of the program: a bucket, a stream and the JetStream context are
  records of their operations over the state \<^typ>\<open>'w\<close> of the world. What the documentation
  promises of a bucket is the locale \<open>bucket\<close> (what a successful operation did) and
  \<open>bucket_up\<close> (valid keys are served); of the route stream, \<open>route_stream\<close>. The store that
  Holepunch builds on a bucket satisfies the locale \<open>kvstore\<close>, the contract of the interface
  \<^verbatim>\<open>KVStore\<close>, by a sublocale declaration. A bucket and a stream kept in memory satisfy the
  documented behaviour, so the laws can hold together.
\<close>

section \<open>The key-value store\<close>

record 'w bucket =
  bkGet :: "string \<Rightarrow> 'w \<Rightarrow> (payload \<times> nat) result \<times> 'w"
  bkPut :: "string \<Rightarrow> payload \<Rightarrow> 'w \<Rightarrow> nat result \<times> 'w"
  bkUpdate :: "string \<Rightarrow> payload \<Rightarrow> nat \<Rightarrow> 'w \<Rightarrow> nat result \<times> 'w"
  bkDelete :: "string \<Rightarrow> 'w \<Rightarrow> unit result \<times> 'w"
  bkWatchAll :: "'w \<Rightarrow> string option list result \<times> 'w"

text \<open>A watcher delivers the keys of the snapshot, then nil.\<close>

fun snapshotKeys :: "string option list \<Rightarrow> string list" where
  "snapshotKeys [] = []"
| "snapshotKeys (None # us) = []"
| "snapshotKeys (Some k # us) = k # snapshotKeys us"

definition kv_AllKeys :: "'w bucket \<Rightarrow> 'w \<Rightarrow> string list result \<times> 'w" where
  "kv_AllKeys kv w =
     (case bkWatchAll kv w of
        (Inl e, w') \<Rightarrow> (Inl e, w')
      | (Inr us, w') \<Rightarrow> (Inr (snapshotKeys us), w'))"

definition kv_Delete :: "'w bucket \<Rightarrow> string \<Rightarrow> 'w \<Rightarrow> unit result \<times> 'w" where
  "kv_Delete kv key w = bkDelete kv key w"

text \<open>\<open>dec\<close> decodes into the caller's variable.\<close>

definition kv_Get :: "'w bucket \<Rightarrow> (json \<Rightarrow> 'a result) \<Rightarrow> string \<Rightarrow> 'w \<Rightarrow> 'a result \<times> 'w" where
  "kv_Get kv dec key w =
     (case bkGet kv key w of
        (Inl e, w') \<Rightarrow> (Inl e, w')
      | (Inr (b, rv), w') \<Rightarrow> (unmarshal dec b, w'))"

definition kv_GetWithRevision ::
    "'w bucket \<Rightarrow> (json \<Rightarrow> 'a result) \<Rightarrow> string \<Rightarrow> 'w \<Rightarrow> ('a \<times> nat) result \<times> 'w" where
  "kv_GetWithRevision kv dec key w =
     (case bkGet kv key w of
        (Inl e, w') \<Rightarrow> (Inl e, w')
      | (Inr (b, rv), w') \<Rightarrow>
          (case unmarshal dec b of Inl e \<Rightarrow> (Inl e, w') | Inr v \<Rightarrow> (Inr (v, rv), w')))"

text \<open>\<open>val\<close> is the outcome of \<^verbatim>\<open>json.Marshal\<close>.\<close>

definition kv_Put :: "'w bucket \<Rightarrow> string \<Rightarrow> json result \<Rightarrow> 'w \<Rightarrow> unit result \<times> 'w" where
  "kv_Put kv key val w =
     (case val of
        Inl e \<Rightarrow> (Inl e, w)
      | Inr b \<Rightarrow>
          (case bkPut kv key (Some b) w of
             (Inl e, w') \<Rightarrow> (Inl e, w') | (Inr rv, w') \<Rightarrow> (Inr (), w')))"

definition kv_UpdateWithRevision ::
    "'w bucket \<Rightarrow> string \<Rightarrow> json result \<Rightarrow> nat \<Rightarrow> 'w \<Rightarrow> unit result \<times> 'w" where
  "kv_UpdateWithRevision kv key val rv w =
     (case val of
        Inl e \<Rightarrow> (Inl e, w)
      | Inr b \<Rightarrow>
          (case bkUpdate kv key (Some b) rv w of
             (Inl e, w') \<Rightarrow> (Inl e, w') | (Inr rv2, w') \<Rightarrow> (Inr (), w')))"

text \<open>The keys a bucket accepts.\<close>

definition keyValid :: "string \<Rightarrow> bool" where
  "keyValid key =
     (key \<noteq> [] \<and> hd key \<noteq> CHR ''.'' \<and> last key \<noteq> CHR ''.'' \<and> list_all nats_key_char key)"

section \<open>Contracts of the store\<close>

text \<open>
  \<open>store w\<close> is the content of the bucket in the state \<open>w\<close>: the live value of each key with its
  revision. A failed write may or may not have taken effect, on its key alone.
\<close>

locale bucket =
  fixes kv :: "'w bucket" and store :: "'w \<Rightarrow> string \<rightharpoonup> payload \<times> nat"
  assumes get_sound: "bkGet kv k w = (Inr x, w') \<Longrightarrow> store w k = Some x"
    and get_keeps: "bkGet kv k w = (gres, w') \<Longrightarrow> store w' = store w"
    and put_ok: "bkPut kv k b w = (Inr r, w') \<Longrightarrow> store w' = (store w)(k \<mapsto> (b, r))"
    and put_frame: "bkPut kv k b w = (res, w') \<Longrightarrow> k' \<noteq> k \<Longrightarrow> store w' k' = store w k'"
    and update_ok: "bkUpdate kv k b rv w = (Inr r, w') \<Longrightarrow>
          store w' = (store w)(k \<mapsto> (b, r)) \<and> (case store w k of Some (_, r0) \<Rightarrow> r0 = rv | None \<Rightarrow> True)"
    and update_frame: "bkUpdate kv k b rv w = (res, w') \<Longrightarrow> k' \<noteq> k \<Longrightarrow> store w' k' = store w k'"
    and delete_ok: "bkDelete kv k w = (Inr u, w') \<Longrightarrow> store w' = (store w)(k := None)"
    and delete_any: "bkDelete kv k w = (dres, w') \<Longrightarrow> store w' k = store w k \<or> store w' k = None"
    and delete_frame: "bkDelete kv k w = (dres, w') \<Longrightarrow> k' \<noteq> k \<Longrightarrow> store w' k' = store w k'"

locale bucket_up = bucket +
  assumes get_live: "keyValid k \<Longrightarrow> store w k = Some x \<Longrightarrow> \<exists>w'. bkGet kv k w = (Inr x, w')"
    and put_live: "keyValid k \<Longrightarrow> \<exists>r w'. bkPut kv k b w = (Inr r, w')"
    and delete_live: "keyValid k \<Longrightarrow> \<exists>w'. bkDelete kv k w = (Inr (), w')"

text \<open>The contract of \<^verbatim>\<open>KVStore\<close>: what its clients rely on, at the level of documents.\<close>

locale kvstore =
  fixes get :: "string \<Rightarrow> 'w \<Rightarrow> json result \<times> 'w"
    and put :: "string \<Rightarrow> json result \<Rightarrow> 'w \<Rightarrow> unit result \<times> 'w"
    and del :: "string \<Rightarrow> 'w \<Rightarrow> unit result \<times> 'w"
    and doc :: "'w \<Rightarrow> string \<rightharpoonup> payload"
  assumes kget_sound: "get k w = (Inr j, w') \<Longrightarrow> doc w k = Some (Some j)"
    and kget_keeps: "get k w = (gres, w') \<Longrightarrow> doc w' = doc w"
    and kput_ok: "put k (Inr j) w = (Inr u, w') \<Longrightarrow> doc w' = (doc w)(k \<mapsto> Some j)"
    and kput_frame: "put k v w = (res, w') \<Longrightarrow> k' \<noteq> k \<Longrightarrow> doc w' k' = doc w k'"
    and kdel_ok: "del k w = (Inr u, w') \<Longrightarrow> doc w' = (doc w)(k := None)"
    and kdel_frame: "del k w = (res, w') \<Longrightarrow> k' \<noteq> k \<Longrightarrow> doc w' k' = doc w k'"
begin

lemma get_after_put:
  assumes "put k (Inr j) w = (Inr u, w1)" "get k w1 = (Inr j', w2)"
  shows "j' = j"
  using kput_ok [OF assms(1)] kget_sound [OF assms(2)] by simp

lemma get_after_del:
  assumes "del k w = (Inr u, w1)"
  shows "fst (get k w1) \<noteq> Inr j"
proof
  assume "fst (get k w1) = Inr j"
  then obtain w2 where "get k w1 = (Inr j, w2)" by (cases "get k w1") auto
  from kget_sound [OF this] show False using kdel_ok [OF assms] by simp
qed

lemma get_other_put:
  assumes "put k v w = (res, w1)" "k' \<noteq> k" "get k' w1 = (Inr j, w2)"
  shows "doc w k' = Some (Some j)"
  using kget_sound [OF assms(3)] kput_frame [OF assms(1,2)] by simp

end

definition doc_of :: "('w \<Rightarrow> string \<rightharpoonup> payload \<times> nat) \<Rightarrow> 'w \<Rightarrow> string \<rightharpoonup> payload" where
  "doc_of store w k = map_option fst (store w k)"

sublocale bucket \<subseteq> kvstore "kv_Get kv Inr" "kv_Put kv" "kv_Delete kv" "doc_of store"
proof unfold_locales
  fix k w j w' assume a: "kv_Get kv Inr k w = (Inr j, w')"
  then obtain b r where "bkGet kv k w = (Inr (b, r), w')" "unmarshal Inr b = Inr j"
    by (auto simp: kv_Get_def split: prod.splits sum.splits)
  then show "doc_of store w k = Some (Some j)"
    using get_sound by (cases b) (fastforce simp: doc_of_def)+
next
  fix k w res w' assume "kv_Get kv Inr k w = (res, w')"
  then show "doc_of store w' = doc_of store w"
    by (auto simp: kv_Get_def doc_of_def fun_eq_iff split: prod.splits sum.splits dest: get_keeps)
next
  fix k j w u w' assume "kv_Put kv k (Inr j) w = (Inr u, w')"
  then obtain r where "bkPut kv k (Some j) w = (Inr r, w')"
    by (auto simp: kv_Put_def split: prod.splits sum.splits)
  from put_ok [OF this] show "doc_of store w' = (doc_of store w)(k \<mapsto> Some j)"
    by (auto simp: doc_of_def fun_eq_iff)
next
  fix k v w res w' k' assume a: "kv_Put kv k v w = (res, w')" "k' \<noteq> k"
  then show "doc_of store w' k' = doc_of store w k'"
    by (auto simp: kv_Put_def doc_of_def split: prod.splits sum.splits dest!: put_frame [OF _ a(2)])
next
  fix k w u w' assume "kv_Delete kv k w = (Inr u, w')"
  then show "doc_of store w' = (doc_of store w)(k := None)"
    by (auto simp: kv_Delete_def doc_of_def fun_eq_iff dest: delete_ok)
next
  fix k w res w' k' assume "kv_Delete kv k w = (res, w')" "k' \<noteq> k"
  then show "doc_of store w' k' = doc_of store w k'"
    by (auto simp: kv_Delete_def doc_of_def dest: delete_frame)
qed

text \<open>Reading with a decoder is reading the document, then decoding it.\<close>

lemma kv_Get_dec:
  "kv_Get kv dec k w =
     (case kv_Get kv Inr k w of (Inl e, w') \<Rightarrow> (Inl e, w') | (Inr j, w') \<Rightarrow> (dec j, w'))
   \<or> kv_Get kv dec k w = (Inl syntax_err, snd (bkGet kv k w))"
  by (auto simp: kv_Get_def unmarshal_def split: prod.splits sum.splits option.splits)

context bucket
begin

lemma delete_doc: "doc_of store (snd (kv_Delete kv k w)) k \<in> {doc_of store w k, None}"
  using delete_any [OF surjective_pairing, of k w] by (auto simp: kv_Delete_def doc_of_def)

end

context bucket_up
begin

lemma put_then_get:
  assumes "keyValid k"
  shows "\<exists>w1 w2. kv_Put kv k (Inr j) w = (Inr (), w1) \<and> doc_of store w1 = (doc_of store w)(k \<mapsto> Some j)
    \<and> kv_Get kv dec k w1 = (dec j, w2) \<and> doc_of store w2 = doc_of store w1"
proof -
  obtain r w1 where p: "bkPut kv k (Some j) w = (Inr r, w1)" using put_live [OF assms] by blast
  have s: "store w1 = (store w)(k \<mapsto> (Some j, r))" by (rule put_ok [OF p])
  then obtain w2 where g: "bkGet kv k w1 = (Inr (Some j, r), w2)"
    using get_live [OF assms, of w1] by auto
  have "kv_Put kv k (Inr j) w = (Inr (), w1)" by (simp add: kv_Put_def p)
  moreover have "kv_Get kv dec k w1 = (dec j, w2)" by (simp add: kv_Get_def g)
  moreover have "doc_of store w2 = doc_of store w1"
    using get_keeps [OF g] by (simp add: doc_of_def fun_eq_iff)
  moreover have "doc_of store w1 = (doc_of store w)(k \<mapsto> Some j)"
    by (simp add: s doc_of_def fun_eq_iff)
  ultimately show ?thesis by blast
qed

lemma get_live_doc:
  assumes "keyValid k" "doc_of store w k = Some (Some j)"
  shows "\<exists>w'. kv_Get kv dec k w = (dec j, w') \<and> doc_of store w' = doc_of store w"
proof -
  obtain r where s: "store w k = Some (Some j, r)" using assms(2) by (auto simp: doc_of_def)
  then obtain w' where g: "bkGet kv k w = (Inr (Some j, r), w')" using get_live [OF assms(1)] by blast
  then show ?thesis using get_keeps [OF g] by (auto simp: kv_Get_def doc_of_def fun_eq_iff)
qed

end

section \<open>A bucket in memory\<close>

text \<open>
  A bucket with a history of one: the last value of each key with its sequence number. A write
  takes the next sequence number; a key that is absent is reported as not found.
\<close>

record mem =
  memKV :: "(string, payload \<times> nat) gomap"
  memSeq :: nat

definition memStore :: "'z mem_scheme \<Rightarrow> string \<rightharpoonup> payload \<times> nat" where
  "memStore w = map_of (memKV w)"

definition memBucket :: "'z mem_scheme bucket" where
  "memBucket =
     \<lparr>bkGet = (\<lambda>k w. if \<not> keyValid k then (Inl ''nats: invalid key'', w)
         else case map_of (memKV w) k of
                None \<Rightarrow> (Inl ''nats: key not found'', w) | Some x \<Rightarrow> (Inr x, w)),
      bkPut = (\<lambda>k b w. if \<not> keyValid k then (Inl ''nats: invalid key'', w)
         else let r = Suc (memSeq w) in (Inr r, w\<lparr>memKV := mput k (b, r) (memKV w), memSeq := r\<rparr>)),
      bkUpdate = (\<lambda>k b rv w. if \<not> keyValid k then (Inl ''nats: invalid key'', w)
         else case map_of (memKV w) k of
                Some (_, r0) \<Rightarrow>
                  if r0 \<noteq> rv then (Inl ''nats: wrong last sequence'', w)
                  else let r = Suc (memSeq w) in (Inr r, w\<lparr>memKV := mput k (b, r) (memKV w), memSeq := r\<rparr>)
              | None \<Rightarrow>
                  if rv \<noteq> 0 then (Inl ''nats: wrong last sequence'', w)
                  else let r = Suc (memSeq w) in (Inr r, w\<lparr>memKV := mput k (b, r) (memKV w), memSeq := r\<rparr>)),
      bkDelete = (\<lambda>k w. if \<not> keyValid k then (Inl ''nats: invalid key'', w)
         else (Inr (), w\<lparr>memKV := AList.delete k (memKV w), memSeq := Suc (memSeq w)\<rparr>)),
      bkWatchAll = (\<lambda>w. (Inr (map (Some \<circ> fst) (memKV w) @ [None]), w))\<rparr>"

interpretation mem: bucket_up memBucket memStore
  by unfold_locales
     (auto simp: memBucket_def memStore_def Let_def delete_conv'
       split: if_splits option.splits prod.splits)

lemma snapshotKeys_mem: "snapshotKeys (map Some ks @ None # us) = ks"
  by (induction ks) auto

section \<open>The route stream\<close>

record 'w jstream =
  jsPublish :: "string \<Rightarrow> payload \<Rightarrow> 'w \<Rightarrow> nat result \<times> 'w"
  jsLast :: "string \<Rightarrow> 'w \<Rightarrow> payload result \<times> 'w"

record pubsub =
  psStream :: string
  psSubject :: string

text \<open>
  \<open>v\<close> is the outcome of \<^verbatim>\<open>json.Marshal\<close>; the encoding of a document is never empty, so the
  guard against an empty message has no counterpart.
\<close>

definition marshalMsg :: "json result \<Rightarrow> payload result" where
  "marshalMsg v = (case v of Inl e \<Rightarrow> Inl e | Inr b \<Rightarrow> Inr (Some b))"

definition Publish :: "'w jstream \<Rightarrow> pubsub \<Rightarrow> json result \<Rightarrow> 'w \<Rightarrow> unit result \<times> 'w" where
  "Publish js p val w =
     (case marshalMsg val of
        Inl e \<Rightarrow> (Inl e, w)
      | Inr newData \<Rightarrow>
          (case jsPublish js (psSubject p) newData w of
             (Inl e, w') \<Rightarrow> (Inl (''failed to publish message: '' @ e), w')
           | (Inr _, w') \<Rightarrow> (Inr (), w')))"

text \<open>An error of \<^verbatim>\<open>GetLastMsgForSubject\<close> leaves no last message.\<close>

definition PublishSingleMsg :: "'w jstream \<Rightarrow> pubsub \<Rightarrow> json result \<Rightarrow> 'w \<Rightarrow> unit result \<times> 'w" where
  "PublishSingleMsg js p val w =
     (case marshalMsg val of
        Inl e \<Rightarrow> (Inl e, w)
      | Inr newData \<Rightarrow>
          (case jsLast js (psSubject p) w of
             (lastMsg, w1) \<Rightarrow>
               if lastMsg = Inr newData then (Inr (), w1)
               else (case jsPublish js (psSubject p) newData w1 of
                       (Inl e, w2) \<Rightarrow> (Inl (''failed to publish message: '' @ e), w2)
                     | (Inr _, w2) \<Rightarrow> (Inr (), w2))))"

text \<open>
  \<^verbatim>\<open>Consume\<close> hands each delivered message to the handler and then acknowledges it, whatever the
  handler did, until the context ends: \<open>msgs\<close> are the messages delivered until then. An error of
  the acknowledgement is only logged.
\<close>

definition consumeMsg ::
    "(payload \<Rightarrow> 'w \<Rightarrow> 'w) \<Rightarrow> (payload \<Rightarrow> 'w \<Rightarrow> unit result \<times> 'w) \<Rightarrow> payload \<Rightarrow> 'w \<Rightarrow> 'w" where
  "consumeMsg handler ack msg w = snd (ack msg (handler msg w))"

definition Consume ::
    "unit result \<Rightarrow> (payload \<Rightarrow> 'w \<Rightarrow> 'w) \<Rightarrow> (payload \<Rightarrow> 'w \<Rightarrow> unit result \<times> 'w) \<Rightarrow> payload list
       \<Rightarrow> 'w \<Rightarrow> unit result \<times> 'w" where
  "Consume start handler ack msgs w =
     (case start of
        Inl e \<Rightarrow> (Inl (''error starting consumer: '' @ e), w)
      | Inr _ \<Rightarrow> (Inr (), fold (consumeMsg handler ack) msgs w))"

text \<open>
  A stream that keeps one message per subject (\<^verbatim>\<open>MaxMsgs: 1\<close>): \<open>content\<close> is that message,
  \<open>sent\<close> the number of messages published so far.
\<close>

locale route_stream =
  fixes js :: "'w jstream" and content :: "'w \<Rightarrow> string \<rightharpoonup> payload" and sent :: "'w \<Rightarrow> nat"
  assumes last_sound: "jsLast js s w = (Inr b, w') \<Longrightarrow> content w s = Some b"
    and last_live: "content w s = Some b \<Longrightarrow> \<exists>w'. jsLast js s w = (Inr b, w')"
    and last_keeps: "jsLast js s w = (lres, w') \<Longrightarrow> content w' = content w \<and> sent w' = sent w"
    and publish_ok: "jsPublish js s b w = (Inr n, w') \<Longrightarrow>
          content w' = (content w)(s \<mapsto> b) \<and> sent w' = Suc (sent w)"
    and publish_fail: "jsPublish js s b w = (Inl e, w') \<Longrightarrow> content w' = content w \<and> sent w' = sent w"
begin

lemma single_ok:
  assumes "PublishSingleMsg js p (Inr j) w = (Inr u, w')"
  shows "content w' (psSubject p) = Some (Some j)"
    and "sent w' = (if content w (psSubject p) = Some (Some j) then sent w else Suc (sent w))"
proof -
  obtain l w1 where l: "jsLast js (psSubject p) w = (l, w1)" by fastforce
  note k = last_keeps [OF l]
  have same: "l = Inr (Some j) \<longleftrightarrow> content w (psSubject p) = Some (Some j)"
  proof
    assume "l = Inr (Some j)"
    then show "content w (psSubject p) = Some (Some j)" using last_sound l by simp
  next
    assume "content w (psSubject p) = Some (Some j)"
    then show "l = Inr (Some j)" using last_live l by fastforce
  qed
  have "content w' (psSubject p) = Some (Some j) \<and>
      sent w' = (if content w (psSubject p) = Some (Some j) then sent w else Suc (sent w))"
  proof (cases "l = Inr (Some j)")
    case True
    then show ?thesis using assms l k same by (auto simp: PublishSingleMsg_def marshalMsg_def)
  next
    case False
    then obtain n where "jsPublish js (psSubject p) (Some j) w1 = (Inr n, w')"
      using assms l by (auto simp: PublishSingleMsg_def marshalMsg_def split: prod.splits sum.splits)
    from publish_ok [OF this] show ?thesis using False k same by auto
  qed
  then show "content w' (psSubject p) = Some (Some j)"
    and "sent w' = (if content w (psSubject p) = Some (Some j) then sent w else Suc (sent w))"
    by auto
qed

lemma single_again:
  assumes "PublishSingleMsg js p (Inr j) w = (Inr u, w1)"
  shows "\<exists>w2. PublishSingleMsg js p (Inr j) w1 = (Inr (), w2) \<and> sent w2 = sent w1"
proof -
  obtain w2 where l: "jsLast js (psSubject p) w1 = (Inr (Some j), w2)"
    using last_live single_ok(1) [OF assms] by blast
  then show ?thesis using last_keeps [OF l] by (simp add: PublishSingleMsg_def marshalMsg_def)
qed

end

record memstream =
  msMsg :: "(string, payload) gomap"
  msSent :: nat

definition memStream :: "'z memstream_scheme jstream" where
  "memStream =
     \<lparr>jsPublish = (\<lambda>s b w. (Inr (Suc (msSent w)), w\<lparr>msMsg := mput s b (msMsg w), msSent := Suc (msSent w)\<rparr>)),
      jsLast = (\<lambda>s w. (case map_of (msMsg w) s of
         None \<Rightarrow> (Inl ''nats: message not found'', w) | Some b \<Rightarrow> (Inr b, w)))\<rparr>"

interpretation memstream: route_stream memStream "\<lambda>w. map_of (msMsg w)" msSent
  by unfold_locales (auto simp: memStream_def split: option.splits)

section \<open>Set-up\<close>

text \<open>
  An error of the server carries the package whose type it has and its code: the errors of the
  legacy package \<^verbatim>\<open>nats\<close> and of the package \<^verbatim>\<open>jetstream\<close> have different types, and \<^verbatim>\<open>errors.Is\<close>
  compares codes only within one of them (\<^verbatim>\<open>APIError.Is\<close> converts its argument with
  \<^verbatim>\<open>errors.As\<close>).
\<close>

datatype js_error = JetstreamAPIError nat string | NatsAPIError nat string | OtherError string

fun js_error_text :: "js_error \<Rightarrow> string" where
  "js_error_text (JetstreamAPIError c d) = ''nats: API error: description='' @ d"
| "js_error_text (NatsAPIError c d) = ''nats: '' @ d"
| "js_error_text (OtherError d) = d"

fun errors_Is :: "js_error \<Rightarrow> js_error \<Rightarrow> bool" where
  "errors_Is (JetstreamAPIError c _) (JetstreamAPIError c' _) = (c = c')"
| "errors_Is (NatsAPIError c _) (NatsAPIError c' _) = (c = c')"
| "errors_Is (OtherError d) (OtherError d') = (d = d')"
| "errors_Is _ _ = False"

definition nats_ErrStreamNameAlreadyInUse :: js_error where
  "nats_ErrStreamNameAlreadyInUse = NatsAPIError 10058 ''stream name already in use''"

definition jetstream_ErrStreamNameAlreadyInUse :: js_error where
  "jetstream_ErrStreamNameAlreadyInUse = JetstreamAPIError 10058 ''stream name already in use''"

record StreamConfig =
  scName :: string
  scReplicas :: int
  scSubjects :: "string list"
  scMaxMsgs :: int
  scDiscardOld :: bool
  scMemory :: bool
  scAllowDirect :: bool

record ConsumerConfig =
  ccDurable :: string
  ccAckExplicit :: bool
  ccMaxDeliver :: int
  ccDeliverLast :: bool
  ccAckWait :: int
  ccFilterSubject :: string

record KeyValueConfig =
  kcBucket :: string
  kcReplicas :: int
  kcMemory :: bool
  kcMaxValueSize :: int
  kcHistory :: nat
  kcTTL :: int

text \<open>The operations of the JetStream context; a handle is the name it stands for.\<close>

record 'w jetstream =
  CreateStream :: "StreamConfig \<Rightarrow> 'w \<Rightarrow> (js_error + string) \<times> 'w"
  BindStream :: "string \<Rightarrow> 'w \<Rightarrow> (js_error + string) \<times> 'w"
  CreateOrUpdateConsumer :: "string \<Rightarrow> ConsumerConfig \<Rightarrow> 'w \<Rightarrow> (js_error + unit) \<times> 'w"
  CreateKeyValue :: "KeyValueConfig \<Rightarrow> 'w \<Rightarrow> (js_error + string) \<times> 'w"
  KeyValue :: "string \<Rightarrow> 'w \<Rightarrow> (js_error + string) \<times> 'w"

definition routesSubject :: string where "routesSubject = ''holepunch.routes''"
definition routesStream :: string where "routesStream = ''HOLEPUNCH_ROUTES''"
definition sessionBucket :: string where "sessionBucket = ''holepunch_sessions''"
definition tokenBucket :: string where "tokenBucket = ''holepunch_tokens''"
definition minKVTTL :: int where "minKVTTL = 100 * Millisecond"
definition natsHostPrefix :: string where "natsHostPrefix = ''nats://''"

text \<open>The verb \<^verbatim>\<open>%q\<close> on the names above, which need no escapes.\<close>

definition quoteName :: "string \<Rightarrow> string" where
  "quoteName s = CHR 0x22 # s @ [CHR 0x22]"

definition streamConfig :: "Storage \<Rightarrow> string \<Rightarrow> string \<Rightarrow> StreamConfig" where
  "streamConfig st streamName subject =
     \<lparr>scName = streamName, scReplicas = NatsReplicas st, scSubjects = [subject], scMaxMsgs = 1,
      scDiscardOld = True, scMemory = True, scAllowDirect = True\<rparr>"

definition consumerConfig :: "Storage \<Rightarrow> string \<Rightarrow> ConsumerConfig" where
  "consumerConfig st subject =
     \<lparr>ccDurable = Consumer st, ccAckExplicit = True, ccMaxDeliver = -1, ccDeliverLast = True,
      ccAckWait = 15 * Second, ccFilterSubject = subject\<rparr>"

definition establishStream ::
    "'w jetstream \<Rightarrow> Storage \<Rightarrow> string \<Rightarrow> string \<Rightarrow> 'w \<Rightarrow> string result \<times> 'w" where
  "establishStream js st streamName subject w =
     (case CreateStream js (streamConfig st streamName subject) w of
        (Inr h, w1) \<Rightarrow> (Inr h, w1)
      | (Inl err, w1) \<Rightarrow>
          if errors_Is err nats_ErrStreamNameAlreadyInUse then
            (case BindStream js streamName w1 of
               (Inr h, w2) \<Rightarrow> (Inr h, w2)
             | (Inl e, w2) \<Rightarrow>
                 (Inl (''failed to bind existing stream '' @ quoteName streamName @ '': '' @ js_error_text e), w2))
          else (Inl (''failed to create stream '' @ quoteName streamName @ '': '' @ js_error_text err), w1))"

definition initializePubSub ::
    "'w jetstream \<Rightarrow> Storage \<Rightarrow> string \<Rightarrow> string \<Rightarrow> 'w \<Rightarrow> pubsub result \<times> 'w" where
  "initializePubSub js st streamName subject w =
     (case establishStream js st streamName subject w of
        (Inl e, w1) \<Rightarrow> (Inl e, w1)
      | (Inr h, w1) \<Rightarrow>
          (case CreateOrUpdateConsumer js h (consumerConfig st subject) w1 of
             (Inl e, w2) \<Rightarrow> (Inl (''error creating consumer: '' @ js_error_text e), w2)
           | (Inr _, w2) \<Rightarrow> (Inr \<lparr>psStream = streamName, psSubject = subject\<rparr>, w2)))"

definition initializeKV :: "'w jetstream \<Rightarrow> Storage \<Rightarrow> string \<Rightarrow> 'w \<Rightarrow> string result \<times> 'w" where
  "initializeKV js st name w =
     (if TokensTTL st > 0 \<and> TokensTTL st < minKVTTL
      then (Inl (''invalid TTL for KV bucket '' @ quoteName name @ '': '' @ duration_String (TokensTTL st)
                 @ ''; must be 0 or >= '' @ duration_String minKVTTL), w)
      else case CreateKeyValue js
             \<lparr>kcBucket = name, kcReplicas = NatsReplicas st, kcMemory = True,
              kcMaxValueSize = MaxValueSize st, kcHistory = 1, kcTTL = TokensTTL st\<rparr> w of
          (Inr h, w1) \<Rightarrow> (Inr h, w1)
        | (Inl err, w1) \<Rightarrow>
            (case KeyValue js name w1 of
               (Inr h, w2) \<Rightarrow> (Inr h, w2)
             | (Inl bindErr, w2) \<Rightarrow>
                 (Inl (''create KV bucket '' @ quoteName name @ '' failed: '' @ js_error_text err
                       @ ''; bind failed: '' @ js_error_text bindErr), w2)))"

definition InitializeTokens :: "'w jetstream \<Rightarrow> Storage \<Rightarrow> 'w \<Rightarrow> string result \<times> 'w" where
  "InitializeTokens js st w = initializeKV js st tokenBucket w"

definition InitializeSessions :: "'w jetstream \<Rightarrow> Storage \<Rightarrow> 'w \<Rightarrow> string result \<times> 'w" where
  "InitializeSessions js st w = initializeKV js st sessionBucket w"

definition InitializeRoutes :: "'w jetstream \<Rightarrow> Storage \<Rightarrow> 'w \<Rightarrow> pubsub result \<times> 'w" where
  "InitializeRoutes js st w = initializePubSub js st routesStream routesSubject w"

definition buildNatsHost :: "Storage \<Rightarrow> string" where
  "buildNatsHost st =
     (if HasPrefix (StorageHost st) natsHostPrefix then StorageHost st
      else if StorageUser st \<noteq> [] \<and> StoragePassword st \<noteq> []
      then natsHostPrefix @ StorageUser st @ '':'' @ StoragePassword st @ ''@'' @ StorageHost st
      else StorageHost st)"

definition cleanHostURL :: "string \<Rightarrow> string" where
  "cleanHostURL rawURL =
     (case url_Parse rawURL of Inl _ \<Rightarrow> ''invalid-host'' | Inr parsed \<Rightarrow> Host parsed)"

text \<open>
  The connection. \<open>nats\<close> stands for the NATS library: connections are numbered, and each gives a
  JetStream context.
\<close>

record natsOptions =
  noMaxReconnects :: int
  noReconnectWait :: int
  noTimeout :: int
  noRetryOnFailedConnect :: bool

record 'w nats =
  ntConnect :: "string \<Rightarrow> natsOptions \<Rightarrow> 'w \<Rightarrow> nat result \<times> 'w"
  ntJetStream :: "nat \<Rightarrow> 'w \<Rightarrow> 'w jetstream result \<times> 'w"
  ntIsClosed :: "nat \<Rightarrow> 'w \<Rightarrow> bool"
  ntClose :: "nat \<Rightarrow> 'w \<Rightarrow> 'w"

record 'w Client =
  clJs :: "'w jetstream"
  clLogHost :: string
  clNc :: nat
  clTarHost :: string
  clStorageArgs :: Storage

definition waitBetween :: int where "waitBetween = 5 * Second"
definition maxRetries :: int where "maxRetries = 5"

definition Connect :: "'w nats \<Rightarrow> Storage \<Rightarrow> 'w \<Rightarrow> 'w Client result \<times> 'w" where
  "Connect nt st w =
     (let tarHost = buildNatsHost st; logHost = cleanHostURL tarHost in
      case ntConnect nt tarHost
             \<lparr>noMaxReconnects = maxRetries, noReconnectWait = waitBetween, noTimeout = 10 * Second,
              noRetryOnFailedConnect = True\<rparr> w of
        (Inl err, w1) \<Rightarrow> (Inl (''error connecting to NATS: '' @ err), w1)
      | (Inr nc, w1) \<Rightarrow>
          (case ntJetStream nt nc w1 of
             (Inl err, w2) \<Rightarrow> (Inl (''error creating JetStream context: '' @ err), ntClose nt nc w2)
           | (Inr js, w2) \<Rightarrow>
               (Inr \<lparr>clJs = js, clLogHost = logHost, clNc = nc, clTarHost = tarHost, clStorageArgs = st\<rparr>, w2)))"

definition Close :: "'w nats \<Rightarrow> 'w Client option \<Rightarrow> 'w \<Rightarrow> 'w" where
  "Close nt c w =
     (case c of None \<Rightarrow> w | Some cl \<Rightarrow> if ntIsClosed nt (clNc cl) w then w else ntClose nt (clNc cl) w)"

section \<open>Facts on the set-up\<close>


lemma initializeKV_ttl:
  "fst (initializeKV js st name w) = Inr h \<Longrightarrow> TokensTTL st \<le> 0 \<or> minKVTTL \<le> TokensTTL st"
  by (auto simp: initializeKV_def split: if_splits)

lemma establishStream_no_bind:
  assumes "CreateStream js (streamConfig st n s) w = (Inl e, w1)" "\<not> errors_Is e nats_ErrStreamNameAlreadyInUse"
  shows "establishStream js st n s w = (Inl (''failed to create stream '' @ quoteName n @ '': '' @ js_error_text e), w1)"
  using assms by (simp add: establishStream_def)

end
