(* ===== verification/Wormhole.thy ===== *)
theory Wormhole
  imports Args "HOL-Library.Log_Nat"
begin

text \<open>
  \<^verbatim>\<open>internal/wormhole/wormhole.go\<close>: the payload of a token and the context of a request, with
  their JSON forms, and \<^verbatim>\<open>FloatTime\<close>, an expiration written as seconds in floating point.

  A \<^verbatim>\<open>float64\<close> is a rational number that \<open>rnd53\<close>, rounding to nearest with ties to even, leaves
  as it is. A \<^verbatim>\<open>time.Time\<close> is its number of nanoseconds since 1970, an \<^typ>\<open>int\<close>; its seconds
  since the year 1 are a 64-bit integer, which \<open>time_Unix\<close> wraps around and \<open>time_Add\<close> saturates,
  as the \<^verbatim>\<open>time\<close> package does.
\<close>

section \<open>Floating point\<close>

definition pow2 :: "int \<Rightarrow> rat" where
  "pow2 e = (if 0 \<le> e then 2 ^ nat e else 1 / 2 ^ nat (- e))"

definition floor_log2 :: "rat \<Rightarrow> int" where
  "floor_log2 a =
     (let (p, q) = quotient_of a;
          e = int (floorlog 2 (nat p)) - int (floorlog 2 (nat q))
      in if pow2 e \<le> a then e else e - 1)"

definition round_half_even :: "rat \<Rightarrow> int" where
  "round_half_even x =
     (let n = \<lfloor>x\<rfloor>; d = x - of_int n in
      if d < 1 / 2 then n else if 1 / 2 < d then n + 1 else if even n then n else n + 1)"

definition rnd53 :: "rat \<Rightarrow> rat" where
  "rnd53 r =
     (if r = 0 then 0
      else let a = \<bar>r\<bar>; u = pow2 (max (floor_log2 a - 52) (- 1074))
           in sgn r * of_int (round_half_even (a / u)) * u)"

definition float_of_number :: "rat \<Rightarrow> rat result" where
  "float_of_number r = (let f = rnd53 r in if 2 ^ 1024 \<le> \<bar>f\<bar> then Inl type_err else Inr f)"

definition wrap64 :: "int \<Rightarrow> int" where
  "wrap64 x = (x + 2 ^ 63) mod 2 ^ 64 - 2 ^ 63"

text \<open>Truncation towards zero; out of range, amd64 gives the smallest integer.\<close>

definition trunc_rat :: "rat \<Rightarrow> int" where
  "trunc_rat f = (if 0 \<le> f then \<lfloor>f\<rfloor> else \<lceil>f\<rceil>)"

definition int64_of_float :: "rat \<Rightarrow> int" where
  "int64_of_float f =
     (let n = trunc_rat f in if - (2 ^ 63) \<le> n \<and> n < 2 ^ 63 then n else - (2 ^ 63))"

section \<open>Time\<close>

type_synonym time = int

definition unixToInternal :: int where
  "unixToInternal = 62135596800"

text \<open>The zero \<^verbatim>\<open>time.Time\<close> is the start of the year 1.\<close>

definition zero_time :: time where
  "zero_time = - unixToInternal * 1000000000"

definition time_Unix :: "int \<Rightarrow> int \<Rightarrow> time" where
  "time_Unix sec nsec =
     (let s = wrap64 (sec + nsec div 1000000000)
      in (wrap64 (s + unixToInternal) - unixToInternal) * 1000000000 + nsec mod 1000000000)"

definition time_sec :: "time \<Rightarrow> int" where
  "time_sec t = t div 1000000000"

definition time_nsec :: "time \<Rightarrow> int" where
  "time_nsec t = t mod 1000000000"

definition time_Add :: "time \<Rightarrow> int \<Rightarrow> time" where
  "time_Add t d =
     (let u = t + d; s = time_sec u + unixToInternal
      in if 2 ^ 63 \<le> s then (2 ^ 63 - 1 - unixToInternal) * 1000000000 + time_nsec u
         else if s < - (2 ^ 63) then (- (2 ^ 63) + 1 - unixToInternal) * 1000000000 + time_nsec u
         else u)"

definition time_After :: "time \<Rightarrow> time \<Rightarrow> bool" where
  "time_After t u = (u < t)"

definition time_Before :: "time \<Rightarrow> time \<Rightarrow> bool" where
  "time_Before t u = (t < u)"

section \<open>FloatTime\<close>

text \<open>\<^verbatim>\<open>null\<close> leaves the float at zero.\<close>

definition decode_float :: "json \<Rightarrow> rat result" where
  "decode_float j =
     (case j of JNum r \<Rightarrow> float_of_number r | JNull \<Rightarrow> Inr 0 | _ \<Rightarrow> Inl type_err)"

definition FloatTime_of :: "rat \<Rightarrow> time" where
  "FloatTime_of f =
     (let seconds = int64_of_float f;
          nanoseconds = int64_of_float (rnd53 (rnd53 (f - rnd53 (of_int seconds)) * 1000000000))
      in time_Unix seconds nanoseconds)"

definition FloatTime_UnmarshalJSON :: "json \<Rightarrow> time \<Rightarrow> time result" where
  "FloatTime_UnmarshalJSON data ft =
     (case decode_float data of Inl e \<Rightarrow> Inl e | Inr f \<Rightarrow> Inr (FloatTime_of f))"

text \<open>
  The encoded number is the value of the float; the text that \<^verbatim>\<open>json.Marshal\<close> writes for it is
  the shortest one that reads back as that float.
\<close>

definition FloatTime_MarshalJSON :: "time \<Rightarrow> json" where
  "FloatTime_MarshalJSON ft =
     JNum (rnd53 (rnd53 (of_int (time_sec ft)) + rnd53 (of_int (time_nsec ft) / 1000000000)))"

section \<open>Payload and context\<close>

record TokenPayload =
  Username :: string
  Groups :: "string list"
  DUID :: string
  plParentID :: string
  plExternalID :: string
  Exp :: time
  plTokenID :: string

definition zero_TokenPayload :: TokenPayload where
  "zero_TokenPayload =
     \<lparr>Username = [], Groups = [], DUID = [], plParentID = [], plExternalID = [], Exp = zero_time,
      plTokenID = []\<rparr>"

definition TokenPayload_fields :: "TokenPayload fields" where
  "TokenPayload_fields =
     [json_field ''sub'' decode_string Username (\<lambda>x r. r\<lparr>Username := x\<rparr>),
      json_field ''groups'' decode_strings Groups (\<lambda>x r. r\<lparr>Groups := x\<rparr>),
      json_field ''duid'' decode_string DUID (\<lambda>x r. r\<lparr>DUID := x\<rparr>),
      json_field ''parent_id'' decode_string plParentID (\<lambda>x r. r\<lparr>plParentID := x\<rparr>),
      json_field ''external_id'' decode_string plExternalID (\<lambda>x r. r\<lparr>plExternalID := x\<rparr>),
      json_field ''exp'' FloatTime_UnmarshalJSON Exp (\<lambda>x r. r\<lparr>Exp := x\<rparr>),
      json_field ''token_id'' decode_string plTokenID (\<lambda>x r. r\<lparr>plTokenID := x\<rparr>)]"

definition decode_TokenPayload :: "json \<Rightarrow> TokenPayload \<Rightarrow> TokenPayload result" where
  "decode_TokenPayload = decode_struct False TokenPayload_fields"

definition encode_TokenPayload :: "TokenPayload \<Rightarrow> json" where
  "encode_TokenPayload p =
     JObj [(''sub'', JStr (Username p)), (''groups'', JStrs (Groups p)), (''duid'', JStr (DUID p)),
           (''parent_id'', JStr (plParentID p)), (''external_id'', JStr (plExternalID p)),
           (''exp'', FloatTime_MarshalJSON (Exp p)), (''token_id'', JStr (plTokenID p))]"

record TokenContext =
  WAT :: string
  tcTokenID :: string
  tcPayload :: TokenPayload

definition zero_TokenContext :: TokenContext where
  "zero_TokenContext = \<lparr>WAT = [], tcTokenID = [], tcPayload = zero_TokenPayload\<rparr>"

definition encode_TokenContext :: "TokenContext \<Rightarrow> json" where
  "encode_TokenContext t =
     JObj [(''token'', JStr (WAT t)), (''token_id'', JStr (tcTokenID t)),
           (''payload'', encode_TokenPayload (tcPayload t))]"

section \<open>Facts on rounding\<close>

lemma pow2_pos [simp]: "0 < pow2 e"
  by (simp add: pow2_def)

lemma pow2_nonneg [simp]: "0 \<le> e \<Longrightarrow> pow2 e = 2 ^ nat e"
  by (simp add: pow2_def)

lemma pow2_add: "pow2 (a + b) = pow2 a * pow2 b"
proof -
  have p: "pow2 e = 2 powi e" for e
    by (simp add: pow2_def power_int_def power_one_over)
  show ?thesis by (simp add: p power_int_add)
qed

lemma pow2_mono: "a \<le> b \<Longrightarrow> pow2 a \<le> pow2 b"
proof -
  assume "a \<le> b"
  then have "pow2 b = pow2 a * 2 ^ nat (b - a)" using pow2_add [of a "b - a"] by simp
  then show ?thesis by simp
qed

lemma floor_log2_lower:
  assumes "0 < a"
  shows "pow2 (floor_log2 a) \<le> a"
proof -
  obtain p q where pq: "quotient_of a = (p, q)" by fastforce
  have q: "0 < q" using quotient_of_denom_pos [OF pq] .
  have a: "a = of_int p / of_int q" using quotient_of_div [OF pq] .
  then have p: "0 < p" using assms q by (simp add: zero_less_divide_iff)
  define m n where "m = floorlog 2 (nat p)" and "n = floorlog 2 (nat q)"
  have m: "(2 :: nat) ^ (m - 1) \<le> nat p" "0 < m"
    using floorlog_bounds [of "nat p" 2] p
    by (auto simp: m_def floorlog_eq_zero_iff intro: gr0I)
  have n: "nat q < 2 ^ n" using floorlog_bounds [of "nat q" 2] q by (simp add: n_def)
  have "of_int q \<le> (2 :: rat) ^ n"
  proof -
    have "rat_of_nat (nat q) \<le> of_nat (2 ^ n)" using n by (simp only: of_nat_le_iff less_imp_le)
    then show ?thesis using q by simp
  qed
  moreover have "(2 :: rat) ^ (m - 1) \<le> of_int p"
  proof -
    have "rat_of_nat (2 ^ (m - 1)) \<le> of_nat (nat p)" using m(1) by (simp only: of_nat_le_iff)
    then show ?thesis using p by simp
  qed
  ultimately have "(2 :: rat) ^ (m - 1) / 2 ^ n \<le> a"
    unfolding a using p q by (intro frac_le) auto
  moreover have "pow2 (int m - int n - 1) = 2 ^ (m - 1) / 2 ^ n"
  proof -
    have "pow2 (int m - int n - 1) * pow2 (int n) = pow2 (int (m - 1))"
      using m(2) by (simp only: pow2_add [symmetric]) simp
    then show ?thesis by (simp add: field_simps)
  qed
  ultimately show ?thesis by (simp add: floor_log2_def pq Let_def m_def n_def)
qed

lemma round_half_even_int [simp]: "round_half_even (of_int n) = n"
  by (simp add: round_half_even_def Let_def)

lemma round_half_even_error: "\<bar>of_int (round_half_even x) - x\<bar> \<le> 1 / 2"
proof -
  have "of_int \<lfloor>x\<rfloor> \<le> x" "x < of_int \<lfloor>x\<rfloor> + 1" by linarith+
  then show ?thesis by (auto simp: round_half_even_def Let_def abs_le_iff)
qed

text \<open>Integers up to $2^{53}$ are floats.\<close>

lemma rnd53_nat:
  assumes "n \<le> 2 ^ 53"
  shows "rnd53 (of_nat n) = of_nat n"
proof (cases "n = 0")
  case False
  define e where "e = floor_log2 (rat_of_nat n)"
  have lower: "pow2 e \<le> of_nat n" unfolding e_def using False by (intro floor_log2_lower) simp
  have le53: "e \<le> 53"
  proof (rule ccontr)
    assume "\<not> e \<le> 53"
    then have "pow2 54 \<le> pow2 e" by (intro pow2_mono) simp
    with lower have "(2 :: rat) ^ 54 \<le> of_nat n" by simp
    then have "2 ^ 54 \<le> n" by (metis of_nat_le_iff of_nat_numeral of_nat_power)
    then show False using assms by simp
  qed
  define u where "u = pow2 (max (e - 52) (- 1074))"
  obtain k where k: "rat_of_nat n / u = of_int k"
  proof (cases "e = 53")
    case True
    with lower have "(2 :: rat) ^ 53 \<le> of_nat n" by simp
    then have "2 ^ 53 \<le> n" by (metis of_nat_le_iff of_nat_numeral of_nat_power)
    with assms have "n = 2 ^ 53" by simp
    then have "rat_of_nat n / u = of_int (2 ^ 52)" by (simp add: u_def True)
    then show ?thesis using that by blast
  next
    case False
    define d where "d = nat (- max (e - 52) (- 1074))"
    have "u = 1 / 2 ^ d" using False le53 by (auto simp: u_def d_def pow2_def)
    then have "rat_of_nat n / u = of_int (int n * 2 ^ d)" by simp
    then show ?thesis using that by blast
  qed
  have "0 < u" by (simp add: u_def)
  have "rnd53 (of_nat n) = of_int (round_half_even (rat_of_nat n / u)) * u"
    using False by (simp add: rnd53_def Let_def u_def e_def)
  also have "\<dots> = of_nat n" unfolding k using k \<open>0 < u\<close> by (simp add: field_simps)
  finally show ?thesis .
qed (simp add: rnd53_def less_imp_le)

lemma rnd53_neg: "rnd53 (- r) = - rnd53 r"
  by (simp add: rnd53_def Let_def sgn_minus)

lemma rnd53_int:
  assumes "\<bar>n\<bar> \<le> 2 ^ 53"
  shows "rnd53 (of_int n) = of_int n"
proof (cases n)
  case (nonneg m)
  then show ?thesis using rnd53_nat [of m] assms by simp
next
  case (neg m)
  then show ?thesis using rnd53_nat [of "Suc m"] rnd53_neg [of "of_nat (Suc m)"] assms by simp
qed

text \<open>Rounding moves a number by at most half a unit in the last place.\<close>

lemma rnd53_error: "\<bar>rnd53 r - r\<bar> \<le> pow2 (max (floor_log2 \<bar>r\<bar> - 52) (- 1074)) / 2"
proof (cases "r = 0")
  case False
  define u where "u = pow2 (max (floor_log2 \<bar>r\<bar> - 52) (- 1074))"
  have u: "0 < u" by (simp add: u_def)
  define d where "d = of_int (round_half_even (\<bar>r\<bar> / u)) - \<bar>r\<bar> / u"
  have d: "\<bar>d\<bar> \<le> 1 / 2" unfolding d_def by (rule round_half_even_error)
  have "rnd53 r - r = sgn r * d * u"
  proof -
    have "r = sgn r * (\<bar>r\<bar> / u) * u" using u by (simp add: mult_sgn_abs)
    then show ?thesis using False by (simp add: rnd53_def Let_def u_def d_def algebra_simps)
  qed
  then have "\<bar>rnd53 r - r\<bar> = \<bar>d\<bar> * u" using False u by (simp add: abs_mult abs_sgn_eq)
  also have "\<dots> \<le> 1 / 2 * u" using d u by (intro mult_right_mono) auto
  finally show ?thesis by (simp add: u_def)
qed (simp add: rnd53_def less_imp_le)

section \<open>Facts on FloatTime\<close>

lemma wrap64_small: "- (2 ^ 63) \<le> x \<Longrightarrow> x < 2 ^ 63 \<Longrightarrow> wrap64 x = x"
  by (simp add: wrap64_def)

lemma int64_of_float_int: "- (2 ^ 63) \<le> n \<Longrightarrow> n < 2 ^ 63 \<Longrightarrow> int64_of_float (of_int n) = n"
  by (simp add: int64_of_float_def trunc_rat_def Let_def)

lemma FloatTime_of_int:
  assumes "\<bar>s\<bar> \<le> 2 ^ 53"
  shows "FloatTime_of (of_int s) = s * 1000000000"
proof -
  have z: "int64_of_float 0 = 0" "rnd53 0 = 0"
    using int64_of_float_int [of 0] by (simp_all add: rnd53_def)
  have s: "int64_of_float (of_int s) = s" using assms by (intro int64_of_float_int) auto
  show ?thesis
    using assms
    by (simp add: FloatTime_of_def Let_def s z rnd53_int time_Unix_def wrap64_small unixToInternal_def)
qed

lemma rnd53_bound: "\<bar>n\<bar> \<le> 2 ^ 53 \<Longrightarrow> \<bar>rnd53 (of_int n)\<bar> < 2 ^ 1024"
proof -
  assume n: "\<bar>n\<bar> \<le> 2 ^ 53"
  then have "\<bar>rat_of_int n\<bar> \<le> 2 ^ 53" by (metis of_int_abs of_int_le_iff of_int_numeral of_int_power)
  then show ?thesis using n by (simp add: rnd53_int)
qed

lemma FloatTime_roundtrip_seconds:
  assumes "\<bar>s\<bar> \<le> 2 ^ 53"
  shows "FloatTime_UnmarshalJSON (FloatTime_MarshalJSON (s * 1000000000)) t = Inr (s * 1000000000)"
  using rnd53_bound [OF assms]
  by (simp add: FloatTime_UnmarshalJSON_def FloatTime_MarshalJSON_def decode_float_def
      float_of_number_def Let_def time_sec_def time_nsec_def rnd53_def [of 0] rnd53_int [OF assms]
      FloatTime_of_int [OF assms])

text \<open>A payload whose expiration is a whole second survives the cache.\<close>

lemma TokenPayload_roundtrip:
  assumes "Exp p = s * 1000000000" "\<bar>s\<bar> \<le> 2 ^ 53"
  shows "decode_TokenPayload (encode_TokenPayload p) old = Inr p"
  using FloatTime_roundtrip_seconds [OF assms(2)] assms(1)
  by (simp add: decode_TokenPayload_def encode_TokenPayload_def TokenPayload_fields_def ToLower_def lower_byte_def)

lemma decode_TokenPayload_JNull [simp]: "decode_TokenPayload JNull p = Inr p"
  by (simp add: decode_TokenPayload_def decode_struct_def)

end
