(* ===== verification/AesGcm.thy ===== *)
theory AesGcm
  imports Codec "HOL-Library.Word"
begin

unbundle bit_operations_syntax

text \<open>
  \<^verbatim>\<open>crypto/aes\<close> and \<^verbatim>\<open>cipher.NewGCM\<close> of Go's standard library, which the token cipher is built on:
  AES with a key of 16, 24 or 32 bytes, and Galois counter mode with a nonce of 12 bytes, a tag
  of 16 bytes and no additional data. The lemma is that opening a sealed text gives it back.
\<close>

section \<open>AES\<close>

type_synonym byte = "8 word"
type_synonym block = "byte list"

definition to_bytes :: "string \<Rightarrow> byte list" where
  "to_bytes s = map (\<lambda>c. word_of_nat (byte_val c)) s"

definition of_bytes :: "byte list \<Rightarrow> string" where
  "of_bytes bs = map (\<lambda>b. char_of (unat b)) bs"

definition sbox_table :: "nat list" where
  "sbox_table = [
    99, 124, 119, 123, 242, 107, 111, 197, 48, 1, 103, 43, 254, 215, 171, 118, 202, 130, 201,
    125, 250, 89, 71, 240, 173, 212, 162, 175, 156, 164, 114, 192, 183, 253, 147, 38, 54, 63,
    247, 204, 52, 165, 229, 241, 113, 216, 49, 21, 4, 199, 35, 195, 24, 150, 5, 154, 7, 18,
    128, 226, 235, 39, 178, 117, 9, 131, 44, 26, 27, 110, 90, 160, 82, 59, 214, 179, 41, 227,
    47, 132, 83, 209, 0, 237, 32, 252, 177, 91, 106, 203, 190, 57, 74, 76, 88, 207, 208, 239,
    170, 251, 67, 77, 51, 133, 69, 249, 2, 127, 80, 60, 159, 168, 81, 163, 64, 143, 146, 157,
    56, 245, 188, 182, 218, 33, 16, 255, 243, 210, 205, 12, 19, 236, 95, 151, 68, 23, 196,
    167, 126, 61, 100, 93, 25, 115, 96, 129, 79, 220, 34, 42, 144, 136, 70, 238, 184, 20, 222,
    94, 11, 219, 224, 50, 58, 10, 73, 6, 36, 92, 194, 211, 172, 98, 145, 149, 228, 121, 231,
    200, 55, 109, 141, 213, 78, 169, 108, 86, 244, 234, 101, 122, 174, 8, 186, 120, 37, 46,
    28, 166, 180, 198, 232, 221, 116, 31, 75, 189, 139, 138, 112, 62, 181, 102, 72, 3, 246,
    14, 97, 53, 87, 185, 134, 193, 29, 158, 225, 248, 152, 17, 105, 217, 142, 148, 155, 30,
    135, 233, 206, 85, 40, 223, 140, 161, 137, 13, 191, 230, 66, 104, 65, 153, 45, 15, 176,
    84, 187, 22]"

definition sbox :: "byte \<Rightarrow> byte" where
  "sbox b = word_of_nat (sbox_table ! unat b)"

definition xtime :: "byte \<Rightarrow> byte" where
  "xtime b = (if bit b 7 then push_bit 1 b XOR 0x1b else push_bit 1 b)"

definition xor_block :: "block \<Rightarrow> block \<Rightarrow> block" where
  "xor_block = map2 (XOR)"

text \<open>The state is column by column, so byte \<open>i\<close> is in row \<open>i mod 4\<close>.\<close>

definition shift_rows :: "block \<Rightarrow> block" where
  "shift_rows st = map (\<lambda>i. st ! ((i + 4 * (i mod 4)) mod 16)) [0..<16]"

fun mix_columns :: "block \<Rightarrow> block" where
  "mix_columns (a # b # c # d # st) =
     (xtime a XOR xtime b XOR b XOR c XOR d) # (a XOR xtime b XOR xtime c XOR c XOR d)
     # (a XOR b XOR xtime c XOR xtime d XOR d) # (xtime a XOR a XOR b XOR c XOR xtime d)
     # mix_columns st"
| "mix_columns _ = []"

text \<open>Key expansion: \<open>nk\<close> words of key, \<open>i\<close> the index of the next word, \<open>ws\<close> the words so far.\<close>

definition next_word :: "nat \<Rightarrow> nat \<Rightarrow> byte \<Rightarrow> block list \<Rightarrow> block" where
  "next_word nk i rc ws =
     (let t = last ws;
          t' = (if i mod nk = 0 then xor_block (map sbox (rotate1 t)) [rc, 0, 0, 0]
                else if 6 < nk \<and> i mod nk = 4 then map sbox t else t)
      in xor_block (ws ! (i - nk)) t')"

fun expand_key :: "nat \<Rightarrow> nat \<Rightarrow> nat \<Rightarrow> byte \<Rightarrow> block list \<Rightarrow> block list" where
  "expand_key 0 nk i rc ws = ws"
| "expand_key (Suc n) nk i rc ws =
     expand_key n nk (Suc i) (if i mod nk = 0 then xtime rc else rc) (ws @ [next_word nk i rc ws])"

fun chunks4 :: "byte list \<Rightarrow> block list" where
  "chunks4 (a # b # c # d # bs) = [a, b, c, d] # chunks4 bs"
| "chunks4 _ = []"

fun round_keys :: "block list \<Rightarrow> block list" where
  "round_keys (a # b # c # d # ws) = concat [a, b, c, d] # round_keys ws"
| "round_keys _ = []"

definition key_schedule :: "byte list \<Rightarrow> block list" where
  "key_schedule key =
     (let ws = chunks4 key; nk = length ws
      in round_keys (expand_key (4 * (nk + 7) - nk) nk nk 1 ws))"

fun aes_rounds :: "block list \<Rightarrow> block \<Rightarrow> block" where
  "aes_rounds [] st = st"
| "aes_rounds [k] st = xor_block (shift_rows (map sbox st)) k"
| "aes_rounds (k # ks) st = aes_rounds ks (xor_block (mix_columns (shift_rows (map sbox st))) k)"

definition aes_encrypt :: "block list \<Rightarrow> block \<Rightarrow> block" where
  "aes_encrypt ks blk =
     (case ks of [] \<Rightarrow> blk | k # ks' \<Rightarrow> aes_rounds ks' (xor_block blk k))"

section \<open>Galois counter mode\<close>

definition block_word :: "block \<Rightarrow> 128 word" where
  "block_word bs = word_of_nat (foldl (\<lambda>n b. n * 256 + unat b) 0 bs)"

definition word_block :: "128 word \<Rightarrow> block" where
  "word_block w = map (\<lambda>i. word_of_nat (unat w div 256 ^ (15 - i) mod 256)) [0..<16]"

definition gf_step :: "128 word \<Rightarrow> nat \<Rightarrow> 128 word \<times> 128 word \<Rightarrow> 128 word \<times> 128 word" where
  "gf_step x i zv =
     (case zv of (z, v) \<Rightarrow>
        (if bit x (127 - i) then z XOR v else z,
         if bit v 0 then drop_bit 1 v XOR push_bit 120 0xe1 else drop_bit 1 v))"

definition gf_mult :: "128 word \<Rightarrow> 128 word \<Rightarrow> 128 word" where
  "gf_mult x y = fst (fold (gf_step x) [0..<128] (0, y))"

function pad_blocks :: "byte list \<Rightarrow> block list" where
  "pad_blocks bs =
     (if bs = [] then []
      else (take 16 bs @ replicate (16 - length bs) 0) # pad_blocks (drop 16 bs))"
  by pat_completeness auto
termination
  by (relation "measure length") auto

declare pad_blocks.simps [simp del]

definition ghash :: "128 word \<Rightarrow> byte list \<Rightarrow> 128 word" where
  "ghash h ct =
     (let len = word_of_nat (8 * length ct) :: 128 word
      in fold (\<lambda>x y. gf_mult (y XOR x) h) (map block_word (pad_blocks ct) @ [len]) 0)"

text \<open>Counter block \<open>i\<close>: the nonce and the 32-bit counter, which starts at 1.\<close>

definition ctr_block :: "byte list \<Rightarrow> nat \<Rightarrow> block" where
  "ctr_block nonce i =
     nonce @ map (\<lambda>k. word_of_nat ((i + 1) div 256 ^ (3 - k) mod 256)) [0..<4]"

definition ctr_xor :: "block list \<Rightarrow> byte list \<Rightarrow> byte list \<Rightarrow> byte list" where
  "ctr_xor ks nonce bs =
     map (\<lambda>i. bs ! i XOR aes_encrypt ks (ctr_block nonce (i div 16 + 1)) ! (i mod 16)) [0..<length bs]"

definition gcm_tag :: "block list \<Rightarrow> byte list \<Rightarrow> byte list \<Rightarrow> byte list" where
  "gcm_tag ks nonce ct =
     word_block (ghash (block_word (aes_encrypt ks (replicate 16 0))) ct
                 XOR block_word (aes_encrypt ks (ctr_block nonce 0)))"

definition gcm_seal :: "block list \<Rightarrow> byte list \<Rightarrow> byte list \<Rightarrow> byte list" where
  "gcm_seal ks nonce plain =
     (let ct = ctr_xor ks nonce plain in ct @ gcm_tag ks nonce ct)"

definition gcm_open :: "block list \<Rightarrow> byte list \<Rightarrow> byte list \<Rightarrow> byte list option" where
  "gcm_open ks nonce sealed =
     (if length sealed < 16 then None
      else let ct = take (length sealed - 16) sealed; tag = drop (length sealed - 16) sealed in
        if gcm_tag ks nonce ct = tag then Some (ctr_xor ks nonce ct) else None)"

section \<open>Opening a sealed text\<close>

lemma ctr_xor_length [simp]: "length (ctr_xor ks nonce bs) = length bs"
  by (simp add: ctr_xor_def)

lemma ctr_xor_involution [simp]: "ctr_xor ks nonce (ctr_xor ks nonce bs) = bs"
  by (rule nth_equalityI) (simp_all add: ctr_xor_def xor.assoc)

lemma gcm_tag_length [simp]: "length (gcm_tag ks nonce ct) = 16"
  by (simp add: gcm_tag_def word_block_def)

lemma gcm_open_seal: "gcm_open ks nonce (gcm_seal ks nonce plain) = Some plain"
  by (simp add: gcm_open_def gcm_seal_def Let_def)

text \<open>What opens is what was sealed: any text that opens is the sealing of its result.\<close>

lemma gcm_seal_open:
  assumes "gcm_open ks nonce sealed = Some plain"
  shows "gcm_seal ks nonce plain = sealed"
proof -
  let ?ct = "take (length sealed - 16) sealed"
  have "plain = ctr_xor ks nonce ?ct" "gcm_tag ks nonce ?ct = drop (length sealed - 16) sealed"
    using assms by (auto simp: gcm_open_def Let_def split: if_splits)
  then show ?thesis by (simp add: gcm_seal_def Let_def)
qed

lemma of_to_bytes [simp]: "of_bytes (to_bytes s) = s"
  by (induction s) (auto simp: of_bytes_def to_bytes_def unat_of_nat take_bit_eq_mod)

lemma to_of_bytes [simp]: "to_bytes (of_bytes bs) = bs"
proof -
  have "unat b < 256" for b :: byte using unsigned_less [of b, where ?'a = nat] by simp
  then show ?thesis by (induction bs) (auto simp: of_bytes_def to_bytes_def)
qed

lemma bytes_length [simp]: "length (of_bytes bs) = length bs" "length (to_bytes s) = length s"
  by (simp_all add: of_bytes_def to_bytes_def)

end
