(* ===== verification/Cipher.thy ===== *)
theory Cipher
  imports AesGcm
begin

text \<open>
  \<^verbatim>\<open>internal/ctls/aescipher\<close>: the cipher of cached tokens. A \<^verbatim>\<open>Cipherer\<close> is either the
  pass-through \<^verbatim>\<open>NoopCipher\<close> or AES-GCM with its round keys. The random source is the parameter
  \<open>rand\<close>: asked for \<open>n\<close> bytes in a state of the world, it gives them or an error.

  The interface \<^verbatim>\<open>Cipherer\<close> is the locale \<open>cipherer\<close>: decrypting what was encrypted gives it
  back. It is interpreted for both ciphers, for the second through the locale \<open>aead\<close> of an
  authenticated cipher.
\<close>

type_synonym 'w randRead = "nat \<Rightarrow> 'w \<Rightarrow> string result \<times> 'w"

datatype Cipherer = NoopCipher | AesCipher "block list"

definition keySize :: nat where
  "keySize = 32"

definition NonceSize :: nat where
  "NonceSize = 12"

text \<open>\<^verbatim>\<open>Seal\<close> and \<^verbatim>\<open>Open\<close> on byte strings.\<close>

definition Seal :: "block list \<Rightarrow> string \<Rightarrow> string \<Rightarrow> string" where
  "Seal ks nonce plain = of_bytes (gcm_seal ks (to_bytes nonce) (to_bytes plain))"

definition Open :: "block list \<Rightarrow> string \<Rightarrow> string \<Rightarrow> string result" where
  "Open ks nonce ct =
     of_option ''cipher: message authentication failed''
       (map_option of_bytes (gcm_open ks (to_bytes nonce) (to_bytes ct)))"

text \<open>\<^verbatim>\<open>GenerateKey\<close> ignores an error of the random source: the key is then all zero.\<close>

definition GenerateKey :: "'w randRead \<Rightarrow> 'w \<Rightarrow> string \<times> 'w" where
  "GenerateKey rand w =
     (case rand keySize w of
        (Inl e, w') \<Rightarrow> (RawURLEncode (replicate keySize (char_of (0 :: nat))), w')
      | (Inr k, w') \<Rightarrow> (RawURLEncode k, w'))"

definition aes_key_length :: "nat \<Rightarrow> bool" where
  "aes_key_length l = (l = 16 \<or> l = 24 \<or> l = 32)"

definition decode_key :: "string \<Rightarrow> string" where
  "decode_key key =
     (case RawURLDecode key of Inr d \<Rightarrow> d
      | Inl _ \<Rightarrow> (case URLDecode key of Inr d \<Rightarrow> d
         | Inl _ \<Rightarrow> (case RawStdDecode key of Inr d \<Rightarrow> d
            | Inl _ \<Rightarrow> (case StdDecode key of Inr d \<Rightarrow> d | Inl _ \<Rightarrow> key))))"

definition New :: "string \<Rightarrow> Cipherer result" where
  "New key =
     (if key = [] then Inr NoopCipher
      else let k = (if aes_key_length (length key) then key else decode_key key) in
        if aes_key_length (length k) then Inr (AesCipher (key_schedule (to_bytes k)))
        else Inl ''invalid key length: must be 16, 24, or 32 bytes or a base64-encoded'')"

fun Encrypt :: "'w randRead \<Rightarrow> Cipherer \<Rightarrow> string \<Rightarrow> 'w \<Rightarrow> string result \<times> 'w" where
  "Encrypt rand NoopCipher plain w = (Inr plain, w)"
| "Encrypt rand (AesCipher ks) plain w =
     (case rand NonceSize w of
        (Inl e, w') \<Rightarrow> (Inl e, w')
      | (Inr nonce, w') \<Rightarrow> (Inr (RawURLEncode (nonce @ Seal ks nonce plain)), w'))"

fun Decrypt :: "Cipherer \<Rightarrow> string \<Rightarrow> string result" where
  "Decrypt NoopCipher token = Inr token"
| "Decrypt (AesCipher ks) token =
     (case RawURLDecode token of
        Inl e \<Rightarrow> Inl e
      | Inr raw \<Rightarrow>
          if length raw < NonceSize then Inl ''token too short''
          else Open ks (take NonceSize raw) (drop NonceSize raw))"

text \<open>\<^verbatim>\<open>subtle.ConstantTimeCompare\<close> compares lengths and bytes.\<close>

definition ConstantTimeCompare :: "string \<Rightarrow> string \<Rightarrow> bool" where
  "ConstantTimeCompare x y = (length x = length y \<and> list_all2 (=) x y)"

fun DecryptAndCompare :: "Cipherer \<Rightarrow> string \<Rightarrow> string \<Rightarrow> bool result" where
  "DecryptAndCompare NoopCipher token other =
     (if length token \<noteq> length other then Inr False else Inr (ConstantTimeCompare token other))"
| "DecryptAndCompare (AesCipher ks) token other =
     (case Decrypt (AesCipher ks) token of
        Inl e \<Rightarrow> Inl e
      | Inr plain \<Rightarrow> Inr (ConstantTimeCompare plain other))"

lemma ConstantTimeCompare_eq [simp]: "ConstantTimeCompare x y \<longleftrightarrow> x = y"
  by (auto simp: ConstantTimeCompare_def list.rel_eq)

section \<open>The interface\<close>

locale cipherer =
  fixes enc :: "string \<Rightarrow> 'w \<Rightarrow> string result \<times> 'w"
    and dec :: "string \<Rightarrow> string result"
    and cmp :: "string \<Rightarrow> string \<Rightarrow> bool result"
  assumes dec_enc: "enc plain w = (Inr t, w') \<Longrightarrow> dec t = Inr plain"
    and cmp_dec: "dec t = Inr plain \<Longrightarrow> cmp t other = Inr (plain = other)"
    and cmp_err: "dec t = Inl e \<Longrightarrow> cmp t other = Inl e"
begin

lemma cmp_enc: "enc plain w = (Inr t, w') \<Longrightarrow> cmp t other = Inr (plain = other)"
  by (blast intro: dec_enc cmp_dec)

lemma cmp_true_iff: "cmp t other = Inr True \<longleftrightarrow> dec t = Inr other"
  by (cases "dec t") (auto simp: cmp_dec cmp_err)

lemma enc_inject:
  "enc p w = (Inr t, w') \<Longrightarrow> enc p' v = (Inr t, v') \<Longrightarrow> p = p'"
  by (metis dec_enc sum.inject(2))

end

interpretation noop: cipherer "Encrypt rand NoopCipher" "Decrypt NoopCipher" "DecryptAndCompare NoopCipher"
  by unfold_locales (auto split: if_splits)

text \<open>
  An authenticated cipher with a fixed nonce size, and the token format built from it: the
  nonce followed by the sealed text, in base64.
\<close>

locale aead =
  fixes nonce_size :: nat
    and seal :: "string \<Rightarrow> string \<Rightarrow> string"
    and unseal :: "string \<Rightarrow> string \<Rightarrow> string result"
  assumes unseal_seal: "unseal nonce (seal nonce plain) = Inr plain"
    and unseal_only: "unseal nonce ct = Inr plain \<Longrightarrow> seal nonce plain = ct"
begin

lemma token_open:
  "length nonce = nonce_size \<Longrightarrow>
     unseal (take nonce_size (nonce @ seal nonce plain)) (drop nonce_size (nonce @ seal nonce plain))
       = Inr plain"
  by (simp add: unseal_seal)

lemma seal_inject: "seal nonce p = seal nonce q \<Longrightarrow> p = q"
  by (metis sum.inject(2) unseal_seal)

end

lemma Open_Seal [simp]: "Open ks nonce (Seal ks nonce plain) = Inr plain"
  by (simp add: Open_def Seal_def gcm_open_seal)

lemma Seal_Open: "Open ks nonce ct = Inr plain \<Longrightarrow> Seal ks nonce plain = ct"
proof -
  assume "Open ks nonce ct = Inr plain"
  then obtain p where p: "gcm_open ks (to_bytes nonce) (to_bytes ct) = Some p" "plain = of_bytes p"
    by (auto simp: Open_def of_option_def split: option.splits)
  show ?thesis by (simp add: Seal_def p(2) gcm_seal_open [OF p(1)])
qed

interpretation gcm: aead NonceSize "Seal ks" "Open ks"
  by unfold_locales (simp_all add: Seal_Open)

text \<open>A random source that returns as many bytes as it is asked for.\<close>

definition rand_full :: "'w randRead \<Rightarrow> bool" where
  "rand_full rand = (\<forall>n w. case rand n w of (Inr bs, _) \<Rightarrow> length bs = n | (Inl _, _) \<Rightarrow> True)"

lemma rand_fullD: "rand_full rand \<Longrightarrow> rand n w = (Inr bs, w') \<Longrightarrow> length bs = n"
  by (fastforce simp: rand_full_def split: prod.splits)

lemma aes_dec_enc:
  assumes "rand_full rand" "Encrypt rand (AesCipher ks) plain w = (Inr t, w')"
  shows "Decrypt (AesCipher ks) t = Inr plain"
proof -
  obtain nonce where n: "rand NonceSize w = (Inr nonce, w')"
      and t: "t = RawURLEncode (nonce @ Seal ks nonce plain)"
    using assms(2) by (auto split: prod.splits sum.splits)
  have len: "length nonce = NonceSize" using rand_fullD [OF assms(1) n] .
  show ?thesis using len gcm.token_open [OF len] by (simp add: t)
qed

text \<open>\<open>full_read r\<close> pads or cuts the answers of \<open>r\<close> to the length asked for, as \<^verbatim>\<open>io.ReadFull\<close> does.\<close>

definition full_read :: "'w randRead \<Rightarrow> 'w randRead" where
  "full_read r n w =
     (case r n w of
        (Inl e, w') \<Rightarrow> (Inl e, w')
      | (Inr bs, w') \<Rightarrow> (if length bs < n then Inl ''unexpected EOF'' else Inr (take n bs), w'))"

lemma rand_full_full_read: "rand_full (full_read r)"
  by (auto simp: rand_full_def full_read_def split: prod.splits sum.splits)

interpretation aes: cipherer "Encrypt (full_read rand) (AesCipher ks)" "Decrypt (AesCipher ks)"
    "DecryptAndCompare (AesCipher ks)"
proof unfold_locales
  fix plain t and w w' :: 'a
  assume "Encrypt (full_read rand) (AesCipher ks) plain w = (Inr t, w')"
  then show "Decrypt (AesCipher ks) t = Inr plain" by (rule aes_dec_enc [OF rand_full_full_read])
qed (simp_all del: Decrypt.simps)

section \<open>Keys\<close>

lemma New_cases:
  "New key = Inr c \<Longrightarrow> key = [] \<and> c = NoopCipher \<or>
     (\<exists>k. c = AesCipher (key_schedule (to_bytes k)) \<and> aes_key_length (length k)
        \<and> (k = key \<or> k = decode_key key))"
  by (auto simp: New_def Let_def split: if_splits)

lemma GenerateKey_length: "rand_full rand \<Longrightarrow> length (fst (GenerateKey rand w)) = 43"
proof -
  assume r: "rand_full rand"
  show ?thesis
  proof (cases "rand keySize w")
    case (Pair res w')
    then show ?thesis
      using rand_fullD [OF r]
      by (cases res) (auto simp: GenerateKey_def RawURLEncode_def b64_encode_length keySize_def)
  qed
qed

text \<open>A generated key is accepted, decoded to the 32 bytes it was made from.\<close>

lemma New_GenerateKey:
  assumes "rand keySize w = (Inr k, w')" "length k = keySize"
  shows "New (fst (GenerateKey rand w)) = Inr (AesCipher (key_schedule (to_bytes k)))"
proof -
  have key: "fst (GenerateKey rand w) = RawURLEncode k" using assms(1) by (simp add: GenerateKey_def)
  have len: "length (RawURLEncode k) = 43"
    using assms(2) by (simp add: RawURLEncode_def b64_encode_length keySize_def)
  then have "RawURLEncode k \<noteq> []" by auto
  then show ?thesis
    using assms(2) len by (simp add: key New_def decode_key_def aes_key_length_def keySize_def)
qed

text \<open>A text with a dot is no ciphertext: AES-GCM tokens are base64.\<close>

lemma aes_Decrypt_dot: "CHR ''.'' \<in> set t \<Longrightarrow> Decrypt (AesCipher ks) t = Inl b64_err"
  using RawURLDecode_bad [of "CHR ''.''" t] by (simp add: b64_val_def b64_char_def)

text \<open>A token decrypts only if it is what encryption makes of the plaintext with the nonce it carries.\<close>

lemma aes_Decrypt_sealed:
  assumes "Decrypt (AesCipher ks) tok = Inr p"
  shows "\<exists>nonce. length nonce = NonceSize \<and> RawURLDecode tok = Inr (nonce @ Seal ks nonce p)"
proof -
  obtain raw where raw: "RawURLDecode tok = Inr raw" "NonceSize \<le> length raw"
      "Open ks (take NonceSize raw) (drop NonceSize raw) = Inr p"
    using assms by (auto split: sum.splits if_splits)
  have "raw = take NonceSize raw @ Seal ks (take NonceSize raw) p"
    using Seal_Open [OF raw(3)] by simp
  then show ?thesis using raw(1,2) by (intro exI [of _ "take NonceSize raw"]) simp
qed

text \<open>
  C28: what a cipher encrypts it decrypts and compares, for every key that is accepted. With a key that is not
  empty the ciphertext is the sealed plaintext under a fresh nonce, and no token decrypts that encryption
  with the same key and some nonce does not produce.
\<close>

theorem cipher_roundtrip:
  assumes "rand_full rand" "New key = Inr c" "Encrypt rand c plain w = (Inr t, w')"
  shows "Decrypt c t = Inr plain \<and> DecryptAndCompare c t other = Inr (plain = other)
    \<and> (key \<noteq> [] \<longrightarrow> (\<exists>ks nonce. c = AesCipher ks \<and> rand NonceSize w = (Inr nonce, w')
         \<and> t = RawURLEncode (nonce @ Seal ks nonce plain)
         \<and> (\<forall>tok p. Decrypt c tok = Inr p \<longrightarrow>
              (\<exists>n. length n = NonceSize \<and> RawURLDecode tok = Inr (n @ Seal ks n p)))))"
proof (cases c)
  case NoopCipher
  then show ?thesis using assms(2,3) New_cases [OF assms(2)] by auto
next
  case (AesCipher ks)
  note enc = assms(3) [unfolded AesCipher]
  have dec: "Decrypt c t = Inr plain" using aes_dec_enc [OF assms(1) enc] by (simp only: AesCipher)
  moreover have "DecryptAndCompare c t other = Inr (plain = other)"
    using dec by (simp add: AesCipher del: Decrypt.simps)
  moreover obtain nonce where "rand NonceSize w = (Inr nonce, w')" "t = RawURLEncode (nonce @ Seal ks nonce plain)"
    using enc by (auto split: prod.splits sum.splits)
  ultimately show ?thesis using AesCipher aes_Decrypt_sealed [of ks] by blast
qed

theorem cipher_roundtrip_witness:
  "\<exists>c t. New (replicate 16 (CHR ''k'')) = Inr c
    \<and> Encrypt (\<lambda>n w. (Inr (replicate n (CHR ''r'')), w)) c ''secret'' () = (Inr t, ())
    \<and> Decrypt c t = Inr ''secret'' \<and> DecryptAndCompare c t ''other'' = Inr False"
proof -
  let ?rand = "\<lambda>n (w :: unit). (Inr (replicate n (CHR ''r'')) :: string result, w)"
  have r: "rand_full ?rand" by (simp add: rand_full_def)
  obtain c where c: "New (replicate 16 (CHR ''k'')) = Inr c" by (simp add: New_def aes_key_length_def)
  obtain t where t: "Encrypt ?rand c ''secret'' () = (Inr t, ())" by (cases c) auto
  from cipher_roundtrip [OF r c t, of "''other''"] show ?thesis using c t by auto
qed

end
