(* ===== verification/TokenCache.thy ===== *)
theory TokenCache
  imports Streams Wormhole Cipher
begin

text \<open>
  \<^verbatim>\<open>internal/wormhole/token/cache.go\<close>: the cache of authenticated tokens in the key-value store.
  The record \<open>internal\<close> is the struct of \<^verbatim>\<open>token.go\<close>; the services it talks to are its fields: the
  bucket, the random source, the HTTP client and the clock, over the state \<^typ>\<open>'w\<close> of the world.

  \<open>getCache\<close> gives \<^term>\<open>Inl e\<close> when the request must be rejected, \<^term>\<open>Inr None\<close> on a miss and
  \<^term>\<open>Inr (Some cs)\<close> on a hit. The locale \<open>token_env\<close> says what the surroundings promise: the
  bucket's laws, and that drawing random bytes or calling another service leaves the bucket as
  it is.
\<close>

record 'w internal =
  inCipher :: Cipherer
  inRand :: "'w randRead"
  inClient :: "'w httpDo"
  inSpan :: spanContext
  kvStore :: "'w bucket"
  clock :: "'w \<Rightarrow> time"
  oauth2Enabled :: bool
  oauth2RedirectURL :: url
  oauth2AuthURL :: url
  oauthExchangeURL :: string
  tokenExchangeURL :: string
  tokenSvc :: TokenService
  subtokenReqURL :: string

section \<open>Cache entries\<close>

record cache =
  Disallowed :: bool
  csPayload :: TokenPayload
  EncryptedToken :: string
  decryptedToken :: string
  EncryptedJumpToken :: string
  decryptedJumpToken :: string
  csParentID :: string
  csExternalID :: string

definition zero_cache :: cache where
  "zero_cache =
     \<lparr>Disallowed = False, csPayload = zero_TokenPayload, EncryptedToken = [], decryptedToken = [],
      EncryptedJumpToken = [], decryptedJumpToken = [], csParentID = [], csExternalID = []\<rparr>"

text \<open>The decrypted fields are not part of the JSON form.\<close>

definition cache_fields :: "cache fields" where
  "cache_fields =
     [json_field ''disallowed'' decode_bool Disallowed (\<lambda>x r. r\<lparr>Disallowed := x\<rparr>),
      json_field ''payload'' decode_TokenPayload csPayload (\<lambda>x r. r\<lparr>csPayload := x\<rparr>),
      json_field ''wat'' decode_string EncryptedToken (\<lambda>x r. r\<lparr>EncryptedToken := x\<rparr>),
      json_field ''jump_token'' decode_string EncryptedJumpToken (\<lambda>x r. r\<lparr>EncryptedJumpToken := x\<rparr>),
      json_field ''parent_id'' decode_string csParentID (\<lambda>x r. r\<lparr>csParentID := x\<rparr>),
      json_field ''external_id'' decode_string csExternalID (\<lambda>x r. r\<lparr>csExternalID := x\<rparr>)]"

definition decode_cache :: "json \<Rightarrow> cache result" where
  "decode_cache j = decode_struct False cache_fields j zero_cache"

definition encode_cache :: "cache \<Rightarrow> json" where
  "encode_cache cs =
     JObj [(''disallowed'', JBool (Disallowed cs)), (''payload'', encode_TokenPayload (csPayload cs)),
           (''wat'', JStr (EncryptedToken cs)), (''jump_token'', JStr (EncryptedJumpToken cs)),
           (''parent_id'', JStr (csParentID cs)), (''external_id'', JStr (csExternalID cs))]"

definition expSkew :: int where
  "expSkew = 10 * Second"

definition expired :: "time \<Rightarrow> cache \<Rightarrow> bool" where
  "expired now cs = time_After now (time_Add (Exp (csPayload cs)) (- expSkew))"

definition dummyCiphertext :: string where
  "dummyCiphertext = ''00000000-0000-0000-0000-000000000000.000000000000000000000000''"

section \<open>Operations\<close>

definition mustDecrypt :: "'w internal \<Rightarrow> string \<Rightarrow> string \<Rightarrow> 'w \<Rightarrow> string \<times> 'w" where
  "mustDecrypt i key token w =
     (if token = [] then ([], w)
      else case Decrypt (inCipher i) token of
             Inr plain \<Rightarrow> (plain, w)
           | Inl e \<Rightarrow> ([], snd (kv_Delete (kvStore i) key w)))"

definition mustEncrypt :: "'w internal \<Rightarrow> string \<Rightarrow> 'w \<Rightarrow> string \<times> 'w" where
  "mustEncrypt i plain w =
     (if plain = [] then ([], w)
      else case Encrypt (full_read (inRand i)) (inCipher i) plain w of
             (Inr enc, w') \<Rightarrow> (enc, w') | (Inl e, w') \<Rightarrow> ([], w'))"

definition invalid_credentials :: StatusError where
  "invalid_credentials = SimpleAuthErr ''invalid credentials''"

text \<open>
  The validity of an entry that was read: the disallowed mark and the expiration, both then
  overwritten by the comparison when there is a request token.
\<close>

definition cacheInvalid :: "'w internal \<Rightarrow> string \<Rightarrow> string \<Rightarrow> cache \<Rightarrow> 'w \<Rightarrow> bool \<times> 'w" where
  "cacheInvalid i key reqToken cs w =
     (let (invalid, w1) =
            (if Disallowed cs then (True, w)
             else if expired (clock i w) cs then (True, snd (kv_Delete (kvStore i) key w))
             else (False, w))
      in if reqToken \<noteq> [] then (\<not> ConstantTimeCompare (decryptedToken cs) reqToken, w1)
         else (invalid, w1))"

definition getCache ::
    "'w internal \<Rightarrow> string \<Rightarrow> string \<Rightarrow> 'w \<Rightarrow> (StatusError + cache option) \<times> 'w" where
  "getCache i key reqToken w =
     (let (dummyToken, w1) = mustDecrypt i key dummyCiphertext w in
      case kv_Get (kvStore i) decode_cache key w1 of
        (Inl err, w2) \<Rightarrow> (Inr None, w2)
      | (Inr cs0, w2) \<Rightarrow>
          (let (jump, w3) = mustDecrypt i key (EncryptedJumpToken cs0) w2;
               (tok, w4) = mustDecrypt i key (EncryptedToken cs0) w3;
               cs = cs0\<lparr>decryptedJumpToken := jump, decryptedToken := tok\<rparr>;
               (invalid, w5) = cacheInvalid i key reqToken cs w4
           in if invalid then (Inl invalid_credentials, w5) else (Inr (Some cs), w5)))"

definition storeCache :: "'w internal \<Rightarrow> string \<Rightarrow> cache \<Rightarrow> 'w \<Rightarrow> 'w" where
  "storeCache i key cs w =
     (let (jump, w1) = mustEncrypt i (decryptedJumpToken cs) w;
          (tok, w2) = mustEncrypt i (decryptedToken cs) w1
      in snd (kv_Put (kvStore i) key
            (Inr (encode_cache (cs\<lparr>EncryptedJumpToken := jump, EncryptedToken := tok\<rparr>))) w2))"

definition storeInvalidCache :: "'w internal \<Rightarrow> string \<Rightarrow> 'w \<Rightarrow> 'w" where
  "storeInvalidCache i key w = storeCache i key (zero_cache\<lparr>Disallowed := True\<rparr>) w"

section \<open>Facts\<close>

lemma decode_encode_cache:
  assumes "Exp (csPayload cs) = s * 1000000000" "\<bar>s\<bar> \<le> 2 ^ 53"
  shows "decode_cache (encode_cache cs) = Inr (cs\<lparr>decryptedToken := [], decryptedJumpToken := []\<rparr>)"
  using TokenPayload_roundtrip [OF assms]
  by (simp add: decode_cache_def encode_cache_def cache_fields_def ToLower_def lower_byte_def zero_cache_def)

lemma decode_disallowed:
  "decode_cache (encode_cache (zero_cache\<lparr>Disallowed := True\<rparr>)) = Inr (zero_cache\<lparr>Disallowed := True\<rparr>)"
  by (subst decode_encode_cache [where s = "- unixToInternal"])
     (simp_all add: zero_cache_def zero_TokenPayload_def zero_time_def unixToInternal_def)

lemma dummy_not_Nil [simp]: "dummyCiphertext \<noteq> []"
  by (simp add: dummyCiphertext_def)

lemma dummy_dot: "CHR ''.'' \<in> set dummyCiphertext"
  by (simp add: dummyCiphertext_def)

lemma mustDecrypt_noop [simp]:
  "inCipher i = NoopCipher \<Longrightarrow> mustDecrypt i key token w = (token, w)"
  by (simp add: mustDecrypt_def)

lemma mustEncrypt_noop [simp]:
  "inCipher i = NoopCipher \<Longrightarrow> mustEncrypt i plain w = (plain, w)"
  by (simp add: mustEncrypt_def)

text \<open>With AES-GCM the dummy text never decrypts: the entry of the key is deleted.\<close>

lemma mustDecrypt_dummy_aes:
  "inCipher i = AesCipher ks \<Longrightarrow>
     mustDecrypt i key dummyCiphertext w = ([], snd (kv_Delete (kvStore i) key w))"
  using aes_Decrypt_dot [OF dummy_dot, of ks] by (simp add: mustDecrypt_def del: Decrypt.simps)

lemma cacheInvalid_req:
  "reqToken \<noteq> [] \<Longrightarrow> fst (cacheInvalid i key reqToken cs w) \<longleftrightarrow> decryptedToken cs \<noteq> reqToken"
  by (simp add: cacheInvalid_def)

lemma cacheInvalid_store:
  "snd (cacheInvalid i key reqToken cs w) = w
   \<or> snd (cacheInvalid i key reqToken cs w) = snd (kv_Delete (kvStore i) key w)"
  by (simp add: cacheInvalid_def)

text \<open>The states that a lookup runs through.\<close>

lemma getCache_some:
  assumes "getCache i key reqToken w = (res, w')" "res \<noteq> Inr None"
  obtains w1 w2 w3 w4 d cs0 jump tok b where
    "mustDecrypt i key dummyCiphertext w = (d, w1)"
    "kv_Get (kvStore i) decode_cache key w1 = (Inr cs0, w2)"
    "mustDecrypt i key (EncryptedJumpToken cs0) w2 = (jump, w3)"
    "mustDecrypt i key (EncryptedToken cs0) w3 = (tok, w4)"
    "cacheInvalid i key reqToken (cs0\<lparr>decryptedJumpToken := jump, decryptedToken := tok\<rparr>) w4 = (b, w')"
    "res = (if b then Inl invalid_credentials
            else Inr (Some (cs0\<lparr>decryptedJumpToken := jump, decryptedToken := tok\<rparr>)))"
proof -
  obtain d w1 where 1: "mustDecrypt i key dummyCiphertext w = (d, w1)" by fastforce
  obtain cs0 w2 where 2: "kv_Get (kvStore i) decode_cache key w1 = (Inr cs0, w2)"
    using assms by (auto simp: getCache_def Let_def 1 split: prod.splits sum.splits)
  obtain jump w3 where 3: "mustDecrypt i key (EncryptedJumpToken cs0) w2 = (jump, w3)" by fastforce
  obtain tok w4 where 4: "mustDecrypt i key (EncryptedToken cs0) w3 = (tok, w4)" by fastforce
  obtain b w5 where 5: "cacheInvalid i key reqToken
      (cs0\<lparr>decryptedJumpToken := jump, decryptedToken := tok\<rparr>) w4 = (b, w5)" by fastforce
  show ?thesis using that [OF 1 2 3 4] 5 assms(1)
    by (simp add: getCache_def Let_def 1 2 3 4 split: if_splits)
qed

text \<open>A hit for a request token comes from an entry that decrypts to it.\<close>

lemma getCache_hit:
  assumes "getCache i key reqToken w = (Inr (Some cs), w')" "reqToken \<noteq> []"
  shows "\<exists>w1 w2 w3 cs0. kv_Get (kvStore i) decode_cache key w1 = (Inr cs0, w2)
       \<and> csPayload cs = csPayload cs0 \<and> decryptedToken cs = reqToken
       \<and> reqToken = fst (mustDecrypt i key (EncryptedToken cs0) w3)
       \<and> decryptedJumpToken cs = fst (mustDecrypt i key (EncryptedJumpToken cs0) w2)"
proof -
  from assms(1) obtain w1 w2 w3 w4 d cs0 jump tok b where g:
    "kv_Get (kvStore i) decode_cache key w1 = (Inr cs0, w2)"
    "mustDecrypt i key (EncryptedJumpToken cs0) w2 = (jump, w3)"
    "mustDecrypt i key (EncryptedToken cs0) w3 = (tok, w4)"
    "cacheInvalid i key reqToken (cs0\<lparr>decryptedJumpToken := jump, decryptedToken := tok\<rparr>) w4 = (b, w')"
    "\<not> b" "cs = cs0\<lparr>decryptedJumpToken := jump, decryptedToken := tok\<rparr>"
    by (rule getCache_some) (auto split: if_splits)
  have "tok = reqToken"
    using cacheInvalid_req [OF assms(2), of i key "cs0\<lparr>decryptedJumpToken := jump, decryptedToken := tok\<rparr>" w4] g(4,5)
    by simp
  then show ?thesis using g(1-3,6) by (intro exI [of _ w1] exI [of _ w2] exI [of _ w3] exI [of _ cs0]) simp
qed

text \<open>Rejections of the cache are 401.\<close>

lemma getCache_reject: "getCache i key reqToken w = (Inl e, w') \<Longrightarrow> e = invalid_credentials"
  by (erule getCache_some) (auto split: if_splits)

lemma invalid_credentials_type [simp]: "seType invalid_credentials = AuthErr"
  by (simp add: invalid_credentials_def)

section \<open>The surroundings\<close>

locale token_env = bucket_up kv store
  for kv :: "'w bucket" and store :: "'w \<Rightarrow> string \<rightharpoonup> payload \<times> nat" +
  fixes i :: "'w internal"
  assumes kv_is: "kvStore i = kv"
    and rand_keeps: "inRand i n w = (rres, w') \<Longrightarrow> store w' = store w"
    and client_keeps: "inClient i req w = (cres, w') \<Longrightarrow> store w' = store w"
begin

lemma Encrypt_keeps: "Encrypt (full_read (inRand i)) c plain w = (res, w') \<Longrightarrow> store w' = store w"
  by (cases c) (auto simp: full_read_def split: prod.splits sum.splits if_splits dest: rand_keeps)

lemma mustEncrypt_keeps: "mustEncrypt i plain w = (t, w') \<Longrightarrow> store w' = store w"
  by (auto simp: mustEncrypt_def split: if_splits prod.splits sum.splits dest: Encrypt_keeps)

lemma doc_cong: "store w' = store w \<Longrightarrow> doc_of store w' = doc_of store w"
  by (simp add: doc_of_def fun_eq_iff)

lemma mustDecrypt_frame:
  "mustDecrypt i key t w = (p, w') \<Longrightarrow> k \<noteq> key \<Longrightarrow> doc_of store w' k = doc_of store w k"
  by (auto simp: mustDecrypt_def kv_is split: if_splits sum.splits intro: kdel_frame [OF surjective_pairing])

text \<open>Storing an entry replaces the document of its key and no other.\<close>

lemma storeCache_doc:
  assumes "keyValid key"
  shows "\<exists>jump tok. doc_of store (storeCache i key cs w) =
      (doc_of store w)(key \<mapsto> Some (encode_cache (cs\<lparr>EncryptedJumpToken := jump, EncryptedToken := tok\<rparr>)))"
proof -
  obtain jump w1 where 1: "mustEncrypt i (decryptedJumpToken cs) w = (jump, w1)" by fastforce
  obtain tok w2 where 2: "mustEncrypt i (decryptedToken cs) w1 = (tok, w2)" by fastforce
  have s: "doc_of store w2 = doc_of store w"
    using doc_cong [OF mustEncrypt_keeps [OF 1]] doc_cong [OF mustEncrypt_keeps [OF 2]] by simp
  define j where "j = encode_cache (cs\<lparr>EncryptedJumpToken := jump, EncryptedToken := tok\<rparr>)"
  obtain w3 where "kv_Put kv key (Inr j) w2 = (Inr (), w3)"
      "doc_of store w3 = (doc_of store w2)(key \<mapsto> Some j)"
    using put_then_get [OF assms, of j w2] by blast
  then have "doc_of store (storeCache i key cs w) = (doc_of store w)(key \<mapsto> Some j)"
    by (simp add: storeCache_def Let_def 1 2 kv_is j_def [symmetric] s)
  then show ?thesis unfolding j_def by blast
qed

lemma storeCache_noop_doc:
  assumes "keyValid key" "inCipher i = NoopCipher"
  shows "doc_of store (storeCache i key cs w) =
      (doc_of store w)(key \<mapsto> Some (encode_cache
         (cs\<lparr>EncryptedJumpToken := decryptedJumpToken cs, EncryptedToken := decryptedToken cs\<rparr>)))"
proof -
  define j where "j = encode_cache
      (cs\<lparr>EncryptedJumpToken := decryptedJumpToken cs, EncryptedToken := decryptedToken cs\<rparr>)"
  obtain w3 where "kv_Put kv key (Inr j) w = (Inr (), w3)"
      "doc_of store w3 = (doc_of store w)(key \<mapsto> Some j)"
    using put_then_get [OF assms(1), of j w] by blast
  then show ?thesis by (simp add: storeCache_def Let_def assms(2) kv_is j_def)
qed

lemma storeInvalidCache_doc:
  assumes "keyValid key"
  shows "doc_of store (storeInvalidCache i key w) =
      (doc_of store w)(key \<mapsto> Some (encode_cache (zero_cache\<lparr>Disallowed := True\<rparr>)))"
proof -
  define cs where "cs = zero_cache\<lparr>Disallowed := True\<rparr>"
  have cs: "decryptedJumpToken cs = []" "decryptedToken cs = []"
    "cs\<lparr>EncryptedJumpToken := [], EncryptedToken := []\<rparr> = cs"
    by (simp_all add: cs_def zero_cache_def)
  obtain w3 where "kv_Put kv key (Inr (encode_cache cs)) w = (Inr (), w3)"
      "doc_of store w3 = (doc_of store w)(key \<mapsto> Some (encode_cache cs))"
    using put_then_get [OF assms, of "encode_cache cs" w] by blast
  then show ?thesis
    by (simp add: storeInvalidCache_def cs_def [symmetric] storeCache_def Let_def mustEncrypt_def cs kv_is)
qed

text \<open>
  A lookup without encryption: the entry decides. With a request token the comparison alone
  decides, whatever the expiration.
\<close>

lemma getCache_noop:
  assumes "inCipher i = NoopCipher" "keyValid key" "doc_of store w key = Some (Some j)"
    "decode_cache j = Inr cs0" "reqToken \<noteq> []"
  shows "\<exists>w'. getCache i key reqToken w =
    (if EncryptedToken cs0 = reqToken
     then Inr (Some (cs0\<lparr>decryptedJumpToken := EncryptedJumpToken cs0, decryptedToken := EncryptedToken cs0\<rparr>))
     else Inl invalid_credentials, w')"
proof -
  obtain w2 where g: "kv_Get kv decode_cache key w = (decode_cache j, w2)"
    using get_live_doc [OF assms(2,3)] by blast
  define cs where "cs = cs0\<lparr>decryptedJumpToken := EncryptedJumpToken cs0, decryptedToken := EncryptedToken cs0\<rparr>"
  obtain b w5 where c: "cacheInvalid i key reqToken cs w2 = (b, w5)" by fastforce
  then have b: "b \<longleftrightarrow> EncryptedToken cs0 \<noteq> reqToken"
    using cacheInvalid_req [OF assms(5), of i key cs w2] by (simp add: cs_def)
  show ?thesis
    using c b by (auto simp: getCache_def Let_def assms(1,4) kv_is g cs_def [symmetric])
qed

text \<open>With AES-GCM no lookup ever hits, and the entry is gone after it.\<close>

lemma getCache_aes:
  assumes "inCipher i = AesCipher ks" "keyValid key"
  shows "\<exists>w'. getCache i key reqToken w = (Inr None, w') \<and> doc_of store w' = (doc_of store w)(key := None)"
proof -
  obtain w1 where d: "kv_Delete kv key w = (Inr (), w1)"
    using delete_live [OF assms(2)] by (auto simp: kv_Delete_def)
  have none: "doc_of store w1 = (doc_of store w)(key := None)" by (rule kdel_ok [OF d])
  obtain res w2 where g: "bkGet kv key w1 = (res, w2)" by fastforce
  have "\<exists>e. res = Inl e"
  proof (cases res)
    case (Inr x)
    then have "store w1 key = Some x" using get_sound g by blast
    then show ?thesis using none by (metis doc_of_def fun_upd_same option.distinct(1) option.simps(9))
  qed simp
  then obtain e where r: "res = Inl e" by blast
  have "doc_of store w2 = doc_of store w1" using get_keeps [OF g] by (rule doc_cong)
  moreover have "getCache i key reqToken w = (Inr None, w2)"
    by (simp add: getCache_def Let_def mustDecrypt_dummy_aes [OF assms(1)] kv_is d kv_Get_def g r)
  ultimately show ?thesis using none by simp
qed

end

end
