(* ===== verification/TokenFlow.thy ===== *)
theory TokenFlow
  imports TokenCache
begin

text \<open>
  \<^verbatim>\<open>internal/wormhole/token\<close>: authentication of a request. \<^verbatim>\<open>source.go\<close> has the flow of a
  Wormhole access token (WAT) and of an OAuth session, \<^verbatim>\<open>oauth2proxy.go\<close> the calls to
  oauth2-proxy, \<^verbatim>\<open>subtoken.go\<close> the subtokens of communities and \<^verbatim>\<open>token.go\<close> the interface
  \<^verbatim>\<open>Authenticator\<close>. A result that may be a \<^verbatim>\<open>*StatusError\<close> is a sum.
\<close>

section \<open>oauth2-proxy\<close>

definition redirectParam :: string where "redirectParam = ''rd''"

definition buildAuthURL :: "string \<Rightarrow> url option" where
  "buildAuthURL proxyURL =
     (case url_Parse proxyURL of Inl _ \<Rightarrow> None | Inr u \<Rightarrow> Some (JoinPath u ''/oauth2/auth''))"

definition buildRedirectURL :: "string \<Rightarrow> url option" where
  "buildRedirectURL proxyURL =
     (case url_Parse proxyURL of Inl _ \<Rightarrow> None | Inr u \<Rightarrow> Some (JoinPath u ''/oauth2/start''))"

definition mapKeys :: "headers \<Rightarrow> string" where
  "mapKeys m = Join (map fst m) '', ''"

definition redirectTarget :: "RequestDetails \<Rightarrow> url" where
  "redirectTarget d = empty_url\<lparr>Scheme := rdScheme d, Host := rdHost d, Path := rdPath d\<rparr>"

definition constructProxyRedirect :: "'w internal \<Rightarrow> RequestDetails \<Rightarrow> string" where
  "constructProxyRedirect i d =
     (let target = url_String (redirectTarget d);
          u2 = oauth2RedirectURL i;
          q = query_Set redirectParam target (parse_Query (RawQuery u2))
      in url_String (u2\<lparr>RawQuery := query_Encode q\<rparr>))"

definition callProxyAuth ::
    "'w internal \<Rightarrow> RequestDetails \<Rightarrow> cookie list \<Rightarrow> 'w \<Rightarrow> (StatusError + headers) \<times> 'w" where
  "callProxyAuth i d cookies w =
     (let reqHeaders = [(XForwardHostHeader, rdHost d), (XForwardProtoHeader, rdScheme d),
                        (XForwardURIHeader, rdPath d)]
      in case GetHeaders (inClient i) (inSpan i) (url_String (oauth2AuthURL i)) reqHeaders cookies w of
           (Inl rErr, w') \<Rightarrow> (Inl (NewRedirectErr (constructProxyRedirect i d) []), w')
         | (Inr respHeaders, w') \<Rightarrow>
             if sget respHeaders Oauth2ProxyAccessTokenHeader = []
             then (Inl (SimpleInternalErr
                     (''access_token header '' @ Oauth2ProxyAccessTokenHeader
                      @ '' not found, available headers ('' @ mapKeys respHeaders @ '')'')), w')
             else (Inr respHeaders, w'))"

section \<open>Token exchange\<close>

record exchangeResp =
  JWT :: string

definition decode_exchangeResp :: "json \<Rightarrow> exchangeResp result" where
  "decode_exchangeResp j =
     decode_struct False [json_field ''jwt'' decode_string JWT (\<lambda>x r. r\<lparr>JWT := x\<rparr>)] j \<lparr>JWT = []\<rparr>"

definition cleanHeaderVal :: "string \<Rightarrow> string" where
  "cleanHeaderVal s = TrimSpace (TrimPrefix s ''Bearer'')"

text \<open>\<^term>\<open>Inr None\<close>: no token in the request.\<close>

definition retrieveWAT :: "'w internal \<Rightarrow> RequestDetails \<Rightarrow> StatusError + TokenContext option" where
  "retrieveWAT i req =
     (let reqToken = cleanHeaderVal (sget (rdHeaders req) (TokenHeader (tokenSvc i))) in
      if reqToken = [] then Inr None
      else case Var checkReqToken reqToken of
             Some e \<Rightarrow> Inl e
           | None \<Rightarrow> Inr (Some (zero_TokenContext\<lparr>WAT := reqToken, tcTokenID := hd (Split reqToken ''.'')\<rparr>)))"

definition decodeTrustedJWT :: "string \<Rightarrow> StatusError + TokenPayload" where
  "decodeTrustedJWT jwt =
     (case Split jwt ''.'' of
        [h, p, s] \<Rightarrow>
          (case RawURLDecode p of
             Inl err \<Rightarrow> Inl (SimpleInternalErr (''failed to decode payload: '' @ err))
           | Inr b \<Rightarrow>
               (case unmarshal (\<lambda>j. decode_TokenPayload j zero_TokenPayload) (json_parse b) of
                  Inl err \<Rightarrow> Inl (SimpleInternalErr err)
                | Inr payload \<Rightarrow> Inr payload))
      | _ \<Rightarrow> Inl (SimpleInternalErr ''invalid JWT format''))"

definition StatusUnauthorized :: int where
  "StatusUnauthorized = 401"

definition exchangeToken ::
    "'w internal \<Rightarrow> string \<Rightarrow> string \<Rightarrow> 'w \<Rightarrow> (StatusError + exchangeResp) \<times> 'w" where
  "exchangeToken i key reqToken w =
     (case GetJSON (inClient i) (inSpan i) (tokenExchangeURL i)
             [(TokenHeader (tokenSvc i), reqToken)] decode_exchangeResp w of
        (Inl reqErr, w') \<Rightarrow>
          (let w2 = (if rfStatus reqErr = StatusUnauthorized then storeInvalidCache i key w' else w')
           in (Inl (SimpleAuthErr (rfe_Error reqErr)), w2))
      | (Inr resp, w') \<Rightarrow> (Inr resp, w'))"

definition wormholeAccessTokenFlow ::
    "'w internal \<Rightarrow> string \<Rightarrow> string \<Rightarrow> 'w \<Rightarrow> (StatusError + TokenPayload \<times> string) \<times> 'w" where
  "wormholeAccessTokenFlow i reqToken tokenID w =
     (let key = WormholeAccessToken tokenID in
      case getCache i key reqToken w of
        (Inl sErr, w1) \<Rightarrow> (Inl sErr, w1)
      | (Inr (Some cs), w1) \<Rightarrow> (Inr (csPayload cs, decryptedJumpToken cs), w1)
      | (Inr None, w1) \<Rightarrow>
          (case exchangeToken i key reqToken w1 of
             (Inl sErr, w2) \<Rightarrow> (Inl sErr, w2)
           | (Inr resp, w2) \<Rightarrow>
               (case decodeTrustedJWT (JWT resp) of
                  Inl sErr \<Rightarrow> (Inl sErr, storeInvalidCache i key w2)
                | Inr payload \<Rightarrow>
                    (let cs = zero_cache\<lparr>decryptedJumpToken := JWT resp, decryptedToken := reqToken,
                                         csPayload := payload\<rparr>
                     in (Inr (payload, JWT resp), storeCache i key cs w2)))))"

definition parseCookie :: "string \<Rightarrow> cookie option" where
  "parseCookie part =
     (case Cut (CHR ''='') part of
        (name, val, found) \<Rightarrow> if found then Some \<lparr>ckName = name, ckValue = val\<rparr> else None)"

definition parseCookies :: "RequestDetails \<Rightarrow> cookie list" where
  "parseCookies d = List.map_filter parseCookie (Split (sget (rdHeaders d) CookieHeader) ''; '')"

definition oauthExchange ::
    "'w internal \<Rightarrow> string \<Rightarrow> string \<Rightarrow> 'w \<Rightarrow> (StatusError + TokenPayload \<times> string) \<times> 'w" where
  "oauthExchange i key accessToken w =
     (case GetJSON (inClient i) (inSpan i) (oauthExchangeURL i)
             [(Oauth2ProxyAccessTokenHeader, accessToken)] decode_exchangeResp w of
        (Inl reqErr, w1) \<Rightarrow> (Inl (SimpleAuthErr (rfe_Error reqErr)), w1)
      | (Inr resp, w1) \<Rightarrow>
          (case decodeTrustedJWT (JWT resp) of
             Inl sErr \<Rightarrow> (Inl (SimpleInternalErr (Error sErr)), w1)
           | Inr payload \<Rightarrow>
               (let cs = zero_cache\<lparr>decryptedJumpToken := JWT resp, decryptedToken := accessToken,
                                    csPayload := payload\<rparr>
                in (Inr (payload, JWT resp), storeCache i key cs w1))))"

definition oauthFlow ::
    "'w internal \<Rightarrow> RequestDetails \<Rightarrow> 'w \<Rightarrow> (StatusError + TokenPayload \<times> string) \<times> 'w" where
  "oauthFlow i d w =
     (if \<not> oauth2Enabled i then (Inl (SimpleAuthErr ''oauth2 support currently disabled''), w)
      else case callProxyAuth i d (parseCookies d) w of
             (Inl sErr, w1) \<Rightarrow> (Inl sErr, w1)
           | (Inr hdrs, w1) \<Rightarrow>
               (let accessToken = sget hdrs Oauth2ProxyAccessTokenHeader;
                    key = WormholeOauthSession accessToken
                in case getCache i key accessToken w1 of
                     (Inl sErr, w2) \<Rightarrow> (Inl (NewRedirectErr (constructProxyRedirect i d) []), w2)
                   | (Inr (Some cs), w2) \<Rightarrow> (Inr (csPayload cs, decryptedJumpToken cs), w2)
                   | (Inr None, w2) \<Rightarrow> oauthExchange i key accessToken w2))"

section \<open>Subtokens\<close>

record subtokenCache =
  scID :: string
  scToken :: string
  scParentID :: string
  scExternalID :: string
  scExp :: time

definition zero_subtokenCache :: subtokenCache where
  "zero_subtokenCache = \<lparr>scID = [], scToken = [], scParentID = [], scExternalID = [], scExp = zero_time\<rparr>"

definition decode_subtokenCache :: "json \<Rightarrow> subtokenCache result" where
  "decode_subtokenCache j =
     decode_struct False
       [json_field ''id'' decode_string scID (\<lambda>x r. r\<lparr>scID := x\<rparr>),
        json_field ''token'' decode_string scToken (\<lambda>x r. r\<lparr>scToken := x\<rparr>),
        json_field ''parent_id'' decode_string scParentID (\<lambda>x r. r\<lparr>scParentID := x\<rparr>),
        json_field ''external_id'' decode_string scExternalID (\<lambda>x r. r\<lparr>scExternalID := x\<rparr>),
        json_field ''exp'' FloatTime_UnmarshalJSON scExp (\<lambda>x r. r\<lparr>scExp := x\<rparr>)] j zero_subtokenCache"

definition encode_subtokenCache :: "subtokenCache \<Rightarrow> json" where
  "encode_subtokenCache c =
     JObj [(''id'', JStr (scID c)), (''token'', JStr (scToken c)), (''parent_id'', JStr (scParentID c)),
           (''external_id'', JStr (scExternalID c)), (''exp'', FloatTime_MarshalJSON (scExp c))]"

definition decode_subtokenResp :: "json \<Rightarrow> string result" where
  "decode_subtokenResp j =
     decode_struct False [json_field ''token'' decode_string (\<lambda>t. t) (\<lambda>x _. x)] j []"

definition buildSubtokenReq :: "TokenContext \<Rightarrow> string \<Rightarrow> json" where
  "buildSubtokenReq tknCtx communityID =
     JObj [(''token'', JObj [(''name'', JStr ''subtoken'')]),
           (''parent_id'', JStr (plTokenID (tcPayload tknCtx))), (''external_id'', JStr communityID)]"

definition postSubtokenRequest ::
    "'w internal \<Rightarrow> TokenContext \<Rightarrow> string \<Rightarrow> 'w \<Rightarrow> string result \<times> 'w" where
  "postSubtokenRequest i tknCtx communityID w =
     (let reqURL = subtokenReqURL i @ ''/'' @ Username (tcPayload tknCtx);
          hs = (if TokenServiceAdmin (tokenSvc i) \<noteq> []
                then [(TokenHeader (tokenSvc i), TokenServiceAdmin (tokenSvc i))] else [])
      in case PostJSONBody (inClient i) (inSpan i) reqURL hs (buildSubtokenReq tknCtx communityID)
                decode_subtokenResp w of
           (Inl err, w') \<Rightarrow> (Inl (rfe_Error err), w')
         | (Inr tok, w') \<Rightarrow> (Inr tok, w'))"

definition generateSubToken ::
    "'w internal \<Rightarrow> TokenContext \<Rightarrow> string \<Rightarrow> string \<Rightarrow> 'w \<Rightarrow> (StatusError + string) \<times> 'w" where
  "generateSubToken i tknCtx communityID key w =
     (case postSubtokenRequest i tknCtx communityID w of
        (Inl err, w1) \<Rightarrow> (Inl (NewInternalErr err ''failed to generate subtoken'' []), w1)
      | (Inr subtoken, w1) \<Rightarrow>
          (let cs = \<lparr>scID = plTokenID (tcPayload tknCtx), scToken = subtoken,
                     scParentID = plParentID (tcPayload tknCtx), scExternalID = communityID,
                     scExp = Exp (tcPayload tknCtx)\<rparr>
           in (Inr subtoken, snd (kv_Put (kvStore i) key (Inr (encode_subtokenCache cs)) w1))))"

definition SubtokenFlow ::
    "'w internal \<Rightarrow> RequestDetails \<Rightarrow> TokenContext \<Rightarrow> 'w \<Rightarrow> (StatusError + string) \<times> 'w" where
  "SubtokenFlow i req tknCtx w =
     (if rdCommunityID req = [] then (Inr [], w)
      else if plExternalID (tcPayload tknCtx) = rdCommunityID req \<and> plParentID (tcPayload tknCtx) \<noteq> []
      then (Inr (WAT tknCtx), w)
      else let key = WormholeAccessSubtoken (plTokenID (tcPayload tknCtx)) (rdCommunityID req);
               now = clock i w
           in case kv_Get (kvStore i) decode_subtokenCache key w of
                (Inr cs, w1) \<Rightarrow>
                  if scToken cs \<noteq> [] then
                    (if time_Before now (scExp cs) then (Inr (scToken cs), w1)
                     else generateSubToken i tknCtx (rdCommunityID req) key
                            (snd (kv_Delete (kvStore i) key w1)))
                  else generateSubToken i tknCtx (rdCommunityID req) key w1
              | (Inl _, w1) \<Rightarrow> generateSubToken i tknCtx (rdCommunityID req) key w1)"

section \<open>The authenticator\<close>

record AuthResponse =
  SetHeaders :: headers
  RemoveHeaders :: "string list"

text \<open>
  \<^verbatim>\<open>Initialize\<close> drops the error of \<^verbatim>\<open>url.Parse\<close>; a URL that does not parse is then a nil pointer,
  which \<^verbatim>\<open>JoinPath\<close> or the first redirect dereferences: \<^term>\<open>None\<close>. The redirect and auth URLs are
  read only when OAuth is enabled.
\<close>

definition Initialize ::
    "Cipherer \<Rightarrow> 'w bucket \<Rightarrow> 'w randRead \<Rightarrow> 'w httpDo \<Rightarrow> ('w \<Rightarrow> time) \<Rightarrow> spanContext \<Rightarrow> TokenService
       \<Rightarrow> 'w internal option" where
  "Initialize cipher kv rand do clk sc ts =
     (case url_Parse (TokenHost ts) of
        Inl _ \<Rightarrow> None
      | Inr tokenURL \<Rightarrow>
          (let i = \<lparr>inCipher = cipher, inRand = rand, inClient = do, inSpan = sc, kvStore = kv,
                    clock = clk, oauth2Enabled = (OauthProxy ts \<noteq> []),
                    oauth2RedirectURL = empty_url, oauth2AuthURL = empty_url,
                    oauthExchangeURL = url_String (JoinPath tokenURL (OauthExchangePath ts)),
                    tokenExchangeURL = url_String (JoinPath tokenURL (TokenExchangePath ts)),
                    tokenSvc = ts,
                    subtokenReqURL = url_String (JoinPath tokenURL (SubtokenPath ts))\<rparr>
           in if \<not> oauth2Enabled i then Some i
              else case (buildRedirectURL (OauthProxy ts), buildAuthURL (OauthProxy ts)) of
                     (Some rd, Some au) \<Rightarrow>
                       if OauthRedirectURL ts = []
                       then Some (i\<lparr>oauth2RedirectURL := rd, oauth2AuthURL := au\<rparr>)
                       else (case url_Parse (OauthRedirectURL ts) of
                               Inl _ \<Rightarrow> None
                             | Inr u \<Rightarrow> Some (i\<lparr>oauth2RedirectURL := u, oauth2AuthURL := au\<rparr>))
                   | _ \<Rightarrow> None))"

definition setHeaders :: "'w internal \<Rightarrow> string \<Rightarrow> RequestDetails \<Rightarrow> headers" where
  "setHeaders i jwt req =
     (let h = mput RouteIDHeader (rdRouteID req) [(TokenHeader (tokenSvc i), jwt)]
      in if rdCommunityID req \<noteq> [] then mput CommunityHeader (rdCommunityID req) h else h)"

definition RequestHeader ::
    "'w internal \<Rightarrow> RequestDetails \<Rightarrow> 'w \<Rightarrow> (StatusError + TokenContext \<times> AuthResponse) \<times> 'w" where
  "RequestHeader i req w =
     (case retrieveWAT i req of
        Inl err \<Rightarrow> (Inl (SimpleBadReqErr (Error err)), w)
      | Inr found \<Rightarrow>
          (let tknCtx = (case found of Some t \<Rightarrow> t | None \<Rightarrow> zero_TokenContext);
               (res, w1) = (case found of
                              Some t \<Rightarrow> wormholeAccessTokenFlow i (WAT t) (tcTokenID t) w
                            | None \<Rightarrow> oauthFlow i req w)
           in case res of
                Inl sErr \<Rightarrow> (Inl sErr, w1)
              | Inr (payload, jwt) \<Rightarrow>
                  (Inr (tknCtx\<lparr>tcPayload := payload\<rparr>,
                        \<lparr>SetHeaders = setHeaders i jwt req, RemoveHeaders = []\<rparr>), w1)))"

definition InvalidateToken :: "'w internal \<Rightarrow> string \<Rightarrow> 'w \<Rightarrow> 'w" where
  "InvalidateToken i tokenID w =
     snd (kv_Put (kvStore i) (WormholeAccessToken tokenID)
            (Inr (encode_cache (zero_cache\<lparr>Disallowed := True\<rparr>))) w)"

definition RemoveSubtoken :: "'w internal \<Rightarrow> string \<Rightarrow> string \<Rightarrow> string \<Rightarrow> 'w \<Rightarrow> 'w" where
  "RemoveSubtoken i parentID externalID tokenID w =
     snd (kv_Delete (kvStore i) (WormholeAccessSubtoken parentID externalID) (InvalidateToken i tokenID w))"

section \<open>Keys\<close>

lemma keyValid_intro:
  assumes "list_all nats_key_char (c # s)" "c \<noteq> CHR ''.''" "last (c # s) \<noteq> CHR ''.''"
  shows "keyValid (c # s)"
  using assms by (simp add: keyValid_def)

lemma last_not_dot: "s \<noteq> [] \<Longrightarrow> CHR ''.'' \<notin> set s \<Longrightarrow> last s \<noteq> CHR ''.''"
  by (metis last_in_set)

lemma RawURLEncode_Nil_iff: "RawURLEncode s = [] \<longleftrightarrow> s = []"
  using RawURLEncode_inject [of s "[]"] by (auto simp: RawURLEncode_def)

lemma keyValid_wat: "t \<noteq> [] \<Longrightarrow> keyValid (WormholeAccessToken t)"
  unfolding WormholeAccessToken_def append.simps
  by (intro keyValid_intro)
     (use cache_keys_nats(1) [of t] in \<open>simp_all add: WormholeAccessToken_def RawURLEncode_Nil_iff
        last_not_dot RawURLEncode_no_dot\<close>)

lemma keyValid_was: "e \<noteq> [] \<Longrightarrow> keyValid (WormholeAccessSubtoken p e)"
  unfolding WormholeAccessSubtoken_def append.simps
  by (intro keyValid_intro)
     (use cache_keys_nats(3) [of p e] in \<open>simp_all add: WormholeAccessSubtoken_def RawURLEncode_Nil_iff
        last_not_dot RawURLEncode_no_dot\<close>)

section \<open>Facts on the flows\<close>

text \<open>The cache does not depend on the HTTP client.\<close>

lemma client_fields:
  "kvStore (i\<lparr>inClient := d\<rparr>) = kvStore i" "inCipher (i\<lparr>inClient := d\<rparr>) = inCipher i"
  "clock (i\<lparr>inClient := d\<rparr>) = clock i"
  by simp_all

lemma mustDecrypt_client: "mustDecrypt (i\<lparr>inClient := d\<rparr>) = mustDecrypt i"
  unfolding mustDecrypt_def client_fields by (rule refl)

lemma cacheInvalid_client: "cacheInvalid (i\<lparr>inClient := d\<rparr>) = cacheInvalid i"
  unfolding cacheInvalid_def client_fields by (rule refl)

lemma getCache_client [simp]: "getCache (i\<lparr>inClient := d\<rparr>) = getCache i"
  unfolding getCache_def mustDecrypt_client cacheInvalid_client client_fields by (rule refl)

lemma flow_hit:
  "getCache i (WormholeAccessToken tid) tok w = (Inr (Some cs), w') \<Longrightarrow>
     wormholeAccessTokenFlow (i\<lparr>inClient := d\<rparr>) tok tid w = (Inr (csPayload cs, decryptedJumpToken cs), w')"
  by (simp add: wormholeAccessTokenFlow_def)

lemma flow_reject:
  "getCache i (WormholeAccessToken tid) tok w = (Inl e, w') \<Longrightarrow>
     wormholeAccessTokenFlow (i\<lparr>inClient := d\<rparr>) tok tid w = (Inl e, w')"
  by (simp add: wormholeAccessTokenFlow_def)

lemma RequestHeader_wat:
  assumes "retrieveWAT i req = Inr (Some t)"
    "wormholeAccessTokenFlow i (WAT t) (tcTokenID t) w = (Inr (payload, jwt), w')"
  shows "RequestHeader i req w =
    (Inr (t\<lparr>tcPayload := payload\<rparr>, \<lparr>SetHeaders = setHeaders i jwt req, RemoveHeaders = []\<rparr>), w')"
  using assms by (simp add: RequestHeader_def)

text \<open>A successful call of the client: the request made and the response it rests on.\<close>

lemma runRequest_ok:
  assumes "runRequest do sc meth u hs cookies body w = (Inr (b, code, hdrs), w')"
  shows "\<exists>req resp. build_request sc meth u hs cookies body = Inr req \<and> do req w = (Inr resp, w')
     \<and> 200 \<le> hsStatus resp \<and> hsStatus resp < 300 \<and> hsBody resp = Inr b \<and> hsHeader resp = hdrs"
  using assms by (auto simp: runRequest_def split: sum.splits prod.splits if_splits)

lemma GetJSON_ok:
  assumes "GetJSON do sc u hs dec w = (Inr v, w')"
  shows "\<exists>req resp b. build_request sc ''GET'' u hs [] None = Inr req \<and> do req w = (Inr resp, w')
     \<and> 200 \<le> hsStatus resp \<and> hsStatus resp < 300 \<and> hsBody resp = Inr b
     \<and> unmarshal dec (json_parse b) = Inr v"
proof -
  obtain b code hdrs where r: "runRequest do sc ''GET'' u hs [] None w = (Inr (b, code, hdrs), w')"
      and u: "unmarshal dec (json_parse b) = Inr v"
    using assms by (auto simp: GetJSON_def runAndUnmarshal_def Let_def split: sum.splits prod.splits)
  from runRequest_ok [OF r] u show ?thesis by blast
qed

lemma build_request_header:
  assumes "build_request sc meth u [(k, v)] cookies body = Inr req" "ToLower k \<noteq> TraceparentHeader"
  shows "hrURL req = u \<and> hrMethod req = meth \<and> sget (hrHeader req) (ToLower k) = v"
  using assms
  by (auto simp: build_request_def set_headers_def Let_def split: sum.splits if_splits option.splits)

text \<open>Where the payload of an authenticated token comes from.\<close>

lemma wat_flow_cases:
  assumes "wormholeAccessTokenFlow i tok tid w = (Inr (p, jwt), w')"
  obtains
    (cached) cs where "getCache i (WormholeAccessToken tid) tok w = (Inr (Some cs), w')"
      "p = csPayload cs" "jwt = decryptedJumpToken cs"
  | (exchanged) w1 w2 resp where "getCache i (WormholeAccessToken tid) tok w = (Inr None, w1)"
      "exchangeToken i (WormholeAccessToken tid) tok w1 = (Inr resp, w2)"
      "jwt = JWT resp" "decodeTrustedJWT jwt = Inr p"
      "w' = storeCache i (WormholeAccessToken tid)
         (zero_cache\<lparr>decryptedJumpToken := jwt, decryptedToken := tok, csPayload := p\<rparr>) w2"
  using assms
  by (auto simp: wormholeAccessTokenFlow_def Let_def split: prod.splits sum.splits option.splits)

lemma exchangeToken_ok:
  "exchangeToken i key tok w = (Inr resp, w') \<Longrightarrow>
     GetJSON (inClient i) (inSpan i) (tokenExchangeURL i) [(TokenHeader (tokenSvc i), tok)]
       decode_exchangeResp w = (Inr resp, w')"
  by (auto simp: exchangeToken_def Let_def split: prod.splits sum.splits)

context token_env
begin

lemma world_keeps:
  "w' = w \<or> (\<exists>req res. inClient i req w = (res, w')) \<Longrightarrow> doc_of store w' = doc_of store w"
  using client_keeps doc_cong by blast

lemma GetJSON_keeps: "GetJSON (inClient i) sc u hs dec w = (r, w') \<Longrightarrow> doc_of store w' = doc_of store w"
  unfolding GetJSON_def by (drule runAndUnmarshal_world) (rule world_keeps)

lemma hit_document:
  assumes "getCache i key tok w = (Inr (Some cs), w')" "tok \<noteq> []"
  shows "\<exists>j cs0. doc_of store w key = Some (Some j) \<and> decode_cache j = Inr cs0
     \<and> csPayload cs = csPayload cs0 \<and> Decrypt (inCipher i) (EncryptedToken cs0) = Inr tok"
proof -
  from assms(1) obtain w1 w2 w3 w4 d cs0 jump t b where g:
    "mustDecrypt i key dummyCiphertext w = (d, w1)"
    "kv_Get (kvStore i) decode_cache key w1 = (Inr cs0, w2)"
    "mustDecrypt i key (EncryptedToken cs0) w3 = (t, w4)"
    "cacheInvalid i key tok (cs0\<lparr>decryptedJumpToken := jump, decryptedToken := t\<rparr>) w4 = (b, w')"
    "\<not> b" "cs = cs0\<lparr>decryptedJumpToken := jump, decryptedToken := t\<rparr>"
    by (rule getCache_some) (auto split: if_splits)
  have t: "t = tok"
    using cacheInvalid_req [OF assms(2), of i key "cs0\<lparr>decryptedJumpToken := jump, decryptedToken := t\<rparr>" w4] g(4,5)
    by simp
  then have dec: "Decrypt (inCipher i) (EncryptedToken cs0) = Inr tok"
    using g(3) assms(2) by (auto simp: mustDecrypt_def split: if_splits sum.splits)
  obtain b' r where gg: "bkGet kv key w1 = (Inr (b', r), w2)" "unmarshal decode_cache b' = Inr cs0"
    using g(2) by (auto simp: kv_Get_def kv_is split: prod.splits sum.splits)
  then obtain j where j: "b' = Some j" "decode_cache j = Inr cs0" by (cases b') auto
  have "doc_of store w1 key = Some (Some j)" using get_sound [OF gg(1)] j(1) by (simp add: doc_of_def)
  moreover have "doc_of store w1 key \<in> {doc_of store w key, None}"
    using g(1) delete_doc [of key w]
    by (auto simp: mustDecrypt_def kv_is simp del: insert_iff split: sum.splits)
  ultimately have "doc_of store w key = Some (Some j)" by auto
  then show ?thesis using j(2) dec g(6) by (intro exI [of _ j] exI [of _ cs0]) simp
qed

text \<open>Authentication of a WAT: the stored entry of its ID holds it, or the token service vouches for it.\<close>

lemma wat_flow_sound:
  assumes flow: "wormholeAccessTokenFlow i tok tid w = (Inr (p, jwt), w')" and tok: "tok \<noteq> []"
    and hdr: "ToLower (TokenHeader (tokenSvc i)) \<noteq> TraceparentHeader"
  shows "(\<exists>j cs. doc_of store w (WormholeAccessToken tid) = Some (Some j) \<and> decode_cache j = Inr cs
             \<and> Decrypt (inCipher i) (EncryptedToken cs) = Inr tok \<and> p = csPayload cs)
       \<or> (\<exists>req resp b w1 w2. inClient i req w1 = (Inr resp, w2) \<and> hrURL req = tokenExchangeURL i
             \<and> sget (hrHeader req) (ToLower (TokenHeader (tokenSvc i))) = tok
             \<and> 200 \<le> hsStatus resp \<and> hsStatus resp < 300 \<and> hsBody resp = Inr b
             \<and> unmarshal decode_exchangeResp (json_parse b) = Inr \<lparr>JWT = jwt\<rparr>
             \<and> decodeTrustedJWT jwt = Inr p)"
  using flow
proof (cases rule: wat_flow_cases)
  case (cached cs)
  show ?thesis using hit_document [OF cached(1) tok] cached(2) by auto
next
  case (exchanged w1 w2 resp)
  from GetJSON_ok [OF exchangeToken_ok [OF exchanged(2)]] obtain req hr b where r:
    "build_request (inSpan i) ''GET'' (tokenExchangeURL i) [(TokenHeader (tokenSvc i), tok)] [] None = Inr req"
    "inClient i req w1 = (Inr hr, w2)" "200 \<le> hsStatus hr" "hsStatus hr < 300" "hsBody hr = Inr b"
    "unmarshal decode_exchangeResp (json_parse b) = Inr resp"
    by blast
  have "resp = \<lparr>JWT = jwt\<rparr>" using exchanged(3) by simp
  then show ?thesis using r build_request_header [OF r(1) hdr] exchanged(4) by blast
qed

text \<open>Without encryption, the entry of an ID decides for every later request with that ID.\<close>

lemma flow_noop:
  assumes "inCipher i = NoopCipher" "tid \<noteq> []" "tok \<noteq> []"
    "doc_of store w (WormholeAccessToken tid) = Some (Some j)" "decode_cache j = Inr cs"
  shows "\<exists>w'. \<forall>d. wormholeAccessTokenFlow (i\<lparr>inClient := d\<rparr>) tok tid w =
    (if EncryptedToken cs = tok then Inr (csPayload cs, EncryptedJumpToken cs) else Inl invalid_credentials, w')"
proof -
  obtain w' where g: "getCache i (WormholeAccessToken tid) tok w =
    (if EncryptedToken cs = tok
     then Inr (Some (cs\<lparr>decryptedJumpToken := EncryptedJumpToken cs, decryptedToken := EncryptedToken cs\<rparr>))
     else Inl invalid_credentials, w')"
    using getCache_noop [OF assms(1) keyValid_wat [OF assms(2)] assms(4,5,3)] by blast
  show ?thesis by (rule exI [of _ w']) (simp add: wormholeAccessTokenFlow_def g)
qed

lemma flow_cached_again:
  assumes noop: "inCipher i = NoopCipher" and ne: "tid \<noteq> []" "tok \<noteq> []"
    and flow: "wormholeAccessTokenFlow i tok tid w = (Inr (p, jwt), w')"
    and miss: "doc_of store w (WormholeAccessToken tid) = None"
    and exp: "Exp p = s * 1000000000" "\<bar>s\<bar> \<le> 2 ^ 53"
  shows "\<exists>w''. \<forall>d. wormholeAccessTokenFlow (i\<lparr>inClient := d\<rparr>) tok tid w' = (Inr (p, jwt), w'')"
  using flow
proof (cases rule: wat_flow_cases)
  case (cached cs)
  show ?thesis using hit_document [OF cached(1) ne(2)] miss by simp
next
  case (exchanged w1 w2 resp)
  define cs where "cs = zero_cache\<lparr>decryptedJumpToken := jwt, decryptedToken := tok, csPayload := p,
      EncryptedJumpToken := jwt, EncryptedToken := tok\<rparr>"
  have d: "doc_of store w' (WormholeAccessToken tid) = Some (Some (encode_cache cs))"
    unfolding exchanged(5) storeCache_noop_doc [OF keyValid_wat [OF ne(1)] noop]
    by (simp add: cs_def)
  have "decode_cache (encode_cache cs) = Inr (cs\<lparr>decryptedToken := [], decryptedJumpToken := []\<rparr>)"
    using exp by (intro decode_encode_cache) (simp_all add: cs_def)
  from flow_noop [OF noop ne d this] show ?thesis by (simp add: cs_def)
qed

lemma InvalidateToken_doc:
  assumes "tid \<noteq> []"
  shows "doc_of store (InvalidateToken i tid w) =
    (doc_of store w)(WormholeAccessToken tid \<mapsto> Some (encode_cache (zero_cache\<lparr>Disallowed := True\<rparr>)))"
proof -
  define j where "j = encode_cache (zero_cache\<lparr>Disallowed := True\<rparr>)"
  obtain w1 where "kv_Put kv (WormholeAccessToken tid) (Inr j) w = (Inr (), w1)"
      "doc_of store w1 = (doc_of store w)(WormholeAccessToken tid \<mapsto> Some j)"
    using put_then_get [OF keyValid_wat [OF assms], of j w] by blast
  then show ?thesis by (simp add: InvalidateToken_def kv_is j_def)
qed

lemma disallowed_rejects:
  assumes "inCipher i = NoopCipher" "tid \<noteq> []" "tok \<noteq> []"
    "doc_of store w (WormholeAccessToken tid) = Some (Some (encode_cache (zero_cache\<lparr>Disallowed := True\<rparr>)))"
  shows "\<exists>w'. \<forall>d. wormholeAccessTokenFlow (i\<lparr>inClient := d\<rparr>) tok tid w = (Inl invalid_credentials, w')"
  using flow_noop [OF assms(1-4) decode_disallowed] assms(3) by (simp add: zero_cache_def)

lemma exchange_401:
  assumes "GetJSON (inClient i) (inSpan i) (tokenExchangeURL i) [(TokenHeader (tokenSvc i), tok)]
      decode_exchangeResp w = (Inl err, w1)" "rfStatus err = StatusUnauthorized" "tid \<noteq> []"
  shows "\<exists>w2. exchangeToken i (WormholeAccessToken tid) tok w = (Inl (SimpleAuthErr (rfe_Error err)), w2)
     \<and> doc_of store w2 (WormholeAccessToken tid) = Some (Some (encode_cache (zero_cache\<lparr>Disallowed := True\<rparr>)))"
  using storeInvalidCache_doc [OF keyValid_wat [OF assms(3)], of w1]
  by (simp add: exchangeToken_def assms(1,2))

lemma getCache_miss_noop:
  assumes "inCipher i = NoopCipher" "doc_of store w key = None"
  shows "\<exists>w1. getCache i key tok w = (Inr None, w1) \<and> doc_of store w1 = doc_of store w"
proof -
  obtain res w2 where g: "bkGet kv key w = (res, w2)" by fastforce
  have "\<exists>e. res = Inl e"
    using get_sound [of key w _ w2] g assms(2) by (cases res) (auto simp: doc_of_def)
  then obtain e where "res = Inl e" by blast
  then show ?thesis
    using doc_cong [OF get_keeps [OF g]] g
    by (simp add: getCache_def Let_def assms(1) kv_is kv_Get_def)
qed

lemma aes_invalidation_lost:
  assumes "inCipher i = AesCipher ks" "tid \<noteq> []"
  shows "\<exists>w'. getCache i (WormholeAccessToken tid) tok (InvalidateToken i tid w) = (Inr None, w')
     \<and> doc_of store w' (WormholeAccessToken tid) = None"
  using getCache_aes [OF assms(1) keyValid_wat [OF assms(2)], of tok "InvalidateToken i tid w"] by auto

end

section \<open>An authenticator on a bucket in memory\<close>

text \<open>
  Any configuration and cipher, with the bucket in memory, a random source that answers from a
  constant stream of bytes and a token service that answers as a function of the request.
\<close>

definition memInternal ::
    "'z mem_scheme internal \<Rightarrow> (nat \<Rightarrow> string) \<Rightarrow> (http_request \<Rightarrow> http_response result)
       \<Rightarrow> 'z mem_scheme internal" where
  "memInternal i bytes serve =
     i\<lparr>kvStore := memBucket, inRand := \<lambda>n w. (Inr (bytes n), w), inClient := \<lambda>req w. (serve req, w)\<rparr>"

interpretation memauth: token_env memBucket memStore "memInternal i bytes serve"
  by unfold_locales (simp_all add: memInternal_def)

lemma token_env_memInternal: "token_env memBucket memStore (memInternal i bytes serve)"
  by (rule memauth.token_env_axioms)

end
