(* ===== verification/Registry.thy ===== *)
theory Registry
  imports Streams Wormhole
begin

text \<open>
  \<^verbatim>\<open>internal/wormhole/registry\<close>: the routes and their rules. \<^verbatim>\<open>source.go\<close> has the sources as the
  route registry serves them, \<^verbatim>\<open>static.go\<close> the admin's static sources, \<^verbatim>\<open>registry.go\<close> the tables
  derived from them and the decisions taken on them.

  The tables are rebuilt from the static sources followed by those of the last message; the
  lock makes the replacement and each lookup atomic, so a state of the registry is one record
  and its operations are steps. A nil \<^verbatim>\<open>Source.URL\<close> makes \<^verbatim>\<open>authzContext\<close> panic: \<^term>\<open>None\<close>. A nil
  slice and an empty one are not distinguished.
\<close>

section \<open>Sources\<close>

record userRules =
  ruUsers :: "string list"
  ruGroups :: "string list"

record RawSource =
  rsID :: string
  rsSource :: URLString
  rsDestination :: URLString
  rsPrefixRewrite :: string
  rsCommunityID :: string
  rsDisallowed :: userRules
  rsAllowed :: userRules
  rsNoAuth :: bool

definition zero_userRules :: userRules where
  "zero_userRules = \<lparr>ruUsers = [], ruGroups = []\<rparr>"

definition zero_RawSource :: RawSource where
  "zero_RawSource =
     \<lparr>rsID = [], rsSource = zero_URLString, rsDestination = zero_URLString, rsPrefixRewrite = [],
      rsCommunityID = [], rsDisallowed = zero_userRules, rsAllowed = zero_userRules, rsNoAuth = False\<rparr>"

definition decode_userRules :: "json \<Rightarrow> userRules \<Rightarrow> userRules result" where
  "decode_userRules =
     decode_struct False
       [json_field ''users'' decode_strings ruUsers (\<lambda>x r. r\<lparr>ruUsers := x\<rparr>),
        json_field ''groups'' decode_strings ruGroups (\<lambda>x r. r\<lparr>ruGroups := x\<rparr>)]"

definition decode_rules :: "json \<Rightarrow> RawSource \<Rightarrow> RawSource result" where
  "decode_rules =
     decode_struct False
       [json_field ''disallowed'' decode_userRules rsDisallowed (\<lambda>x r. r\<lparr>rsDisallowed := x\<rparr>),
        json_field ''allowed'' decode_userRules rsAllowed (\<lambda>x r. r\<lparr>rsAllowed := x\<rparr>)]"

text \<open>\<^verbatim>\<open>NoAuth\<close> is no member of the JSON form of a source.\<close>

definition RawSource_fields :: "RawSource fields" where
  "RawSource_fields =
     [json_field ''id'' decode_string rsID (\<lambda>x r. r\<lparr>rsID := x\<rparr>),
      json_field ''src'' URLString_UnmarshalJSON rsSource (\<lambda>x r. r\<lparr>rsSource := x\<rparr>),
      json_field ''dst'' URLString_UnmarshalJSON rsDestination (\<lambda>x r. r\<lparr>rsDestination := x\<rparr>),
      json_field ''prefix_rewrite'' decode_string rsPrefixRewrite (\<lambda>x r. r\<lparr>rsPrefixRewrite := x\<rparr>),
      json_field ''community_id'' decode_string rsCommunityID (\<lambda>x r. r\<lparr>rsCommunityID := x\<rparr>),
      (''rules'', decode_rules)]"

definition decode_RawSource :: "json \<Rightarrow> RawSource result" where
  "decode_RawSource j = decode_struct False RawSource_fields j zero_RawSource"

definition decode_sources :: "json \<Rightarrow> RawSource list result" where
  "decode_sources j = decode_list decode_RawSource j []"

definition encode_userRules :: "userRules \<Rightarrow> json" where
  "encode_userRules u = JObj [(''users'', JStrs (ruUsers u)), (''groups'', JStrs (ruGroups u))]"

definition encode_RawSource :: "RawSource \<Rightarrow> json" where
  "encode_RawSource r =
     JObj [(''id'', JStr (rsID r)), (''src'', URLString_MarshalJSON (rsSource r)),
           (''dst'', URLString_MarshalJSON (rsDestination r)), (''prefix_rewrite'', JStr (rsPrefixRewrite r)),
           (''community_id'', JStr (rsCommunityID r)),
           (''rules'', JObj [(''disallowed'', encode_userRules (rsDisallowed r)),
                            (''allowed'', encode_userRules (rsAllowed r))])]"

definition encode_sources :: "RawSource list \<Rightarrow> json" where
  "encode_sources rs = JArr (map encode_RawSource rs)"

text \<open>
  The tag \<^verbatim>\<open>dive\<close> on the sources. \<^verbatim>\<open>required\<close> has no effect on a struct value (\<^verbatim>\<open>URLString\<close>), and
  \<^verbatim>\<open>wormholeURL\<close> accepts an empty text.
\<close>

definition validRawSource :: "RawSource \<Rightarrow> bool" where
  "validRawSource r =
     (uUIDRegex (rsID r) \<and> checkWormholeURL (rsSource r) \<and> checkWormholeURL (rsDestination r)
      \<and> omitempty_uuid (rsCommunityID r)
      \<and> checkHeaderVal (ruUsers (rsDisallowed r)) \<and> checkHeaderVal (ruGroups (rsDisallowed r))
      \<and> checkHeaderVal (ruUsers (rsAllowed r)) \<and> checkHeaderVal (ruGroups (rsAllowed r)))"

definition sliceToMap :: "string list \<Rightarrow> strset" where
  "sliceToMap s = fold (\<lambda>v m. mput v () m) s []"

fun normalizeHostMap :: "string list \<Rightarrow> strset \<Rightarrow> strset result" where
  "normalizeHostMap [] m = Inr m"
| "normalizeHostMap (h # hosts) m =
     (case NormalizeURL h of
        Inl err \<Rightarrow> Inl (h @ '': '' @ err)
      | Inr urlStr \<Rightarrow> normalizeHostMap hosts (mput (Key urlStr) () m))"

section \<open>Controls\<close>

record userDetails =
  udGroups :: strset
  udUsers :: strset

record authControls =
  acSource :: string
  acDestination :: string
  acID :: string
  acCommunityID :: string
  acAllowed :: userDetails
  acDisallowed :: userDetails

record ProxyControls =
  pcSource :: URLString
  pcDestination :: URLString
  pcRequestHeaders :: headers
  pcPrefixRewrite :: string
  pcCommunityID :: string
  pcAuthzContext :: headers
  pcNoAuth :: bool

definition convert :: "RawSource \<Rightarrow> authControls" where
  "convert raw =
     \<lparr>acSource = Key (rsSource raw), acDestination = Raw (rsDestination raw), acID = rsID raw,
      acCommunityID = rsCommunityID raw,
      acAllowed = \<lparr>udGroups = sliceToMap (ruGroups (rsAllowed raw)), udUsers = sliceToMap (ruUsers (rsAllowed raw))\<rparr>,
      acDisallowed = \<lparr>udGroups = sliceToMap (ruGroups (rsDisallowed raw)),
                     udUsers = sliceToMap (ruUsers (rsDisallowed raw))\<rparr>\<rparr>"

definition authzContext :: "RawSource \<Rightarrow> headers option" where
  "authzContext rs =
     (case URL (rsSource rs) of
        None \<Rightarrow> None
      | Some u \<Rightarrow>
          (let ctxExt = [(RouteIDHeader, rsID rs), (WormholeHostHeader, Host u), (WormholeSchemeHeader, Scheme u)]
           in Some (if rsCommunityID rs \<noteq> [] then mput CommunityHeader (rsCommunityID rs) ctxExt else ctxExt)))"

definition proxyControl :: "RawSource \<Rightarrow> ProxyControls" where
  "proxyControl rs =
     \<lparr>pcSource = rsSource rs, pcDestination = rsDestination rs, pcRequestHeaders = [],
      pcPrefixRewrite = rsPrefixRewrite rs, pcCommunityID = rsCommunityID rs,
      pcAuthzContext = (case authzContext rs of Some c \<Rightarrow> c | None \<Rightarrow> []), pcNoAuth = rsNoAuth rs\<rparr>"

record registry =
  adminRedirectAllow :: strset
  routesURL :: string
  staticSrc :: "RawSource list"
  authCtls :: "(string, authControls) gomap"
  proxyCtls :: "(string, ProxyControls) gomap"
  redirectAllow :: strset

definition addRedirect :: "RawSource \<Rightarrow> strset \<Rightarrow> strset" where
  "addRedirect rs m = (if Key (rsSource rs) \<noteq> [] then mput (Key (rsSource rs)) () m else m)"

text \<open>The loop of \<^verbatim>\<open>updateCtls\<close>, for sources whose URL is set.\<close>

definition loadCtls :: "registry \<Rightarrow> RawSource list \<Rightarrow> registry" where
  "loadCtls i sources =
     (let all = staticSrc i @ sources in
      i\<lparr>authCtls := fold (\<lambda>rs. mput (rsID rs) (convert rs)) all [],
        proxyCtls := fold (\<lambda>rs. mput (rsID rs) (proxyControl rs)) all [],
        redirectAllow := fold addRedirect all (fold (\<lambda>(host, _). mput host ()) (adminRedirectAllow i) [])\<rparr>)"

definition updateCtls :: "registry \<Rightarrow> RawSource list \<Rightarrow> registry option" where
  "updateCtls i sources =
     (if list_all (\<lambda>rs. authzContext rs \<noteq> None) (staticSrc i @ sources)
      then Some (loadCtls i sources) else None)"

section \<open>Decisions\<close>

definition ruleErrDetails :: string where
  "ruleErrDetails = ''request rejected based upon router rules''"

definition enforce :: "authControls \<Rightarrow> TokenContext \<Rightarrow> StatusError option" where
  "enforce a tknCtx =
     (let username = Username (tcPayload tknCtx); groups = Groups (tcPayload tknCtx) in
      if mhas (udUsers (acDisallowed a)) username
      then Some (NewAuthErr ''user explicitly denied'' ruleErrDetails [])
      else if list_ex (mhas (udGroups (acDisallowed a))) groups
      then Some (NewAuthErr ''user group denied'' ruleErrDetails [])
      else if mhas (udUsers (acAllowed a)) username then None
      else if list_ex (mhas (udGroups (acAllowed a))) groups then None
      else Some (NewAuthErr ''deny by default'' ruleErrDetails []))"

definition identifyID :: "registry \<Rightarrow> RequestDetails \<Rightarrow> StatusError + string" where
  "identifyID i req =
     (let rid = rdRouteID req in
      case Var omitempty_uuid rid of
        Some err \<Rightarrow> Inl err
      | None \<Rightarrow>
          if rid = [] then Inl (SimpleInternalErr (''no '' @ RouteIDHeader @ '' found in request''))
          else if \<not> mhas (authCtls i) rid then Inl (NewNotFoundErr (''no destination for '' @ rid) [])
          else Inr rid)"

definition authorizeProxyCtls :: "registry \<Rightarrow> RequestDetails \<Rightarrow> TokenContext \<Rightarrow> StatusError option" where
  "authorizeProxyCtls i req tknCtx =
     (case identifyID i req of
        Inl gErr \<Rightarrow> Some gErr
      | Inr rid \<Rightarrow>
          (case map_of (authCtls i) rid of
             None \<Rightarrow> Some (NewNotFoundErr (''no route found for '' @ rid) [])
           | Some ctl \<Rightarrow>
               if plExternalID (tcPayload tknCtx) \<noteq> [] \<and> acCommunityID ctl \<noteq> plExternalID (tcPayload tknCtx)
               then (let errMsg = ''subtoken does not align with required community: '' @ acCommunityID ctl
                     in Some (NewAuthErr errMsg errMsg []))
               else enforce ctl tknCtx))"

definition AuthorizeProxy :: "registry \<Rightarrow> RequestDetails \<Rightarrow> TokenContext \<Rightarrow> StatusError option" where
  "AuthorizeProxy i req tknCtx =
     (case authorizeProxyCtls i req tknCtx of Some reqErr \<Rightarrow> Some reqErr | None \<Rightarrow> None)"

definition AllowedRedirect :: "registry \<Rightarrow> string \<Rightarrow> bool" where
  "AllowedRedirect i proposedURL =
     (case NormalizeURL proposedURL of
        Inl _ \<Rightarrow> False
      | Inr urlStr \<Rightarrow> Key urlStr \<noteq> [] \<and> mhas (redirectAllow i) (Key urlStr))"

definition FetchProxyControls :: "registry \<Rightarrow> (string, ProxyControls) gomap" where
  "FetchProxyControls i = proxyCtls i"

text \<open>The JSON of a map has its keys in order; an empty set is omitted.\<close>

definition encode_strset :: "string \<Rightarrow> strset \<Rightarrow> (string \<times> json) list" where
  "encode_strset name m =
     (if m = [] then [] else [(name, JObj (map (\<lambda>(k, _). (k, JObj [])) (sort_pairs m)))])"

definition encode_userDetails :: "userDetails \<Rightarrow> json" where
  "encode_userDetails u = JObj (encode_strset ''groups'' (udGroups u) @ encode_strset ''users'' (udUsers u))"

definition encode_authControls :: "authControls \<Rightarrow> json" where
  "encode_authControls a =
     JObj [(''source'', JStr (acSource a)), (''destination'', JStr (acDestination a)), (''id'', JStr (acID a)),
           (''community_id'', JStr (acCommunityID a)), (''allowed'', encode_userDetails (acAllowed a)),
           (''disallowed'', encode_userDetails (acDisallowed a))]"

definition ReportControlsJSON :: "registry \<Rightarrow> json" where
  "ReportControlsJSON i = JObj (map (\<lambda>(k, a). (k, encode_authControls a)) (sort_pairs (authCtls i)))"

section \<open>Loading\<close>

text \<open>
  A static source adds the admin's \<^verbatim>\<open>no_auth\<close>. \<open>readFile\<close> is \<^verbatim>\<open>os.ReadFile\<close>, \<open>yamlJSON\<close> the conversion
  of the YAML library to the JSON that it decodes.
\<close>

definition staticRawSource_fields :: "RawSource fields" where
  "staticRawSource_fields =
     RawSource_fields @ [json_field ''no_auth'' decode_bool rsNoAuth (\<lambda>x r. r\<lparr>rsNoAuth := x\<rparr>)]"

definition decode_StaticSource :: "json \<Rightarrow> RawSource list result" where
  "decode_StaticSource j =
     decode_struct False
       [json_field ''sources''
          (decode_list (\<lambda>j. decode_struct False staticRawSource_fields j zero_RawSource)) (\<lambda>r. r) (\<lambda>x _. x)] j []"

definition loadStaticFile ::
    "(string \<Rightarrow> string result) \<Rightarrow> (string \<Rightarrow> json result) \<Rightarrow> string \<Rightarrow> RawSource list result" where
  "loadStaticFile readFile yamlJSON filename =
     (if filename = [] then Inr []
      else case readFile (path_Clean filename) of
             Inl err \<Rightarrow> Inl err
           | Inr b \<Rightarrow> (case yamlJSON b of Inl err \<Rightarrow> Inl err | Inr j \<Rightarrow> decode_StaticSource j))"

text \<open>\<^term>\<open>Inr None\<close>: the initial \<^verbatim>\<open>updateCtls\<close> panics on a static source without a URL.\<close>

definition registry_Initialize ::
    "(string \<Rightarrow> string result) \<Rightarrow> (string \<Rightarrow> json result) \<Rightarrow> RouteRegistry \<Rightarrow> registry option result" where
  "registry_Initialize readFile yamlJSON rr =
     (case url_Parse (RegistryHost rr) of
        Inl err \<Rightarrow> Inl (''failed to parse URL '' @ RegistryHost rr @ '': '' @ err)
      | Inr u \<Rightarrow>
          (case loadStaticFile readFile yamlJSON (StaticCfg rr) of
             Inl err \<Rightarrow> Inl (''unable to open/parse '' @ StaticCfg rr @ '': '' @ err)
           | Inr static \<Rightarrow>
               (case normalizeHostMap (RedirectAllowList rr) [] of
                  Inl err \<Rightarrow> Inl (''invalid redirect allowlist entry: '' @ err)
                | Inr admin \<Rightarrow>
                    Inr (updateCtls
                      \<lparr>adminRedirectAllow = admin, routesURL = url_String (JoinPath u (RoutePath rr)),
                       staticSrc = static, authCtls = [], proxyCtls = [], redirectAllow = []\<rparr> []))))"

definition maxRetry :: nat where
  "maxRetry = 10"

text \<open>
  \<open>request_loop n\<close> makes at most \<open>n\<close> attempts, with a pause after each failure (\<open>pause\<close> is
  \<^verbatim>\<open>time.Sleep\<close>). A failed attempt leaves the error of the last one.
\<close>

fun request_loop ::
    "'w httpDo \<Rightarrow> spanContext \<Rightarrow> ('w \<Rightarrow> 'w) \<Rightarrow> string \<Rightarrow> nat \<Rightarrow> gerror \<Rightarrow> 'w \<Rightarrow> RawSource list result \<times> 'w" where
  "request_loop do sc pause u 0 err w = (Inl err, w)"
| "request_loop do sc pause u (Suc n) err w =
     (case GetJSON do sc u [] decode_sources w of
        (Inr resp, w') \<Rightarrow>
          (case Var (list_all validRawSource) resp of
             Some e \<Rightarrow> (Inl (Error e), w')
           | None \<Rightarrow> (Inr resp, w'))
      | (Inl reqErr, w') \<Rightarrow> request_loop do sc pause u n (rfe_Error reqErr) (pause w'))"

definition request :: "'w httpDo \<Rightarrow> spanContext \<Rightarrow> ('w \<Rightarrow> 'w) \<Rightarrow> registry \<Rightarrow> 'w \<Rightarrow> RawSource list result \<times> 'w" where
  "request do sc pause i w = request_loop do sc pause (routesURL i) maxRetry [] w"

definition PublishSources ::
    "'w httpDo \<Rightarrow> spanContext \<Rightarrow> ('w \<Rightarrow> 'w) \<Rightarrow> 'w jstream \<Rightarrow> pubsub \<Rightarrow> registry \<Rightarrow> 'w \<Rightarrow> unit result \<times> 'w" where
  "PublishSources do sc pause js ps i w =
     (case request do sc pause i w of
        (Inl err, w1) \<Rightarrow> (Inl (''request error: '' @ err), w1)
      | (Inr sources, w1) \<Rightarrow> PublishSingleMsg js ps (Inr (encode_sources sources)) w1)"

text \<open>\<^verbatim>\<open>AsyncFetchSources\<close> runs \<^verbatim>\<open>PublishSources\<close> and only logs its outcome.\<close>

definition AsyncFetchSources ::
    "'w httpDo \<Rightarrow> spanContext \<Rightarrow> ('w \<Rightarrow> 'w) \<Rightarrow> 'w jstream \<Rightarrow> pubsub \<Rightarrow> registry \<Rightarrow> 'w \<Rightarrow> 'w" where
  "AsyncFetchSources do sc pause js ps i w = snd (PublishSources do sc pause js ps i w)"

definition RefreshControls :: "registry \<Rightarrow> payload \<Rightarrow> registry option" where
  "RefreshControls i msg =
     (case unmarshal decode_sources msg of Inl err \<Rightarrow> Some i | Inr sources \<Rightarrow> updateCtls i sources)"

text \<open>\<^verbatim>\<open>SubscribeToSources\<close> refreshes the controls with every message; a panic ends the process.\<close>

definition refreshHandler :: "payload \<Rightarrow> registry option \<Rightarrow> registry option" where
  "refreshHandler msg s = (case s of None \<Rightarrow> None | Some i \<Rightarrow> RefreshControls i msg)"

definition SubscribeToSources ::
    "unit result \<Rightarrow> payload list \<Rightarrow> registry option \<Rightarrow> unit result \<times> registry option" where
  "SubscribeToSources start msgs s = Consume start refreshHandler (\<lambda>_ s. (Inr (), s)) msgs s"

section \<open>Facts\<close>

lemma mhas_sliceToMap [simp]: "mhas (sliceToMap s) x \<longleftrightarrow> x \<in> set s"
proof -
  have "fst ` set (fold (\<lambda>v m. mput v () m) s m) = set s \<union> fst ` set m" for m :: strset
    by (induction s arbitrary: m) auto
  then show ?thesis by (simp add: sliceToMap_def)
qed

text \<open>A fold of \<open>mput\<close> looks up the last entry of the key.\<close>

lemma map_of_fold_mput:
  "map_of (fold (\<lambda>x. mput (k x) (v x)) xs m) = map_of m ++ map_of (rev (map (\<lambda>x. (k x, v x)) xs))"
proof -
  have "fold (\<lambda>x. mput (k x) (v x)) xs m = mput_all (map (\<lambda>x. (k x, v x)) xs) m"
    by (induction xs arbitrary: m) simp_all
  then show ?thesis by (simp add: map_of_mput_all rev_map)
qed

lemma go_wf_fold_mput: "go_wf m \<Longrightarrow> go_wf (fold (\<lambda>x. mput (k x) (v x)) xs m)"
  by (induction xs arbitrary: m) auto

lemma fst_fold_mput: "fst ` set (fold (\<lambda>x. mput (k x) (v x)) xs m) = k ` set xs \<union> fst ` set m"
  by (induction xs arbitrary: m) auto

definition lastSource :: "RawSource list \<Rightarrow> string \<Rightarrow> RawSource option" where
  "lastSource all rid = List.find (\<lambda>rs. rsID rs = rid) (rev all)"

lemma map_of_find: "map_of (map (\<lambda>x. (k x, v x)) xs) a = map_option v (List.find (\<lambda>x. k x = a) xs)"
  by (induction xs) auto

lemma loadCtls_auth: "map_of (authCtls (loadCtls i sources)) rid =
    map_option convert (lastSource (staticSrc i @ sources) rid)"
  by (simp add: loadCtls_def Let_def lastSource_def map_of_fold_mput rev_map map_of_find [symmetric])

lemma loadCtls_proxy: "map_of (proxyCtls (loadCtls i sources)) rid =
    map_option proxyControl (lastSource (staticSrc i @ sources) rid)"
  by (simp add: loadCtls_def Let_def lastSource_def map_of_fold_mput rev_map map_of_find [symmetric])

lemma keys_addRedirect:
  "fst ` set (fold addRedirect xs m) = {Key (rsSource rs) | rs. rs \<in> set xs \<and> Key (rsSource rs) \<noteq> []} \<union> fst ` set m"
  by (induction xs arbitrary: m) (auto simp: addRedirect_def)

lemma loadCtls_redirect:
  "mhas (redirectAllow (loadCtls i sources)) h \<longleftrightarrow>
     mhas (adminRedirectAllow i) h \<or> (\<exists>rs \<in> set (staticSrc i @ sources). Key (rsSource rs) = h \<and> h \<noteq> [])"
proof -
  have "fst ` set (fold (\<lambda>(host, _). mput host ()) (adminRedirectAllow i) []) = fst ` set (adminRedirectAllow i)"
    using fst_fold_mput [of fst "\<lambda>_. ()" "adminRedirectAllow i" "[]"] by (simp add: case_prod_unfold)
  then show ?thesis by (auto simp: loadCtls_def Let_def keys_addRedirect simp del: fold_append)
qed

lemma lastSource_in: "lastSource all rid = Some rs \<Longrightarrow> rs \<in> set all \<and> rsID rs = rid"
  by (auto simp: lastSource_def dest!: find_flagD)

lemma loadCtls_wf: "go_wf (authCtls (loadCtls i s))" "go_wf (proxyCtls (loadCtls i s))"
  by (simp_all add: loadCtls_def Let_def go_wf_fold_mput)

lemma loadCtls_fixed [simp]:
  "staticSrc (loadCtls i s) = staticSrc i" "adminRedirectAllow (loadCtls i s) = adminRedirectAllow i"
  "routesURL (loadCtls i s) = routesURL i"
  by (simp_all add: loadCtls_def Let_def)

lemma updateCtls_Some: "updateCtls i sources = Some i' \<Longrightarrow> i' = loadCtls i sources"
  by (auto simp: updateCtls_def split: if_splits)

lemma authzContext_None [simp]: "authzContext rs = None \<longleftrightarrow> URL (rsSource rs) = None"
  by (simp add: authzContext_def Let_def split: option.splits)

section \<open>What the sources decode to\<close>

lemma decode_members_inv:
  assumes "\<And>n f j r r'. (n, f) \<in> set fs \<Longrightarrow> f j r = Inr r' \<Longrightarrow> P r \<Longrightarrow> P r'"
  shows "decode_members strict fs ms r = Inr r' \<Longrightarrow> P r \<Longrightarrow> P r'"
proof (induction ms arbitrary: r)
  case (Cons m ms)
  obtain k j where m: "m = (k, j)" by fastforce
  show ?case
  proof (cases "find_field fs k")
    case None
    then show ?thesis using Cons m by (auto split: if_splits)
  next
    case (Some dec)
    then obtain n where n: "(n, dec) \<in> set fs" by (auto simp: find_field_def dest!: find_flagD)
    obtain r1 where r1: "dec j r = Inr r1" "decode_members strict fs ms r1 = Inr r'"
      using Cons.prems(1) m Some by (auto split: sum.splits)
    show ?thesis using Cons.IH [OF r1(2)] assms [OF n r1(1) Cons.prems(2)] .
  qed
qed simp

lemma decode_struct_inv:
  assumes "\<And>n f j r r'. (n, f) \<in> set fs \<Longrightarrow> f j r = Inr r' \<Longrightarrow> P r \<Longrightarrow> P r'"
    "decode_struct strict fs j r = Inr r'" "P r"
  shows "P r'"
proof (cases j)
  case (JObj ms)
  then show ?thesis using decode_members_inv [of fs P, OF assms(1)] assms(2,3) by auto
qed (use assms(2,3) in \<open>auto simp: decode_struct_def\<close>)

text \<open>A source that arrives as JSON never disables authorization.\<close>

lemma decode_rules_NoAuth: "decode_rules j r = Inr r' \<Longrightarrow> rsNoAuth r' = rsNoAuth r"
  unfolding decode_rules_def
  by (rule decode_struct_inv [where P = "\<lambda>x. rsNoAuth x = rsNoAuth r"])
     (auto simp: json_field_def split: sum.splits)

lemma decode_RawSource_NoAuth: "decode_RawSource j = Inr rs \<Longrightarrow> \<not> rsNoAuth rs"
  unfolding decode_RawSource_def
  by (rule decode_struct_inv [where P = "\<lambda>x. \<not> rsNoAuth x"])
     (auto simp: RawSource_fields_def json_field_def zero_RawSource_def split: sum.splits
        dest: decode_rules_NoAuth)

lemma list_all2_setD2: "list_all2 P xs ys \<Longrightarrow> y \<in> set ys \<Longrightarrow> \<exists>x \<in> set xs. P x y"
  by (metis in_set_conv_nth list_all2_conv_all_nth)

lemma decode_sources_NoAuth: "decode_sources j = Inr rs \<Longrightarrow> r \<in> set rs \<Longrightarrow> \<not> rsNoAuth r"
proof -
  assume d: "decode_sources j = Inr rs" and r: "r \<in> set rs"
  then obtain js where "decode_elems decode_RawSource js = Inr rs \<or> rs = []"
    by (cases j) (auto simp: decode_sources_def decode_list_def)
  with r have "list_all2 (\<lambda>j x. decode_RawSource j = Inr x) js rs"
    using decode_elems_Inr [of decode_RawSource js rs] by auto
  then obtain j' where "decode_RawSource j' = Inr r" using r by (auto dest: list_all2_setD2)
  then show ?thesis by (rule decode_RawSource_NoAuth)
qed

text \<open>What one process publishes, another decodes: all but the admin's \<^verbatim>\<open>NoAuth\<close>.\<close>

definition normalized :: "URLString \<Rightarrow> bool" where
  "normalized u = (NormalizeURL (Raw u) = Inr u)"

lemma URLString_roundtrip: "normalized u \<Longrightarrow> URLString_UnmarshalJSON (URLString_MarshalJSON u) v = Inr u"
  by (auto simp: normalized_def NormalizeURL_def URLString_UnmarshalJSON_def URLString_MarshalJSON_def
      split: sum.splits)

lemma RawSource_roundtrip:
  assumes "normalized (rsSource r)" "normalized (rsDestination r)"
  shows "decode_RawSource (encode_RawSource r) = Inr (r\<lparr>rsNoAuth := False\<rparr>)"
  using URLString_roundtrip [OF assms(1)] URLString_roundtrip [OF assms(2)]
  by (simp add: decode_RawSource_def encode_RawSource_def RawSource_fields_def decode_rules_def
      decode_userRules_def encode_userRules_def ToLower_def lower_byte_def find_field_def json_field_def
      zero_RawSource_def zero_userRules_def)

lemma sources_roundtrip:
  assumes "list_all (\<lambda>r. normalized (rsSource r) \<and> normalized (rsDestination r)) rs"
  shows "decode_sources (encode_sources rs) = Inr (map (\<lambda>r. r\<lparr>rsNoAuth := False\<rparr>) rs)"
  using assms
  by (induction rs) (simp_all add: decode_sources_def encode_sources_def decode_list_def RawSource_roundtrip)

section \<open>Reachable states\<close>

inductive reachable :: "(string \<Rightarrow> string result) \<Rightarrow> (string \<Rightarrow> json result) \<Rightarrow> RouteRegistry \<Rightarrow> registry \<Rightarrow> bool"
  for readFile yamlJSON rr where
  init: "registry_Initialize readFile yamlJSON rr = Inr (Some i) \<Longrightarrow> reachable readFile yamlJSON rr i"
| refresh: "reachable readFile yamlJSON rr i \<Longrightarrow> RefreshControls i msg = Some i' \<Longrightarrow> reachable readFile yamlJSON rr i'"

definition from_sources :: "registry \<Rightarrow> RawSource list \<Rightarrow> bool" where
  "from_sources i sources =
     (i = loadCtls i sources \<and> list_all (\<lambda>rs. \<not> rsNoAuth rs) sources
      \<and> list_all (\<lambda>rs. authzContext rs \<noteq> None) (staticSrc i @ sources))"

lemma loadCtls_idem [simp]: "loadCtls (loadCtls i s) t = loadCtls i t"
  by (simp add: loadCtls_def Let_def)

lemma updateCtls_from:
  "updateCtls i sources = Some i' \<Longrightarrow> list_all (\<lambda>rs. \<not> rsNoAuth rs) sources \<Longrightarrow> from_sources i' sources"
  by (auto simp: updateCtls_def from_sources_def split: if_splits)

lemma reachable_from:
  assumes "reachable readFile yamlJSON rr i"
  shows "\<exists>sources. from_sources i sources"
  using assms
proof induction
  case (init i)
  then show ?case
    by (auto simp: registry_Initialize_def split: sum.splits intro!: exI [of _ "[]"] updateCtls_from)
next
  case (refresh i msg i')
  show ?case
  proof (cases "unmarshal decode_sources msg")
    case (Inr sources)
    then obtain j where "decode_sources j = Inr sources" by (cases msg) auto
    then have "list_all (\<lambda>rs. \<not> rsNoAuth rs) sources"
      using decode_sources_NoAuth by (auto simp: list_all_iff)
    then show ?thesis using updateCtls_from refresh(2) Inr by (auto simp: RefreshControls_def)
  qed (use refresh in \<open>auto simp: RefreshControls_def\<close>)
qed

text \<open>The configuration of a reachable state is that of the process.\<close>

lemma reachable_static:
  assumes "reachable readFile yamlJSON rr i"
  shows "loadStaticFile readFile yamlJSON (StaticCfg rr) = Inr (staticSrc i)"
    and "normalizeHostMap (RedirectAllowList rr) [] = Inr (adminRedirectAllow i)"
proof -
  have "loadStaticFile readFile yamlJSON (StaticCfg rr) = Inr (staticSrc i)
      \<and> normalizeHostMap (RedirectAllowList rr) [] = Inr (adminRedirectAllow i)"
    using assms
  proof induction
    case (init i)
    then show ?case by (auto simp: registry_Initialize_def split: sum.splits dest!: updateCtls_Some)
  next
    case (refresh i msg i')
    then have "i' = i \<or> (\<exists>s. i' = loadCtls i s)"
      by (auto simp: RefreshControls_def split: sum.splits dest: updateCtls_Some)
    then show ?case using refresh.IH by auto
  qed
  then show "loadStaticFile readFile yamlJSON (StaticCfg rr) = Inr (staticSrc i)"
    and "normalizeHostMap (RedirectAllowList rr) [] = Inr (adminRedirectAllow i)" by auto
qed

section \<open>Decisions as rules\<close>

text \<open>The rules of a route, as sets of names.\<close>

definition rules_permit :: "RawSource \<Rightarrow> string \<Rightarrow> string list \<Rightarrow> bool" where
  "rules_permit rs user groups =
     (user \<notin> set (ruUsers (rsDisallowed rs)) \<and> set groups \<inter> set (ruGroups (rsDisallowed rs)) = {}
      \<and> (user \<in> set (ruUsers (rsAllowed rs)) \<or> set groups \<inter> set (ruGroups (rsAllowed rs)) \<noteq> {}))"

lemma enforce_convert:
  "enforce (convert rs) ctx = None \<longleftrightarrow> rules_permit rs (Username (tcPayload ctx)) (Groups (tcPayload ctx))"
  by (auto simp: enforce_def convert_def rules_permit_def Let_def list_ex_iff simp del: mhas_iff)

lemma enforce_deny:
  "enforce a ctx = Some e \<Longrightarrow> seType e = AuthErr \<and> seDetails e = ruleErrDetails"
  by (auto simp: enforce_def Let_def new_err_defs split: if_splits)

lemma AuthorizeProxy_eq [simp]: "AuthorizeProxy i req ctx = authorizeProxyCtls i req ctx"
  by (simp add: AuthorizeProxy_def split: option.splits)

lemma authorize_load:
  "authorizeProxyCtls (loadCtls i sources) req ctx = None \<longleftrightarrow>
    (\<exists>rs. uUIDRegex (rdRouteID req) \<and> lastSource (staticSrc i @ sources) (rdRouteID req) = Some rs
       \<and> (plExternalID (tcPayload ctx) = [] \<or> plExternalID (tcPayload ctx) = rsCommunityID rs)
       \<and> rules_permit rs (Username (tcPayload ctx)) (Groups (tcPayload ctx)))"
proof -
  have m: "map_of (authCtls (loadCtls i sources)) rid =
      map_option convert (lastSource (staticSrc i @ sources) rid)" for rid
    by (rule loadCtls_auth)
  have c: "acCommunityID (convert rs) = rsCommunityID rs" for rs by (simp add: convert_def)
  have v: "Var omitempty_uuid rid = None \<longleftrightarrow> rid = [] \<or> uUIDRegex rid" for rid
    by (simp add: omitempty_uuid_def)
  have ne: "\<not> uUIDRegex []" by (simp add: uUIDRegex_def)
  show ?thesis
  proof (cases "lastSource (staticSrc i @ sources) (rdRouteID req)")
    case None
    then have "\<not> mhas (authCtls (loadCtls i sources)) (rdRouteID req)" by (simp add: mhas_def m del: mhas_iff)
    then show ?thesis
      using None by (auto simp: authorizeProxyCtls_def identifyID_def Let_def split: option.splits simp del: mhas_iff)
  next
    case (Some rs)
    then have h: "mhas (authCtls (loadCtls i sources)) (rdRouteID req)" by (simp add: mhas_def m del: mhas_iff)
    show ?thesis
    proof (cases "uUIDRegex (rdRouteID req)")
      case True
      then have "identifyID (loadCtls i sources) req = Inr (rdRouteID req)"
        using h ne v [of "rdRouteID req"]
        by (auto simp: identifyID_def Let_def simp del: mhas_iff Var_None)
      then show ?thesis
        using True Some by (auto simp: authorizeProxyCtls_def m c enforce_convert Let_def)
    next
      case False
      then have "\<exists>e. identifyID (loadCtls i sources) req = Inl e"
        using v [of "rdRouteID req"] by (auto simp: identifyID_def Let_def split: option.splits simp del: Var_None)
      then show ?thesis using False by (auto simp: authorizeProxyCtls_def)
    qed
  qed
qed

end
