(* ===== verification/JsonPrint.thy ===== *)
theory JsonPrint
  imports GoJson Codec
begin

text \<open>
  The text that Go's \<^verbatim>\<open>encoding/json\<close> writes for the values that the program encodes: strings with
  the default HTML-safe escaping, booleans and the members of an object.
\<close>

definition json_ascii :: "char \<Rightarrow> string" where
  "json_ascii c =
     (let b = byte_val c in
      if b = 34 \<or> b = 92 then [char_of (92 :: nat), c]
      else if b = 8 then [char_of (92 :: nat), CHR ''b'']
      else if b = 12 then [char_of (92 :: nat), CHR ''f'']
      else if b = 10 then [char_of (92 :: nat), CHR ''n'']
      else if b = 13 then [char_of (92 :: nat), CHR ''r'']
      else if b = 9 then [char_of (92 :: nat), CHR ''t'']
      else if b < 32 \<or> c \<in> set ''<>&'' then char_of (92 :: nat) # ''u00'' @ HexEncode [c]
      else [c])"

definition json_rune :: "nat \<times> string \<Rightarrow> string" where
  "json_rune rb =
     (case rb of (r, b) \<Rightarrow>
        if r < 128 then concat (map json_ascii b)
        else if r = rune_error \<and> length b = 1 then char_of (92 :: nat) # ''ufffd''
        else if r = 8232 then char_of (92 :: nat) # ''u2028''
        else if r = 8233 then char_of (92 :: nat) # ''u2029''
        else b)"

definition json_quote :: "string \<Rightarrow> string" where
  "json_quote s = [char_of (34 :: nat)] @ concat (map json_rune (utf8_chunks s)) @ [char_of (34 :: nat)]"

definition json_bool :: "bool \<Rightarrow> string" where
  "json_bool b = (if b then ''true'' else ''false'')"

definition json_object :: "(string \<times> string) list \<Rightarrow> string" where
  "json_object ms = ''{'' @ Join (map (\<lambda>(k, v). json_quote k @ '':'' @ v) ms) '','' @ ''}''"

definition newline :: string where "newline = [char_of (10 :: nat)]"

lemma json_quote_not_Nil [simp]: "json_quote s \<noteq> []"
  by (simp add: json_quote_def)

end
