(* ===== verification/AdminApi.thy ===== *)
theory AdminApi
  imports TokenFlow Registry JsonPrint
begin

text \<open>
  \<^verbatim>\<open>internal/server\<close>: the admin API. A request is its method, URL and body and whether its context
  carries a logger; a handler gives the response and the world after the work it started, and
  \<^term>\<open>None\<close> if it panics (\<^verbatim>\<open>mustGetLogger\<close> without a logger). The work of the webhooks runs after
  the response was written: here it is done when the handler ends. \<^verbatim>\<open>CONNECT\<close> requests and the
  target \<^verbatim>\<open>*\<close> are left out.
\<close>

section \<open>Requests and responses\<close>

record adminRequest =
  aqMethod :: string
  aqURL :: url
  aqBody :: string
  aqLogger :: bool

datatype adminBody = TextOf string | JsonOf json

record adminResponse =
  apStatus :: int
  apContentType :: string
  apBody :: adminBody

text \<open>\<open>Moved\<close> is the redirect of the multiplexer to the cleaned path.\<close>

datatype adminReply = Reply adminResponse | Moved string

record 'w data =
  daAddress :: string
  daRouteReg :: registry
  daClient :: "'w httpDo"
  daSpan :: spanContext
  daPause :: "'w \<Rightarrow> 'w"
  daStream :: "'w jstream"
  daPubSub :: pubsub
  daTokenAuth :: "'w internal"

definition StatusOK :: int where "StatusOK = 200"
definition StatusAccepted :: int where "StatusAccepted = 202"
definition StatusBadRequest :: int where "StatusBadRequest = 400"
definition StatusNotFound :: int where "StatusNotFound = 404"
definition StatusMethodNotAllowed :: int where "StatusMethodNotAllowed = 405"
definition StatusInternalServerError :: int where "StatusInternalServerError = 500"

lemmas http_status_defs = StatusOK_def StatusAccepted_def StatusBadRequest_def StatusNotFound_def
  StatusMethodNotAllowed_def StatusInternalServerError_def

definition defaultPrefix :: string where "defaultPrefix = ''/api/v1/''"
definition statePath :: string where "statePath = defaultPrefix @ ''state/''"
definition webhookPath :: string where "webhookPath = defaultPrefix @ ''webhook/''"
definition invalidJSONMsg :: string where "invalidJSONMsg = ''invalid JSON payload''"

text \<open>\<^verbatim>\<open>http.Error\<close>.\<close>

definition http_Error :: "string \<Rightarrow> int \<Rightarrow> adminResponse" where
  "http_Error msg code =
     \<lparr>apStatus = code, apContentType = ''text/plain; charset=utf-8'', apBody = TextOf (msg @ newline)\<rparr>"

definition jsonContentHeader :: string where "jsonContentHeader = ''application/json''"

definition methodNotAllowed :: "string \<Rightarrow> adminRequest \<Rightarrow> adminResponse option" where
  "methodNotAllowed allowedMethod r =
     (if aqMethod r = allowedMethod then None
      else Some \<lparr>apStatus = StatusMethodNotAllowed, apContentType = [], apBody = TextOf ''Method Not Allowed''\<rparr>)"

section \<open>Handlers\<close>

definition ctlsReportHandler :: "'w data \<Rightarrow> adminRequest \<Rightarrow> 'w \<Rightarrow> (adminResponse \<times> 'w) option" where
  "ctlsReportHandler d r w =
     (if \<not> aqLogger r then None
      else case methodNotAllowed ''GET'' r of
        Some resp \<Rightarrow> Some (resp, w)
      | None \<Rightarrow>
          Some (\<lparr>apStatus = StatusOK, apContentType = jsonContentHeader,
                 apBody = JsonOf (ReportControlsJSON (daRouteReg d))\<rparr>, w))"

record revokeSubtoken =
  rvTokenID :: string
  rvExternalID :: string

record revokePayload =
  rpTokenID :: string
  rpSubtokens :: "revokeSubtoken list"

definition decode_revokeSubtoken :: "json \<Rightarrow> revokeSubtoken result" where
  "decode_revokeSubtoken j =
     decode_struct True
       [json_field ''token_id'' decode_string rvTokenID (\<lambda>x r. r\<lparr>rvTokenID := x\<rparr>),
        json_field ''external_id'' decode_string rvExternalID (\<lambda>x r. r\<lparr>rvExternalID := x\<rparr>)] j
       \<lparr>rvTokenID = [], rvExternalID = []\<rparr>"

definition decode_revokePayload :: "json \<Rightarrow> revokePayload result" where
  "decode_revokePayload j =
     decode_struct True
       [json_field ''token_id'' decode_string rpTokenID (\<lambda>x r. r\<lparr>rpTokenID := x\<rparr>),
        json_field ''subtokens'' (decode_list decode_revokeSubtoken) rpSubtokens (\<lambda>x r. r\<lparr>rpSubtokens := x\<rparr>)] j
       \<lparr>rpTokenID = [], rpSubtokens = []\<rparr>"

text \<open>\<^verbatim>\<open>Decoder.Decode\<close> reads the first value of the body and leaves the rest unread.\<close>

definition decode_first :: "(json \<Rightarrow> 'a result) \<Rightarrow> string \<Rightarrow> 'a result" where
  "decode_first dec body =
     (case json_value (2 * length body + 2) 0 body of None \<Rightarrow> Inl syntax_err | Some (j, _) \<Rightarrow> dec j)"

definition validRevokePayload :: "revokePayload \<Rightarrow> bool" where
  "validRevokePayload p =
     (uUIDRegex (rpTokenID p)
      \<and> list_all (\<lambda>v. uUIDRegex (rvTokenID v) \<and> uUIDRegex (rvExternalID v)) (rpSubtokens p))"

definition processRevocation :: "'w internal \<Rightarrow> revokePayload \<Rightarrow> 'w \<Rightarrow> 'w" where
  "processRevocation tokenAuth p w =
     fold (\<lambda>v. RemoveSubtoken tokenAuth (rpTokenID p) (rvExternalID v) (rvTokenID v)) (rpSubtokens p)
       (InvalidateToken tokenAuth (rpTokenID p) w)"

definition accepted :: "(string \<times> string) list \<Rightarrow> adminResponse" where
  "accepted members =
     \<lparr>apStatus = StatusAccepted, apContentType = ''application/json; charset=utf-8'',
      apBody = TextOf (json_object members @ newline)\<rparr>"

definition invalidateWebhookHandler :: "'w data \<Rightarrow> adminRequest \<Rightarrow> 'w \<Rightarrow> (adminResponse \<times> 'w) option" where
  "invalidateWebhookHandler d r w =
     (if \<not> aqLogger r then None
      else case methodNotAllowed ''POST'' r of
        Some resp \<Rightarrow> Some (resp, w)
      | None \<Rightarrow>
          (case decode_first decode_revokePayload (aqBody r) of
             Inl err \<Rightarrow> Some (http_Error invalidJSONMsg StatusBadRequest, w)
           | Inr p \<Rightarrow>
               (case Struct validRevokePayload p of
                  Some sErr \<Rightarrow> Some (http_Error invalidJSONMsg StatusBadRequest, w)
                | None \<Rightarrow>
                    Some (accepted [(''status'', json_quote ''accepted''), (''token_id'', json_quote (rpTokenID p))],
                          processRevocation (daTokenAuth d) p w))))"

definition routesWebhookHandler :: "'w data \<Rightarrow> adminRequest \<Rightarrow> 'w \<Rightarrow> (adminResponse \<times> 'w) option" where
  "routesWebhookHandler d r w =
     (if \<not> aqLogger r then None
      else case methodNotAllowed ''POST'' r of
        Some resp \<Rightarrow> Some (resp, w)
      | None \<Rightarrow>
          Some (accepted [(''status'', json_quote ''accepted'')],
                AsyncFetchSources (daClient d) (daSpan d) (daPause d) (daStream d) (daPubSub d) (daRouteReg d) w))"

text \<open>\<open>ts\<close> is the current time in the format \<^verbatim>\<open>RFC3339Nano\<close>, \<open>version\<close> the version of the build.\<close>

definition dquote :: string where "dquote = [char_of (34 :: nat)]"

definition healthzHandler :: "string \<Rightarrow> adminRequest \<Rightarrow> 'w \<Rightarrow> (adminResponse \<times> 'w) option" where
  "healthzHandler ts r w =
     Some (\<lparr>apStatus = StatusOK, apContentType = jsonContentHeader,
            apBody = TextOf (''{'' @ dquote @ ''ok'' @ dquote @ '':true,'' @ dquote @ ''ts'' @ dquote @ '':'' @ dquote
              @ ts @ dquote @ ''}'' @ newline)\<rparr>, w)"

definition versionHandler :: "string \<Rightarrow> adminRequest \<Rightarrow> 'w \<Rightarrow> (adminResponse \<times> 'w) option" where
  "versionHandler version r w =
     (if \<not> aqLogger r then None
      else case methodNotAllowed ''GET'' r of
        Some resp \<Rightarrow> Some (resp, w)
      | None \<Rightarrow>
          Some (\<lparr>apStatus = StatusOK, apContentType = jsonContentHeader,
                 apBody = TextOf (''{'' @ dquote @ ''version'' @ dquote @ '': '' @ dquote @ version @ dquote @ ''}'' @ newline)\<rparr>, w))"

definition generic404Handler :: "adminRequest \<Rightarrow> 'w \<Rightarrow> (adminResponse \<times> 'w) option" where
  "generic404Handler r w =
     (if \<not> aqLogger r then None
      else Some (\<lparr>apStatus = StatusNotFound, apContentType = [], apBody = TextOf ''404 Not Found''\<rparr>, w))"

section \<open>Routing of requests\<close>

text \<open>\<^verbatim>\<open>http.ServeMux\<close>: an unclean path is redirected; the elements of a clean one are compared unescaped.\<close>

definition cleanPath :: "string \<Rightarrow> string" where
  "cleanPath p =
     (if p = [] then ''/''
      else let q = (if hd p \<noteq> CHR ''/'' then CHR ''/'' # p else p); np = path_Clean q
           in if last q = CHR ''/'' \<and> np \<noteq> ''/'' then np @ ''/'' else np)"

definition mux_elems :: "string \<Rightarrow> string list" where
  "mux_elems p = map (\<lambda>e. case unescape EncPath e of Some t \<Rightarrow> t | None \<Rightarrow> e) (Split p ''/'')"

definition adminHandlers ::
    "'w data \<Rightarrow> string \<Rightarrow> string \<Rightarrow> (string \<times> (adminRequest \<Rightarrow> 'w \<Rightarrow> (adminResponse \<times> 'w) option)) list" where
  "adminHandlers d ts version =
     [(statePath @ ''ctls'', ctlsReportHandler d),
      (webhookPath @ ''routes'', routesWebhookHandler d),
      (webhookPath @ ''invalidate'', invalidateWebhookHandler d),
      (defaultPrefix @ ''version'', versionHandler version),
      (defaultPrefix @ ''healthz'', healthzHandler ts)]"

definition serveMux ::
    "(string \<times> (adminRequest \<Rightarrow> 'w \<Rightarrow> (adminResponse \<times> 'w) option)) list \<Rightarrow> adminRequest \<Rightarrow> 'w
       \<Rightarrow> (adminReply \<times> 'w) option" where
  "serveMux handlers r w =
     (let p = EscapedPath (aqURL r) in
      if cleanPath p \<noteq> p then Some (Moved (cleanPath p), w)
      else map_option (\<lambda>(resp, w'). (Reply resp, w'))
             (case List.find (\<lambda>(pat, _). Split pat ''/'' = mux_elems p) handlers of
                Some (_, h) \<Rightarrow> h r w
              | None \<Rightarrow> generic404Handler r w))"

definition recoveryMiddleware ::
    "(adminRequest \<Rightarrow> 'w \<Rightarrow> (adminReply \<times> 'w) option) \<Rightarrow> adminRequest \<Rightarrow> 'w \<Rightarrow> (adminReply \<times> 'w) option" where
  "recoveryMiddleware next r w =
     (case next r w of
        Some reply \<Rightarrow> Some reply
      | None \<Rightarrow>
          if aqLogger r then Some (Reply (http_Error ''Internal Server Error'' StatusInternalServerError), w) else None)"

definition setLogger :: "adminRequest \<Rightarrow> adminRequest" where
  [simp]: "setLogger r = r\<lparr>aqLogger := True\<rparr>"

definition loggingMiddleware ::
    "(adminRequest \<Rightarrow> 'w \<Rightarrow> (adminReply \<times> 'w) option) \<Rightarrow> adminRequest \<Rightarrow> 'w \<Rightarrow> (adminReply \<times> 'w) option" where
  "loggingMiddleware next r w =
     (if url_String (aqURL r) = defaultPrefix @ ''healthz'' then next r w else next (setLogger r) w)"

definition adminServe ::
    "'w data \<Rightarrow> string \<Rightarrow> string \<Rightarrow> adminRequest \<Rightarrow> 'w \<Rightarrow> (adminReply \<times> 'w) option" where
  "adminServe d ts version r w =
     loggingMiddleware (recoveryMiddleware (serveMux (adminHandlers d ts version))) r w"

section \<open>The server\<close>

record httpServer =
  hsvAddr :: string
  hsvReadTimeout :: int
  hsvWriteTimeout :: int
  hsvReadHeaderTimeout :: int

definition initializeAdminServer :: "'w data \<Rightarrow> httpServer" where
  "initializeAdminServer d =
     \<lparr>hsvAddr = daAddress d, hsvReadTimeout = 10 * 10 ^ 9, hsvWriteTimeout = 10 * 10 ^ 9, hsvReadHeaderTimeout = 5 * 10 ^ 9\<rparr>"

text \<open>
  What ends the server first: the context, with requests being served or not, or the end of
  \<^verbatim>\<open>ListenAndServe\<close>. \<^verbatim>\<open>Shutdown\<close> returns the error of its context if that is done while connections are
  active; the context it is given descends from the one that has just ended.
\<close>

datatype httpEnd = HttpCtxDone bool | ListenEnded "gerror option"

definition http_Shutdown :: "gerror option \<Rightarrow> bool \<Rightarrow> unit result" where
  "http_Shutdown ctxErr active = (if active then (case ctxErr of Some e \<Rightarrow> Inl e | None \<Rightarrow> Inr ()) else Inr ())"

definition waitForHttpShutdown :: "httpEnd \<Rightarrow> unit result" where
  "waitForHttpShutdown ev =
     (case ev of
        HttpCtxDone active \<Rightarrow> http_Shutdown (Some ''context canceled'') active
      | ListenEnded None \<Rightarrow> Inr ()
      | ListenEnded (Some err) \<Rightarrow> Inl err)"

text \<open>The requests served until the server ends.\<close>

fun serve_all :: "'w data \<Rightarrow> string \<Rightarrow> (string \<times> adminRequest) list \<Rightarrow> 'w \<Rightarrow> (adminReply option list \<times> 'w)" where
  "serve_all d version [] w = ([], w)"
| "serve_all d version ((ts, r) # rs) w =
     (case adminServe d ts version r w of
        None \<Rightarrow> (case serve_all d version rs w of (ps, w') \<Rightarrow> (None # ps, w'))
      | Some (p, w1) \<Rightarrow> (case serve_all d version rs w1 of (ps, w') \<Rightarrow> (Some p # ps, w')))"

definition AdminAPI :: "'w data \<Rightarrow> string \<Rightarrow> (string \<times> adminRequest) list \<Rightarrow> httpEnd \<Rightarrow> 'w \<Rightarrow> unit result \<times> 'w" where
  "AdminAPI d version rs ev w = (waitForHttpShutdown ev, snd (serve_all d version rs w))"

end
