(* ===== verification/TokenScenario.thy ===== *)
theory TokenScenario
  imports TokenFlow "HOL-Library.Code_Target_Numeral"
begin

text \<open>
  A concrete surrounding for the authenticator: a token service that knows one token, a bucket in
  memory and a fixed clock. The properties of the flows are applied here.
\<close>

definition demoToken :: string where
  "demoToken = ''0123abcd-0123-0123-0123-0123456789ab.secret''"

definition demoTokenID :: string where
  "demoTokenID = ''0123abcd-0123-0123-0123-0123456789ab''"

text \<open>Double quotes are written as tildes.\<close>

definition dq :: "string \<Rightarrow> string" where
  "dq s = map (\<lambda>c. if c = CHR ''~'' then quote_char else c) s"

definition demoJWT :: string where
  "demoJWT =
     ''h.'' @ RawURLEncode (dq ''{~sub~:~alice~,~groups~:[~lab~],~exp~:2000000000,~token_id~:~t1~}'') @ ''.s''"

definition demoDoc :: json where
  "demoDoc = JObj [(''sub'', JStr ''alice''), (''groups'', JArr [JStr ''lab'']),
     (''exp'', JNum 2000000000), (''token_id'', JStr ''t1'')]"

definition demoPayload :: TokenPayload where
  "demoPayload = zero_TokenPayload\<lparr>Username := ''alice'', Groups := [''lab''],
     Exp := 2000000000 * 1000000000, plTokenID := ''t1''\<rparr>"

definition demoServe :: "http_request \<Rightarrow> http_response result" where
  "demoServe req =
     (if hrMethod req = ''POST''
      then Inr \<lparr>hsStatus = 201, hsHeader = [], hsBody = Inr (dq ''{~token~:~sub1~}'')\<rparr>
      else if sget (hrHeader req) ''x-token'' = demoToken
      then Inr \<lparr>hsStatus = 200, hsHeader = [], hsBody = Inr (dq ''{~jwt~:~'' @ demoJWT @ dq ''~}'')\<rparr>
      else Inr \<lparr>hsStatus = 401, hsHeader = [], hsBody = Inr []\<rparr>)"

definition demoArgs :: TokenService where
  "demoArgs = (tokenSvcArgs zero_app)\<lparr>TokenHost := ''http://token'', TokenHeader := ''x-token'',
     TokenExchangePath := ''/api/v1/token/jwt'', SubtokenPath := ''/api/v1/admin/token''\<rparr>"

definition demoClock :: "mem \<Rightarrow> time" where
  "demoClock w = 1700000000 * 1000000000"

definition demoBase :: "Cipherer \<Rightarrow> mem internal" where
  "demoBase c =
     \<lparr>inCipher = c, inRand = (\<lambda>n w. (Inl [], w)), inClient = (\<lambda>req w. (Inl [], w)),
      inSpan = \<lparr>scValid = False, scTraceID = [], scSpanID = [], scFlags = CHR 0x00\<rparr>, kvStore = memBucket,
      clock = demoClock, oauth2Enabled = False, oauth2RedirectURL = empty_url,
      oauth2AuthURL = empty_url, oauthExchangeURL = [], tokenExchangeURL = ''http://token/api/v1/token/jwt'',
      tokenSvc = demoArgs, subtokenReqURL = ''http://token/api/v1/admin/token''\<rparr>"

definition demoInternal :: "Cipherer \<Rightarrow> mem internal" where
  "demoInternal c = memInternal (demoBase c) (\<lambda>n. replicate n (CHR ''r'')) demoServe"

definition demoWorld :: mem where
  "demoWorld = \<lparr>memKV = [], memSeq = 0\<rparr>"

definition demoKey :: "block list" where
  "demoKey = key_schedule (to_bytes (replicate 16 (CHR ''k'')))"

lemma demo_env: "token_env memBucket memStore (demoInternal c)"
  unfolding demoInternal_def by (rule token_env_memInternal)

lemma demo_fields [simp]:
  "inCipher (demoInternal c) = c" "kvStore (demoInternal c) = memBucket"
  "inClient (demoInternal c) = (\<lambda>req w. (demoServe req, w))"
  "tokenSvc (demoInternal c) = demoArgs" "inSpan (demoInternal c) = inSpan (demoBase c)"
  "tokenExchangeURL (demoInternal c) = ''http://token/api/v1/token/jwt''"
  "subtokenReqURL (demoInternal c) = ''http://token/api/v1/admin/token''"
  "clock (demoInternal c) = demoClock" "TokenHeader demoArgs = ''x-token''"
  by (simp_all add: demoInternal_def memInternal_def demoBase_def demoArgs_def)

lemma demo_text: "json_parse (dq ''{~jwt~:~'' @ demoJWT @ dq ''~}'') = Some (JObj [(''jwt'', JStr demoJWT)])"
  by code_simp

lemma demo_payload_text:
  "json_parse (dq ''{~sub~:~alice~,~groups~:[~lab~],~exp~:2000000000,~token_id~:~t1~}'') = Some demoDoc"
  by code_simp

lemma demo_split: "Split demoJWT ''.'' =
    [''h'', RawURLEncode (dq ''{~sub~:~alice~,~groups~:[~lab~],~exp~:2000000000,~token_id~:~t1~}''), ''s'']"
  by code_simp

lemma FloatTime_JNum:
  assumes "\<bar>s\<bar> \<le> 2 ^ 53"
  shows "FloatTime_UnmarshalJSON (JNum (of_int s)) t = Inr (s * 1000000000)"
  using rnd53_bound [OF assms]
  by (simp add: FloatTime_UnmarshalJSON_def decode_float_def float_of_number_def Let_def
      rnd53_int [OF assms] FloatTime_of_int [OF assms])

lemma demo_payload: "decode_TokenPayload demoDoc zero_TokenPayload = Inr demoPayload"
  using FloatTime_JNum [of 2000000000]
  by (simp add: decode_TokenPayload_def demoDoc_def TokenPayload_fields_def ToLower_def lower_byte_def
      decode_strings_def decode_list_def demoPayload_def zero_TokenPayload_def)

lemma demo_jwt: "decodeTrustedJWT demoJWT = Inr demoPayload"
  by (simp add: decodeTrustedJWT_def demo_split demo_payload_text demo_payload)

lemma demo_exchangeResp: "decode_exchangeResp (JObj [(''jwt'', JStr t)]) = Inr \<lparr>JWT = t\<rparr>"
  by (simp add: decode_exchangeResp_def ToLower_def lower_byte_def)

lemma demo_request:
  "build_request (inSpan (demoBase c)) ''GET'' ''http://token/api/v1/token/jwt'' [(''x-token'', t)] [] None
     = Inr \<lparr>hrMethod = ''GET'', hrURL = ''http://token/api/v1/token/jwt'', hrHeader = [(''x-token'', t)],
            hrCookies = [], hrBody = None\<rparr>"
proof -
  have u: "\<exists>v. url_Parse ''http://token/api/v1/token/jwt'' = Inr v"
    by (rule exI [of _ "empty_url\<lparr>Scheme := ''http'', Host := ''token'', Path := ''/api/v1/token/jwt''\<rparr>"])
       code_simp
  have l: "ToLower ''x-token'' = ''x-token''" by code_simp
  show ?thesis
    using u by (auto simp: build_request_def set_headers_def l demoBase_def traceparentFromContext_def
        TraceparentHeader_def)
qed

lemma demo_known:
  "GetJSON (inClient (demoInternal c)) (inSpan (demoInternal c)) (tokenExchangeURL (demoInternal c))
     [(TokenHeader demoArgs, demoToken)] decode_exchangeResp w = (Inr \<lparr>JWT = demoJWT\<rparr>, w)"
  by (simp add: GetJSON_def runAndUnmarshal_def runRequest_def demo_request demoServe_def demo_text demo_exchangeResp)

lemma demo_unknown:
  assumes "t \<noteq> demoToken"
  shows "\<exists>err. GetJSON (inClient (demoInternal c)) (inSpan (demoInternal c)) (tokenExchangeURL (demoInternal c))
     [(TokenHeader demoArgs, t)] decode_exchangeResp w = (Inl err, w) \<and> rfStatus err = StatusUnauthorized"
  using assms
  by (simp add: GetJSON_def runAndUnmarshal_def runRequest_def demo_request demoServe_def StatusUnauthorized_def)

lemma demo_post:
  "PostJSONBody (inClient (demoInternal c)) (inSpan (demoInternal c)) ''http://token/api/v1/admin/token/alice''
     [] body decode_subtokenResp w = (Inr ''sub1'', w)"
proof -
  have u: "\<exists>v. url_Parse ''http://token/api/v1/admin/token/alice'' = Inr v"
    by (rule exI [of _ "empty_url\<lparr>Scheme := ''http'', Host := ''token'', Path := ''/api/v1/admin/token/alice''\<rparr>"])
       code_simp
  then obtain req where req: "build_request (inSpan (demoInternal c)) ''POST'' ''http://token/api/v1/admin/token/alice''
      [(''content-type'', ''application/json'')] [] (Some body) = Inr req" "hrMethod req = ''POST''"
    by (auto simp: build_request_def Let_def)
  have t: "json_parse (dq ''{~token~:~sub1~}'') = Some (JObj [(''token'', JStr ''sub1'')])" by code_simp
  have "decode_subtokenResp (JObj [(''token'', JStr ''sub1'')]) = Inr ''sub1''"
    by (simp add: decode_subtokenResp_def ToLower_def lower_byte_def)
  then show ?thesis
    using req t by (simp add: PostJSONBody_def runAndUnmarshal_def runRequest_def demoServe_def)
qed

lemma demo_miss: "getCache (demoInternal NoopCipher) key tok demoWorld = (Inr None, demoWorld)"
  by (simp add: getCache_def kv_Get_def memBucket_def demoWorld_def)

lemma demo_flow:
  "wormholeAccessTokenFlow (demoInternal NoopCipher) demoToken demoTokenID demoWorld =
     (Inr (demoPayload, demoJWT),
      storeCache (demoInternal NoopCipher) (WormholeAccessToken demoTokenID)
        (zero_cache\<lparr>decryptedJumpToken := demoJWT, decryptedToken := demoToken, csPayload := demoPayload\<rparr>) demoWorld)"
  by (simp add: wormholeAccessTokenFlow_def demo_miss exchangeToken_def demo_known [simplified] demo_jwt)

lemma demo_ne [simp]: "demoToken \<noteq> []" "demoTokenID \<noteq> []"
  by (simp_all add: demoToken_def demoTokenID_def)

lemma demo_empty: "doc_of memStore demoWorld k = None"
  by (simp add: doc_of_def memStore_def demoWorld_def)

end
