(* ===== verification/CacherSvc.thy ===== *)
theory CacherSvc
  imports Registry "HOL-Library.Code_Target_Numeral"
begin

text \<open>
  \<^verbatim>\<open>internal/cacher/cacher.go\<close>: the process that publishes the sources of the registry service at every
  tick and gives up when too many publications failed within an hour. Times are nanoseconds; a
  tick carries the time that \<^verbatim>\<open>time.Now\<close> reads if its publication fails, and the list of ticks ends
  when the context is done.
\<close>

section \<open>Operations\<close>

definition failureWindow :: time where
  "failureWindow = 3600 * 1000000000"

fun drop_before :: "time \<Rightarrow> time list \<Rightarrow> time list" where
  "drop_before cutoff [] = []"
| "drop_before cutoff (t # ts) = (if t < cutoff then drop_before cutoff ts else t # ts)"

definition appendFailure :: "time \<Rightarrow> time list \<Rightarrow> time list" where
  "appendFailure now failures = drop_before (now - failureWindow) (failures @ [now])"

fun routes_loop_ticks ::
    "('w \<Rightarrow> unit result \<times> 'w) \<Rightarrow> Cacher \<Rightarrow> time list \<Rightarrow> time list \<Rightarrow> 'w \<Rightarrow> unit result \<times> 'w" where
  "routes_loop_ticks publish args failures [] w = (Inr (), w)"
| "routes_loop_ticks publish args failures (now # ticks) w =
     (case publish w of
        (Inr _, w') \<Rightarrow> routes_loop_ticks publish args failures ticks w'
      | (Inl err, w') \<Rightarrow>
          (let failures' = appendFailure now failures in
           if MaxFailures args \<le> int (length failures')
           then (Inl (''failed to publish updated route source: '' @ err), w')
           else routes_loop_ticks publish args failures' ticks w'))"

text \<open>\<^verbatim>\<open>time.NewTicker\<close> panics on an interval that is not positive.\<close>

definition manageRoutes ::
    "('w \<Rightarrow> unit result \<times> 'w) \<Rightarrow> Cacher \<Rightarrow> time list \<Rightarrow> 'w \<Rightarrow> (unit result \<times> 'w) option" where
  "manageRoutes publish args ticks w =
     (if RouteRefresh args \<le> 0 then None else Some (routes_loop_ticks publish args [] ticks w))"

definition StartService ::
    "'w httpDo \<Rightarrow> spanContext \<Rightarrow> ('w \<Rightarrow> 'w) \<Rightarrow> 'w jstream \<Rightarrow> pubsub \<Rightarrow> registry \<Rightarrow> Cacher \<Rightarrow> time list \<Rightarrow> 'w
       \<Rightarrow> (unit result \<times> 'w) option" where
  "StartService do sc pause js ps reg args ticks w =
     (let publish = PublishSources do sc pause js ps reg in
      case publish w of
        (Inl err, w') \<Rightarrow> Some (Inl (''failed to publish initial route source: '' @ err), w')
      | (Inr _, w') \<Rightarrow> manageRoutes publish args ticks w')"

section \<open>The failure window\<close>

text \<open>The reference: of all failures so far, those that are not older than the window.\<close>

definition recent :: "time \<Rightarrow> time list \<Rightarrow> time list" where
  "recent now failures = filter (\<lambda>t. now - failureWindow \<le> t) failures"

lemma drop_before_filter: "sorted ts \<Longrightarrow> drop_before c ts = filter (\<lambda>t. c \<le> t) ts"
proof (induction ts)
  case (Cons t ts)
  show ?case
  proof (cases "t < c")
    case False
    then have "\<forall>x \<in> set (t # ts). c \<le> x" using Cons.prems by auto
    then show ?thesis using False by (simp add: filter_id_conv)
  qed (use Cons in simp)
qed simp

lemma appendFailure_recent:
  assumes "sorted (failures @ [now])"
  shows "appendFailure now failures = recent now (failures @ [now])"
  using drop_before_filter [OF assms] by (simp add: appendFailure_def recent_def)

lemma recent_recent: "t \<le> now \<Longrightarrow> recent now (recent t fs @ xs) = recent now (fs @ xs)"
  by (auto simp: recent_def intro!: filter_cong)

lemma recent_sorted: "sorted fs \<Longrightarrow> sorted (recent now fs)"
  by (simp add: recent_def sorted_wrt_filter)

text \<open>The failed ticks of a run, and the outcome of publishing at every tick.\<close>

fun publications :: "('w \<Rightarrow> unit result \<times> 'w) \<Rightarrow> time list \<Rightarrow> 'w \<Rightarrow> (time \<times> gerror option) list" where
  "publications publish [] w = []"
| "publications publish (t # ts) w =
     (case publish w of
        (Inr _, w') \<Rightarrow> (t, None) # publications publish ts w'
      | (Inl err, w') \<Rightarrow> (t, Some err) # publications publish ts w')"

definition failed :: "(time \<times> gerror option) list \<Rightarrow> time list" where
  "failed ps = map fst (filter (\<lambda>(t, e). e \<noteq> None) ps)"

text \<open>A publication that fails and is the last of \<open>limit\<close> failures within the window.\<close>

fun gives_up :: "int \<Rightarrow> time list \<Rightarrow> (time \<times> gerror option) list \<Rightarrow> gerror option" where
  "gives_up limit fs [] = None"
| "gives_up limit fs ((t, None) # ps) = gives_up limit fs ps"
| "gives_up limit fs ((t, Some err) # ps) =
     (if limit \<le> int (length (recent t (fs @ [t]))) then Some err else gives_up limit (fs @ [t]) ps)"

lemma routes_loop_gives_up:
  assumes "sorted (fs @ ticks)" "fs' = (if fs = [] then [] else recent (last fs) fs)"
  shows "fst (routes_loop_ticks publish args fs' ticks w) =
    (case gives_up (MaxFailures args) fs (publications publish ticks w) of
       None \<Rightarrow> Inr ()
     | Some err \<Rightarrow> Inl (''failed to publish updated route source: '' @ err))"
  using assms
proof (induction ticks arbitrary: fs fs' w)
  case (Cons now ticks)
  obtain res w' where p: "publish w = (res, w')" by fastforce
  show ?case
  proof (cases res)
    case (Inr u)
    have "sorted (fs @ ticks)" using Cons.prems(1) by (simp add: sorted_append)
    from Cons.IH [OF this Cons.prems(2), of w'] show ?thesis using p Inr by simp
  next
    case (Inl err)
    have s: "sorted (fs @ [now])" "sorted ((fs @ [now]) @ ticks)" using Cons.prems(1) by (auto simp: sorted_append)
    have "appendFailure now fs' = recent now (fs @ [now])"
    proof (cases "fs = []")
      case True
      then show ?thesis using Cons.prems(2) by (simp add: appendFailure_recent)
    next
      case False
      then have fs': "fs' = recent (last fs) fs" using Cons.prems(2) by simp
      have le: "last fs \<le> now" "sorted fs" using s(1) False by (auto simp: sorted_append)
      have "sorted (fs' @ [now])" using s(1) using recent_sorted [OF le(2), of "last fs"] by (auto simp: fs' sorted_append recent_def)
      then show ?thesis using appendFailure_recent recent_recent [OF le(1)] by (simp add: fs')
    qed
    moreover have "fst (routes_loop_ticks publish args (recent now (fs @ [now])) ticks w') =
        (case gives_up (MaxFailures args) (fs @ [now]) (publications publish ticks w') of
           None \<Rightarrow> Inr ()
         | Some err \<Rightarrow> Inl (''failed to publish updated route source: '' @ err))"
      by (rule Cons.IH [OF s(2)]) simp
    ultimately show ?thesis using p Inl by (simp add: Let_def)
  qed
qed simp

section \<open>Properties\<close>

text \<open>
  C24: the cacher ends with an error exactly at the first failed publication that, with the failures of
  the hour before it, makes up the allowed number; until then it runs until its context is done. The
  list it keeps is thus as good as the whole history of failures.
\<close>

theorem cacher_gives_up:
  assumes "0 < RouteRefresh args" "sorted ticks"
    and "PublishSources do sc pause js ps reg w = (Inr (), w1)"
  shows "\<exists>w'. StartService do sc pause js ps reg args ticks w =
    Some (case gives_up (MaxFailures args) [] (publications (PublishSources do sc pause js ps reg) ticks w1) of
            None \<Rightarrow> Inr ()
          | Some err \<Rightarrow> Inl (''failed to publish updated route source: '' @ err), w')"
  using assms routes_loop_gives_up [of "[]" ticks "[]" "PublishSources do sc pause js ps reg" args w1]
  by (cases "routes_loop_ticks (PublishSources do sc pause js ps reg) args [] ticks w1")
     (simp add: StartService_def manageRoutes_def Let_def)

text \<open>A registry that answers once and then fails; the state counts the requests.\<close>

definition flakyDo :: "nat httpDo" where
  "flakyDo req n = (if n = 0 then Inr \<lparr>hsStatus = 200, hsHeader = [], hsBody = Inr ''[]''\<rparr> else Inl ''refused'', Suc n)"

definition quietStream :: "nat jstream" where
  "quietStream = \<lparr>jsPublish = (\<lambda>s b w. (Inr 1, w)), jsLast = (\<lambda>s w. (Inl ''none'', w))\<rparr>"

definition noSpan :: spanContext where
  "noSpan = \<lparr>scValid = False, scTraceID = [], scSpanID = [], scFlags = CHR 0x00\<rparr>"

definition flakyPublish :: "nat \<Rightarrow> unit result \<times> nat" where
  "flakyPublish = PublishSources flakyDo noSpan (\<lambda>w. w) quietStream \<lparr>psStream = ''routes'', psSubject = ''routes''\<rparr>
     \<lparr>adminRedirectAllow = [], routesURL = ''http://registry'', staticSrc = [], authCtls = [], proxyCtls = [], redirectAllow = []\<rparr>"

theorem cacher_gives_up_witness:
  "\<exists>e w'. StartService flakyDo noSpan (\<lambda>w. w) quietStream \<lparr>psStream = ''routes'', psSubject = ''routes''\<rparr>
      \<lparr>adminRedirectAllow = [], routesURL = ''http://registry'', staticSrc = [], authCtls = [], proxyCtls = [], redirectAllow = []\<rparr>
      \<lparr>MaxFailures = 2, RouteRefresh = 1\<rparr> [0, 2 * failureWindow, 2 * failureWindow + 1] 0 = Some (Inl e, w')"
proof -
  have i: "flakyPublish 0 = (Inr (), 1)" by code_simp
  have f: "list_all (\<lambda>(t, e). e \<noteq> None) (publications flakyPublish [0, 2 * failureWindow, 2 * failureWindow + 1] 1)"
    "map fst (publications flakyPublish [0, 2 * failureWindow, 2 * failureWindow + 1] 1) =
       [0, 2 * failureWindow, 2 * failureWindow + 1]" by code_simp+
  then obtain e1 e2 e3 where p: "publications flakyPublish [0, 2 * failureWindow, 2 * failureWindow + 1] 1 =
      [(0, Some e1), (2 * failureWindow, Some e2), (2 * failureWindow + 1, Some e3)]"
    by (cases "publications flakyPublish [0, 2 * failureWindow, 2 * failureWindow + 1] 1") (auto simp: map_eq_Cons_conv)
  have "gives_up 2 [] [(0, Some e1), (2 * failureWindow, Some e2), (2 * failureWindow + 1, Some e3)] = Some e3"
    by (simp add: recent_def failureWindow_def)
  with p have g: "gives_up 2 [] (publications flakyPublish [0, 2 * failureWindow, 2 * failureWindow + 1] 1) = Some e3" by simp
  have "sorted [0, 2 * failureWindow, 2 * failureWindow + 1]" by (simp add: failureWindow_def)
  from cacher_gives_up [of "\<lparr>MaxFailures = 2, RouteRefresh = 1\<rparr>", OF _ this i [unfolded flakyPublish_def]]
  show ?thesis using g by (auto simp: flakyPublish_def [symmetric])
qed

end
