(* ===== verification/EnvoyAuth.thy ===== *)
theory EnvoyAuth
  imports TokenFlow Registry
begin

text \<open>
  \<^verbatim>\<open>internal/envoy/auth.go\<close>: the external authorization service of Envoy. \<open>Check\<close> authenticates a
  request, authorizes it and answers with the headers to set or with a refusal. What the server
  logs about a request is a value; the server itself (\<^verbatim>\<open>envoy.go\<close>) is its gRPC options and the way
  it ends.
\<close>

section \<open>Messages\<close>

record CheckRequest =
  cqMethod :: string
  cqPath :: string
  cqHeaders :: headers
  cqContextExtensions :: headers

record HeaderValueOption =
  hvKey :: string
  hvValue :: string
  hvOverwrite :: bool

datatype responseBody = JSONBody json | TextBody string

datatype HttpResponse =
    OkResponse "HeaderValueOption list" "string list"
  | DeniedResponse int "HeaderValueOption list" responseBody

record CheckResponse =
  cpCode :: int
  cpMessage :: string
  cpHttp :: HttpResponse

record 'w authServer =
  asRouteReg :: registry
  asTokenAuth :: "'w internal"
  asTokenSvc :: TokenService

section \<open>Operations\<close>

definition establishReqDetails :: "'w authServer \<Rightarrow> CheckRequest \<Rightarrow> RequestDetails" where
  "establishReqDetails s req =
     (let ctxExt = cqContextExtensions req;
          details = \<lparr>rdHeaders = cqHeaders req, rdRouteID = sget ctxExt RouteIDHeader,
                     rdCommunityID = sget ctxExt CommunityHeader, rdHost = sget ctxExt WormholeHostHeader,
                     rdScheme = sget ctxExt WormholeSchemeHeader, rdPath = []\<rparr>
      in if DevHostHeader (asTokenSvc s) \<noteq> [] then
           (let h = sget (rdHeaders details) (DevHostHeader (asTokenSvc s))
            in if h \<noteq> [] then details\<lparr>rdHost := h\<rparr> else details)
         else details)"

text \<open>The attributes of every log line of a request.\<close>

definition authLogger :: "RequestDetails \<Rightarrow> CheckRequest \<Rightarrow> (string \<times> string) list" where
  "authLogger details req =
     [(RouteIDHeader, rdRouteID details), (''guid:'' @ RequestIDHeader, sget (cqHeaders req) RequestIDHeader),
      (''auth.method'', cqMethod req), (''auth.path'', cqPath req), (''auth.host'', rdHost details)]"

definition headerDebug :: "'w authServer \<Rightarrow> CheckRequest \<Rightarrow> (level \<times> string) list" where
  "headerDebug s req =
     (if sget (cqHeaders req) ''upgrade'' = ''websocket''
      then [(LevelInfo, ''websocket upgrade request'')] else [])
     @ (if TokenHeaderDebug (asTokenSvc s)
        then map (\<lambda>(k, v). (LevelDebug, ''header: '' @ k @ ''='' @ v)) (cqHeaders req) else [])"

definition allowRequest :: "AuthResponse \<Rightarrow> CheckResponse" where
  "allowRequest authResp =
     \<lparr>cpCode = codes_OK, cpMessage = [],
      cpHttp = OkResponse
        (map (\<lambda>(k, v). \<lparr>hvKey = k, hvValue = v, hvOverwrite = True\<rparr>) (SetHeaders authResp))
        (RemoveHeaders authResp)\<rparr>"

definition errHeaders :: "StatusError \<Rightarrow> HeaderValueOption list" where
  "errHeaders sErr =
     (case Headers sErr of
        None \<Rightarrow> []
      | Some hdrs \<Rightarrow> map (\<lambda>(k, v). \<lparr>hvKey = k, hvValue = v, hvOverwrite = True\<rparr>) hdrs)"

definition StatusCode_Accepted :: int where "StatusCode_Accepted = 202"
definition StatusCode_Found :: int where "StatusCode_Found = 302"
definition StatusCode_BadRequest :: int where "StatusCode_BadRequest = 400"
definition StatusCode_Unauthorized :: int where "StatusCode_Unauthorized = 401"
definition StatusCode_NotFound :: int where "StatusCode_NotFound = 404"
definition StatusCode_InternalServerError :: int where "StatusCode_InternalServerError = 500"

lemmas status_defs = StatusCode_Accepted_def StatusCode_Found_def StatusCode_BadRequest_def
  StatusCode_Unauthorized_def StatusCode_NotFound_def StatusCode_InternalServerError_def

definition statusCode :: "StatusError option \<Rightarrow> int" where
  "statusCode sErr =
     (case sErr of
        None \<Rightarrow> StatusCode_Accepted
      | Some e \<Rightarrow>
          if Code e = codes_Unauthenticated then StatusCode_Unauthorized
          else if Code e = codes_InvalidArgument then StatusCode_BadRequest
          else if Code e = codes_NotFound then StatusCode_NotFound
          else StatusCode_InternalServerError)"

definition plainHeader :: "string \<Rightarrow> string \<Rightarrow> HeaderValueOption" where
  "plainHeader k v = \<lparr>hvKey = k, hvValue = v, hvOverwrite = False\<rparr>"

definition denyRequest :: "StatusError \<Rightarrow> CheckResponse" where
  "denyRequest sErr =
     \<lparr>cpCode = Code sErr, cpMessage = Error sErr,
      cpHttp = DeniedResponse (statusCode (Some sErr))
        (plainHeader ''content-type'' ''application/json'' # errHeaders sErr) (JSONBody (Body sErr))\<rparr>"

text \<open>\<^verbatim>\<open>html.EscapeString\<close>\<close>

definition html_escape_char :: "char \<Rightarrow> string" where
  "html_escape_char c =
     (if c = CHR ''&'' then ''&amp;''
      else if c = CHR 0x27 then ''&#39;''
      else if c = CHR ''<'' then ''&lt;''
      else if c = CHR ''>'' then ''&gt;''
      else if c = CHR 0x22 then ''&#34;'' else [c])"

definition html_EscapeString :: "string \<Rightarrow> string" where
  "html_EscapeString s = concat (map html_escape_char s)"

definition redirectBody :: "string \<Rightarrow> string" where
  "redirectBody redirectURL =
     ''<html>'' @ [CHR 0x0A] @ ''<body>'' @ [CHR 0x0A, CHR 0x09] @ ''Redirecting to login... <a href='' @ [CHR 0x22]
     @ html_EscapeString redirectURL @ [CHR 0x22] @ ''Click here</a> if not redirected.'' @ [CHR 0x0A]
     @ ''</body>'' @ [CHR 0x0A] @ ''</html>''"

definition redirectRequest :: "'w authServer \<Rightarrow> RequestDetails \<Rightarrow> StatusError \<Rightarrow> CheckResponse" where
  "redirectRequest s details sErr =
     (let redirectURL = snd (RedirectRequired sErr) in
      if \<not> AllowedRedirect (asRouteReg s) redirectURL
      then denyRequest (SimpleBadReqErr (''invalid redirect URL: '' @ redirectURL))
      else \<lparr>cpCode = codes_Unauthenticated, cpMessage = [],
            cpHttp = DeniedResponse StatusCode_Found
              ([plainHeader ''location'' redirectURL, plainHeader XForwardProtoHeader (rdScheme details),
                plainHeader XForwardHostHeader (rdHost details), plainHeader XForwardURIHeader (rdPath details)]
               @ errHeaders sErr)
              (TextBody (redirectBody redirectURL))\<rparr>)"

text \<open>The headers of an allowed request.\<close>

definition finalHeaders :: "'w authServer \<Rightarrow> RequestDetails \<Rightarrow> string \<Rightarrow> headers \<Rightarrow> headers" where
  "finalHeaders s details subtoken hs =
     mput WormholeSchemeHeader (rdScheme details)
       (mput WormholeHostHeader (rdHost details)
         (mput RouteIDHeader (rdRouteID details)
           (if subtoken \<noteq> [] then mput (SubtokenHeader (asTokenSvc s)) subtoken hs else hs)))"

definition Check :: "'w authServer \<Rightarrow> CheckRequest \<Rightarrow> 'w \<Rightarrow> CheckResponse \<times> 'w" where
  "Check s req w =
     (let details = establishReqDetails s req in
      case RequestHeader (asTokenAuth s) details w of
        (Inl sErr, w1) \<Rightarrow>
          (if fst (RedirectRequired sErr) then redirectRequest s details sErr else denyRequest sErr, w1)
      | (Inr (tknCtx, authResp), w1) \<Rightarrow>
          (case AuthorizeProxy (asRouteReg s) details tknCtx of
             Some sErr \<Rightarrow> (denyRequest sErr, w1)
           | None \<Rightarrow>
               (case SubtokenFlow (asTokenAuth s) details tknCtx w1 of
                  (Inl sErr, w2) \<Rightarrow> (denyRequest sErr, w2)
                | (Inr subtoken, w2) \<Rightarrow>
                    (allowRequest (authResp\<lparr>SetHeaders := finalHeaders s details subtoken (SetHeaders authResp)\<rparr>), w2))))"

section \<open>The server\<close>

record grpcOptions =
  goMaxConcurrentStreams :: u32
  goMaxRecvMsgSize :: int
  goMaxSendMsgSize :: int
  goKeepaliveTime :: int
  goKeepaliveTimeout :: int
  goMinTime :: int
  goPermitWithoutStream :: bool

definition newGrpcServer :: "WebServer \<Rightarrow> grpcOptions" where
  "newGrpcServer ws =
     \<lparr>goMaxConcurrentStreams = GRPCMaxConcurrentStreams ws, goMaxRecvMsgSize = MaxRecvMsgSize ws,
      goMaxSendMsgSize = MaxSendMsgSize ws, goKeepaliveTime = GRPCKeepaliveTime ws,
      goKeepaliveTimeout = GRPCKeepaliveTimeout ws, goMinTime = GRPCKeepaliveMinTime ws,
      goPermitWithoutStream = True\<rparr>"

text \<open>What ends the server first: the context, or the end of \<^verbatim>\<open>Serve\<close> with an error or without.\<close>

datatype serverEnd = CtxDone | ServeEnded "gerror option"

definition waitForShutdown :: "serverEnd \<Rightarrow> unit result" where
  "waitForShutdown ev =
     (case ev of CtxDone \<Rightarrow> Inr () | ServeEnded None \<Rightarrow> Inr () | ServeEnded (Some err) \<Rightarrow> Inl err)"

definition StartEnvoyAuth :: "unit result \<Rightarrow> serverEnd \<Rightarrow> unit result" where
  "StartEnvoyAuth listen ev = (case listen of Inl err \<Rightarrow> Inl err | Inr _ \<Rightarrow> waitForShutdown ev)"

section \<open>Facts\<close>

lemma statusCode_err_ok:
  "err_ok e \<Longrightarrow> statusCode (Some e) =
     (case seType e of AuthErr \<Rightarrow> 401 | BadRequestErr \<Rightarrow> 400 | NotFoundErr \<Rightarrow> 404 | _ \<Rightarrow> 500)"
  by (cases "seType e") (simp_all add: err_ok_def statusCode_def Code_def codes_defs status_defs)

lemma statusCode_not_ok: "statusCode (Some e) \<in> {400, 401, 404, 500}"
  by (simp add: statusCode_def status_defs)

lemma html_escape_safe: "set (html_EscapeString s) \<inter> {CHR ''<'', CHR ''>'', CHR 0x22, CHR 0x27} = {}"
  by (auto simp: html_EscapeString_def html_escape_char_def split: if_splits)

lemma establish_ext [simp]:
  "rdRouteID (establishReqDetails s req) = sget (cqContextExtensions req) RouteIDHeader"
  "rdCommunityID (establishReqDetails s req) = sget (cqContextExtensions req) CommunityHeader"
  "rdScheme (establishReqDetails s req) = sget (cqContextExtensions req) WormholeSchemeHeader"
  "rdHeaders (establishReqDetails s req) = cqHeaders req"
  by (simp_all add: establishReqDetails_def Let_def)

text \<open>How an allowed request went.\<close>

lemma Check_ok:
  assumes "Check s req w = (resp, w')" "cpHttp resp = OkResponse hs rm"
  obtains tknCtx authResp w1 subtoken where
    "RequestHeader (asTokenAuth s) (establishReqDetails s req) w = (Inr (tknCtx, authResp), w1)"
    "AuthorizeProxy (asRouteReg s) (establishReqDetails s req) tknCtx = None"
    "SubtokenFlow (asTokenAuth s) (establishReqDetails s req) tknCtx w1 = (Inr subtoken, w')"
    "resp = allowRequest (authResp\<lparr>SetHeaders :=
        finalHeaders s (establishReqDetails s req) subtoken (SetHeaders authResp)\<rparr>)"
  using assms
  by (auto simp: Check_def Let_def denyRequest_def redirectRequest_def
      split: prod.splits sum.splits option.splits if_splits)

text \<open>The outcomes of a check.\<close>

lemma Check_cases:
  obtains hs rm where "cpHttp (fst (Check s req w)) = OkResponse hs rm" "cpCode (fst (Check s req w)) = codes_OK"
  | e where "fst (Check s req w) = denyRequest e"
  | e where "fst (Check s req w) = redirectRequest s (establishReqDetails s req) e" "seType e = RedirectErr"
proof -
  show ?thesis
    using that
    by (fastforce simp: Check_def Let_def allowRequest_def RedirectRequired_def
        split: prod.splits sum.splits option.splits if_splits)
qed

section \<open>Errors of the authenticator\<close>

lemma decodeTrustedJWT_err: "decodeTrustedJWT jwt = Inl e \<Longrightarrow> err_ok e \<and> seType e = InternalErr"
  by (auto simp: decodeTrustedJWT_def split: list.splits sum.splits)

lemma exchangeToken_err: "exchangeToken i key tok w = (Inl e, w') \<Longrightarrow> err_ok e \<and> seType e = AuthErr"
  by (auto simp: exchangeToken_def Let_def split: prod.splits sum.splits)

lemma getCache_err: "getCache i key tok w = (Inl e, w') \<Longrightarrow> err_ok e \<and> seType e = AuthErr"
  using getCache_reject by (fastforce simp: invalid_credentials_def)

lemma wat_flow_err:
  "wormholeAccessTokenFlow i tok tid w = (Inl e, w') \<Longrightarrow> err_ok e \<and> seType e \<in> {AuthErr, InternalErr}"
  by (auto simp: wormholeAccessTokenFlow_def Let_def split: prod.splits sum.splits option.splits
      dest: decodeTrustedJWT_err exchangeToken_err getCache_err)

lemma oauthExchange_err: "oauthExchange i key tok w = (Inl e, w') \<Longrightarrow> err_ok e \<and> seType e \<in> {AuthErr, InternalErr}"
  by (auto simp: oauthExchange_def Let_def split: prod.splits sum.splits)

text \<open>A redirect always leads to the login URL of the request.\<close>

lemma oauthFlow_err:
  assumes "oauthFlow i d w = (Inl e, w')"
  shows "err_ok e \<and> (seType e \<in> {AuthErr, InternalErr} \<or> e = NewRedirectErr (constructProxyRedirect i d) [])"
proof (cases "oauth2Enabled i")
  case True
  obtain r w1 where r: "callProxyAuth i d (parseCookies d) w = (r, w1)" by fastforce
  show ?thesis
  proof (cases r)
    case (Inl g)
    then have "g = e" using assms True r by (simp add: oauthFlow_def)
    then show ?thesis
      using Inl r by (auto simp: callProxyAuth_def Let_def split: prod.splits sum.splits if_splits)
  next
    case (Inr hdrs)
    then show ?thesis
      using assms True r
      by (auto simp: oauthFlow_def Let_def split: prod.splits sum.splits option.splits
          dest: oauthExchange_err)
  qed
qed (use assms in \<open>auto simp: oauthFlow_def\<close>)

lemma RequestHeader_err:
  assumes "RequestHeader i req w = (Inl e, w')"
  shows "err_ok e \<and> (seType e = RedirectErr \<longrightarrow> e = NewRedirectErr (constructProxyRedirect i req) [])"
proof (cases "retrieveWAT i req")
  case (Inr found)
  show ?thesis
  proof (cases found)
    case None
    then have "oauthFlow i req w = (Inl e, w')"
      using assms Inr by (auto simp: RequestHeader_def Let_def split: prod.splits sum.splits)
    from oauthFlow_err [OF this] show ?thesis by auto
  next
    case (Some t)
    then have "wormholeAccessTokenFlow i (WAT t) (tcTokenID t) w = (Inl e, w')"
      using assms Inr by (auto simp: RequestHeader_def Let_def split: prod.splits sum.splits)
    from wat_flow_err [OF this] show ?thesis by auto
  qed
qed (use assms in \<open>auto simp: RequestHeader_def\<close>)

lemma SubtokenFlow_err: "SubtokenFlow i req ctx w = (Inl e, w') \<Longrightarrow> err_ok e \<and> seType e = InternalErr"
  by (auto simp: SubtokenFlow_def generateSubToken_def Let_def split: prod.splits sum.splits if_splits)

lemma denyRequest_code: "err_ok e \<Longrightarrow> cpCode (denyRequest e) \<noteq> codes_OK"
  by (cases "seType e") (simp_all add: err_ok_def denyRequest_def Code_def codes_defs)

end
