(* ===== verification/EnvoyResources.thy ===== *)
theory EnvoyResources
  imports Registry "HOL-Library.Monad_Syntax" "HOL-Library.Multiset"
begin

text \<open>
  \<^verbatim>\<open>internal/envoy/resources.go\<close>: the clusters, the routing table and the listener that Envoy is
  configured with, built from the proxy controls of the registry, and the default header
  mutations of \<^verbatim>\<open>internal/envoy/xds.go\<close>. The protobuf messages are records with the fields that the
  code sets. A nil \<^verbatim>\<open>URL\<close> and a message that cannot be marshalled (a string that is no UTF-8) make
  the code panic: \<^term>\<open>None\<close>.

  \<^verbatim>\<open>requestHeaderFilterCfg\<close> appends to the slice of the default mutations; it marshals the result
  before the slice is used again, so the list it marshals is the concatenation.
\<close>

section \<open>Marshalling\<close>

text \<open>A rune that is a replacement character of less than three bytes stands for an invalid byte.\<close>

definition utf8_valid :: "string \<Rightarrow> bool" where
  "utf8_valid s = list_all (\<lambda>(r, b). r \<noteq> rune_error \<or> length b = 3) (utf8_chunks s)"

text \<open>\<open>strs\<close> are the strings of the message.\<close>

definition mustMarshalAny :: "string list \<Rightarrow> 'a \<Rightarrow> 'a option" where
  "mustMarshalAny strs msg = (if list_all utf8_valid strs then Some msg else None)"

lemma utf8_valid_ascii: "list_all (\<lambda>c. byte_val c < 128) s \<Longrightarrow> utf8_valid s"
  by (induction s) (auto simp: utf8_valid_def Let_def rune_error_def)

section \<open>Names\<close>

definition accessLogFilter :: string where "accessLogFilter = ''envoy.access_loggers.file''"
definition authzFilter :: string where "authzFilter = ''envoy.filters.http.ext_authz''"
definition headerMutationFilter :: string where
  "headerMutationFilter = ''envoy.filters.http.header_mutation''"
definition httpRouteFilter :: string where "httpRouteFilter = ''http-router''"
definition holepunchMetadataNamespace :: string where "holepunchMetadataNamespace = ''holepunch''"
definition routeIDMetadataKey :: string where "routeIDMetadataKey = ''route_id''"
definition hostMetadataKey :: string where "hostMetadataKey = ''host''"
definition schemeMetadataKey :: string where "schemeMetadataKey = ''scheme''"
definition communityMetadataKey :: string where "communityMetadataKey = ''community''"
definition featuresMetadataKey :: string where "featuresMetadataKey = ''features''"
definition featureNoAuth :: string where "featureNoAuth = ''noauth''"

lemmas filter_names = accessLogFilter_def authzFilter_def headerMutationFilter_def httpRouteFilter_def

lemmas metadata_names = holepunchMetadataNamespace_def routeIDMetadataKey_def hostMetadataKey_def
  schemeMetadataKey_def communityMetadataKey_def featuresMetadataKey_def featureNoAuth_def

definition allowedPattern :: "char \<Rightarrow> bool" where
  "allowedPattern c = (is_alnum c \<or> c \<in> set ''._-'')"

definition normalizeName :: "string \<Rightarrow> string" where
  "normalizeName s = (if 127 < length s then HexEncode (Sum256 s) else filter allowedPattern s)"

definition clusterName :: "url \<Rightarrow> string" where
  "clusterName dst = normalizeName (''wh_'' @ Hostname dst @ ''_'' @ itoa (unat (IdentifyPort dst)))"

definition domain :: "url \<Rightarrow> string" where
  "domain src = (if IsLocalhost src then ''*'' else Hostname src)"

definition virtualHostName :: "string \<Rightarrow> string" where
  "virtualHostName domainName = HexEncode (Sum256 domainName)"

section \<open>Clusters\<close>

type_synonym duration = int

datatype discoveryType = LOGICAL_DNS | EDS
datatype lbPolicy = ROUND_ROBIN
datatype dnsLookupFamily = V4_ONLY
datatype protocol = TCP

record socketAddress =
  saProtocol :: protocol
  saAddress :: string
  saPortValue :: u32

record clusterLoadAssignment =
  claClusterName :: string
  claEndpoints :: "socketAddress list list"

record cluster =
  clName :: string
  clConnectTimeout :: duration
  clClusterDiscoveryType :: discoveryType
  clLbPolicy :: lbPolicy
  clLoadAssignment :: clusterLoadAssignment
  clDnsLookupFamily :: dnsLookupFamily

definition makeEndpoint :: "string \<Rightarrow> url \<Rightarrow> clusterLoadAssignment" where
  "makeEndpoint cname dst =
     \<lparr>claClusterName = cname,
      claEndpoints = [[\<lparr>saProtocol = TCP, saAddress = Hostname dst, saPortValue = IdentifyPort dst\<rparr>]]\<rparr>"

definition makeCluster :: "XDS \<Rightarrow> url \<Rightarrow> cluster" where
  "makeCluster x dst =
     \<lparr>clName = clusterName dst, clConnectTimeout = ConnectTimeout x, clClusterDiscoveryType = LOGICAL_DNS,
      clLbPolicy = ROUND_ROBIN, clLoadAssignment = makeEndpoint (clusterName dst) dst,
      clDnsLookupFamily = V4_ONLY\<rparr>"

fun clusters_loop ::
    "XDS \<Rightarrow> (string, ProxyControls) gomap \<Rightarrow> (string, bool) gomap \<Rightarrow> cluster list \<Rightarrow> cluster list option" where
  "clusters_loop x [] clusterMappings clusters = Some clusters"
| "clusters_loop x ((_, v) # ctls) clusterMappings clusters =
     (case URL (pcDestination v) of
        None \<Rightarrow> None
      | Some dst \<Rightarrow>
          (let name = clusterName dst in
           if map_of clusterMappings name \<noteq> Some True
           then clusters_loop x ctls (mput name True clusterMappings) (clusters @ [makeCluster x dst])
           else clusters_loop x ctls clusterMappings clusters))"

section \<open>Header mutations\<close>

datatype appendAction = OVERWRITE_IF_EXISTS_OR_ADD

record mutationOption =
  moKey :: string
  moValue :: string
  moAppendAction :: appendAction

text \<open>\<open>Append None\<close> is the empty \<^verbatim>\<open>HeaderMutation_Append\<close> of a rejected header.\<close>

datatype headerMutation = Remove string | Append "mutationOption option"

fun mutation_strings :: "headerMutation \<Rightarrow> string list" where
  "mutation_strings (Remove h) = [h]"
| "mutation_strings (Append None) = []"
| "mutation_strings (Append (Some hv)) = [moKey hv, moValue hv]"

text \<open>\<open>xsVersion\<close> is the version that the linker writes into the package \<^verbatim>\<open>version\<close>.\<close>

record xdsServer =
  xsDefaultRequestHeaders :: "headerMutation list"
  xsTokenSvcArgs :: TokenService
  xsXdsArgs :: XDS
  xsVersion :: string

definition setHeader :: "string \<Rightarrow> string \<Rightarrow> headerMutation" where
  "setHeader key val =
     (case ValidateHeaderName key of
        Inl _ \<Rightarrow> Append None
      | Inr _ \<Rightarrow>
          (case ValidateHeaderValue val of
             Inl _ \<Rightarrow> Append None
           | Inr _ \<Rightarrow>
               Append (Some \<lparr>moKey = key, moValue = val, moAppendAction = OVERWRITE_IF_EXISTS_OR_ADD\<rparr>)))"

definition establishDefaultRequestHeaders :: "TokenService \<Rightarrow> headerMutation list" where
  "establishDefaultRequestHeaders ts = Remove (SubtokenHeader ts) # map Remove DefaultRemovableHeaders"

definition requestMutations :: "xdsServer \<Rightarrow> headers \<Rightarrow> headerMutation list" where
  "requestMutations s hdrs =
     xsDefaultRequestHeaders s @ map (\<lambda>(k, v). setHeader k v) hdrs
       @ (if xdsVersionHeader (xsXdsArgs s) then [setHeader VersionHeader (xsVersion s)] else [])"

section \<open>Routes\<close>

datatype extAuthzOverride = Disabled bool | CheckSettings headers

datatype perRouteAny = HeaderMutationPerRoute "headerMutation list" | ExtAuthzPerRoute extAuthzOverride

record routeAction =
  raCluster :: string
  raHostRewriteLiteral :: string
  raPrefixRewrite :: string
  raIdleTimeout :: duration
  raTimeout :: duration
  raMaxStreamDuration :: duration
  raUpgradeConfigs :: "string list"

record route =
  rtPrefix :: string
  rtAction :: routeAction
  rtMetadata :: "(string, headers) gomap"
  rtTypedPerFilterConfig :: "(string, perRouteAny) gomap"

record virtualHost =
  vhName :: string
  vhDomains :: "string list"
  vhRoutes :: "route list"

record routeConfiguration =
  rcName :: string
  rcVirtualHosts :: "virtualHost list"

definition requestHeaderFilterCfg :: "xdsServer \<Rightarrow> headers \<Rightarrow> perRouteAny option" where
  "requestHeaderFilterCfg s hdrs =
     (let ms = requestMutations s hdrs
      in mustMarshalAny (concat (map mutation_strings ms)) (HeaderMutationPerRoute ms))"

definition buildAuthzFilter :: "headers \<Rightarrow> perRouteAny option" where
  "buildAuthzFilter ctxExt =
     mustMarshalAny (map fst ctxExt @ map snd ctxExt) (ExtAuthzPerRoute (CheckSettings ctxExt))"

definition routeAuthzFilter :: "ProxyControls \<Rightarrow> perRouteAny option" where
  "routeAuthzFilter ctl =
     (if pcNoAuth ctl then mustMarshalAny [] (ExtAuthzPerRoute (Disabled True))
      else buildAuthzFilter (pcAuthzContext ctl))"

definition routeFeatures :: "ProxyControls \<Rightarrow> string list" where
  "routeFeatures ctl = (if pcNoAuth ctl then [featureNoAuth] else [])"

definition routeMetadata :: "ProxyControls \<Rightarrow> (string, headers) gomap option" where
  "routeMetadata ctl =
     do { src \<leftarrow> URL (pcSource ctl);
          let fields0 = [(routeIDMetadataKey, sget (pcAuthzContext ctl) RouteIDHeader),
                         (hostMetadataKey, Host src), (schemeMetadataKey, Scheme src)];
          let fields1 = (if pcCommunityID ctl \<noteq> [] then mput communityMetadataKey (pcCommunityID ctl) fields0
                         else fields0);
          let fields2 = (if routeFeatures ctl \<noteq> []
                         then mput featuresMetadataKey (Join (routeFeatures ctl) '','') fields1 else fields1);
          Some [(holepunchMetadataNamespace, fields2)] }"

definition routeMetadataFormat :: "string \<Rightarrow> string" where
  "routeMetadataFormat key = ''%METADATA(ROUTE:'' @ holepunchMetadataNamespace @ '':'' @ key @ '')%''"

definition singleRoute :: "xdsServer \<Rightarrow> string \<Rightarrow> string \<Rightarrow> string \<Rightarrow> ProxyControls \<Rightarrow> route option" where
  "singleRoute s cname prefix prefixRewrite ctl =
     do { dst \<leftarrow> URL (pcDestination ctl);
          metadata \<leftarrow> routeMetadata ctl;
          hdrs \<leftarrow> requestHeaderFilterCfg s (pcRequestHeaders ctl);
          authz \<leftarrow> routeAuthzFilter ctl;
          Some \<lparr>rtPrefix = prefix,
            rtAction =
              \<lparr>raCluster = cname, raHostRewriteLiteral = Host dst, raPrefixRewrite = prefixRewrite,
               raIdleTimeout = IdleTimeout (xsXdsArgs s), raTimeout = RequestTimeout (xsXdsArgs s),
               raMaxStreamDuration = MaxStreamDuration (xsXdsArgs s),
               raUpgradeConfigs = (if EnableWebSocket (xsXdsArgs s) then [''websocket''] else [])\<rparr>,
            rtMetadata = metadata,
            rtTypedPerFilterConfig = [(headerMutationFilter, hdrs), (authzFilter, authz)]\<rparr> }"

text \<open>The domain and the route of one control.\<close>

definition newRoute :: "xdsServer \<Rightarrow> ProxyControls \<Rightarrow> (string \<times> route) option" where
  "newRoute s v =
     do { src \<leftarrow> URL (pcSource v);
          dst \<leftarrow> URL (pcDestination v);
          r \<leftarrow> singleRoute s (clusterName dst) (NormalizePath src) (pcPrefixRewrite v) v;
          Some (domain src, r) }"

fun insertPosition :: "route \<Rightarrow> route list \<Rightarrow> nat" where
  "insertPosition r [] = 0"
| "insertPosition r (existingRoute # rs) =
     (if length (rtPrefix existingRoute) < length (rtPrefix r) then 0 else Suc (insertPosition r rs))"

definition insertRoute :: "route \<Rightarrow> route list \<Rightarrow> route list" where
  "insertRoute r rs = (let i = insertPosition r rs in take i rs @ [r] @ drop i rs)"

definition addRoute :: "string \<Rightarrow> route \<Rightarrow> (string, virtualHost) gomap \<Rightarrow> (string, virtualHost) gomap" where
  "addRoute domainName r vhMappings =
     (case map_of vhMappings domainName of
        Some vh \<Rightarrow> mput domainName (vh\<lparr>vhRoutes := insertRoute r (vhRoutes vh)\<rparr>) vhMappings
      | None \<Rightarrow>
          mput domainName \<lparr>vhName = virtualHostName domainName, vhDomains = [domainName], vhRoutes = [r]\<rparr> vhMappings)"

fun routes_loop ::
    "xdsServer \<Rightarrow> (string, ProxyControls) gomap \<Rightarrow> (string, virtualHost) gomap \<Rightarrow> (string, virtualHost) gomap option" where
  "routes_loop s [] vhMappings = Some vhMappings"
| "routes_loop s ((_, v) # ctls) vhMappings =
     (case newRoute s v of
        None \<Rightarrow> None
      | Some (domainName, r) \<Rightarrow> routes_loop s ctls (addRoute domainName r vhMappings))"

text \<open>The maps are visited in the order of their lists, which stands for any order.\<close>

definition makeClusters :: "xdsServer \<Rightarrow> (string, ProxyControls) gomap \<Rightarrow> cluster list option" where
  "makeClusters s ctls = clusters_loop (xsXdsArgs s) ctls [] []"

definition makeRoutes :: "xdsServer \<Rightarrow> string \<Rightarrow> (string, ProxyControls) gomap \<Rightarrow> routeConfiguration option" where
  "makeRoutes s rname ctls =
     map_option (\<lambda>m. \<lparr>rcName = rname, rcVirtualHosts = map snd m\<rparr>) (routes_loop s ctls [])"

section \<open>Clusters: facts\<close>

text \<open>Every destination has one cluster, and every cluster is that of a destination.\<close>

definition destinations :: "(string, ProxyControls) gomap \<Rightarrow> url set" where
  "destinations ctls = {dst. \<exists>k v. (k, v) \<in> set ctls \<and> URL (pcDestination v) = Some dst}"

lemma destinations_simps [simp]:
  "destinations [] = {}"
  "URL (pcDestination v) = Some dst \<Longrightarrow> destinations ((k, v) # ctls) = insert dst (destinations ctls)"
  by (auto simp: destinations_def)

lemma clName_makeCluster [simp]: "clName (makeCluster x dst) = clusterName dst"
  by (simp add: makeCluster_def)

lemma clusters_loop_spec:
  assumes "clusters_loop x ctls m cs = Some cs'"
    and "\<And>n. map_of m n = Some True \<longleftrightarrow> n \<in> clName ` set cs" and "distinct (map clName cs)"
  shows "distinct (map clName cs') \<and> clName ` set cs' = clName ` set cs \<union> clusterName ` destinations ctls
    \<and> set cs' \<subseteq> set cs \<union> makeCluster x ` destinations ctls"
  using assms
proof (induction x ctls m cs arbitrary: cs' rule: clusters_loop.induct)
  case (2 x k v ctls m cs)
  obtain dst where dst: "URL (pcDestination v) = Some dst"
    using "2.prems"(1) by (cases "URL (pcDestination v)") auto
  show ?case
  proof (cases "map_of m (clusterName dst) = Some True")
    case True
    then have loop: "clusters_loop x ctls m cs = Some cs'" using "2.prems"(1) dst by (simp add: Let_def)
    have "clusterName dst \<in> clName ` set cs" using True "2.prems"(2) by simp
    with "2.IH"(2) [OF dst refl _ loop "2.prems"(2,3)] True dst show ?thesis by auto
  next
    case False
    let ?m = "mput (clusterName dst) True m" and ?cs = "cs @ [makeCluster x dst]"
    have loop: "clusters_loop x ctls ?m ?cs = Some cs'" using "2.prems"(1) False dst by (simp add: Let_def)
    have "map_of ?m n = Some True \<longleftrightarrow> n \<in> clName ` set ?cs" for n using "2.prems"(2) [of n] by auto
    moreover have "distinct (map clName ?cs)" using "2.prems"(2,3) False by simp
    ultimately have "distinct (map clName cs') \<and> clName ` set cs' = clName ` set ?cs \<union> clusterName ` destinations ctls
      \<and> set cs' \<subseteq> set ?cs \<union> makeCluster x ` destinations ctls"
      by (rule "2.IH"(1) [OF dst refl False loop])
    then show ?thesis using dst by auto
  qed
qed auto

lemma makeClusters_spec:
  assumes "makeClusters s ctls = Some cs"
  shows "distinct (map clName cs)" "clName ` set cs = clusterName ` destinations ctls"
    and "set cs \<subseteq> makeCluster (xsXdsArgs s) ` destinations ctls"
  using clusters_loop_spec [OF assms [unfolded makeClusters_def]] by auto

lemma makeClusters_None:
  "makeClusters s ctls = None \<longleftrightarrow> (\<exists>(k, v) \<in> set ctls. URL (pcDestination v) = None)"
proof -
  have "clusters_loop x ctls m cs = None \<longleftrightarrow> (\<exists>(k, v) \<in> set ctls. URL (pcDestination v) = None)" for x m cs
    by (induction x ctls m cs rule: clusters_loop.induct) (auto simp: Let_def split: option.splits)
  then show ?thesis by (simp add: makeClusters_def)
qed

lemma distinct_key_filter:
  "distinct (map f xs) \<Longrightarrow> x \<in> set xs \<Longrightarrow> f x = a \<Longrightarrow> filter (\<lambda>y. f y = a) xs = [x]"
  by (induction xs) (auto simp: filter_empty_conv dest: sym [of _ "f x"] intro: rev_image_eqI)

text \<open>Names: bounded, of safe characters, and telling hosts of safe characters apart.\<close>

lemma normalizeName_bounds: "length (normalizeName s) \<le> 127"
  by (simp add: normalizeName_def) (meson length_filter_le le_trans not_less)

lemma HexEncode_allowed: "list_all allowedPattern (HexEncode s)"
proof (induction s)
  case (Cons c s)
  have "byte_val c div 16 < 16" by (simp add: less_mult_imp_div_less)
  then show ?case
    using Cons hex_digit_alnum [of "byte_val c div 16"] hex_digit_alnum [of "byte_val c mod 16"]
    by (auto simp: allowedPattern_def is_alnum_def Let_def)
qed simp

lemma normalizeName_chars: "list_all allowedPattern (normalizeName s)"
  using HexEncode_allowed by (simp add: normalizeName_def list_all_iff)

lemma digit_allowed: "is_digit c \<Longrightarrow> allowedPattern c"
  by (simp add: allowedPattern_def is_alnum_def is_digit_def Let_def)

lemma itoa_length: "n < 10 ^ Suc k \<Longrightarrow> length (itoa n) \<le> Suc k"
proof (induction k arbitrary: n)
  case (Suc k)
  show ?case
  proof (cases "n < 10")
    case False
    have "n div 10 < 10 ^ Suc k" using Suc.prems by (simp add: less_mult_imp_div_less)
    then show ?thesis using Suc.IH [of "n div 10"] False by (subst itoa.simps) simp
  qed (subst itoa.simps, simp)
qed (subst itoa.simps, simp)

lemma clusterName_plain:
  assumes "list_all allowedPattern (Hostname dst)" "length (Hostname dst) \<le> 113"
  shows "clusterName dst = ''wh_'' @ Hostname dst @ ''_'' @ itoa (unat (IdentifyPort dst))"
proof -
  let ?p = "itoa (unat (IdentifyPort dst))"
  have "unat (IdentifyPort dst) < 10 ^ Suc 9"
    using unsigned_less [of "IdentifyPort dst", where ?'a = nat] by simp
  then have len: "length ?p \<le> 10" using itoa_length [of _ 9] by simp
  have "filter allowedPattern ?p = ?p" "filter allowedPattern (Hostname dst) = Hostname dst"
    using itoa_digits [of "unat (IdentifyPort dst)"] assms(1)
    by (auto simp: filter_id_conv list_all_iff digit_allowed)
  moreover have "list_all allowedPattern ''wh_''" by (simp add: allowedPattern_def is_alnum_def)
  ultimately show ?thesis
    using len assms(2) by (simp add: clusterName_def normalizeName_def)
qed

lemma append_sep_digits_inject:
  assumes "a @ CHR ''_'' # x = b @ CHR ''_'' # y" "list_all is_digit x" "list_all is_digit y"
  shows "a = b \<and> x = y"
proof -
  have "CHR ''_'' \<notin> set x" "CHR ''_'' \<notin> set y" using assms(2,3) by (auto simp: list_all_iff is_digit_def)
  then have "Cut (CHR ''_'') (rev x @ CHR ''_'' # rev a) = (rev x, rev a, True)"
    "Cut (CHR ''_'') (rev y @ CHR ''_'' # rev b) = (rev y, rev b, True)" by simp_all
  moreover have "rev x @ CHR ''_'' # rev a = rev y @ CHR ''_'' # rev b"
    using arg_cong [OF assms(1), of rev] by simp
  ultimately have "(rev x, rev a, True) = (rev y, rev b, True)" by (metis (no_types))
  then show ?thesis by simp
qed

text \<open>The limit is the length of a name less its prefix, separator and ten digits.\<close>

lemma clusterName_inject:
  assumes "clusterName a = clusterName b"
    and "list_all allowedPattern (Hostname a)" "length (Hostname a) \<le> 113"
    and "list_all allowedPattern (Hostname b)" "length (Hostname b) \<le> 113"
  shows "Hostname a = Hostname b \<and> IdentifyPort a = IdentifyPort b"
proof -
  have "Hostname a @ CHR ''_'' # itoa (unat (IdentifyPort a)) = Hostname b @ CHR ''_'' # itoa (unat (IdentifyPort b))"
    using assms by (simp add: clusterName_plain)
  then have "Hostname a = Hostname b \<and> itoa (unat (IdentifyPort a)) = itoa (unat (IdentifyPort b))"
    by (rule append_sep_digits_inject) (rule itoa_digits)+
  then show ?thesis by (metis digits_val_itoa word_unat_eq_iff)
qed

section \<open>Routes: facts\<close>

definition prefix_ordered :: "route list \<Rightarrow> bool" where
  "prefix_ordered rs = sorted_wrt (\<lambda>a b. length (rtPrefix b) \<le> length (rtPrefix a)) rs"

lemma insertPosition_le: "insertPosition r rs \<le> length rs"
  by (induction rs) auto

lemma insertRoute_Cons:
  "insertRoute r [] = [r]"
  "insertRoute r (x # rs) = (if length (rtPrefix x) < length (rtPrefix r) then r # x # rs else x # insertRoute r rs)"
  by (simp_all add: insertRoute_def Let_def)

lemma mset_insertRoute: "mset (insertRoute r rs) = add_mset r (mset rs)"
  by (induction rs) (simp_all add: insertRoute_Cons)

lemma set_insertRoute [simp]: "set (insertRoute r rs) = insert r (set rs)"
  by (metis mset_insertRoute set_mset_add_mset_insert set_mset_mset)

lemma prefix_ordered_insert: "prefix_ordered rs \<Longrightarrow> prefix_ordered (insertRoute r rs)"
  by (induction rs) (auto simp: prefix_ordered_def insertRoute_Cons)

text \<open>The routes of a domain while the table is built.\<close>

definition routes_of :: "(string, virtualHost) gomap \<Rightarrow> string \<Rightarrow> route list" where
  "routes_of m d = (case map_of m d of None \<Rightarrow> [] | Some vh \<Rightarrow> vhRoutes vh)"

definition vh_ok :: "string \<Rightarrow> virtualHost \<Rightarrow> bool" where
  "vh_ok d vh = (vhName vh = virtualHostName d \<and> vhDomains vh = [d] \<and> vhRoutes vh \<noteq> [] \<and> prefix_ordered (vhRoutes vh))"

lemma addRoute_routes:
  "mset (routes_of (addRoute d r m) d') = mset (routes_of m d') + (if d' = d then {#r#} else {#})"
  by (simp add: routes_of_def addRoute_def mset_insertRoute split: option.splits)

lemma addRoute_ok:
  assumes "\<forall>d vh. map_of m d = Some vh \<longrightarrow> vh_ok d vh" "map_of (addRoute d r m) d' = Some vh"
  shows "vh_ok d' vh"
proof (cases "map_of m d")
  case None
  then show ?thesis
    using assms by (auto simp: addRoute_def vh_ok_def prefix_ordered_def split: if_splits)
next
  case (Some vh0)
  have "vh_ok d (vh0\<lparr>vhRoutes := insertRoute r (vhRoutes vh0)\<rparr>)"
    using assms(1) Some prefix_ordered_insert [of "vhRoutes vh0" r]
    by (auto simp: vh_ok_def) (metis insert_not_empty list.set(1) set_insertRoute)
  then show ?thesis using assms Some by (auto simp: addRoute_def split: if_splits)
qed

lemma addRoute_wf: "go_wf m \<Longrightarrow> go_wf (addRoute d r m)"
  by (simp add: addRoute_def split: option.splits)

text \<open>The routes of the controls of a domain.\<close>

definition domainRoutes :: "xdsServer \<Rightarrow> (string, ProxyControls) gomap \<Rightarrow> string \<Rightarrow> route list" where
  "domainRoutes s ctls d =
     map snd (filter (\<lambda>(d', r). d' = d) (List.map_filter (\<lambda>(k, v). newRoute s v) ctls))"

lemma routes_loop_spec:
  assumes "routes_loop s ctls m = Some m'" "go_wf m" "\<forall>d vh. map_of m d = Some vh \<longrightarrow> vh_ok d vh"
  shows "go_wf m' \<and> (\<forall>d vh. map_of m' d = Some vh \<longrightarrow> vh_ok d vh)
    \<and> (\<forall>d. mset (routes_of m' d) = mset (routes_of m d) + mset (domainRoutes s ctls d))"
  using assms
proof (induction s ctls m rule: routes_loop.induct)
  case (2 s k v ctls m)
  then obtain d r where dr: "newRoute s v = Some (d, r)" by (auto split: option.splits)
  then have loop: "routes_loop s ctls (addRoute d r m) = Some m'" using "2.prems"(1) by simp
  have "mset (domainRoutes s ((k, v) # ctls) d') = mset (domainRoutes s ctls d') + (if d' = d then {#r#} else {#})" for d'
    using dr by (simp add: domainRoutes_def List.map_filter_simps)
  with "2.IH" [OF dr refl loop addRoute_wf [OF "2.prems"(2)]] addRoute_ok [OF "2.prems"(3)]
  show ?case by (auto simp: addRoute_routes)
qed (simp add: domainRoutes_def List.map_filter_simps)

lemma routes_loop_None: "routes_loop s ctls m = None \<longleftrightarrow> (\<exists>(k, v) \<in> set ctls. newRoute s v = None)"
  by (induction s ctls m rule: routes_loop.induct) (auto split: option.splits)

end
