(* ===== verification/EnvoyListener.thy ===== *)
theory EnvoyListener
  imports EnvoyResources
begin

text \<open>
  The listener of \<^verbatim>\<open>internal/envoy/resources.go\<close>: an HTTP connection manager with the filters for
  header mutation, external authorization and routing in this order, the headers that the
  authorization service sees, the access log and tracing. An \<^verbatim>\<open>Any\<close> is the message it holds.
\<close>

section \<open>Messages\<close>

datatype stringMatcher = Exact string | Prefix string

record grpcService =
  gsClusterName :: string
  gsTimeout :: "duration option"

datatype apiVersion = V3
datatype apiType = GRPC

record apiConfigSource =
  acsTransportApiVersion :: apiVersion
  acsApiType :: apiType
  acsSetNodeOnFirstMessageOnly :: bool
  acsGrpcServices :: "grpcService list"

record ConfigSource =
  csResourceApiVersion :: apiVersion
  csApiConfigSource :: apiConfigSource

record extAuthz =
  eaGrpcService :: grpcService
  eaTransportApiVersion :: apiVersion
  eaAllowedHeaders :: "stringMatcher list option"

datatype httpFilterAny = RouterAny | HeaderMutationAny | ExtAuthzAny extAuthz

record fileAccessLog =
  flPath :: string
  flOmitEmptyValues :: bool
  flJsonFormat :: headers

record openTelemetryConfig =
  otGrpcService :: grpcService
  otServiceName :: string

record tracing =
  trName :: string
  trTypedConfig :: openTelemetryConfig

datatype codecType = AUTO
datatype escapedSlashesAction = UNESCAPE_AND_REDIRECT

record httpConnectionManager =
  hcCodecType :: codecType
  hcStatPrefix :: string
  hcNormalizePath :: bool
  hcMergeSlashes :: bool
  hcPathWithEscapedSlashesAction :: escapedSlashesAction
  hcRdsConfigSource :: ConfigSource
  hcRouteConfigName :: string
  hcHttpFilters :: "(string \<times> httpFilterAny) list"
  hcAccessLog :: "(string \<times> fileAccessLog) list"
  hcTracing :: "tracing option"
  hcUpgradeConfigs :: "string list"

record listener =
  liName :: string
  liAddress :: socketAddress
  liFilterChains :: "(string \<times> httpConnectionManager) list list"

section \<open>Operations\<close>

definition configSource :: "xdsServer \<Rightarrow> ConfigSource" where
  "configSource s =
     \<lparr>csResourceApiVersion = V3,
      csApiConfigSource =
        \<lparr>acsTransportApiVersion = V3, acsApiType = GRPC, acsSetNodeOnFirstMessageOnly = True,
         acsGrpcServices = [\<lparr>gsClusterName = ClusterName (xsXdsArgs s), gsTimeout = None\<rparr>]\<rparr>\<rparr>"

definition extAuthAllowedHeaders :: "xdsServer \<Rightarrow> stringMatcher list option" where
  "extAuthAllowedHeaders s =
     (if AllAuthHeaders (xsXdsArgs s) then None
      else
        (let patterns =
           [Exact (TokenHeader (xsTokenSvcArgs s)), Exact (SubtokenHeader (xsTokenSvcArgs s)),
            Exact RequestIDHeader, Exact ''cookie'', Exact ''upgrade'', Exact ''connection'',
            Prefix ''sec-websocket-'', Exact CommunityHeader]
         in Some (if DevHostHeader (xsTokenSvcArgs s) \<noteq> []
                  then patterns @ [Exact (DevHostHeader (xsTokenSvcArgs s))] else patterns)))"

fun matcher_string :: "stringMatcher \<Rightarrow> string" where
  "matcher_string (Exact x) = x"
| "matcher_string (Prefix x) = x"

definition authzFilterCfg :: "xdsServer \<Rightarrow> httpFilterAny option" where
  "authzFilterCfg s =
     mustMarshalAny
       (AuthCluster (xsXdsArgs s)
        # (case extAuthAllowedHeaders s of None \<Rightarrow> [] | Some ps \<Rightarrow> map matcher_string ps))
       (ExtAuthzAny
         \<lparr>eaGrpcService = \<lparr>gsClusterName = AuthCluster (xsXdsArgs s), gsTimeout = Some (AuthTimeout (xsXdsArgs s))\<rparr>,
          eaTransportApiVersion = V3, eaAllowedHeaders = extAuthAllowedHeaders s\<rparr>)"

definition accessLogFormat :: headers where
  "accessLogFormat =
     [(''start_time'', ''%START_TIME%''), (''method'', ''%REQ(:METHOD)%''),
      (''path'', ''%REQ(X-ENVOY-ORIGINAL-PATH?:PATH)%''), (''protocol'', ''%PROTOCOL%''),
      (''response_code'', ''%RESPONSE_CODE%''), (''response_flags'', ''%RESPONSE_FLAGS%''),
      (''bytes_received'', ''%BYTES_RECEIVED%''), (''bytes_sent'', ''%BYTES_SENT%''),
      (''duration'', ''%DURATION%''),
      (''upstream_service_time'', ''%RESP(X-ENVOY-UPSTREAM-SERVICE-TIME)%''),
      (''x_forwarded_for'', ''%REQ(X-FORWARDED-FOR)%''), (''user_agent'', ''%REQ(USER-AGENT)%''),
      (''request_id'', ''%REQ(X-REQUEST-ID)%''), (''upstream_host'', ''%UPSTREAM_HOST%''),
      (''route_id'', routeMetadataFormat routeIDMetadataKey),
      (''x_wormhole_community'', routeMetadataFormat communityMetadataKey),
      (''x_wormhole_host'', routeMetadataFormat hostMetadataKey),
      (''x_wormhole_scheme'', routeMetadataFormat schemeMetadataKey),
      (''holepunch_features'', routeMetadataFormat featuresMetadataKey)]"

definition accessLogCfg :: "fileAccessLog option" where
  "accessLogCfg =
     mustMarshalAny (''/dev/stdout'' # map fst accessLogFormat @ map snd accessLogFormat)
       \<lparr>flPath = ''/dev/stdout'', flOmitEmptyValues = True, flJsonFormat = accessLogFormat\<rparr>"

text \<open>The outer \<^typ>\<open>'a option\<close> is a panic, the inner one the nil of disabled tracing.\<close>

definition makeTracingCfg :: "xdsServer \<Rightarrow> tracing option option" where
  "makeTracingCfg s =
     (if \<not> CollectorEnabled (xsXdsArgs s) then Some None
      else
        do { otelCfg \<leftarrow>
               mustMarshalAny [CollectorCluster (xsXdsArgs s), CollectorService (xsXdsArgs s)]
                 \<lparr>otGrpcService = \<lparr>gsClusterName = CollectorCluster (xsXdsArgs s), gsTimeout = None\<rparr>,
                  otServiceName = CollectorService (xsXdsArgs s)\<rparr>;
             Some (Some \<lparr>trName = ''envoy.tracers.opentelemetry'', trTypedConfig = otelCfg\<rparr>) })"

definition makeHTTPListener :: "xdsServer \<Rightarrow> string \<Rightarrow> string \<Rightarrow> listener option" where
  "makeHTTPListener s lname rname =
     do { routerConfig \<leftarrow> mustMarshalAny [] RouterAny;
          headerMutationFilterConfig \<leftarrow> mustMarshalAny [] HeaderMutationAny;
          authzConfig \<leftarrow> authzFilterCfg s;
          accessLog \<leftarrow> accessLogCfg;
          tracingCfg \<leftarrow> makeTracingCfg s;
          manager \<leftarrow> mustMarshalAny [rname, ClusterName (xsXdsArgs s)]
            \<lparr>hcCodecType = AUTO, hcStatPrefix = ''ingress_http'', hcNormalizePath = True, hcMergeSlashes = True,
             hcPathWithEscapedSlashesAction = UNESCAPE_AND_REDIRECT, hcRdsConfigSource = configSource s,
             hcRouteConfigName = rname,
             hcHttpFilters = [(headerMutationFilter, headerMutationFilterConfig), (authzFilter, authzConfig),
                              (httpRouteFilter, routerConfig)],
             hcAccessLog = [(accessLogFilter, accessLog)], hcTracing = tracingCfg,
             hcUpgradeConfigs = (if EnableWebSocket (xsXdsArgs s) then [''websocket''] else [])\<rparr>;
          Some \<lparr>liName = lname,
            liAddress = \<lparr>saProtocol = TCP, saAddress = ListenerAddress (xsXdsArgs s),
                         saPortValue = ListenerPort (xsXdsArgs s)\<rparr>,
            liFilterChains = [[(''http-connection-manager'', manager)]]\<rparr> }"

section \<open>Facts\<close>

text \<open>Whether the listener can be built depends on the flags of the server alone.\<close>

definition listener_strings :: "xdsServer \<Rightarrow> string list" where
  "listener_strings s =
     AuthCluster (xsXdsArgs s) # ClusterName (xsXdsArgs s)
     # (if CollectorEnabled (xsXdsArgs s) then [CollectorCluster (xsXdsArgs s), CollectorService (xsXdsArgs s)] else [])
     @ (case extAuthAllowedHeaders s of None \<Rightarrow> [] | Some ps \<Rightarrow> map matcher_string ps)"

lemma accessLogCfg_Some: "accessLogCfg = Some \<lparr>flPath = ''/dev/stdout'', flOmitEmptyValues = True, flJsonFormat = accessLogFormat\<rparr>"
proof -
  have "list_all (list_all (\<lambda>c. byte_val c < 128)) (''/dev/stdout'' # map fst accessLogFormat @ map snd accessLogFormat)"
    by (simp add: accessLogFormat_def routeMetadataFormat_def metadata_names)
  then have "list_all utf8_valid (''/dev/stdout'' # map fst accessLogFormat @ map snd accessLogFormat)"
    by (rule list.pred_mono_strong) (rule utf8_valid_ascii)
  then show ?thesis by (simp add: accessLogCfg_def mustMarshalAny_def)
qed

lemma makeHTTPListener_Some:
  "makeHTTPListener s lname rname \<noteq> None \<longleftrightarrow> list_all utf8_valid (rname # listener_strings s)"
  by (auto simp: makeHTTPListener_def mustMarshalAny_def authzFilterCfg_def makeTracingCfg_def accessLogCfg_Some
      listener_strings_def split: option.splits)

text \<open>Every request passes the header mutations, then the authorization, then the router.\<close>

lemma makeHTTPListener_filters:
  assumes "makeHTTPListener s lname rname = Some l"
  shows "\<exists>hcm. liFilterChains l = [[(''http-connection-manager'', hcm)]]
    \<and> map fst (hcHttpFilters hcm) = [headerMutationFilter, authzFilter, httpRouteFilter]
    \<and> map_of (hcHttpFilters hcm) authzFilter = authzFilterCfg s
    \<and> hcRouteConfigName hcm = rname \<and> hcNormalizePath hcm \<and> hcMergeSlashes hcm"
  using assms
  by (auto simp: makeHTTPListener_def mustMarshalAny_def filter_names split: bind_splits option.splits if_splits)

end
