(* ===== verification/EnvoySnapshot.thy ===== *)
theory EnvoySnapshot
  imports EnvoyListener EnvoyAuth JsonPrint "HOL-Library.Char_ord" "HOL-Library.List_Lexorder"
begin

text \<open>
  \<^verbatim>\<open>internal/envoy/snapshot.go\<close> and \<^verbatim>\<open>internal/envoy/xds.go\<close>: the version and the contents of a
  snapshot, how it is stored in the snapshot cache, and the refresh loop. \<^verbatim>\<open>cache.SetSnapshot\<close> is the
  parameter \<open>setSnapshot\<close>; the snapshot and its check for consistency are those of
  \<^verbatim>\<open>go-control-plane\<close> (\<^verbatim>\<open>pkg/cache/v3\<close>), for the three types of resource used here.
\<close>

section \<open>The text of the controls\<close>

text \<open>
  \<^verbatim>\<open>json.Encoder.Encode\<close> of the controls. \<^verbatim>\<open>URLString.MarshalJSON\<close> has a pointer
  receiver and a value of a map is not addressable, so the URLs are written as structs; \<^verbatim>\<open>Userinfo\<close> has
  no exported field. The order of the members decides the checksum and nothing else. None of these values fails to encode.
\<close>

definition json_url :: "url option \<Rightarrow> string" where
  "json_url u =
     (case u of
        None \<Rightarrow> ''null''
      | Some v \<Rightarrow>
          json_object
            [(''Scheme'', json_quote (Scheme v)), (''Opaque'', json_quote (Opaque v)),
             (''User'', case User v of None \<Rightarrow> ''null'' | Some _ \<Rightarrow> ''{}''),
             (''Host'', json_quote (Host v)), (''Path'', json_quote (Path v)), (''RawPath'', json_quote (RawPath v)),
             (''OmitHost'', json_bool (OmitHost v)), (''ForceQuery'', json_bool (ForceQuery v)),
             (''RawQuery'', json_quote (RawQuery v)), (''Fragment'', json_quote (Fragment v)),
             (''RawFragment'', json_quote (RawFragment v))])"

definition json_URLString :: "URLString \<Rightarrow> string" where
  "json_URLString u = json_object [(''Key'', json_quote (Key u)), (''URL'', json_url (URL u)), (''Raw'', json_quote (Raw u))]"

text \<open>A map is written with its keys in order.\<close>

definition json_map :: "headers \<Rightarrow> string" where
  "json_map m = json_object (map (\<lambda>k. (k, json_quote (sget m k))) (sort (map fst m)))"

definition json_ProxyControls :: "ProxyControls \<Rightarrow> string" where
  "json_ProxyControls c =
     json_object
       [(''Source'', json_URLString (pcSource c)), (''Destination'', json_URLString (pcDestination c)),
        (''RequestHeaders'', json_map (pcRequestHeaders c)), (''PrefixRewrite'', json_quote (pcPrefixRewrite c)),
        (''CommunityID'', json_quote (pcCommunityID c)), (''AuthzContext'', json_map (pcAuthzContext c)),
        (''NoAuth'', json_bool (pcNoAuth c))]"

definition encodeControls :: "(string, ProxyControls) gomap \<Rightarrow> string" where
  "encodeControls ctls =
     concat (map (\<lambda>k. json_quote k @ newline
       @ (case map_of ctls k of Some c \<Rightarrow> json_ProxyControls c | None \<Rightarrow> []) @ newline) (sort (map fst ctls)))"

definition computeChecksum :: "(string, ProxyControls) gomap \<Rightarrow> string" where
  "computeChecksum ctls = hex08 (ChecksumIEEE (encodeControls ctls))"

section \<open>Snapshots\<close>

definition routeName :: string where "routeName = ''local_route''"

record Snapshot =
  snVersion :: string
  snClusters :: "(string, cluster) gomap"
  snRoutes :: "(string, routeConfiguration) gomap"
  snListeners :: "(string, listener) gomap"

definition IndexResourcesByName :: "('a \<Rightarrow> string) \<Rightarrow> 'a list \<Rightarrow> (string, 'a) gomap" where
  "IndexResourcesByName name items = fold (\<lambda>item. mput (name item) item) items []"

definition NewSnapshot :: "string \<Rightarrow> cluster list \<Rightarrow> routeConfiguration list \<Rightarrow> listener list \<Rightarrow> Snapshot" where
  "NewSnapshot ver cs rs ls =
     \<lparr>snVersion = ver, snClusters = IndexResourcesByName clName cs, snRoutes = IndexResourcesByName rcName rs,
      snListeners = IndexResourcesByName liName ls\<rparr>"

definition endpointReferences :: "Snapshot \<Rightarrow> string list" where
  "endpointReferences sn = remdups [clName c. (_, c) \<leftarrow> snClusters sn, clClusterDiscoveryType c = EDS]"

definition routeReferences :: "Snapshot \<Rightarrow> string list" where
  "routeReferences sn =
     remdups [hcRouteConfigName m. (_, l) \<leftarrow> snListeners sn, chain \<leftarrow> liFilterChains l, (_, m) \<leftarrow> chain,
              hcRouteConfigName m \<noteq> []]"

definition checkReferences :: "string \<Rightarrow> string list \<Rightarrow> string list \<Rightarrow> unit result" where
  "checkReferences typ refs names =
     (if length refs \<noteq> length names then Inl (''mismatched '' @ typ @ '' reference and resource lengths'')
      else case List.find (\<lambda>n. n \<notin> set refs) names of
             Some n \<Rightarrow> Inl (''inconsistent '' @ typ @ '' reference: '' @ n @ '' not listed'')
           | None \<Rightarrow> Inr ())"

definition Consistent :: "Snapshot \<Rightarrow> unit result" where
  "Consistent sn =
     (case checkReferences ''endpoint'' (endpointReferences sn) [] of
        Inl e \<Rightarrow> Inl e
      | Inr _ \<Rightarrow> checkReferences ''route'' (routeReferences sn) (map fst (snRoutes sn)))"

definition listenerName :: "xdsServer \<Rightarrow> string" where
  "listenerName s =
     normalizeName (''wh_'' @ ListenerAddress (xsXdsArgs s) @ ''_'' @ itoa (unat (ListenerPort (xsXdsArgs s))))"

definition buildSnapshot :: "xdsServer \<Rightarrow> (string, ProxyControls) gomap \<Rightarrow> Snapshot option" where
  "buildSnapshot s ctls =
     do { clusters \<leftarrow> makeClusters s ctls;
          routes \<leftarrow> makeRoutes s routeName ctls;
          lis \<leftarrow> makeHTTPListener s (listenerName s) routeName;
          Some (NewSnapshot (computeChecksum ctls) clusters [routes] [lis]) }"

type_synonym 'w setSnapshot = "string \<Rightarrow> Snapshot \<Rightarrow> 'w \<Rightarrow> unit result \<times> 'w"

definition generateSnapshot ::
    "xdsServer \<Rightarrow> 'w setSnapshot \<Rightarrow> registry \<Rightarrow> 'w \<Rightarrow> (Snapshot result \<times> 'w) option" where
  "generateSnapshot s setSnapshot reg w =
     (case buildSnapshot s (FetchProxyControls reg) of
        None \<Rightarrow> None
      | Some snap \<Rightarrow>
          Some (case Consistent snap of
             Inl err \<Rightarrow> (Inl err, w)
           | Inr _ \<Rightarrow>
               (case setSnapshot (NodeName (xsXdsArgs s)) snap w of
                  (Inl err, w') \<Rightarrow> (Inl err, w')
                | (Inr _, w') \<Rightarrow> (Inr snap, w'))))"

definition initSnapshot :: "xdsServer \<Rightarrow> 'w setSnapshot \<Rightarrow> registry \<Rightarrow> 'w \<Rightarrow> (unit result \<times> 'w) option" where
  "initSnapshot s setSnapshot reg w =
     map_option (\<lambda>(r, w'). (case r of Inl err \<Rightarrow> (Inl err, w') | Inr _ \<Rightarrow> (Inr (), w')))
       (generateSnapshot s setSnapshot reg w)"

definition refreshSnapshot :: "xdsServer \<Rightarrow> 'w setSnapshot \<Rightarrow> registry \<Rightarrow> 'w \<Rightarrow> 'w option" where
  "refreshSnapshot s setSnapshot reg w = map_option snd (generateSnapshot s setSnapshot reg w)"

text \<open>
  \<^verbatim>\<open>manageRefresh\<close>: one refresh at once and one at every tick until the context is done. \<open>regs\<close> are the
  states of the registry at these moments; the list ends when the context is done.
\<close>

fun refresh_loop :: "xdsServer \<Rightarrow> 'w setSnapshot \<Rightarrow> registry list \<Rightarrow> 'w \<Rightarrow> 'w option" where
  "refresh_loop s setSnapshot [] w = Some w"
| "refresh_loop s setSnapshot (reg # regs) w =
     (case refreshSnapshot s setSnapshot reg w of
        None \<Rightarrow> None
      | Some w' \<Rightarrow> refresh_loop s setSnapshot regs w')"

definition manageRefresh :: "xdsServer \<Rightarrow> 'w setSnapshot \<Rightarrow> registry \<Rightarrow> registry list \<Rightarrow> 'w \<Rightarrow> 'w option" where
  "manageRefresh s setSnapshot reg ticks w = refresh_loop s setSnapshot (reg # ticks) w"

definition newXdsServer :: "TokenService \<Rightarrow> XDS \<Rightarrow> string \<Rightarrow> xdsServer" where
  "newXdsServer ts x ver =
     \<lparr>xsDefaultRequestHeaders = establishDefaultRequestHeaders ts, xsTokenSvcArgs = ts, xsXdsArgs = x, xsVersion = ver\<rparr>"

text \<open>
  \<^verbatim>\<open>RunServer\<close>: \<open>lis\<close> is the outcome of \<^verbatim>\<open>net.Listen\<close>, \<open>fin\<close> how the gRPC server ends, \<open>reg\<close> the registry at
  the start and \<open>ticks\<close> at the refreshes while the server runs.
\<close>

definition RunServer ::
    "unit result \<Rightarrow> TokenService \<Rightarrow> XDS \<Rightarrow> string \<Rightarrow> 'w setSnapshot \<Rightarrow> registry \<Rightarrow> registry list \<Rightarrow> serverEnd \<Rightarrow> 'w
       \<Rightarrow> (unit result \<times> 'w) option" where
  "RunServer lis ts x ver setSnapshot reg ticks fin w =
     (case lis of
        Inl err \<Rightarrow> Some (Inl err, w)
      | Inr _ \<Rightarrow>
          (let s = newXdsServer ts x ver in
           case initSnapshot s setSnapshot reg w of
             None \<Rightarrow> None
           | Some (Inl err, w') \<Rightarrow> Some (Inl err, w')
           | Some (Inr _, w') \<Rightarrow>
               (case manageRefresh s setSnapshot reg ticks w' of
                  None \<Rightarrow> None
                | Some w'' \<Rightarrow> Some (waitForShutdown fin, w''))))"

end
