(* ===== verification/Logs.thy ===== *)
theory Logs
  imports Errs Args GoTime Wormhole
begin

text \<open>
  \<^verbatim>\<open>internal/ctls/logs\<close>: the logger, its set-up from the flags and the bridge from log messages to
  OpenTelemetry spans.

  A handler of \<^verbatim>\<open>slog\<close> is the place it writes to with its least level and its attributes; what it
  writes is a record of level, message and attributes, handed to the parameter \<open>emit\<close> (the JSON text
  of a record is the library's). The OpenTelemetry library is the parameter \<open>otel\<close>: spans are
  values of a type \<open>'s\<close>, operations on them change the world, and the context of a call is the span it
  carries, if any. A context without a span behaves like one with a span whose span context is
  invalid and whose operations do nothing.
\<close>

section \<open>Attributes\<close>

datatype slogValue =
    KindString string | KindBool bool | KindInt64 "64 word" | KindUint64 "64 word" | KindFloat64 rat
  | KindDuration int | KindTime time int | KindAny string

record slogAttr =
  saKey :: string
  saValue :: slogValue

datatype attrValue = AString string | ABool bool | AInt64 "64 word" | AFloat64 rat

type_synonym keyValue = "string \<times> attrValue"

definition slogString :: "string \<Rightarrow> string \<Rightarrow> slogAttr" where
  "slogString k v = \<lparr>saKey = k, saValue = KindString v\<rparr>"

text \<open>\<^verbatim>\<open>IntArg\<close>: an \<^verbatim>\<open>int\<close> of 64 bits.\<close>

definition StringArg :: "string \<Rightarrow> string \<Rightarrow> slogAttr" where
  "StringArg k v = slogString k v"

definition IntArg :: "string \<Rightarrow> 64 word \<Rightarrow> slogAttr" where
  "IntArg k v = \<lparr>saKey = k, saValue = KindInt64 v\<rparr>"

text \<open>
  The value of an attribute on a span. The conversion of an unsigned to a signed integer keeps the
  bits. A value of any other kind arrives as its text.
\<close>

definition attrToOTel :: "slogAttr \<Rightarrow> keyValue" where
  "attrToOTel a =
     (saKey a,
      case saValue a of
        KindString s \<Rightarrow> AString s
      | KindBool b \<Rightarrow> ABool b
      | KindInt64 n \<Rightarrow> AInt64 n
      | KindUint64 n \<Rightarrow> AInt64 n
      | KindFloat64 r \<Rightarrow> AFloat64 r
      | KindDuration d \<Rightarrow> AString (duration_String d)
      | KindTime t offset \<Rightarrow> AString (RFC3339Nano (time_sec t) (nat (time_nsec t)) offset)
      | KindAny s \<Rightarrow> AString s)"

definition slogAttrsToOTel :: "slogAttr list \<Rightarrow> keyValue list" where
  "slogAttrsToOTel attrs = map attrToOTel attrs"

section \<open>Levels\<close>

text \<open>The numbers and names that \<^verbatim>\<open>slog\<close> gives its levels.\<close>

fun level_num :: "level \<Rightarrow> int" where
  "level_num LevelDebug = -4"
| "level_num LevelInfo = 0"
| "level_num LevelWarn = 4"
| "level_num LevelError = 8"

fun level_String :: "level \<Rightarrow> string" where
  "level_String LevelDebug = ''DEBUG''"
| "level_String LevelInfo = ''INFO''"
| "level_String LevelWarn = ''WARN''"
| "level_String LevelError = ''ERROR''"

definition defaultLevel :: level where "defaultLevel = LevelInfo"
definition loggerTag :: string where "loggerTag = ''holepunch''"

definition level :: "string \<Rightarrow> level" where
  "level lvl =
     (let l = ToLower lvl in
      if l = ''debug'' then LevelDebug
      else if l = ''info'' then LevelInfo
      else if l = ''warn'' then LevelWarn
      else if l = ''error'' then LevelError
      else defaultLevel)"

section \<open>The logger\<close>

datatype sink = LocalSyslog string | RemoteSyslog string string string | Stdout | Stderr | LogFile string

datatype handler = DiscardHandler | JSONHandler sink level "slogAttr list"

record logger =
  lgHandler :: handler
  lgSpanAttrs :: "keyValue list"

record logRecord =
  lrLevel :: level
  lrMsg :: string
  lrAttrs :: "slogAttr list"

type_synonym 'w emit = "sink \<Rightarrow> logRecord \<Rightarrow> 'w \<Rightarrow> 'w"

definition handlerEnabled :: "handler \<Rightarrow> level \<Rightarrow> bool" where
  "handlerEnabled h lvl =
     (case h of DiscardHandler \<Rightarrow> False | JSONHandler _ least _ \<Rightarrow> level_num least \<le> level_num lvl)"

definition LogAttrs :: "'w emit \<Rightarrow> logger \<Rightarrow> level \<Rightarrow> string \<Rightarrow> slogAttr list \<Rightarrow> 'w \<Rightarrow> 'w" where
  "LogAttrs emit l lvl msg attrs w =
     (case lgHandler l of
        DiscardHandler \<Rightarrow> w
      | JSONHandler snk least with \<Rightarrow>
          if handlerEnabled (lgHandler l) lvl
          then emit snk \<lparr>lrLevel = lvl, lrMsg = msg, lrAttrs = with @ attrs\<rparr> w else w)"

definition Debug :: "'w emit \<Rightarrow> logger \<Rightarrow> string \<Rightarrow> slogAttr list \<Rightarrow> 'w \<Rightarrow> 'w" where
  "Debug emit l msg attrs w = LogAttrs emit l LevelDebug msg attrs w"

definition Info :: "'w emit \<Rightarrow> logger \<Rightarrow> string \<Rightarrow> slogAttr list \<Rightarrow> 'w \<Rightarrow> 'w" where
  "Info emit l msg attrs w = LogAttrs emit l LevelInfo msg attrs w"

definition Warn :: "'w emit \<Rightarrow> logger \<Rightarrow> string \<Rightarrow> slogAttr list \<Rightarrow> 'w \<Rightarrow> 'w" where
  "Warn emit l msg attrs w = LogAttrs emit l LevelWarn msg attrs w"

text \<open>\<^verbatim>\<open>Error\<close> of the logger.\<close>

definition ErrorMsg :: "'w emit \<Rightarrow> logger \<Rightarrow> string \<Rightarrow> slogAttr list \<Rightarrow> 'w \<Rightarrow> 'w" where
  "ErrorMsg emit l msg attrs w = LogAttrs emit l LevelError msg attrs w"

text \<open>
  The variants with a format log the text that \<^verbatim>\<open>fmt.Sprintf\<close> makes of it; \<open>sprintf\<close> is that text.
\<close>

definition Debugf :: "'w emit \<Rightarrow> logger \<Rightarrow> string \<Rightarrow> 'w \<Rightarrow> 'w" where
  "Debugf emit l sprintf w = LogAttrs emit l LevelDebug sprintf [] w"

definition Infof :: "'w emit \<Rightarrow> logger \<Rightarrow> string \<Rightarrow> 'w \<Rightarrow> 'w" where
  "Infof emit l sprintf w = LogAttrs emit l LevelInfo sprintf [] w"

definition Warnf :: "'w emit \<Rightarrow> logger \<Rightarrow> string \<Rightarrow> 'w \<Rightarrow> 'w" where
  "Warnf emit l sprintf w = LogAttrs emit l LevelWarn sprintf [] w"

definition Errorf :: "'w emit \<Rightarrow> logger \<Rightarrow> string \<Rightarrow> 'w \<Rightarrow> 'w" where
  "Errorf emit l sprintf w = LogAttrs emit l LevelError sprintf [] w"

text \<open>\<^verbatim>\<open>With\<close>: the handler and the spans started by the new logger carry the attributes.\<close>

definition With :: "logger \<Rightarrow> slogAttr list \<Rightarrow> logger" where
  "With l attrs =
     \<lparr>lgHandler = (case lgHandler l of
        DiscardHandler \<Rightarrow> DiscardHandler | JSONHandler snk least with \<Rightarrow> JSONHandler snk least (with @ attrs)),
      lgSpanAttrs = lgSpanAttrs l @ slogAttrsToOTel attrs\<rparr>"

section \<open>Set-up\<close>

text \<open>
  \<open>dial\<close> and \<open>syslog\<close> are the outcomes of \<^verbatim>\<open>syslog.Dial\<close> on a network and an address and of \<^verbatim>\<open>syslog.New\<close>;
  \<open>hostname\<close> is the outcome of \<^verbatim>\<open>os.Hostname\<close>.
\<close>

definition writer :: "(string \<Rightarrow> string \<Rightarrow> unit result) \<Rightarrow> unit result \<Rightarrow> Logging \<Rightarrow> sink result" where
  "writer dial syslog la =
     (let loc = ToLower (LoggingLocation la) in
      if loc = ''syslog'' \<or> loc = [] then
        (if LoggingAddress la \<noteq> [] then
           (case dial (LoggingNetwork la) (LoggingAddress la) of
              Inl err \<Rightarrow> Inl err | Inr _ \<Rightarrow> Inr (RemoteSyslog (LoggingNetwork la) (LoggingAddress la) loggerTag))
         else (case syslog of Inl err \<Rightarrow> Inl err | Inr _ \<Rightarrow> Inr (LocalSyslog loggerTag)))
      else if loc = ''stdout'' then Inr Stdout
      else if loc = ''stderr'' then Inr Stderr
      else Inr (LogFile (path_Clean (LoggingLocation la))))"

definition fields :: "string result \<Rightarrow> slogAttr list" where
  "fields hostname = (case hostname of Inl _ \<Rightarrow> [] | Inr host \<Rightarrow> [slogString ''hostname'' host])"

definition logs_Initialize ::
    "(string \<Rightarrow> string \<Rightarrow> unit result) \<Rightarrow> unit result \<Rightarrow> string result \<Rightarrow> Logging \<Rightarrow> logger result" where
  "logs_Initialize dial syslog hostname la =
     (if LoggingDisable la then Inr \<lparr>lgHandler = DiscardHandler, lgSpanAttrs = []\<rparr>
      else case writer dial syslog la of
             Inl err \<Rightarrow> Inl err
           | Inr snk \<Rightarrow> Inr \<lparr>lgHandler = JSONHandler snk (level (LoggingLevel la)) (fields hostname), lgSpanAttrs = []\<rparr>)"

definition InitializeDiscard :: logger where
  "InitializeDiscard = \<lparr>lgHandler = DiscardHandler, lgSpanAttrs = []\<rparr>"

definition InitializeStderr :: "string result \<Rightarrow> logger" where
  "InitializeStderr hostname = \<lparr>lgHandler = JSONHandler Stderr defaultLevel (fields hostname), lgSpanAttrs = []\<rparr>"

text \<open>
  \<^verbatim>\<open>LogFile.Write\<close> opens the file anew for every record: \<open>openAppend\<close> creates it if need be,
  \<open>append\<close> writes and \<open>close\<close> releases it whatever happened.
\<close>

record 'w fileOps =
  foOpen :: "string \<Rightarrow> 'w \<Rightarrow> unit result \<times> 'w"
  foWrite :: "string \<Rightarrow> string \<Rightarrow> 'w \<Rightarrow> nat result \<times> 'w"
  foClose :: "string \<Rightarrow> 'w \<Rightarrow> 'w"

definition LogFile_Write :: "'w fileOps \<Rightarrow> string \<Rightarrow> string \<Rightarrow> 'w \<Rightarrow> nat result \<times> 'w" where
  "LogFile_Write fo file p w =
     (case foOpen fo file w of
        (Inl err, w1) \<Rightarrow> (Inl err, w1)
      | (Inr _, w1) \<Rightarrow> (case foWrite fo file p w1 of (res, w2) \<Rightarrow> (res, foClose fo file w2)))"

section \<open>Spans\<close>

datatype spanStatus = StatusUnset | StatusErrorText string | StatusOkText

datatype spanKind = KindInternal | KindServer

text \<open>
  \<open>otStart\<close> starts a span with the tracer of the given name of the global provider, \<open>otChild\<close> with
  that of the provider of the parent; \<open>otNoop\<close> tells the spans of the provider that
  \<^verbatim>\<open>noop.NewTracerProvider\<close> returns.
\<close>

record ('s, 'w) otel =
  otStart :: "string \<Rightarrow> string \<Rightarrow> spanKind \<Rightarrow> keyValue list \<Rightarrow> 's option \<Rightarrow> 'w \<Rightarrow> 's \<times> 'w"
  otChild :: "string \<Rightarrow> string \<Rightarrow> 's \<Rightarrow> 'w \<Rightarrow> 's \<times> 'w"
  otNoop :: "'s \<Rightarrow> bool"
  otValid :: "'s \<Rightarrow> bool"
  otSetAttributes :: "'s \<Rightarrow> keyValue list \<Rightarrow> 'w \<Rightarrow> 'w"
  otAddEvent :: "'s \<Rightarrow> string \<Rightarrow> keyValue list \<Rightarrow> 'w \<Rightarrow> 'w"
  otRecordError :: "'s \<Rightarrow> gerror \<Rightarrow> 'w \<Rightarrow> 'w"
  otSetStatus :: "'s \<Rightarrow> spanStatus \<Rightarrow> 'w \<Rightarrow> 'w"
  otEnd :: "'s \<Rightarrow> 'w \<Rightarrow> 'w"

definition logAttrs :: "level \<Rightarrow> string \<Rightarrow> keyValue list" where
  "logAttrs lvl msg = [(''log.severity'', AString (level_String lvl)), (''log.message'', AString msg)]"

definition addSpanEventFromLog ::
    "('s, 'w) otel \<Rightarrow> 's option \<Rightarrow> level \<Rightarrow> string \<Rightarrow> slogAttr list \<Rightarrow> 'w \<Rightarrow> 'w" where
  "addSpanEventFromLog ot ctx lvl msg attrs w =
     (case ctx of
        None \<Rightarrow> w
      | Some sp \<Rightarrow>
          if \<not> otValid ot sp then w
          else let w1 = otAddEvent ot sp ''log'' (logAttrs lvl msg @ slogAttrsToOTel attrs) w
               in if level_num LevelError \<le> level_num lvl then otSetStatus ot sp (StatusErrorText msg) w1 else w1)"

text \<open>
  \<^verbatim>\<open>logWithOTel\<close>. The deferred calls run in reverse order: a span started here ends before the
  record is written.
\<close>

definition annotate :: "('s, 'w) otel \<Rightarrow> 's \<Rightarrow> level \<Rightarrow> string \<Rightarrow> slogAttr list \<Rightarrow> 'w \<Rightarrow> 'w" where
  "annotate ot sp lvl msg attrs w =
     (if otValid ot sp
      then otSetAttributes ot sp (slogAttrsToOTel attrs) (otSetAttributes ot sp (logAttrs lvl msg) w)
      else w)"

definition logWithOTel ::
    "('s, 'w) otel \<Rightarrow> 'w emit \<Rightarrow> logger \<Rightarrow> 's option \<Rightarrow> level \<Rightarrow> string \<Rightarrow> string \<Rightarrow> slogAttr list \<Rightarrow> 'w \<Rightarrow> 'w" where
  "logWithOTel ot emit l ctx lvl spanName msg attrs w =
     LogAttrs emit l lvl msg attrs
       (case ctx of
          Some sp \<Rightarrow>
            if otValid ot sp
            then addSpanEventFromLog ot (Some sp) lvl msg attrs (annotate ot sp lvl msg attrs w)
            else (case otStart ot ''logs'' spanName KindInternal [] (Some sp) w of
                    (new, w1) \<Rightarrow>
                      otEnd ot new (addSpanEventFromLog ot (Some new) lvl msg attrs (annotate ot new lvl msg attrs w1)))
        | None \<Rightarrow>
            (case otStart ot ''logs'' spanName KindInternal [] None w of
               (new, w1) \<Rightarrow>
                 otEnd ot new (addSpanEventFromLog ot (Some new) lvl msg attrs (annotate ot new lvl msg attrs w1))))"

definition DebugCtx :: "('s, 'w) otel \<Rightarrow> 'w emit \<Rightarrow> logger \<Rightarrow> 's option \<Rightarrow> string \<Rightarrow> slogAttr list \<Rightarrow> 'w \<Rightarrow> 'w" where
  "DebugCtx ot emit l ctx msg attrs w = logWithOTel ot emit l ctx LevelDebug ''log.debug'' msg attrs w"

definition InfoCtx :: "('s, 'w) otel \<Rightarrow> 'w emit \<Rightarrow> logger \<Rightarrow> 's option \<Rightarrow> string \<Rightarrow> slogAttr list \<Rightarrow> 'w \<Rightarrow> 'w" where
  "InfoCtx ot emit l ctx msg attrs w = logWithOTel ot emit l ctx LevelInfo ''log.info'' msg attrs w"

definition WarnCtx :: "('s, 'w) otel \<Rightarrow> 'w emit \<Rightarrow> logger \<Rightarrow> 's option \<Rightarrow> string \<Rightarrow> slogAttr list \<Rightarrow> 'w \<Rightarrow> 'w" where
  "WarnCtx ot emit l ctx msg attrs w = logWithOTel ot emit l ctx LevelWarn ''log.warn'' msg attrs w"

definition ErrorCtx :: "('s, 'w) otel \<Rightarrow> 'w emit \<Rightarrow> logger \<Rightarrow> 's option \<Rightarrow> string \<Rightarrow> slogAttr list \<Rightarrow> 'w \<Rightarrow> 'w" where
  "ErrorCtx ot emit l ctx msg attrs w = logWithOTel ot emit l ctx LevelError ''log.error'' msg attrs w"

text \<open>
  \<^verbatim>\<open>StartSpan\<close>: the new context and what its second result does. The tracer of a context without a
  span starts spans that do nothing, so the context stays without one.
\<close>

definition StartSpan ::
    "('s, 'w) otel \<Rightarrow> logger \<Rightarrow> 's option \<Rightarrow> string \<Rightarrow> 'w \<Rightarrow> ('s option \<times> ('w \<Rightarrow> 'w)) \<times> 'w" where
  "StartSpan ot l ctx name w =
     (case ctx of
        None \<Rightarrow> ((None, id), w)
      | Some parent \<Rightarrow>
          if otNoop ot parent then ((ctx, id), w)
          else (case otChild ot ''logs'' name parent w of
                  (sp, w1) \<Rightarrow>
                    ((Some sp, otEnd ot sp),
                     if lgSpanAttrs l \<noteq> [] then otSetAttributes ot sp (lgSpanAttrs l) w1 else w1)))"

text \<open>
  \<^verbatim>\<open>InitOTel\<close>: \<open>osExporter\<close> and \<open>osResource\<close> are the constructors of the exporter and the resource,
  \<open>osInstall\<close> makes the provider of both the global one and sets the propagators.
\<close>

record ('e, 'r, 'w) otelSdk =
  osExporter :: "string \<Rightarrow> bool \<Rightarrow> 'w \<Rightarrow> 'e result \<times> 'w"
  osResource :: "string \<Rightarrow> 'w \<Rightarrow> 'r result \<times> 'w"
  osInstall :: "'e \<Rightarrow> 'r \<Rightarrow> 'w \<Rightarrow> 'w"
  osShutdown :: "'e \<Rightarrow> 'r \<Rightarrow> 'w \<Rightarrow> unit result \<times> 'w"

definition InitOTel ::
    "('e, 'r, 'w) otelSdk \<Rightarrow> Logging \<Rightarrow> 'w \<Rightarrow> ('w \<Rightarrow> unit result \<times> 'w) result \<times> 'w" where
  "InitOTel sdk la w =
     (case osExporter sdk (OtelEndpoint la) (OtelInsecure la) w of
        (Inl err, w1) \<Rightarrow> (Inl err, w1)
      | (Inr ex, w1) \<Rightarrow>
          (case osResource sdk (OtelService la) w1 of
             (Inl err, w2) \<Rightarrow> (Inl err, w2)
           | (Inr res, w2) \<Rightarrow> (Inr (osShutdown sdk ex res), osInstall sdk ex res w2)))"

section \<open>What the spans show\<close>

record spanData =
  sdName :: string
  sdEvents :: "(string \<times> keyValue list) list"
  sdStatus :: spanStatus
  sdEnded :: bool

text \<open>A status replaces another only if it does not rank below it: unset, error, ok.\<close>

fun status_rank :: "spanStatus \<Rightarrow> nat" where
  "status_rank StatusUnset = 0"
| "status_rank (StatusErrorText _) = 1"
| "status_rank StatusOkText = 2"

definition new_status :: "spanStatus \<Rightarrow> spanStatus \<Rightarrow> spanStatus" where
  "new_status old st = (if status_rank st < status_rank old then old else st)"

lemma new_status_unset [simp]: "new_status StatusUnset st = st"
  by (simp add: new_status_def)

lemma new_status_over: "old \<noteq> StatusOkText \<Longrightarrow> st \<noteq> StatusUnset \<Longrightarrow> new_status old st = st"
  by (cases old; cases st) (simp_all add: new_status_def)

text \<open>
  The contract of a tracing library that records: \<open>view\<close> is what it holds of a span and \<open>out\<close> are the
  records written so far. A library may drop attributes and old events above its limits, so the contract
  only promises that an event just added, with few attributes, is the last one.
\<close>

locale span_store =
  fixes ot :: "('s, 'w) otel" and emit :: "'w emit"
    and view :: "'w \<Rightarrow> 's \<rightharpoonup> spanData" and out :: "'w \<Rightarrow> (sink \<times> logRecord) list"
  assumes start: "otStart ot tracer name kind kvs parent w = (s, w') \<Longrightarrow>
        otValid ot s \<and> view w s = None \<and> out w' = out w
        \<and> view w' = (view w)(s \<mapsto> \<lparr>sdName = name, sdEvents = [], sdStatus = StatusUnset, sdEnded = False\<rparr>)"
    and attributes: "view (otSetAttributes ot s kvs w) = view w" "out (otSetAttributes ot s kvs w) = out w"
    and event: "view w s = Some d \<Longrightarrow> \<not> sdEnded d \<Longrightarrow> length kvs \<le> 128 \<Longrightarrow>
        \<exists>es. view (otAddEvent ot s name kvs w) = (view w)(s \<mapsto> d\<lparr>sdEvents := es @ [(name, kvs)]\<rparr>)"
    and event_any: "view w s = Some d \<Longrightarrow> \<exists>es. view (otAddEvent ot s name kvs w) = (view w)(s \<mapsto> d\<lparr>sdEvents := es\<rparr>)"
    and event_out: "out (otAddEvent ot s name kvs w) = out w"
    and status: "view w s = Some d \<Longrightarrow> \<not> sdEnded d \<Longrightarrow>
        view (otSetStatus ot s st w) = (view w)(s \<mapsto> d\<lparr>sdStatus := new_status (sdStatus d) st\<rparr>)"
    and status_out: "out (otSetStatus ot s st w) = out w"
    and error: "view w s = Some d \<Longrightarrow> \<exists>es. view (otRecordError ot s e w) = (view w)(s \<mapsto> d\<lparr>sdEvents := es\<rparr>)"
        "out (otRecordError ot s e w) = out w"
    and ended: "view w s = Some d \<Longrightarrow> view (otEnd ot s w) = (view w)(s \<mapsto> d\<lparr>sdEnded := True\<rparr>)" "out (otEnd ot s w) = out w"
    and emitted: "view (emit snk r w) = view w" "out (emit snk r w) = out w @ [(snk, r)]"
begin

lemma view_annotate [simp]: "view (annotate ot s lvl msg attrs w) = view w" "out (annotate ot s lvl msg attrs w) = out w"
  by (simp_all add: annotate_def attributes)

lemma view_LogAttrs [simp]: "view (LogAttrs emit l lvl msg attrs w) = view w"
  by (simp add: LogAttrs_def emitted split: handler.splits)

text \<open>What is written: one record if the handler takes the level.\<close>

lemma out_LogAttrs:
  "out (LogAttrs emit l lvl msg attrs w) = out w @
     (case lgHandler l of
        DiscardHandler \<Rightarrow> []
      | JSONHandler snk least with \<Rightarrow>
          if level_num least \<le> level_num lvl then [(snk, \<lparr>lrLevel = lvl, lrMsg = msg, lrAttrs = with @ attrs\<rparr>)] else [])"
  by (simp add: LogAttrs_def handlerEnabled_def emitted split: handler.splits)

lemma event_from_log:
  assumes "view w s = Some d" "\<not> sdEnded d" "otValid ot s" "length attrs \<le> 126"
  shows "\<exists>es. view (addSpanEventFromLog ot (Some s) lvl msg attrs w) = (view w)(s \<mapsto>
      d\<lparr>sdEvents := es @ [(''log'', logAttrs lvl msg @ slogAttrsToOTel attrs)],
        sdStatus := if lvl = LevelError then new_status (sdStatus d) (StatusErrorText msg) else sdStatus d\<rparr>)"
proof -
  let ?kvs = "logAttrs lvl msg @ slogAttrsToOTel attrs"
  let ?w = "otAddEvent ot s ''log'' ?kvs w"
  have "length ?kvs \<le> 128" using assms(4) by (simp add: logAttrs_def slogAttrsToOTel_def)
  from event [OF assms(1,2) this, of "''log''"]
  obtain es where e: "view ?w = (view w)(s \<mapsto> d\<lparr>sdEvents := es @ [(''log'', ?kvs)]\<rparr>)" by blast
  show ?thesis
  proof (cases lvl)
    case LevelError
    then show ?thesis
      using assms(2,3) status [of ?w s "d\<lparr>sdEvents := es @ [(''log'', ?kvs)]\<rparr>" "StatusErrorText msg"] e
      by (auto simp: addSpanEventFromLog_def Let_def)
  qed (use assms(3) e in \<open>auto simp: addSpanEventFromLog_def\<close>)
qed

lemma event_out_log [simp]: "out (addSpanEventFromLog ot ctx lvl msg attrs w) = out w"
  by (auto simp: addSpanEventFromLog_def Let_def event_out status_out split: option.splits)

text \<open>A message on a span of the context: its event, and its status if it is an error.\<close>

lemma log_on_span:
  assumes "view w s = Some d" "\<not> sdEnded d" "otValid ot s" "length attrs \<le> 126"
  shows "\<exists>es. view (logWithOTel ot emit l (Some s) lvl name msg attrs w) = (view w)(s \<mapsto>
      d\<lparr>sdEvents := es @ [(''log'', logAttrs lvl msg @ slogAttrsToOTel attrs)],
        sdStatus := if lvl = LevelError then new_status (sdStatus d) (StatusErrorText msg) else sdStatus d\<rparr>)"
  using event_from_log [of "annotate ot s lvl msg attrs w" s d attrs lvl msg] assms
  by (simp add: logWithOTel_def)

lemma log_no_error:
  assumes "view w s = Some d" "\<not> sdEnded d" "otValid ot s" "length attrs \<le> 126" "lvl \<noteq> LevelError"
  shows "\<exists>es. view (logWithOTel ot emit l (Some s) lvl name msg attrs w) = (view w)(s \<mapsto> d\<lparr>sdEvents := es\<rparr>)"
proof -
  from log_on_span [OF assms(1-4), of l lvl name msg] obtain es where
    "view (logWithOTel ot emit l (Some s) lvl name msg attrs w) = (view w)(s \<mapsto> d\<lparr>sdEvents := es, sdStatus := sdStatus d\<rparr>)"
    using assms(5) by auto
  then show ?thesis by auto
qed

text \<open>Without a valid span in the context the message gets a span of its own, which is over at once.\<close>

lemma log_without_span:
  assumes "length attrs \<le> 126"
  shows "\<exists>s es. view w s = None \<and> view (logWithOTel ot emit l None lvl name msg attrs w) = (view w)(s \<mapsto>
      \<lparr>sdName = name, sdEvents = es @ [(''log'', logAttrs lvl msg @ slogAttrsToOTel attrs)],
       sdStatus = (if lvl = LevelError then StatusErrorText msg else StatusUnset), sdEnded = True\<rparr>)"
proof -
  obtain s w1 where st: "otStart ot ''logs'' name KindInternal [] None w = (s, w1)" by fastforce
  note v = start [OF st]
  let ?d = "\<lparr>sdName = name, sdEvents = [], sdStatus = StatusUnset, sdEnded = False\<rparr>"
  let ?w = "annotate ot s lvl msg attrs w1"
  have "view ?w s = Some ?d" using v by simp
  from event_from_log [OF this _ _ assms, of lvl msg] obtain es where
    e: "view (addSpanEventFromLog ot (Some s) lvl msg attrs ?w) = (view w)(s \<mapsto>
        ?d\<lparr>sdEvents := es @ [(''log'', logAttrs lvl msg @ slogAttrsToOTel attrs)],
          sdStatus := if lvl = LevelError then StatusErrorText msg else StatusUnset\<rparr>)"
    using v by (auto cong: if_cong)
  then show ?thesis using v ended(1) [of "addSpanEventFromLog ot (Some s) lvl msg attrs ?w" s]
    by (auto simp: logWithOTel_def st)
qed

lemma out_logWithOTel:
  "out (logWithOTel ot emit l ctx lvl name msg attrs w) = out w @
     (case lgHandler l of
        DiscardHandler \<Rightarrow> []
      | JSONHandler snk least with \<Rightarrow>
          if level_num least \<le> level_num lvl then [(snk, \<lparr>lrLevel = lvl, lrMsg = msg, lrAttrs = with @ attrs\<rparr>)] else [])"
  using start
  by (auto simp: logWithOTel_def out_LogAttrs ended(2) split: option.splits prod.splits)

end

text \<open>A library that keeps its spans in memory; the spans are numbered.\<close>

record traceMem =
  tmSpans :: "(nat, spanData) gomap"
  tmNext :: nat
  tmOut :: "(sink \<times> logRecord) list"

definition tmUpdate :: "nat \<Rightarrow> (spanData \<Rightarrow> spanData) \<Rightarrow> 'z traceMem_scheme \<Rightarrow> 'z traceMem_scheme" where
  "tmUpdate s f w = (case map_of (tmSpans w) s of None \<Rightarrow> w | Some d \<Rightarrow> w\<lparr>tmSpans := (s, f d) # tmSpans w\<rparr>)"

definition tmStart :: "string \<Rightarrow> 'z traceMem_scheme \<Rightarrow> nat \<times> 'z traceMem_scheme" where
  "tmStart name w =
     (let s = Suc (fold max (map fst (tmSpans w)) (tmNext w)) in
      (s, w\<lparr>tmSpans := (s, \<lparr>sdName = name, sdEvents = [], sdStatus = StatusUnset, sdEnded = False\<rparr>) # tmSpans w, tmNext := s\<rparr>))"

definition memTracer :: "(nat, 'z traceMem_scheme) otel" where
  "memTracer =
     \<lparr>otStart = (\<lambda>tracer name kind kvs parent. tmStart name),
      otChild = (\<lambda>tracer name parent. tmStart name),
      otNoop = (\<lambda>s. False), otValid = (\<lambda>s. True),
      otSetAttributes = (\<lambda>s kvs w. w),
      otAddEvent = (\<lambda>s name kvs. tmUpdate s (\<lambda>d. d\<lparr>sdEvents := sdEvents d @ [(name, kvs)]\<rparr>)),
      otRecordError = (\<lambda>s e. tmUpdate s (\<lambda>d. d\<lparr>sdEvents := sdEvents d @ [(''exception'', [(''exception.message'', AString e)])]\<rparr>)),
      otSetStatus = (\<lambda>s st. tmUpdate s (\<lambda>d. d\<lparr>sdStatus := new_status (sdStatus d) st\<rparr>)),
      otEnd = (\<lambda>s. tmUpdate s (\<lambda>d. d\<lparr>sdEnded := True\<rparr>))\<rparr>"

lemma memTracer_valid [simp]: "otValid memTracer s"
  by (simp add: memTracer_def)

definition memEmit :: "'z traceMem_scheme emit" where
  "memEmit snk r w = w\<lparr>tmOut := tmOut w @ [(snk, r)]\<rparr>"

lemma tmStart_fresh: "map_of (tmSpans w) (Suc (fold max (map fst (tmSpans w)) n)) = None"
proof -
  have "k \<in> set ks \<Longrightarrow> k \<le> fold max ks n" for k and ks :: "nat list"
    by (simp add: Max.set_eq_fold [symmetric] del: list.set(2)) (simp add: Max_ge)
  then have "Suc (fold max (map fst (tmSpans w)) n) \<notin> fst ` set (tmSpans w)"
    by (metis Suc_n_not_le_n list.set_map)
  then show ?thesis by (simp add: map_of_eq_None_iff)
qed

interpretation memtracer: span_store memTracer memEmit "\<lambda>w. map_of (tmSpans w)" tmOut
  by unfold_locales
     (auto simp: memTracer_def memEmit_def tmUpdate_def tmStart_def Let_def tmStart_fresh split: option.splits)

end
