(* ===== verification/Interceptors.thy ===== *)
theory Interceptors
  imports Logs
begin

text \<open>
  \<^verbatim>\<open>internal/envoy/interceptors.go\<close>: the interceptor that runs around every unary call of the gRPC
  servers. A call has a context (the span it carries, the address of its peer, its metadata), a
  request and a handler; keys of the metadata are lower case. The global propagator is the parameter
  \<open>extract\<close>, the clock is \<open>clk\<close>.
\<close>

type_synonym metadata = "(string, string list) gomap"

record 's grpcCtx =
  gcSpan :: "'s option"
  gcPeer :: "string option"
  gcMetadata :: "metadata option"

text \<open>An error of a handler: a status of gRPC, or any other error.\<close>

datatype grpcError = StatusErr int string | PlainErr gerror

definition codeNames :: "string list" where
  "codeNames =
     [''OK'', ''Canceled'', ''Unknown'', ''InvalidArgument'', ''DeadlineExceeded'', ''NotFound'', ''AlreadyExists'',
      ''PermissionDenied'', ''ResourceExhausted'', ''FailedPrecondition'', ''Aborted'', ''OutOfRange'',
      ''Unimplemented'', ''Internal'', ''Unavailable'', ''DataLoss'', ''Unauthenticated'']"

definition code_String :: "int \<Rightarrow> string" where
  "code_String c =
     (if 0 \<le> c \<and> c \<le> 16 then codeNames ! nat c else ''Code('' @ itoa (nat c) @ '')'')"

fun grpcError_text :: "grpcError \<Rightarrow> string" where
  "grpcError_text (StatusErr c m) = ''rpc error: code = '' @ code_String c @ '' desc = '' @ m"
| "grpcError_text (PlainErr e) = e"

fun status_Convert :: "grpcError option \<Rightarrow> int \<times> string" where
  "status_Convert None = (codes_OK, [])"
| "status_Convert (Some (StatusErr c m)) = (c, m)"
| "status_Convert (Some (PlainErr e)) = (codes_Unknown, e)"

definition healthCheckMethod :: string where
  "healthCheckMethod = ''/grpc.health.v1.Health/Check''"

fun first :: "string list \<Rightarrow> string" where
  "first [] = []"
| "first (v # vs) = v"

text \<open>\<^verbatim>\<open>metadata.MD\<close> and the carrier that the propagator reads it through.\<close>

definition md_Get :: "metadata \<Rightarrow> string \<Rightarrow> string list" where
  "md_Get md key = (case map_of md (ToLower key) of Some vs \<Rightarrow> vs | None \<Rightarrow> [])"

definition carrier_Get :: "metadata \<Rightarrow> string \<Rightarrow> string" where
  "carrier_Get md key = first (md_Get md key)"

definition carrier_Set :: "string \<Rightarrow> string \<Rightarrow> metadata \<Rightarrow> metadata" where
  "carrier_Set key value md = mput (ToLower key) [value] md"

definition carrier_Keys :: "metadata \<Rightarrow> string list" where
  "carrier_Keys md = map fst md"

text \<open>The attributes of the call's logger, and its request ID.\<close>

definition requestID :: "'s grpcCtx \<Rightarrow> string" where
  "requestID ctx = (case gcMetadata ctx of Some md \<Rightarrow> first (md_Get md ''x-request-id'') | None \<Rightarrow> [])"

definition callAttrs :: "'s grpcCtx \<Rightarrow> string \<Rightarrow> slogAttr list" where
  "callAttrs ctx fullMethod =
     slogString ''grpc.method'' fullMethod
     # (case gcPeer ctx of Some addr \<Rightarrow> [slogString ''req.remote-address'' addr] | None \<Rightarrow> [])
     @ (if requestID ctx \<noteq> [] then [slogString ''req.x-request-id'' (requestID ctx)] else [])"

text \<open>The span of the call, before its handler and after it.\<close>

definition openCall ::
    "('s, 'w) otel \<Rightarrow> 'w emit \<Rightarrow> logger \<Rightarrow> 's grpcCtx \<Rightarrow> 's \<Rightarrow> 'w \<Rightarrow> 'w" where
  "openCall ot emit ll ctx sp w =
     (let w1 = (if requestID ctx \<noteq> [] then otSetAttributes ot sp [(''http.request_id'', AString (requestID ctx))] w else w);
          w2 = (case gcPeer ctx of Some addr \<Rightarrow> otSetAttributes ot sp [(''net.peer.addr'', AString addr)] w1 | None \<Rightarrow> w1)
      in DebugCtx ot emit ll (Some sp) ''inbound request'' [] w2)"

definition closeCall ::
    "('s, 'w) otel \<Rightarrow> 'w emit \<Rightarrow> ('w \<Rightarrow> time) \<Rightarrow> logger \<Rightarrow> time \<Rightarrow> 's \<Rightarrow> grpcError option \<Rightarrow> 'w \<Rightarrow> 'w" where
  "closeCall ot emit clk ll begun sp err w =
     (let (code, msg) = status_Convert err;
          w1 = otSetAttributes ot sp [(''rpc.grpc.status_code'', AInt64 (word_of_int code))] w;
          w2 = (case err of
                  Some e \<Rightarrow> otSetStatus ot sp (StatusErrorText msg) (otRecordError ot sp (grpcError_text e) w1)
                | None \<Rightarrow> otSetStatus ot sp StatusOkText w1)
      in otEnd ot sp
           (InfoCtx ot emit ll (Some sp) ''request completed''
              [StringArg ''duration'' (duration_String (clk w2 - begun)), StringArg ''grpc.code'' (code_String code)] w2))"

definition unaryTracingInterceptor ::
    "('s, 'w) otel \<Rightarrow> (metadata \<Rightarrow> 's option \<Rightarrow> 's option) \<Rightarrow> 'w emit \<Rightarrow> ('w \<Rightarrow> time) \<Rightarrow> logger \<Rightarrow> string
       \<Rightarrow> 's grpcCtx \<Rightarrow> 'req \<Rightarrow> string \<Rightarrow> ('s grpcCtx \<Rightarrow> 'req \<Rightarrow> 'w \<Rightarrow> ('resp \<times> grpcError option) \<times> 'w) \<Rightarrow> 'w
       \<Rightarrow> ('resp \<times> grpcError option) \<times> 'w" where
  "unaryTracingInterceptor ot extract emit clk base name ctx req fullMethod handler w =
     (if fullMethod = healthCheckMethod then handler ctx req w
      else
        let begun = clk w;
            ll = With base (callAttrs ctx fullMethod);
            parent = (case gcMetadata ctx of Some md \<Rightarrow> extract md (gcSpan ctx) | None \<Rightarrow> gcSpan ctx);
            (sp, w1) = otStart ot name fullMethod KindServer [(''rpc.system'', AString ''grpc'')] parent w;
            ((resp, err), w2) = handler (ctx\<lparr>gcSpan := Some sp\<rparr>) req (openCall ot emit ll ctx sp w1)
        in ((resp, err), closeCall ot emit clk ll begun sp err w2))"

section \<open>Facts\<close>

lemma carrier_Get_Set: "carrier_Get (carrier_Set k v md) k' = (if ToLower k' = ToLower k then v else carrier_Get md k')"
  by (simp add: carrier_Get_def carrier_Set_def md_Get_def)

lemma carrier_Keys_Set: "set (carrier_Keys (carrier_Set k v md)) = insert (ToLower k) (set (carrier_Keys md))"
  by (auto simp: carrier_Keys_def carrier_Set_def)

text \<open>A call whose request the handler can look at the same way with any span.\<close>

lemma interceptor_health:
  "unaryTracingInterceptor ot extract emit clk base name ctx req healthCheckMethod handler w = handler ctx req w"
  by (simp add: unaryTracingInterceptor_def)

context span_store
begin

lemma open_view:
  assumes "view w s = Some d" "\<not> sdEnded d" "otValid ot s"
  shows "\<exists>es. view (openCall ot emit ll ctx s w) = (view w)(s \<mapsto> d\<lparr>sdEvents := es\<rparr>)"
proof -
  define w2 where "w2 = (let w1 = (if requestID ctx \<noteq> [] then otSetAttributes ot s [(''http.request_id'', AString (requestID ctx))] w else w)
    in case gcPeer ctx of Some addr \<Rightarrow> otSetAttributes ot s [(''net.peer.addr'', AString addr)] w1 | None \<Rightarrow> w1)"
  have v: "view w2 = view w" by (simp add: w2_def Let_def attributes split: option.splits)
  have o: "openCall ot emit ll ctx s w = logWithOTel ot emit ll (Some s) LevelDebug ''log.debug'' ''inbound request'' [] w2"
    by (simp add: openCall_def DebugCtx_def w2_def Let_def)
  show ?thesis unfolding o using log_no_error [of w2 s d "[]" LevelDebug ll] assms v by simp
qed

lemma close_view:
  assumes "view w s = Some d" "\<not> sdEnded d" "otValid ot s" "sdStatus d \<noteq> StatusOkText"
  shows "\<exists>es. view (closeCall ot emit clk ll begun s err w) = (view w)(s \<mapsto>
    d\<lparr>sdStatus := (case err of None \<Rightarrow> StatusOkText | Some e \<Rightarrow> StatusErrorText (snd (status_Convert err))),
      sdEvents := es, sdEnded := True\<rparr>)"
proof -
  let ?st = "case err of None \<Rightarrow> StatusOkText | Some e \<Rightarrow> StatusErrorText (snd (status_Convert err))"
  obtain code msg where c: "status_Convert err = (code, msg)" by fastforce
  define w1 where "w1 = otSetAttributes ot s [(''rpc.grpc.status_code'', AInt64 (word_of_int code))] w"
  define w2 where "w2 = (case err of
      Some e \<Rightarrow> otSetStatus ot s (StatusErrorText msg) (otRecordError ot s (grpcError_text e) w1)
    | None \<Rightarrow> otSetStatus ot s StatusOkText w1)"
  have v1: "view w1 s = Some d" "view w1 = view w" using assms(1) by (simp_all add: w1_def attributes)
  have "\<exists>es. view w2 = (view w)(s \<mapsto> d\<lparr>sdStatus := ?st, sdEvents := es\<rparr>)"
  proof (cases err)
    case None
    then show ?thesis using status [OF v1(1) assms(2), of StatusOkText] v1(2) assms(4)
      by (cases d) (auto simp: w2_def new_status_over intro!: exI [of _ "sdEvents d"])
  next
    case (Some e)
    obtain es where e: "view (otRecordError ot s (grpcError_text e) w1) = (view w)(s \<mapsto> d\<lparr>sdEvents := es\<rparr>)"
      using error(1) [OF v1(1)] v1(2) by metis
    show ?thesis
      using Some c status [of "otRecordError ot s (grpcError_text e) w1" s "d\<lparr>sdEvents := es\<rparr>" "StatusErrorText msg"]
        e assms(2,4) by (cases d) (auto simp: w2_def new_status_over)
  qed
  then obtain es where v2: "view w2 = (view w)(s \<mapsto> d\<lparr>sdStatus := ?st, sdEvents := es\<rparr>)" by blast
  let ?attrs = "[StringArg ''duration'' (duration_String (clk w2 - begun)), StringArg ''grpc.code'' (code_String code)]"
  let ?w3 = "InfoCtx ot emit ll (Some s) ''request completed'' ?attrs w2"
  have "\<exists>es'. view ?w3 = (view w2)(s \<mapsto> d\<lparr>sdStatus := ?st, sdEvents := es, sdEvents := es'\<rparr>)"
    unfolding InfoCtx_def by (rule log_no_error) (use v2 assms(2,3) in simp_all)
  then obtain es' where v3: "view ?w3 = (view w)(s \<mapsto> d\<lparr>sdStatus := ?st, sdEvents := es'\<rparr>)"
    using v2 by auto
  have "closeCall ot emit clk ll begun s err w = otEnd ot s ?w3"
    unfolding closeCall_def w2_def w1_def c Let_def by simp
  then show ?thesis using ended(1) [of ?w3 s] v3 by auto
qed

end

text \<open>
  C30: the interceptor passes a call on unchanged apart from the span it adds to the context, and returns
  what the handler returned. If the handler neither ends that span nor marks it as successful, the
  span is over afterwards and its status is decided by the error of the handler alone: a request that the
  handler refuses in its response, and logs as an error, still ends as a success.
\<close>

theorem interceptor_span:
  assumes "span_store ot emit view out" "fullMethod \<noteq> healthCheckMethod"
    and "\<And>c w0 s d. gcSpan c = Some s \<Longrightarrow> view w0 s = Some d \<Longrightarrow> \<not> sdEnded d \<Longrightarrow> sdStatus d \<noteq> StatusOkText \<Longrightarrow>
      \<exists>d'. view (snd (handler c req w0)) s = Some d' \<and> \<not> sdEnded d' \<and> sdStatus d' \<noteq> StatusOkText \<and> sdName d' = sdName d"
    and "unaryTracingInterceptor ot extract emit clk base name ctx req fullMethod handler w = ((resp, err), w')"
  shows "\<exists>s d w1 w2. handler (ctx\<lparr>gcSpan := Some s\<rparr>) req w1 = ((resp, err), w2) \<and> view w s = None
    \<and> view w' s = Some d \<and> sdEnded d \<and> sdName d = fullMethod
    \<and> sdStatus d = (case err of None \<Rightarrow> StatusOkText | Some e \<Rightarrow> StatusErrorText (snd (status_Convert err)))"
proof -
  let ?ll = "With base (callAttrs ctx fullMethod)"
  obtain s w1 where st: "otStart ot name fullMethod KindServer [(''rpc.system'', AString ''grpc'')]
      (case gcMetadata ctx of Some md \<Rightarrow> extract md (gcSpan ctx) | None \<Rightarrow> gcSpan ctx) w = (s, w1)" by fastforce
  let ?w = "openCall ot emit ?ll ctx s w1"
  obtain w2 where h: "handler (ctx\<lparr>gcSpan := Some s\<rparr>) req ?w = ((resp, err), w2)"
      and w': "w' = closeCall ot emit clk ?ll (clk w) s err w2"
    using assms(2,4) st by (auto simp: unaryTracingInterceptor_def Let_def split: prod.splits)
  note new = span_store.start [OF assms(1) st]
  let ?d = "\<lparr>sdName = fullMethod, sdEvents = [], sdStatus = StatusUnset, sdEnded = False\<rparr>"
  obtain es where "view ?w = (view w1)(s \<mapsto> ?d\<lparr>sdEvents := es\<rparr>)"
    using span_store.open_view [OF assms(1), of w1 s ?d ?ll ctx] new by auto
  then obtain d' where d': "view w2 s = Some d'" "\<not> sdEnded d'" "sdStatus d' \<noteq> StatusOkText" "sdName d' = fullMethod"
    using assms(3) [of "ctx\<lparr>gcSpan := Some s\<rparr>" s ?w "?d\<lparr>sdEvents := es\<rparr>"] h by auto
  from span_store.close_view [OF assms(1) d'(1,2) _ d'(3), of clk ?ll "clk w" err] new
  show ?thesis using h d'(4) by (fastforce simp: w')
qed

text \<open>A handler that refuses a request in its response and logs the refusal as an error.\<close>

definition refusingHandler ::
    "nat grpcCtx \<Rightarrow> string \<Rightarrow> traceMem \<Rightarrow> (string \<times> grpcError option) \<times> traceMem" where
  "refusingHandler c req w =
     ((''denied'', None), ErrorCtx memTracer memEmit InitializeDiscard (gcSpan c) ''user explicitly denied'' [] w)"

definition demoCtx :: "nat grpcCtx" where
  "demoCtx = \<lparr>gcSpan = None, gcPeer = Some ''10.0.0.7:4711'', gcMetadata = Some [(''x-request-id'', [''r1''])]\<rparr>"

lemma refusingHandler_keeps:
  assumes "gcSpan c = Some s" "map_of (tmSpans w) s = Some d" "\<not> sdEnded d" "sdStatus d \<noteq> StatusOkText"
  shows "\<exists>d'. map_of (tmSpans (snd (refusingHandler c req w))) s = Some d' \<and> \<not> sdEnded d'
    \<and> sdStatus d' \<noteq> StatusOkText \<and> sdName d' = sdName d"
  using memtracer.log_on_span [OF assms(2,3), of "[]" InitializeDiscard LevelError "''log.error''" "''user explicitly denied''"]
    assms(1,3,4)
  by (auto simp: refusingHandler_def ErrorCtx_def new_status_over)

theorem interceptor_span_witness:
  "\<exists>s d. map_of (tmSpans (snd (unaryTracingInterceptor memTracer (\<lambda>md sp. sp) memEmit (\<lambda>w. 0)
        (InitializeStderr (Inr ''node'')) ''envoy/authz'' demoCtx ''req'' ''/envoy.Auth/Check'' refusingHandler
        \<lparr>tmSpans = [], tmNext = 0, tmOut = []\<rparr>))) s = Some d \<and> sdEnded d \<and> sdStatus d = StatusOkText"
proof -
  let ?w = "\<lparr>tmSpans = [], tmNext = 0, tmOut = []\<rparr>"
  let ?r = "unaryTracingInterceptor memTracer (\<lambda>md sp. sp) memEmit (\<lambda>w. 0)
        (InitializeStderr (Inr ''node'')) ''envoy/authz'' demoCtx ''req'' ''/envoy.Auth/Check'' refusingHandler ?w"
  have ne: "''/envoy.Auth/Check'' \<noteq> healthCheckMethod" by (simp add: healthCheckMethod_def)
  obtain resp err w' where r: "?r = ((resp, err), w')" by (metis surj_pair)
  obtain s d where h: "fst (fst ?r) = resp" "map_of (tmSpans w') s = Some d" "sdEnded d"
      "\<exists>w1 w2. refusingHandler (demoCtx\<lparr>gcSpan := Some s\<rparr>) ''req'' w1 = ((resp, err), w2)"
      "sdStatus d = (case err of None \<Rightarrow> StatusOkText | Some e \<Rightarrow> StatusErrorText (snd (status_Convert err)))"
    using interceptor_span [OF memtracer.span_store_axioms ne refusingHandler_keeps r] r by fastforce
  then have "err = None" by (auto simp: refusingHandler_def)
  then show ?thesis using h r by auto
qed

end
