(* ===== verification/Cmd.thy ===== *)
theory Cmd
  imports AdminApi CacherSvc EnvoyAuth EnvoySnapshot Interceptors
begin

text \<open>
  \<^verbatim>\<open>internal/cmd/holepunch\<close>: \<^verbatim>\<open>load.go\<close> and \<^verbatim>\<open>holepunch.go\<close>, the start of each command, where the components
  are put together. What the process finds around it is the record \<open>host\<close>: the NATS library with the
  operations of the handles it gives out, files and YAML, the network, the clock, the random source,
  the log and the OpenTelemetry SDK.

  A command ends the process by \<^verbatim>\<open>log.Fatal\<close>, by a panic, or returns an error to the command line
  (\<open>exit\<close>); otherwise it returns what it did. The deferred shutdown of OpenTelemetry runs when the
  command returns; after a panic the world is not followed further. What happens while a service
  runs, the messages, requests and ticks in their order, is an argument of its command.
\<close>

datatype exit = FatalExit string | PanicExit | ErrorExit gerror

type_synonym ('a, 'w) act = "'w \<Rightarrow> (exit + 'a) \<times> 'w"

definition andThen :: "('a, 'w) act \<Rightarrow> ('a \<Rightarrow> ('b, 'w) act) \<Rightarrow> ('b, 'w) act" where
  "andThen m f w = (case m w of (Inl e, w1) \<Rightarrow> (Inl e, w1) | (Inr a, w1) \<Rightarrow> f a w1)"

definition attempt :: "string \<Rightarrow> ('w \<Rightarrow> 'a result \<times> 'w) \<Rightarrow> ('a, 'w) act" where
  "attempt msg m w =
     (case m w of (Inl err, w1) \<Rightarrow> (Inl (ErrorExit (msg @ err)), w1) | (Inr a, w1) \<Rightarrow> (Inr a, w1))"

record 'w host =
  hNats :: "'w nats"
  hBucket :: "string \<Rightarrow> 'w bucket"
  hStream :: "pubsub \<Rightarrow> 'w jstream"
  hSubscribe :: "pubsub \<Rightarrow> unit result"
  hReadFile :: "string \<Rightarrow> string result"
  hYaml :: "string \<Rightarrow> json result"
  hRand :: "'w randRead"
  hDo :: "'w httpDo"
  hClock :: "'w \<Rightarrow> time"
  hSpan :: spanContext
  hPause :: "'w \<Rightarrow> 'w"
  hListen :: "string \<Rightarrow> unit result"
  hDial :: "string \<Rightarrow> string \<Rightarrow> unit result"
  hSyslog :: "unit result"
  hHostname :: "string result"
  hEmit :: "'w emit"
  hSdk :: "(nat, nat, 'w) otelSdk"
  hVersion :: string

section \<open>Loading the components\<close>

definition loadAuthenticator :: "'w host \<Rightarrow> app \<Rightarrow> string \<Rightarrow> ('w internal, 'w) act" where
  "loadAuthenticator h a kv w =
     (case New (GetValueOrFile (hReadFile h) (TokenCipherKey (tokenSvcArgs a))) of
        Inl err \<Rightarrow> (Inl (FatalExit (''failed to load aescipher: '' @ err)), w)
      | Inr cipher \<Rightarrow>
          (case Initialize cipher (hBucket h kv) (hRand h) (hDo h) (hClock h) (hSpan h) (tokenSvcArgs a) of
             None \<Rightarrow> (Inl PanicExit, w)
           | Some i \<Rightarrow> (Inr i, w)))"

definition loadLogging :: "'w host \<Rightarrow> app \<Rightarrow> (logger, 'w) act" where
  "loadLogging h a w =
     (case logs_Initialize (hDial h) (hSyslog h) (hHostname h) (loggingArgs a) of
        Inl err \<Rightarrow> (Inl (FatalExit err), w) | Inr ll \<Rightarrow> (Inr ll, w))"

definition loadOTEL :: "'w host \<Rightarrow> app \<Rightarrow> logger \<Rightarrow> (('w \<Rightarrow> unit result \<times> 'w) option, 'w) act" where
  "loadOTEL h a ll w =
     (if OtelEndpoint (loggingArgs a) = [] then (Inr None, w)
      else case InitOTel (hSdk h) (loggingArgs a) w of
             (Inl err, w1) \<Rightarrow> (Inl (FatalExit (''failed to init OTEL: '' @ err)), w1)
           | (Inr shutdown, w1) \<Rightarrow>
               (Inr (Some shutdown),
                Info (hEmit h) ll (''connected to OTEL endpoint '' @ OtelEndpoint (loggingArgs a) @ '' (''
                  @ OtelService (loggingArgs a) @ '')'') [] w1))"

definition loadRegistry :: "'w host \<Rightarrow> app \<Rightarrow> (registry, 'w) act" where
  "loadRegistry h a w =
     (case registry_Initialize (hReadFile h) (hYaml h) (routeRegArgs a) of
        Inl err \<Rightarrow> (Inl (FatalExit err), w)
      | Inr None \<Rightarrow> (Inl PanicExit, w)
      | Inr (Some i) \<Rightarrow> (Inr i, w))"

definition defaultInit :: "'w host \<Rightarrow> app \<Rightarrow> (logger, 'w) act" where
  "defaultInit h a =
     andThen (loadLogging h a)
       (\<lambda>ll w. (Inr ll, if Development (globalArgs a) then Warn (hEmit h) ll ''running in development mode'' [] w else w))"

definition otelShutdown :: "'w host \<Rightarrow> logger \<Rightarrow> ('w \<Rightarrow> unit result \<times> 'w) \<Rightarrow> 'w \<Rightarrow> 'w" where
  "otelShutdown h ll shutdown w =
     (case shutdown w of
        (Inl err, w1) \<Rightarrow> Warn (hEmit h) ll (''failed otel shutdown: '' @ err) [] w1
      | (Inr _, w1) \<Rightarrow> w1)"

text \<open>The deferred call: on every return of the body, whether with an error or not.\<close>

definition withOTEL :: "'w host \<Rightarrow> app \<Rightarrow> logger \<Rightarrow> ('a, 'w) act \<Rightarrow> ('a, 'w) act" where
  "withOTEL h a ll body =
     andThen (loadOTEL h a ll)
       (\<lambda>shutdown w.
          case body w of (r, w1) \<Rightarrow>
            (r, case (shutdown, r) of
                  (Some sh, Inr _) \<Rightarrow> otelShutdown h ll sh w1
                | (Some sh, Inl (ErrorExit _)) \<Rightarrow> otelShutdown h ll sh w1
                | _ \<Rightarrow> w1))"

text \<open>
  \<^verbatim>\<open>manageRegistryRefresh\<close> ends the process if the subscription cannot start; the messages it handles later
  are events of the service.
\<close>

definition manageRegistryRefresh :: "'w host \<Rightarrow> pubsub \<Rightarrow> (unit, 'w) act" where
  "manageRegistryRefresh h ps w =
     (case fst (SubscribeToSources (hSubscribe h ps) [] None) of
        Inl err \<Rightarrow> (Inl (FatalExit (''failed to subscribe to route source: '' @ err)), w)
      | Inr _ \<Rightarrow> (Inr (), w))"

section \<open>Services at work\<close>

text \<open>The authorization service: route messages and requests in the order in which they take effect.\<close>

datatype authEvent = RouteMessage payload | AuthRequest CheckRequest

fun authRun :: "'w authServer \<Rightarrow> authEvent list \<Rightarrow> 'w \<Rightarrow> (CheckResponse list \<times> 'w) option" where
  "authRun s [] w = Some ([], w)"
| "authRun s (RouteMessage msg # es) w =
     (case RefreshControls (asRouteReg s) msg of None \<Rightarrow> None | Some i \<Rightarrow> authRun (s\<lparr>asRouteReg := i\<rparr>) es w)"
| "authRun s (AuthRequest req # es) w =
     (case Check s req w of
        (resp, w1) \<Rightarrow> (case authRun s es w1 of None \<Rightarrow> None | Some (resps, w2) \<Rightarrow> Some (resp # resps, w2)))"

definition serveAuth ::
    "'w host \<Rightarrow> app \<Rightarrow> 'w authServer \<Rightarrow> authEvent list \<Rightarrow> serverEnd \<Rightarrow> (CheckResponse list, 'w) act" where
  "serveAuth h a s events fin w =
     (case hListen h (ServerAddress (webArgs a)) of
        Inl err \<Rightarrow> (Inl (ErrorExit err), w)
      | Inr _ \<Rightarrow>
          (case authRun s events w of
             None \<Rightarrow> (Inl PanicExit, w)
           | Some (resps, w1) \<Rightarrow>
               (case StartEnvoyAuth (Inr ()) fin of Inl err \<Rightarrow> (Inl (ErrorExit err), w1) | Inr _ \<Rightarrow> (Inr resps, w1))))"

text \<open>The states of the registry at the ticks of the management server, each after its batch of messages.\<close>

fun registriesAt :: "registry \<Rightarrow> payload list list \<Rightarrow> registry list option" where
  "registriesAt i [] = Some []"
| "registriesAt i (msgs # batches) =
     (case snd (SubscribeToSources (Inr ()) msgs (Some i)) of
        None \<Rightarrow> None
      | Some i' \<Rightarrow> map_option ((#) i') (registriesAt i' batches))"

section \<open>Commands\<close>

text \<open>The prefix that the commands share: the connection, the token bucket and the route stream.\<close>

definition openTokens :: "'w Client \<Rightarrow> (string, 'w) act" where
  "openTokens cl = attempt ''failed to initialize token store: '' (InitializeTokens (clJs cl) (clStorageArgs cl))"

definition openRoutes :: "'w Client \<Rightarrow> (pubsub, 'w) act" where
  "openRoutes cl = attempt ''failed to initialize route pubsub: '' (InitializeRoutes (clJs cl) (clStorageArgs cl))"

definition openClient :: "'w host \<Rightarrow> app \<Rightarrow> ('w Client, 'w) act" where
  "openClient h a = attempt ''failed to connect to streams: '' (Connect (hNats h) (storageArgs a))"

definition startAuthCmd :: "'w host \<Rightarrow> app \<Rightarrow> authEvent list \<Rightarrow> serverEnd \<Rightarrow> (CheckResponse list, 'w) act" where
  "startAuthCmd h a events fin =
     andThen (defaultInit h a) (\<lambda>ll. withOTEL h a ll (
     andThen (openClient h a) (\<lambda>streamClient.
     andThen (openTokens streamClient) (\<lambda>tokenStore.
     andThen (openRoutes streamClient) (\<lambda>routePS.
     andThen (loadAuthenticator h a tokenStore) (\<lambda>tokenAuth.
     andThen (loadRegistry h a) (\<lambda>routeReg w.
     andThen (manageRegistryRefresh h routePS) (\<lambda>_.
       serveAuth h a \<lparr>asRouteReg = routeReg, asTokenAuth = tokenAuth, asTokenSvc = tokenSvcArgs a\<rparr> events fin)
       (Info (hEmit h) ll ''starting up holepunch envoy-auth...'' [] w))))))))"

definition startAdminCmd :: "'w host \<Rightarrow> app \<Rightarrow> (string \<times> adminRequest) list \<Rightarrow> httpEnd \<Rightarrow> (unit, 'w) act" where
  "startAdminCmd h a requests fin =
     andThen (defaultInit h a) (\<lambda>ll. withOTEL h a ll (
     andThen (openClient h a) (\<lambda>streamClient.
     andThen (openTokens streamClient) (\<lambda>tokenStore.
     andThen (openRoutes streamClient) (\<lambda>routePS.
     andThen (loadAuthenticator h a tokenStore) (\<lambda>tokenAuth.
     andThen (loadRegistry h a) (\<lambda>routeReg.
     andThen (manageRegistryRefresh h routePS) (\<lambda>_.
       attempt [] (AdminAPI
         \<lparr>daAddress = ServerAddress (webArgs a), daRouteReg = routeReg, daClient = hDo h, daSpan = hSpan h,
          daPause = hPause h, daStream = hStream h routePS, daPubSub = routePS, daTokenAuth = tokenAuth\<rparr>
         (hVersion h) requests fin)))))))))"

definition startCacherCmd :: "'w host \<Rightarrow> app \<Rightarrow> time list \<Rightarrow> (unit, 'w) act" where
  "startCacherCmd h a ticks =
     andThen (defaultInit h a) (\<lambda>ll.
     andThen (openClient h a) (\<lambda>streamClient.
     andThen (openTokens streamClient) (\<lambda>tokenStore.
     andThen (openRoutes streamClient) (\<lambda>routePS.
     andThen (loadAuthenticator h a tokenStore) (\<lambda>tokenAuth.
     andThen (loadRegistry h a) (\<lambda>routeReg w.
       case StartService (hDo h) (hSpan h) (hPause h) (hStream h routePS) routePS routeReg (cacheArgs a) ticks
              (Info (hEmit h) ll ''starting up holepunch cacher...'' [] w) of
         None \<Rightarrow> (Inl PanicExit, w)
       | Some (Inl err, w1) \<Rightarrow> (Inl (ErrorExit err), w1)
       | Some (Inr _, w1) \<Rightarrow> (Inr (), w1)))))))"

definition startXDSCmd :: "'w host \<Rightarrow> app \<Rightarrow> 'w setSnapshot \<Rightarrow> payload list list \<Rightarrow> serverEnd \<Rightarrow> (unit, 'w) act" where
  "startXDSCmd h a setSnapshot batches fin =
     andThen (defaultInit h a) (\<lambda>ll. withOTEL h a ll (
     andThen (openClient h a) (\<lambda>streamClient.
     andThen (openRoutes streamClient) (\<lambda>routePS.
     andThen (loadRegistry h a) (\<lambda>routeReg w.
     andThen (manageRegistryRefresh h routePS) (\<lambda>_ w1.
       case registriesAt routeReg batches of
         None \<Rightarrow> (Inl PanicExit, w1)
       | Some regs \<Rightarrow>
           (case RunServer (hListen h (ServerAddress (webArgs a))) (tokenSvcArgs a) (xdsArgs a) (hVersion h)
                   setSnapshot routeReg regs fin w1 of
              None \<Rightarrow> (Inl PanicExit, w1)
            | Some (Inl err, w2) \<Rightarrow> (Inl (ErrorExit err), w2)
            | Some (Inr _, w2) \<Rightarrow> (Inr (), w2)))
       (Info (hEmit h) ll ''starting up holepunch envoy-xds...'' [] w))))))"

section \<open>The command line\<close>

text \<open>\<^verbatim>\<open>version/version.go\<close>: the variables set at build time and the text of \<^verbatim>\<open>--version\<close>.\<close>

record buildInfo =
  biVersion :: string
  biGitCommit :: string
  biGitBranch :: string
  biGoVersion :: string
  biBuildDate :: string

definition GetVersion :: "buildInfo \<Rightarrow> string" where
  "GetVersion b = biVersion b"

definition Printer :: "buildInfo \<Rightarrow> string \<Rightarrow> string" where
  "Printer b cmdVersion =
     ''Version: '' @ cmdVersion @ newline
     @ (if biGitCommit b \<noteq> [] then ''Git Commit: '' @ biGitCommit b @ newline else [])
     @ (if biGitBranch b \<noteq> [] then ''Git Branch: '' @ biGitBranch b @ newline else [])
     @ ''Go Version: '' @ biGoVersion b @ newline @ ''Built: '' @ biBuildDate b @ newline"

text \<open>\<^verbatim>\<open>Tasks\<close>: the commands with their names, aliases and flags, below the global flags.\<close>

record task =
  tkName :: string
  tkAliases :: "string list"
  tkFlags :: "app flag list"

definition Tasks :: "string \<Rightarrow> app flag list \<times> task list" where
  "Tasks host =
     (GlobalFlags [],
      [\<lparr>tkName = ''admin'', tkAliases = [], tkFlags = adminCmd host\<rparr>,
       \<lparr>tkName = ''envoy-auth'', tkAliases = [''auth''], tkFlags = authCmd host\<rparr>,
       \<lparr>tkName = ''envoy-xds'', tkAliases = [''xds''], tkFlags = xdsCommand host\<rparr>,
       \<lparr>tkName = ''cacher'', tkAliases = [], tkFlags = cacherCmd host\<rparr>])"

text \<open>\<^verbatim>\<open>main\<close>: an error that the command returns is fatal.\<close>

definition main_exit :: "exit + 'a \<Rightarrow> exit + 'a" where
  "main_exit r = (case r of Inl (ErrorExit err) \<Rightarrow> Inl (FatalExit err) | _ \<Rightarrow> r)"

end
