(* ===== verification/RegistryTheorems.thy ===== *)
theory RegistryTheorems
  imports Registry "HOL-Library.Code_Target_Numeral"
begin

text \<open>
  The properties of the registry: who is let through, what each refusal means, which redirects
  are trusted, where a route without authorization can come from, and the retries of a fetch.
  The contract that the authorization service relies on is the locale \<open>router\<close>.
\<close>

section \<open>The contract of a router\<close>

locale router =
  fixes authorize :: "RequestDetails \<Rightarrow> TokenContext \<Rightarrow> StatusError option"
    and allowed :: "string \<Rightarrow> bool"
    and controls :: "(string, ProxyControls) gomap"
  assumes authorize_known: "authorize req ctx = None \<Longrightarrow> rdRouteID req \<in> fst ` set controls"
    and authorize_err_ok: "authorize req ctx = Some e \<Longrightarrow> err_ok e \<and> seType e \<noteq> RedirectErr"
    and redirect_route: "map_of controls rid = Some pc \<Longrightarrow> NormalizeURL u = Inr v \<Longrightarrow>
          Key v = Key (pcSource pc) \<Longrightarrow> Key v \<noteq> [] \<Longrightarrow> allowed u"
begin

lemma refused_status: "authorize req ctx = Some e \<Longrightarrow> Code e \<noteq> codes_OK"
  by (drule authorize_err_ok) (cases "seType e"; auto simp: err_ok_def Code_def codes_defs)

lemma unknown_refused: "rdRouteID req \<notin> fst ` set controls \<Longrightarrow> \<exists>e. authorize req ctx = Some e"
  by (metis authorize_known option.exhaust)

end

lemma authorize_known_load:
  "authorizeProxyCtls (loadCtls i s) req ctx = None \<Longrightarrow> rdRouteID req \<in> fst ` set (proxyCtls (loadCtls i s))"
proof -
  assume a: "authorizeProxyCtls (loadCtls i s) req ctx = None"
  then have "mhas (authCtls (loadCtls i s)) (rdRouteID req)"
    by (auto simp: authorizeProxyCtls_def identifyID_def Let_def split: sum.splits option.splits if_splits
        simp del: mhas_iff)
  then have "mhas (proxyCtls (loadCtls i s)) (rdRouteID req)"
    by (simp add: mhas_def loadCtls_auth loadCtls_proxy del: mhas_iff)
  then show ?thesis by simp
qed

lemma authorize_err_type:
  assumes "authorizeProxyCtls i req ctx = Some e"
  shows "err_ok e \<and> seType e \<in> {BadRequestErr, InternalErr, NotFoundErr, AuthErr}"
proof (cases "identifyID i req")
  case (Inl g)
  then have "g = e" using assms by (simp add: authorizeProxyCtls_def)
  moreover have "err_ok g \<and> seType g \<in> {BadRequestErr, InternalErr, NotFoundErr, AuthErr}"
    using Inl by (auto simp: identifyID_def Let_def split: option.splits if_splits dest!: Var_Some)
  ultimately show ?thesis by simp
next
  case (Inr rid)
  show ?thesis
  proof (cases "map_of (authCtls i) rid")
    case (Some ctl)
    then show ?thesis
      using assms Inr
      by (auto simp: authorizeProxyCtls_def Let_def enforce_def split: if_splits)
  qed (use assms Inr in \<open>auto simp: authorizeProxyCtls_def\<close>)
qed

lemma redirect_route_load:
  assumes "map_of (proxyCtls (loadCtls i s)) rid = Some pc" "NormalizeURL u = Inr v"
    "Key v = Key (pcSource pc)" "Key v \<noteq> []"
  shows "AllowedRedirect (loadCtls i s) u"
proof -
  obtain rs where "lastSource (staticSrc i @ s) rid = Some rs" "pc = proxyControl rs"
    using assms(1) by (auto simp: loadCtls_proxy)
  then have "rs \<in> set (staticSrc i @ s)" "Key (rsSource rs) = Key v"
    using assms(3) by (auto simp: proxyControl_def dest: lastSource_in)
  then have "mhas (redirectAllow (loadCtls i s)) (Key v)" using assms(4) loadCtls_redirect by blast
  then show ?thesis using assms(2,4) by (simp add: AllowedRedirect_def del: mhas_iff)
qed

interpretation reg: router "authorizeProxyCtls (loadCtls i s)" "AllowedRedirect (loadCtls i s)"
    "proxyCtls (loadCtls i s)"
proof unfold_locales
  fix req ctx assume "authorizeProxyCtls (loadCtls i s) req ctx = None"
  then show "rdRouteID req \<in> fst ` set (proxyCtls (loadCtls i s))" by (rule authorize_known_load)
next
  fix req ctx e assume "authorizeProxyCtls (loadCtls i s) req ctx = Some e"
  then show "err_ok e \<and> seType e \<noteq> RedirectErr" using authorize_err_type by fastforce
qed (rule redirect_route_load)

section \<open>Authorization\<close>

text \<open>
  C5: after the controls were loaded from a list of sources, a request is authorized exactly when
  its route ID is a UUID, the last source with that ID has no other community than the one a
  subtoken is bound to, and its rules permit the user: neither the user nor a group is disallowed,
  and the user or a group is allowed.
\<close>

theorem authorized_iff_rules:
  assumes "updateCtls i sources = Some i'"
  shows "AuthorizeProxy i' req ctx = None \<longleftrightarrow>
    (\<exists>rs. uUIDRegex (rdRouteID req) \<and> lastSource (staticSrc i @ sources) (rdRouteID req) = Some rs
       \<and> (plExternalID (tcPayload ctx) = [] \<or> plExternalID (tcPayload ctx) = rsCommunityID rs)
       \<and> Username (tcPayload ctx) \<notin> set (ruUsers (rsDisallowed rs))
       \<and> set (Groups (tcPayload ctx)) \<inter> set (ruGroups (rsDisallowed rs)) = {}
       \<and> (Username (tcPayload ctx) \<in> set (ruUsers (rsAllowed rs))
          \<or> set (Groups (tcPayload ctx)) \<inter> set (ruGroups (rsAllowed rs)) \<noteq> {}))"
  using authorize_load [of i sources req ctx] by (simp add: updateCtls_Some [OF assms] rules_permit_def)

text \<open>Two routes on one host, the second restricted to a community.\<close>

definition demoID1 :: string where "demoID1 = ''11111111-1111-1111-1111-111111111111''"
definition demoID2 :: string where "demoID2 = ''22222222-2222-2222-2222-222222222222''"
definition demoCommunity :: string where "demoCommunity = ''33333333-3333-3333-3333-333333333333''"

definition demoURL :: "string \<Rightarrow> string \<Rightarrow> URLString" where
  "demoURL host path =
     \<lparr>Key = host, URL = Some (empty_url\<lparr>Scheme := ''https'', Host := host, Path := path\<rparr>),
      Raw = ''https://'' @ host @ path\<rparr>"

definition demoSource1 :: RawSource where
  "demoSource1 =
     \<lparr>rsID = demoID1, rsSource = demoURL ''app.example'' [], rsDestination = demoURL ''up.example'' [],
      rsPrefixRewrite = [], rsCommunityID = [],
      rsDisallowed = \<lparr>ruUsers = [''mallory''], ruGroups = [''blocked'']\<rparr>,
      rsAllowed = \<lparr>ruUsers = [''alice''], ruGroups = [''lab'']\<rparr>, rsNoAuth = False\<rparr>"

definition demoSource2 :: RawSource where
  "demoSource2 = demoSource1\<lparr>rsID := demoID2, rsSource := demoURL ''app.example'' ''/team'', rsCommunityID := demoCommunity\<rparr>"

definition demoRegistry :: registry where
  "demoRegistry = \<lparr>adminRedirectAllow = [(''login.example'', ())], routesURL = ''http://registry/api/v1/route'',
     staticSrc = [demoSource1\<lparr>rsID := demoCommunity, rsNoAuth := True\<rparr>], authCtls = [], proxyCtls = [], redirectAllow = []\<rparr>"

definition demoLoaded :: registry where
  "demoLoaded = loadCtls demoRegistry [demoSource1, demoSource2]"

definition routeRequest :: "string \<Rightarrow> RequestDetails" where
  "routeRequest rid = \<lparr>rdHeaders = [], rdRouteID = rid, rdCommunityID = [], rdHost = [], rdScheme = [], rdPath = []\<rparr>"

definition userContext :: "string \<Rightarrow> string list \<Rightarrow> string \<Rightarrow> TokenContext" where
  "userContext user groups ext =
     zero_TokenContext\<lparr>tcPayload := zero_TokenPayload\<lparr>Username := user, Groups := groups, plExternalID := ext\<rparr>\<rparr>"

lemma demo_update: "updateCtls demoRegistry [demoSource1, demoSource2] = Some demoLoaded"
  by (simp add: updateCtls_def demoLoaded_def demoRegistry_def demoSource1_def demoSource2_def demoURL_def)

theorem authorized_iff_rules_witness:
  "AuthorizeProxy demoLoaded (routeRequest demoID1) (userContext ''bob'' [''lab''] []) = None
   \<and> AuthorizeProxy demoLoaded (routeRequest demoID1) (userContext ''alice'' [''blocked''] []) \<noteq> None
   \<and> AuthorizeProxy demoLoaded (routeRequest demoID1) (userContext ''alice'' [] demoCommunity) \<noteq> None
   \<and> AuthorizeProxy demoLoaded (routeRequest demoID2) (userContext ''alice'' [] demoCommunity) = None"
proof -
  have u: "uUIDRegex demoID1" "uUIDRegex demoID2" by code_simp+
  have l: "lastSource (staticSrc demoRegistry @ [demoSource1, demoSource2]) demoID1 = Some demoSource1"
    "lastSource (staticSrc demoRegistry @ [demoSource1, demoSource2]) demoID2 = Some demoSource2"
    by (simp_all add: lastSource_def demoRegistry_def demoSource1_def demoSource2_def demoID1_def demoID2_def)
  show ?thesis
    unfolding authorized_iff_rules [OF demo_update]
    by (simp add: routeRequest_def userContext_def u l)
       (simp add: demoSource1_def demoSource2_def demoCommunity_def)
qed

text \<open>
  C12: what a refusal means: a route ID that is no UUID is a bad request, a missing one an internal
  error, an unknown one not found, and every refusal of a known route is unauthenticated.
\<close>

theorem refusal_status:
  assumes "AuthorizeProxy i req ctx = Some e"
  shows "Code e =
    (if rdRouteID req = [] then codes_Internal
     else if \<not> uUIDRegex (rdRouteID req) then codes_InvalidArgument
     else if \<not> mhas (authCtls i) (rdRouteID req) then codes_NotFound
     else codes_Unauthenticated)"
proof (cases "rdRouteID req = [] \<or> uUIDRegex (rdRouteID req)")
  case True
  then have v: "Var omitempty_uuid (rdRouteID req) = None" by (simp add: omitempty_uuid_def)
  show ?thesis
  proof (cases "rdRouteID req \<noteq> [] \<and> mhas (authCtls i) (rdRouteID req)")
    case known: True
    then obtain ctl where c: "map_of (authCtls i) (rdRouteID req) = Some ctl"
      by (auto simp: mhas_def simp del: mhas_iff)
    have "identifyID i req = Inr (rdRouteID req)" using v known by (simp add: identifyID_def Let_def del: Var_None mhas_iff)
    then have "seType e = AuthErr \<and> err_ok e"
      using assms c by (auto simp: authorizeProxyCtls_def Let_def enforce_def split: if_splits)
    then show ?thesis using known True by (simp add: err_ok_def Code_def del: mhas_iff)
  qed (use assms v True in \<open>auto simp: authorizeProxyCtls_def identifyID_def Let_def Code_def new_err_defs
         simp del: mhas_iff Var_None\<close>)
next
  case False
  then have v: "Var omitempty_uuid (rdRouteID req) \<noteq> None" by (simp add: omitempty_uuid_def)
  then obtain g where g: "Var omitempty_uuid (rdRouteID req) = Some g" by blast
  then have "e = g" using assms by (simp add: authorizeProxyCtls_def identifyID_def Let_def)
  then show ?thesis using Var_Some [OF g] False by (simp add: Code_def new_err_defs)
qed

theorem refusal_status_witness:
  "\<exists>e. AuthorizeProxy demoLoaded (routeRequest ''nope'') (userContext ''alice'' [] []) = Some e
     \<and> Code e = codes_InvalidArgument"
proof -
  have n: "\<not> uUIDRegex ''nope''" by (simp add: uUIDRegex_def)
  then have "\<not> omitempty_uuid ''nope''" by (simp add: omitempty_uuid_def)
  then obtain g where "Var omitempty_uuid ''nope'' = Some g" by (metis Var_None not_None_eq)
  then have "AuthorizeProxy demoLoaded (routeRequest ''nope'') (userContext ''alice'' [] []) = Some g"
    by (simp add: authorizeProxyCtls_def identifyID_def routeRequest_def)
  then show ?thesis using refusal_status n by (fastforce simp: routeRequest_def)
qed

section \<open>Reachable states\<close>

text \<open>
  C10: in every reachable state a route whose authorization is disabled comes from the admin's
  static file, whatever messages have arrived.
\<close>

theorem no_auth_only_static:
  assumes "reachable readFile yamlJSON rr i" "map_of (FetchProxyControls i) rid = Some pc" "pcNoAuth pc"
  shows "\<exists>static rs. loadStaticFile readFile yamlJSON (StaticCfg rr) = Inr static \<and> rs \<in> set static
    \<and> rsID rs = rid \<and> rsNoAuth rs \<and> pc = proxyControl rs"
proof -
  obtain sources where f: "from_sources i sources" using reachable_from [OF assms(1)] by blast
  then have "map_of (proxyCtls i) rid = map_option proxyControl (lastSource (staticSrc i @ sources) rid)"
    using loadCtls_proxy [of i sources rid] by (metis from_sources_def)
  then obtain rs where rs: "lastSource (staticSrc i @ sources) rid = Some rs" "pc = proxyControl rs"
    using assms(2) by (auto simp: FetchProxyControls_def)
  then have "rs \<in> set (staticSrc i @ sources)" "rsID rs = rid" "rsNoAuth rs"
    using assms(3) lastSource_in by (fastforce simp: proxyControl_def)+
  moreover have "rs \<notin> set sources" using f \<open>rsNoAuth rs\<close> by (auto simp: from_sources_def list_all_iff)
  ultimately show ?thesis using reachable_static(1) [OF assms(1)] rs(2) by auto
qed

definition demoRR :: RouteRegistry where
  "demoRR = (routeRegArgs zero_app)\<lparr>RegistryHost := ''http://registry'', RoutePath := ''/api/v1/route'', StaticCfg := ''static.yaml''\<rparr>"

definition demoStaticDoc :: json where
  "demoStaticDoc = JObj [(''sources'', JArr [JObj [(''id'', JStr demoID1), (''src'', JStr ''https://app.example''),
     (''dst'', JStr ''http://up.example''), (''no_auth'', JBool True)]])]"

definition demoStatic :: RawSource where
  "demoStatic = zero_RawSource\<lparr>rsID := demoID1,
     rsSource := \<lparr>Key = ''app.example'', URL = Some (empty_url\<lparr>Scheme := ''https'', Host := ''app.example''\<rparr>), Raw = ''https://app.example''\<rparr>,
     rsDestination := \<lparr>Key = ''up.example'', URL = Some (empty_url\<lparr>Scheme := ''http'', Host := ''up.example''\<rparr>), Raw = ''http://up.example''\<rparr>,
     rsNoAuth := True\<rparr>"

lemma demo_static: "loadStaticFile (\<lambda>f. Inr f) (\<lambda>b. Inr demoStaticDoc) (StaticCfg demoRR) = Inr [demoStatic]"
  by code_simp

lemma demo_reachable:
  "\<exists>i. reachable (\<lambda>f. Inr f) (\<lambda>b. Inr demoStaticDoc) demoRR i \<and> map_of (FetchProxyControls i) demoID1 = Some (proxyControl demoStatic)"
proof -
  have "url_Parse (RegistryHost demoRR) = Inr (empty_url\<lparr>Scheme := ''http'', Host := ''registry''\<rparr>)" by code_simp
  moreover have "RedirectAllowList demoRR = []" by (simp add: demoRR_def zero_app_def)
  moreover have "authzContext demoStatic \<noteq> None" by (simp add: demoStatic_def)
  ultimately obtain i0 i where "registry_Initialize (\<lambda>f. Inr f) (\<lambda>b. Inr demoStaticDoc) demoRR = Inr (Some i)"
      "i = loadCtls i0 []" "staticSrc i0 = [demoStatic]"
    by (auto simp: registry_Initialize_def demo_static updateCtls_def)
  then show ?thesis
    using reachable.init
    by (force simp: FetchProxyControls_def loadCtls_proxy lastSource_def demoStatic_def)
qed

theorem no_auth_only_static_witness:
  "\<exists>static rs. loadStaticFile (\<lambda>f. Inr f) (\<lambda>b. Inr demoStaticDoc) (StaticCfg demoRR) = Inr static \<and> rs \<in> set static
    \<and> rsID rs = demoID1 \<and> rsNoAuth rs \<and> proxyControl demoStatic = proxyControl rs"
proof -
  obtain i where "reachable (\<lambda>f. Inr f) (\<lambda>b. Inr demoStaticDoc) demoRR i"
    "map_of (FetchProxyControls i) demoID1 = Some (proxyControl demoStatic)"
    using demo_reachable by blast
  from no_auth_only_static [OF this] show ?thesis by (simp add: proxyControl_def demoStatic_def)
qed

text \<open>
  C11: in every reachable state the two tables have the same routes, each once, and each entry was
  derived from one source that carries its ID.
\<close>

theorem controls_consistent:
  assumes "reachable readFile yamlJSON rr i"
  shows "distinct (map fst (authCtls i)) \<and> distinct (map fst (proxyCtls i))
    \<and> (\<forall>rid. (map_of (authCtls i) rid = None \<longleftrightarrow> map_of (proxyCtls i) rid = None)
        \<and> (\<forall>a pc. map_of (authCtls i) rid = Some a \<and> map_of (proxyCtls i) rid = Some pc \<longrightarrow>
              (\<exists>rs. rsID rs = rid \<and> a = convert rs \<and> pc = proxyControl rs)))"
proof -
  obtain sources where "i = loadCtls i sources" using reachable_from [OF assms] by (auto simp: from_sources_def)
  then have m: "map_of (authCtls i) = (\<lambda>rid. map_option convert (lastSource (staticSrc i @ sources) rid))"
    "map_of (proxyCtls i) = (\<lambda>rid. map_option proxyControl (lastSource (staticSrc i @ sources) rid))"
    "distinct (map fst (authCtls i))" "distinct (map fst (proxyCtls i))"
    using loadCtls_auth [of i sources] loadCtls_proxy [of i sources] loadCtls_wf [of i sources] by (auto simp: fun_eq_iff)
  show ?thesis
    unfolding m(1,2) using m(3,4) lastSource_in by fastforce
qed

theorem controls_consistent_witness:
  "\<exists>i. reachable (\<lambda>f. Inr f) (\<lambda>b. Inr demoStaticDoc) demoRR i
     \<and> distinct (map fst (authCtls i)) \<and> map_of (authCtls i) demoID1 \<noteq> None"
proof -
  obtain i where i: "reachable (\<lambda>f. Inr f) (\<lambda>b. Inr demoStaticDoc) demoRR i"
    "map_of (proxyCtls i) demoID1 \<noteq> None"
    using demo_reachable by (auto simp: FetchProxyControls_def)
  note c = controls_consistent [OF i(1)]
  then have "map_of (authCtls i) demoID1 \<noteq> None" using i(2) by metis
  then show ?thesis using c i(1) by (intro exI [of _ i]) simp
qed

text \<open>
  C13: a redirect target is trusted exactly when its host, without a leading www., is one of the
  admin's hosts or the host of the source of a loaded route.
\<close>

theorem redirect_allowed_iff:
  assumes "updateCtls i sources = Some i'"
  shows "AllowedRedirect i' u \<longleftrightarrow>
    (\<exists>v. NormalizeURL u = Inr v \<and> Key v \<noteq> [] \<and>
      (mhas (adminRedirectAllow i) (Key v) \<or> (\<exists>rs \<in> set (staticSrc i @ sources). Key (rsSource rs) = Key v)))"
  unfolding updateCtls_Some [OF assms] AllowedRedirect_def loadCtls_redirect
  by (auto split: sum.splits)

theorem redirect_allowed_iff_witness:
  "AllowedRedirect demoLoaded ''https://www.app.example:8443/deep?x=1'' \<and>
   AllowedRedirect demoLoaded ''https://login.example/'' \<and>
   \<not> AllowedRedirect demoLoaded ''https://evil.example/?u=app.example''"
proof -
  have n: "\<exists>v. NormalizeURL ''https://www.app.example:8443/deep?x=1'' = Inr v \<and> Key v = ''app.example''"
    "\<exists>v. NormalizeURL ''https://login.example/'' = Inr v \<and> Key v = ''login.example''"
    by (rule exI [of _ "\<lparr>Key = ''app.example'', URL = Some (empty_url\<lparr>Scheme := ''https'',
          Host := ''www.app.example:8443'', Path := ''/deep'', RawQuery := ''x=1''\<rparr>),
          Raw = ''https://www.app.example:8443/deep?x=1''\<rparr>"], code_simp)
       (rule exI [of _ "\<lparr>Key = ''login.example'', URL = Some (empty_url\<lparr>Scheme := ''https'',
          Host := ''login.example'', Path := ''/''\<rparr>), Raw = ''https://login.example/''\<rparr>"], code_simp)
  have e: "NormalizeURL ''https://evil.example/?u=app.example'' =
      Inr \<lparr>Key = ''evil.example'', URL = Some (empty_url\<lparr>Scheme := ''https'', Host := ''evil.example'',
        Path := ''/'', RawQuery := ''u=app.example''\<rparr>), Raw = ''https://evil.example/?u=app.example''\<rparr>"
    by code_simp
  have k: "Key (rsSource rs) = ''app.example''" if "rs \<in> set (staticSrc demoRegistry @ [demoSource1, demoSource2])" for rs
    using that by (auto simp: demoRegistry_def demoSource1_def demoSource2_def demoURL_def)
  have a: "mhas (adminRedirectAllow demoRegistry) h \<longleftrightarrow> h = ''login.example''" for h
    by (simp add: demoRegistry_def)
  have s1: "demoSource1 \<in> set (staticSrc demoRegistry @ [demoSource1, demoSource2])" by simp
  show ?thesis
    unfolding redirect_allowed_iff [OF demo_update] a
    using n e k [OF s1] s1 k by (intro conjI) (fastforce, fastforce, fastforce)
qed

section \<open>Messages\<close>

text \<open>
  C14: a message that is not a list of sources leaves the controls as they are; the list that one
  process published makes the controls of every other those of the list.
\<close>

theorem refresh_controls:
  assumes "list_all (\<lambda>r. normalized (rsSource r) \<and> normalized (rsDestination r) \<and> \<not> rsNoAuth r) rs"
  shows "RefreshControls i (Some (encode_sources rs)) = updateCtls i rs
    \<and> (\<forall>msg e. unmarshal decode_sources msg = Inl e \<longrightarrow> RefreshControls i msg = Some i)"
proof -
  have "map (\<lambda>r. r\<lparr>rsNoAuth := False\<rparr>) rs = rs"
    using assms by (induction rs) auto
  then have "decode_sources (encode_sources rs) = Inr rs"
    using sources_roundtrip [of rs] assms by (auto simp: list_all_iff)
  then show ?thesis by (simp add: RefreshControls_def)
qed

theorem refresh_controls_witness:
  "RefreshControls demoRegistry (Some (encode_sources [demoSource1, demoSource2])) = Some demoLoaded
   \<and> RefreshControls demoLoaded None = Some demoLoaded"
proof -
  have "normalized (demoURL ''app.example'' [])" "normalized (demoURL ''up.example'' [])"
    "normalized (demoURL ''app.example'' ''/team'')"
    by (simp_all add: normalized_def) code_simp+
  then have "list_all (\<lambda>r. normalized (rsSource r) \<and> normalized (rsDestination r) \<and> \<not> rsNoAuth r) [demoSource1, demoSource2]"
    by (simp add: demoSource1_def demoSource2_def)
  from refresh_controls [OF this, of demoRegistry] refresh_controls [OF this, of demoLoaded] demo_update
  show ?thesis by (metis unmarshal_simps(1))
qed





end
