(* ===== verification/TokenTheorems.thy ===== *)
theory TokenTheorems
  imports TokenScenario
begin

text \<open>
  The properties of authentication: what a successful flow rests on, what the cache answers, and
  what the headers and subtokens of an authenticated request are. Each property that has
  hypotheses is applied to the surrounding of \<open>TokenScenario\<close>.
\<close>

section \<open>Access tokens\<close>

text \<open>
  C4: an access token is authenticated only if the cache entry of its ID decrypts to exactly this
  token, or the token service, asked with this token at the exchange URL, answered 2xx with a JWT
  that decodes to the payload returned.
\<close>

theorem wat_authentication_sound:
  assumes "token_env kv store i" "tok \<noteq> []" "ToLower (TokenHeader (tokenSvc i)) \<noteq> TraceparentHeader"
    and "wormholeAccessTokenFlow i tok tid w = (Inr (p, jwt), w')"
  shows "(\<exists>j cs. doc_of store w (WormholeAccessToken tid) = Some (Some j) \<and> decode_cache j = Inr cs
             \<and> Decrypt (inCipher i) (EncryptedToken cs) = Inr tok \<and> p = csPayload cs)
       \<or> (\<exists>req resp b w1 w2. inClient i req w1 = (Inr resp, w2) \<and> hrURL req = tokenExchangeURL i
             \<and> sget (hrHeader req) (ToLower (TokenHeader (tokenSvc i))) = tok
             \<and> 200 \<le> hsStatus resp \<and> hsStatus resp < 300 \<and> hsBody resp = Inr b
             \<and> unmarshal decode_exchangeResp (json_parse b) = Inr \<lparr>JWT = jwt\<rparr>
             \<and> decodeTrustedJWT jwt = Inr p)"
  by (rule token_env.wat_flow_sound [OF assms(1) assms(4) assms(2,3)])

theorem wat_authentication_sound_witness:
  "\<exists>req resp b w1 w2. inClient (demoInternal NoopCipher) req w1 = (Inr resp, w2)
     \<and> hrURL req = tokenExchangeURL (demoInternal NoopCipher)
     \<and> sget (hrHeader req) (ToLower (TokenHeader (tokenSvc (demoInternal NoopCipher)))) = demoToken
     \<and> 200 \<le> hsStatus resp \<and> hsStatus resp < 300 \<and> hsBody resp = Inr b
     \<and> unmarshal decode_exchangeResp (json_parse b) = Inr \<lparr>JWT = demoJWT\<rparr>
     \<and> decodeTrustedJWT demoJWT = Inr demoPayload"
proof -
  have l: "ToLower (TokenHeader (tokenSvc (demoInternal NoopCipher))) \<noteq> TraceparentHeader"
    by (simp add: ToLower_def lower_byte_def TraceparentHeader_def)
  show ?thesis
    using wat_authentication_sound [OF demo_env demo_ne(1) l demo_flow] by (simp add: demo_empty)
qed













text \<open>
  C37: with AES-GCM configured no lookup ever hits: the dummy ciphertext is not base64, its failed
  decryption deletes the entry of the key before it is read. In particular the mark of an
  invalidated token is erased by the first request with it.
\<close>

theorem aes_cache_never_hits:
  assumes "token_env kv store i" "inCipher i = AesCipher ks" "keyValid key"
  shows "\<exists>w'. getCache i key reqToken w = (Inr None, w') \<and> doc_of store w' = (doc_of store w)(key := None)"
  by (rule token_env.getCache_aes [OF assms])

theorem aes_cache_never_hits_witness:
  "\<exists>w'. getCache (demoInternal (AesCipher demoKey)) (WormholeAccessToken demoTokenID) demoToken
      (InvalidateToken (demoInternal (AesCipher demoKey)) demoTokenID demoWorld) = (Inr None, w')
    \<and> doc_of memStore w' = (doc_of memStore
        (InvalidateToken (demoInternal (AesCipher demoKey)) demoTokenID demoWorld))(WormholeAccessToken demoTokenID := None)"
  by (rule aes_cache_never_hits [OF demo_env _ keyValid_wat]) simp_all





section \<open>Requests\<close>

lemma checkReqToken_regexp: "checkReqToken t \<Longrightarrow> t \<noteq> [] \<Longrightarrow> reqTokenRegexp t"
  by (auto simp: checkReqToken_def optionalStrField_def split: if_splits)

lemma retrieveWAT_found:
  assumes "retrieveWAT i req = Inr (Some t)"
  shows "WAT t = cleanHeaderVal (sget (rdHeaders req) (TokenHeader (tokenSvc i)))"
    and "reqTokenRegexp (WAT t)" and "tcTokenID t = take 36 (WAT t)"
proof -
  define tok where "tok = cleanHeaderVal (sget (rdHeaders req) (TokenHeader (tokenSvc i)))"
  have ne: "tok \<noteq> []" and c: "checkReqToken tok"
    and t: "t = zero_TokenContext\<lparr>WAT := tok, tcTokenID := hd (Split tok ''.'')\<rparr>"
    using assms by (auto simp: retrieveWAT_def tok_def [symmetric] Let_def split: if_splits option.splits)
  have r: "reqTokenRegexp tok" using checkReqToken_regexp [OF c ne] .
  then obtain rest where "Split tok ''.'' = take 36 tok # rest" using reqToken_Split by blast
  then show "WAT t = cleanHeaderVal (sget (rdHeaders req) (TokenHeader (tokenSvc i)))"
    "reqTokenRegexp (WAT t)" "tcTokenID t = take 36 (WAT t)"
    using r t by (simp_all add: tok_def)
qed

lemma RequestHeader_ok:
  assumes "RequestHeader i req w = (Inr (ctx, resp), w')"
    and "cleanHeaderVal (sget (rdHeaders req) (TokenHeader (tokenSvc i))) \<noteq> []"
  shows "\<exists>jwt. WAT ctx = cleanHeaderVal (sget (rdHeaders req) (TokenHeader (tokenSvc i)))
    \<and> reqTokenRegexp (WAT ctx) \<and> tcTokenID ctx = take 36 (WAT ctx)
    \<and> wormholeAccessTokenFlow i (WAT ctx) (tcTokenID ctx) w = (Inr (tcPayload ctx, jwt), w')
    \<and> resp = \<lparr>SetHeaders = setHeaders i jwt req, RemoveHeaders = []\<rparr>"
proof -
  obtain t where t: "retrieveWAT i req = Inr (Some t)"
    using assms by (auto simp: RequestHeader_def retrieveWAT_def Let_def split: option.splits)
  obtain payload jwt where "wormholeAccessTokenFlow i (WAT t) (tcTokenID t) w = (Inr (payload, jwt), w')"
    "ctx = t\<lparr>tcPayload := payload\<rparr>" "resp = \<lparr>SetHeaders = setHeaders i jwt req, RemoveHeaders = []\<rparr>"
    using assms(1) t by (auto simp: RequestHeader_def Let_def split: prod.splits sum.splits)
  then show ?thesis using retrieveWAT_found [OF t] by simp
qed

lemma setHeaders_values:
  assumes "TokenHeader (tokenSvc i) \<noteq> RouteIDHeader" "TokenHeader (tokenSvc i) \<noteq> CommunityHeader"
  shows "sget (setHeaders i jwt req) (TokenHeader (tokenSvc i)) = jwt"
    and "map_of (setHeaders i jwt req) (TokenHeader (tokenSvc i)) = Some jwt"
    and "sget (setHeaders i jwt req) RouteIDHeader = rdRouteID req"
    and "sget (setHeaders i jwt req) CommunityHeader = rdCommunityID req"
    and "go_wf (setHeaders i jwt req)"
  using assms by (simp_all add: setHeaders_def Let_def RouteIDHeader_def CommunityHeader_def)

text \<open>
  C31: a request that carries a token is authenticated as that token: the token has the form
  \<^verbatim>\<open><36 hex digits or dashes>.<1 to 128 characters>\<close>, its ID is the first part, the payload is what
  the token flow returned for it, and the header of the token is overwritten with the JWT.
\<close>

theorem request_header_token:
  assumes "RequestHeader i req w = (Inr (ctx, resp), w')"
    and "cleanHeaderVal (sget (rdHeaders req) (TokenHeader (tokenSvc i))) \<noteq> []"
    and "TokenHeader (tokenSvc i) \<noteq> RouteIDHeader" "TokenHeader (tokenSvc i) \<noteq> CommunityHeader"
  shows "WAT ctx = cleanHeaderVal (sget (rdHeaders req) (TokenHeader (tokenSvc i)))
    \<and> reqTokenRegexp (WAT ctx) \<and> tcTokenID ctx = take 36 (WAT ctx)
    \<and> wormholeAccessTokenFlow i (WAT ctx) (tcTokenID ctx) w =
        (Inr (tcPayload ctx, sget (SetHeaders resp) (TokenHeader (tokenSvc i))), w')
    \<and> sget (SetHeaders resp) RouteIDHeader = rdRouteID req
    \<and> sget (SetHeaders resp) CommunityHeader = rdCommunityID req"
  using RequestHeader_ok [OF assms(1,2)] setHeaders_values [OF assms(3,4)] by auto

definition demoRequest :: RequestDetails where
  "demoRequest = \<lparr>rdHeaders = [(''x-token'', ''Bearer '' @ demoToken)], rdRouteID = ''r1'', rdCommunityID = ''c1'',
     rdHost = ''app.example'', rdScheme = ''https'', rdPath = []\<rparr>"

lemma demoRequest_clean: "cleanHeaderVal (sget (rdHeaders demoRequest) ''x-token'') = demoToken"
  by code_simp

lemma demoRequest_wat:
  "retrieveWAT (demoInternal c) demoRequest = Inr (Some (zero_TokenContext\<lparr>WAT := demoToken, tcTokenID := demoTokenID\<rparr>))"
proof -
  have "checkReqToken demoToken" "hd (Split demoToken ''.'') = demoTokenID" by code_simp+
  then show ?thesis by (simp add: retrieveWAT_def demoRequest_clean Var_None [THEN iffD2])
qed

theorem request_header_token_witness:
  "\<exists>resp w'. RequestHeader (demoInternal NoopCipher) demoRequest demoWorld =
      (Inr (\<lparr>WAT = demoToken, tcTokenID = demoTokenID, tcPayload = demoPayload\<rparr>, resp), w')
    \<and> reqTokenRegexp demoToken \<and> demoTokenID = take 36 demoToken
    \<and> sget (SetHeaders resp) ''x-token'' = demoJWT \<and> sget (SetHeaders resp) RouteIDHeader = ''r1''"
proof -
  define resp where "resp = \<lparr>SetHeaders = setHeaders (demoInternal NoopCipher) demoJWT demoRequest, RemoveHeaders = []\<rparr>"
  obtain w' where r: "RequestHeader (demoInternal NoopCipher) demoRequest demoWorld =
      (Inr (\<lparr>WAT = demoToken, tcTokenID = demoTokenID, tcPayload = demoPayload\<rparr>, resp), w')"
    using RequestHeader_wat [OF demoRequest_wat, of NoopCipher demoWorld demoPayload demoJWT] demo_flow
    by (simp add: resp_def zero_TokenContext_def)
  have ne: "cleanHeaderVal (sget (rdHeaders demoRequest) (TokenHeader (tokenSvc (demoInternal NoopCipher)))) \<noteq> []"
    by (simp add: demoRequest_clean)
  show ?thesis
    using request_header_token [OF r ne] r demo_flow by (auto simp: header_defs demoRequest_def)
qed

text \<open>
  C32: a request whose token does not have the required form is refused as a bad request, before
  the cache or any service is asked.
\<close>

theorem malformed_token_refused:
  assumes "cleanHeaderVal (sget (rdHeaders req) (TokenHeader (tokenSvc i))) = tok"
    and "tok \<noteq> []" "\<not> reqTokenRegexp tok"
  shows "\<exists>e. RequestHeader i req w = (Inl e, w) \<and> seType e = BadRequestErr \<and> Code e = codes_InvalidArgument"
proof -
  have "\<not> checkReqToken tok" using checkReqToken_regexp assms(2,3) by blast
  then obtain e where "Var checkReqToken tok = Some e" by (metis Var_None not_None_eq)
  then have "RequestHeader i req w = (Inl (SimpleBadReqErr (Error e)), w)"
    using assms(1,2) by (simp add: RequestHeader_def retrieveWAT_def)
  then show ?thesis by (simp add: Code_def new_err_defs)
qed

theorem malformed_token_refused_witness:
  "\<exists>e. RequestHeader (demoInternal NoopCipher) (demoRequest\<lparr>rdHeaders := [(''x-token'', ''no-dot'')]\<rparr>) demoWorld
      = (Inl e, demoWorld) \<and> seType e = BadRequestErr \<and> Code e = codes_InvalidArgument"
proof (rule malformed_token_refused [where tok = "''no-dot''"])
  show "cleanHeaderVal (sget (rdHeaders (demoRequest\<lparr>rdHeaders := [(''x-token'', ''no-dot'')]\<rparr>))
      (TokenHeader (tokenSvc (demoInternal NoopCipher)))) = ''no-dot''"
    unfolding demo_fields by code_simp
qed (simp_all add: reqTokenRegexp_def Let_def)

section \<open>Subtokens\<close>

lemma subtokenCache_roundtrip:
  assumes "scExp c = s * 1000000000" "\<bar>s\<bar> \<le> 2 ^ 53"
  shows "decode_subtokenCache (encode_subtokenCache c) = Inr c"
  using FloatTime_roundtrip_seconds [OF assms(2)] assms(1)
  by (simp add: decode_subtokenCache_def encode_subtokenCache_def ToLower_def lower_byte_def)

context token_env
begin

lemma generateSubToken_doc:
  assumes "generateSubToken i ctx cid key w = (Inr tok, w')" "keyValid key"
  shows "doc_of store w' key = Some (Some (encode_subtokenCache
      \<lparr>scID = plTokenID (tcPayload ctx), scToken = tok, scParentID = plParentID (tcPayload ctx),
       scExternalID = cid, scExp = Exp (tcPayload ctx)\<rparr>))"
proof -
  obtain w1 where p: "w' = snd (kv_Put kv key (Inr (encode_subtokenCache
      \<lparr>scID = plTokenID (tcPayload ctx), scToken = tok, scParentID = plParentID (tcPayload ctx),
       scExternalID = cid, scExp = Exp (tcPayload ctx)\<rparr>)) w1)"
    using assms(1) by (auto simp: generateSubToken_def kv_is Let_def split: prod.splits sum.splits)
  show ?thesis
    using put_then_get [OF assms(2), of "encode_subtokenCache
      \<lparr>scID = plTokenID (tcPayload ctx), scToken = tok, scParentID = plParentID (tcPayload ctx),
       scExternalID = cid, scExp = Exp (tcPayload ctx)\<rparr>" w1 "Inr :: json \<Rightarrow> json result"] p by auto
qed

lemma SubtokenFlow_cached:
  assumes "rdCommunityID req \<noteq> []"
    "plExternalID (tcPayload ctx) \<noteq> rdCommunityID req \<or> plParentID (tcPayload ctx) = []"
    "doc_of store w (WormholeAccessSubtoken (plTokenID (tcPayload ctx)) (rdCommunityID req)) = Some (Some j)"
    "decode_subtokenCache j = Inr cs" "scToken cs \<noteq> []" "clock i w < scExp cs"
  shows "\<exists>w'. \<forall>d. SubtokenFlow (i\<lparr>inClient := d\<rparr>) req ctx w = (Inr (scToken cs), w')"
proof -
  obtain w' where "kv_Get kv decode_subtokenCache
      (WormholeAccessSubtoken (plTokenID (tcPayload ctx)) (rdCommunityID req)) w = (decode_subtokenCache j, w')"
    using get_live_doc [OF keyValid_was [OF assms(1)] assms(3)] by blast
  then show ?thesis using assms by (auto simp: SubtokenFlow_def Let_def kv_is time_Before_def)
qed

end



text \<open>
  C40: a subtoken that was generated for a parent token and a community is the answer to later
  requests of the pair until the parent's expiration, whatever the token service would say.
\<close>

theorem subtoken_cached_until_expiry:
  assumes "token_env kv store i" "rdCommunityID req \<noteq> []"
    and "plExternalID (tcPayload ctx) \<noteq> rdCommunityID req \<or> plParentID (tcPayload ctx) = []"
    and "generateSubToken i ctx (rdCommunityID req)
          (WormholeAccessSubtoken (plTokenID (tcPayload ctx)) (rdCommunityID req)) w = (Inr tok, w')"
    and "tok \<noteq> []" "Exp (tcPayload ctx) = s * 1000000000" "\<bar>s\<bar> \<le> 2 ^ 53"
    and "clock i w' < Exp (tcPayload ctx)"
  shows "\<exists>w''. \<forall>d. SubtokenFlow (i\<lparr>inClient := d\<rparr>) req ctx w' = (Inr tok, w'')"
proof -
  define cs where "cs = \<lparr>scID = plTokenID (tcPayload ctx), scToken = tok, scParentID = plParentID (tcPayload ctx),
       scExternalID = rdCommunityID req, scExp = Exp (tcPayload ctx)\<rparr>"
  note d = token_env.generateSubToken_doc [OF assms(1,4) keyValid_was [OF assms(2)], folded cs_def]
  have "decode_subtokenCache (encode_subtokenCache cs) = Inr cs"
    using assms(6,7) by (intro subtokenCache_roundtrip) (simp_all add: cs_def)
  from token_env.SubtokenFlow_cached [OF assms(1-3) d this] assms(5,8) show ?thesis
    by (simp add: cs_def)
qed

theorem subtoken_cached_until_expiry_witness:
  "\<exists>w' w''. generateSubToken (demoInternal (AesCipher demoKey)) (zero_TokenContext\<lparr>tcPayload := demoPayload\<rparr>) ''c1''
      (WormholeAccessSubtoken ''t1'' ''c1'') demoWorld = (Inr ''sub1'', w')
    \<and> (\<forall>d. SubtokenFlow ((demoInternal (AesCipher demoKey))\<lparr>inClient := d\<rparr>) demoRequest
          (zero_TokenContext\<lparr>tcPayload := demoPayload\<rparr>) w' = (Inr ''sub1'', w''))"
proof -
  define ctx where "ctx = zero_TokenContext\<lparr>tcPayload := demoPayload\<rparr>"
  define i where "i = demoInternal (AesCipher demoKey)"
  have p: "tcPayload ctx = demoPayload" "rdCommunityID demoRequest = ''c1''"
    "plTokenID demoPayload = ''t1''" "Exp demoPayload = 2000000000 * 1000000000" "plExternalID demoPayload = []"
    by (simp_all add: ctx_def demoRequest_def demoPayload_def zero_TokenPayload_def)
  obtain w' where g: "generateSubToken i ctx (rdCommunityID demoRequest)
      (WormholeAccessSubtoken (plTokenID (tcPayload ctx)) (rdCommunityID demoRequest)) demoWorld = (Inr ''sub1'', w')"
    using demo_post [of "AesCipher demoKey"]
    by (simp add: generateSubToken_def postSubtokenRequest_def i_def p demoArgs_def zero_app_def demoPayload_def Let_def)
  have "\<exists>w''. \<forall>d. SubtokenFlow (i\<lparr>inClient := d\<rparr>) demoRequest ctx w' = (Inr ''sub1'', w'')"
    by (rule subtoken_cached_until_expiry [OF demo_env [of "AesCipher demoKey", folded i_def] _ _ g, where s = 2000000000])
       (simp_all add: p i_def demoClock_def)
  with g [unfolded p] show ?thesis unfolding ctx_def i_def by blast
qed

end
