(* ===== verification/ServiceTheorems.thy ===== *)
theory ServiceTheorems
  imports Cmd RegistryTheorems TokenTheorems
begin



section \<open>The authorization service\<close>




text \<open>A request is permitted: it authenticates as a user whom the rules of its route in a list of sources permit.\<close>

definition permitted :: "'w authServer \<Rightarrow> RawSource list \<Rightarrow> CheckRequest \<Rightarrow> 'w \<Rightarrow> bool" where
  "permitted s all req w \<longleftrightarrow>
     (\<exists>tknCtx authResp w' rs. RequestHeader (asTokenAuth s) (establishReqDetails s req) w = (Inr (tknCtx, authResp), w')
        \<and> lastSource all (sget (cqContextExtensions req) RouteIDHeader) = Some rs
        \<and> (plExternalID (tcPayload tknCtx) = [] \<or> plExternalID (tcPayload tknCtx) = rsCommunityID rs)
        \<and> rules_permit rs (Username (tcPayload tknCtx)) (Groups (tcPayload tknCtx)))"

lemma permitted_refresh [simp]: "permitted (s\<lparr>asRouteReg := i\<rparr>) = permitted s"
  by (simp add: fun_eq_iff permitted_def establishReqDetails_def Let_def)





section \<open>A running service\<close>





definition demoJetStream :: "mem jetstream" where
  "demoJetStream =
     \<lparr>CreateStream = (\<lambda>c w. (Inr (scName c), w)), BindStream = (\<lambda>n w. (Inr n, w)),
      CreateOrUpdateConsumer = (\<lambda>n c w. (Inr (), w)), CreateKeyValue = (\<lambda>c w. (Inr (kcBucket c), w)),
      KeyValue = (\<lambda>n w. (Inr n, w))\<rparr>"

definition demoHost :: "mem host" where
  "demoHost =
     \<lparr>hNats = \<lparr>ntConnect = (\<lambda>u opts w. (Inr 0, w)), ntJetStream = (\<lambda>n w. (Inr demoJetStream, w)),
        ntIsClosed = (\<lambda>n w. False), ntClose = (\<lambda>n w. w)\<rparr>,
      hBucket = (\<lambda>n. memBucket),
      hStream = (\<lambda>p. \<lparr>jsPublish = (\<lambda>s b w. (Inr 1, w)), jsLast = (\<lambda>s w. (Inl ''none'', w))\<rparr>),
      hSubscribe = (\<lambda>p. Inr ()), hReadFile = (\<lambda>f. Inr f), hYaml = (\<lambda>b. Inr demoStaticDoc),
      hRand = (\<lambda>n w. (Inr (replicate n (CHR ''r'')), w)), hDo = (\<lambda>req w. (demoServe req, w)), hClock = demoClock,
      hSpan = noSpan, hPause = (\<lambda>w. w), hListen = (\<lambda>ad. Inr ()), hDial = (\<lambda>n ad. Inr ()), hSyslog = Inr (),
      hHostname = Inr ''node'', hEmit = (\<lambda>s r w. w),
      hSdk = \<lparr>osExporter = (\<lambda>e i w. (Inr 0, w)), osResource = (\<lambda>n w. (Inr 0, w)), osInstall = (\<lambda>e r w. w),
        osShutdown = (\<lambda>e r w. (Inr (), w))\<rparr>,
      hVersion = ''1.0''\<rparr>"







section \<open>Flags and components\<close>

lemmas command_defs = authCmd_def adminCmd_def TokenServiceFlags_def WebServerFlags_def StorageFlags_def
  RouteRegistryFlags_def LoggingFlags_def

lemma flag_names:
  "fName (strFlag n e d r act rd wr) = n" "fName (boolFlag n e d' r act rd' wr') = n" "fName (intFlag n e d2 r act rd2 wr2) = n"
  "fName (wordFlag n e d3 r act rd3 wr3) = n" "fName (strsFlag n e d4 r act rd4 wr4) = n"
  by (simp_all add: flag_defs)

text \<open>A flag that does not write a setting.\<close>

definition keeps :: "('c \<Rightarrow> 'x) \<Rightarrow> 'c flag \<Rightarrow> bool" where
  "keeps q f \<longleftrightarrow> (\<forall>v c. q (fDest f v c) = q c)"

lemma keeps_flags:
  "keeps q (strFlag n e d r act rd wr) \<longleftrightarrow> (\<forall>s c. q (wr s c) = q c)"
  "keeps q (boolFlag n e d1 r act rd1 wr1) \<longleftrightarrow> (\<forall>s c. q (wr1 s c) = q c)"
  "keeps q (intFlag n e d2 r act rd2 wr2) \<longleftrightarrow> (\<forall>s c. q (wr2 s c) = q c)"
  "keeps q (wordFlag n e d3 r act rd3 wr3) \<longleftrightarrow> (\<forall>s c. q (wr3 s c) = q c)"
  "keeps q (strsFlag n e d4 r act rd4 wr4) \<longleftrightarrow> (\<forall>s c. q (wr4 s c) = q c)"
  by (auto simp: keeps_def flag_defs split: flagval.splits)

text \<open>The URL flags: only the flag of the name writes the setting \<open>q\<close>, and its action validates it.\<close>

definition urlFlag :: "app flag list \<Rightarrow> string \<Rightarrow> (app \<Rightarrow> string) \<Rightarrow> app flag \<Rightarrow> bool" where
  "urlFlag fs name q f \<longleftrightarrow> f \<in> set fs \<and> fName f = name \<and> fAction f = validateURLAction \<and> fDefault f = FStr []
     \<and> (\<forall>c. fGet f c = FStr (q c)) \<and> (\<forall>c. q (fDest f (FStr []) c) = [])
     \<and> list_all (\<lambda>g. fName g = name \<and> g = f \<or> fName g \<noteq> name \<and> keeps q g) fs"

lemma url_flag_parsed:
  assumes "runFlags fs args env c = Inr c'" "urlFlag fs name q f"
  shows "\<exists>v. url_Parse (q c') = Inr v"
proof (cases "isSet (map fst args) env f")
  case True
  have "f \<in> set fs" "fAction f = validateURLAction" "fGet f c' = FStr (q c')" using assms(2) by (auto simp: urlFlag_def)
  then show ?thesis using runFlags_action [OF assms(1) _ True]
    by (auto simp: validateURLAction_def split: sum.splits)
next
  case False
  have "q (writeFlags fs args env c) = []"
    by (rule writeFlags_default [OF _ False]) (use assms(2) in \<open>auto simp: urlFlag_def list_all_iff keeps_def\<close>)
  moreover have "\<exists>v. url_Parse [] = Inr v"
    by (rule exI [of _ empty_url]) code_simp
  ultimately show ?thesis using runFlags_Inr [OF assms(1)] by simp
qed

text \<open>The flags that the authorization service and the admin API have in common.\<close>

abbreviation serviceFlags :: "string \<Rightarrow> string \<Rightarrow> bool \<Rightarrow> string \<Rightarrow> app flag list" where
  "serviceFlags svc addr grpc host \<equiv>
     TokenServiceFlags (WebServerFlags addr grpc (StorageFlags host (RouteRegistryFlags (LoggingFlags svc []))))"

lemma strFlag_parts:
  "fAction (strFlag n e d r act rd wr) = act" "fDefault (strFlag n e d r act rd wr) = FStr d"
  "fGet (strFlag n e d r act rd wr) c = FStr (rd c)"
  "fDest (strFlag n e d r act rd wr) (FStr u) c = wr u c"
  by (simp_all add: strFlag_def)

lemma list_all_if: "list_all P (if b then xs else ys) \<longleftrightarrow> (if b then list_all P xs else list_all P ys)"
  by simp

lemmas url_flag_simps = urlFlag_def TokenServiceFlags_def WebServerFlags_def StorageFlags_def RouteRegistryFlags_def
  LoggingFlags_def flag_names keeps_flags strFlag_parts list_all_if

lemma service_url_flags:
  "urlFlag (serviceFlags svc addr grpc host) ''token-host'' (\<lambda>c. TokenHost (tokenSvcArgs c))
      (strFlag ''token-host'' (envWrapper [''TOKEN_HOST'']) [] True validateURLAction
        (TokenHost \<circ> tokenSvcArgs) (\<lambda>v. tokenSvcArgs_update (TokenHost_update (\<lambda>_. v))))"
  "urlFlag (serviceFlags svc addr grpc host) ''oauth-proxy'' (\<lambda>c. OauthProxy (tokenSvcArgs c))
      (strFlag ''oauth-proxy'' (envWrapper [''OAUTH_PROXY'']) [] False validateURLAction
        (OauthProxy \<circ> tokenSvcArgs) (\<lambda>v. tokenSvcArgs_update (OauthProxy_update (\<lambda>_. v))))"
  "urlFlag (serviceFlags svc addr grpc host) ''oauth-redirect-url'' (\<lambda>c. OauthRedirectURL (tokenSvcArgs c))
      (strFlag ''oauth-redirect-url'' (envWrapper [''OAUTH_REDIRECT_URL'']) [] False validateURLAction
        (OauthRedirectURL \<circ> tokenSvcArgs) (\<lambda>v. tokenSvcArgs_update (OauthRedirectURL_update (\<lambda>_. v))))"
  "urlFlag (serviceFlags svc addr grpc host) ''registry-host'' (\<lambda>c. RegistryHost (routeRegArgs c))
      (strFlag ''registry-host'' (envWrapper [''REGISTRY_HOST'']) [] True validateURLAction
        (RegistryHost \<circ> routeRegArgs) (\<lambda>v. routeRegArgs_update (RegistryHost_update (\<lambda>_. v))))"
  by (simp_all add: url_flag_simps)

lemma Initialize_urls:
  assumes "url_Parse (TokenHost ts) = Inr u" "\<exists>v. url_Parse (OauthProxy ts) = Inr v" "\<exists>v. url_Parse (OauthRedirectURL ts) = Inr v"
  shows "\<exists>i. Initialize cipher kv rand client clk sc ts = Some i \<and> inCipher i = cipher \<and> kvStore i = kv"
  using assms by (auto simp: Initialize_def Let_def buildRedirectURL_def buildAuthURL_def)

text \<open>
  C29: flags that the command line accepts let the components start. With the flags of the authorization
  service or of the admin API, the authenticator never panics on a URL and is refused only for its
  cipher key, and the registry is never refused for its URL.
\<close>

theorem accepted_flags_load:
  assumes "fs = authCmd host \<or> fs = adminCmd host" "runFlags fs args env c = Inr a"
  shows "(case New (GetValueOrFile (hReadFile h) (TokenCipherKey (tokenSvcArgs a))) of
            Inr cipher \<Rightarrow> \<exists>i. loadAuthenticator h a kv w = (Inr i, w) \<and> inCipher i = cipher \<and> kvStore i = hBucket h kv
          | Inl err \<Rightarrow> loadAuthenticator h a kv w = (Inl (FatalExit (''failed to load aescipher: '' @ err)), w))
    \<and> (\<forall>err. fst (loadRegistry h a w) = Inl (FatalExit err) \<longrightarrow>
          (\<exists>e. loadStaticFile (hReadFile h) (hYaml h) (StaticCfg (routeRegArgs a)) = Inl e
             \<or> normalizeHostMap (RedirectAllowList (routeRegArgs a)) [] = Inl e))"
proof -
  obtain svc addr grpc where fs: "fs = serviceFlags svc addr grpc host"
    using assms(1) by (auto simp: authCmd_def adminCmd_def)
  note flags = service_url_flags [where svc = svc and addr = addr and grpc = grpc and host = host, folded fs]
  obtain u where u: "url_Parse (TokenHost (tokenSvcArgs a)) = Inr u"
    using url_flag_parsed [OF assms(2) flags(1)] by blast
  have r: "\<exists>v. url_Parse (RegistryHost (routeRegArgs a)) = Inr v" by (rule url_flag_parsed [OF assms(2) flags(4)])
  note init = Initialize_urls [OF u url_flag_parsed [OF assms(2) flags(2)] url_flag_parsed [OF assms(2) flags(3)]]
  have 1: "\<exists>i. loadAuthenticator h a kv w = (Inr i, w) \<and> inCipher i = cipher \<and> kvStore i = hBucket h kv"
    if "New (GetValueOrFile (hReadFile h) (TokenCipherKey (tokenSvcArgs a))) = Inr cipher" for cipher
    using init [of cipher "hBucket h kv" "hRand h" "hDo h" "hClock h" "hSpan h"] that
    by (auto simp: loadAuthenticator_def)
  have 2: "\<exists>e. loadStaticFile (hReadFile h) (hYaml h) (StaticCfg (routeRegArgs a)) = Inl e
      \<or> normalizeHostMap (RedirectAllowList (routeRegArgs a)) [] = Inl e"
    if "fst (loadRegistry h a w) = Inl (FatalExit err)" for err
    using r that by (auto simp: loadRegistry_def registry_Initialize_def split: sum.splits option.splits)
  show ?thesis using 1 2 by (auto simp: loadAuthenticator_def split: sum.splits)
qed

definition demoFlags :: "(string \<times> flagval) list" where
  "demoFlags = [(''registry-host'', FStr ''http://registry''), (''storage-host'', FStr ''nats''), (''token-host'', FStr ''http://token'')]"

lemma demo_flags: "\<exists>a. runFlags (authCmd ''node'') demoFlags (\<lambda>v. None) zero_app = Inr a \<and> TokenCipherKey (tokenSvcArgs a) = []"
proof -
  have "case runFlags (authCmd ''node'') demoFlags (\<lambda>v. None) zero_app of Inr a \<Rightarrow> TokenCipherKey (tokenSvcArgs a) = [] | Inl _ \<Rightarrow> False"
    by code_simp
  then show ?thesis by (auto split: sum.splits)
qed

theorem accepted_flags_load_witness:
  "\<exists>a i. runFlags (authCmd ''node'') demoFlags (\<lambda>v. None) zero_app = Inr a
    \<and> loadAuthenticator demoHost a ''tokens'' demoWorld = (Inr i, demoWorld) \<and> inCipher i = NoopCipher"
proof -
  obtain a where a: "runFlags (authCmd ''node'') demoFlags (\<lambda>v. None) zero_app = Inr a" "TokenCipherKey (tokenSvcArgs a) = []"
    using demo_flags by blast
  have "TrimSpace [] = []" by code_simp
  then have n: "New (GetValueOrFile (hReadFile demoHost) (TokenCipherKey (tokenSvcArgs a))) = Inr NoopCipher"
    by (simp add: a(2) GetValueOrFile_def New_def)
  from accepted_flags_load [OF disjI1 [OF refl] a(1), of demoHost "''tokens''" demoWorld] n
  show ?thesis using a(1) by auto
qed

end
