(* ===== verification/EnvoyRouting.thy ===== *)
theory EnvoyRouting
  imports EnvoySnapshot RegistryTheorems
begin

text \<open>
  What the routing table, the clusters and the header mutations mean for a request. Envoy's
  documented choices are written down as functions of the configuration (\<open>selectRoute\<close>: the virtual
  host of the request's domain or else of \<^verbatim>\<open>*\<close>, and in it the first route whose prefix matches;
  \<open>applyMutations\<close>: the effect of the mutations on the headers) and the theorems relate them to the
  controls of the registry.
\<close>

section \<open>Routes of the controls\<close>

lemma newRoute_Some:
  assumes "newRoute s v = Some (d, r)"
  obtains src dst where "URL (pcSource v) = Some src" "URL (pcDestination v) = Some dst"
    "d = domain src" "rtPrefix r = NormalizePath src"
    "raCluster (rtAction r) = clusterName dst" "raHostRewriteLiteral (rtAction r) = Host dst"
    "raPrefixRewrite (rtAction r) = pcPrefixRewrite v"
    "map_of (rtTypedPerFilterConfig r) authzFilter = routeAuthzFilter v"
    "map_of (rtTypedPerFilterConfig r) headerMutationFilter =
       Some (HeaderMutationPerRoute (requestMutations s (pcRequestHeaders v)))"
    "map fst (rtTypedPerFilterConfig r) = [headerMutationFilter, authzFilter]"
    "Some (rtMetadata r) = routeMetadata v"
  using assms
  by (auto simp: newRoute_def singleRoute_def requestHeaderFilterCfg_def mustMarshalAny_def Let_def filter_names
      split: bind_splits if_splits)

text \<open>When the route of a control can be built.\<close>

definition routable :: "xdsServer \<Rightarrow> ProxyControls \<Rightarrow> bool" where
  "routable s v =
     (URL (pcSource v) \<noteq> None \<and> URL (pcDestination v) \<noteq> None
      \<and> list_all utf8_valid (concat (map mutation_strings (requestMutations s (pcRequestHeaders v))))
      \<and> (pcNoAuth v \<or> list_all utf8_valid (map fst (pcAuthzContext v) @ map snd (pcAuthzContext v))))"

lemma newRoute_None: "newRoute s v = None \<longleftrightarrow> \<not> routable s v"
  by (auto simp: newRoute_def singleRoute_def requestHeaderFilterCfg_def routeAuthzFilter_def buildAuthzFilter_def
      routeMetadata_def mustMarshalAny_def routable_def Let_def split: bind_splits if_splits)

lemma makeRoutes_None: "makeRoutes s rn ctls = None \<longleftrightarrow> (\<exists>(k, v) \<in> set ctls. \<not> routable s v)"
  by (simp add: makeRoutes_def routes_loop_None newRoute_None)

definition knownDomain :: "(string, ProxyControls) gomap \<Rightarrow> string \<Rightarrow> bool" where
  "knownDomain ctls d = list_ex (\<lambda>(k, v). map_option domain (URL (pcSource v)) = Some d) ctls"

definition routePrefix :: "ProxyControls \<Rightarrow> string" where
  "routePrefix v = (case URL (pcSource v) of None \<Rightarrow> [] | Some src \<Rightarrow> NormalizePath src)"

definition candidates :: "(string, ProxyControls) gomap \<Rightarrow> string \<Rightarrow> string \<Rightarrow> ProxyControls list" where
  "candidates ctls d path =
     filter (\<lambda>v. map_option domain (URL (pcSource v)) = Some d \<and> HasPrefix path (routePrefix v)) (map snd ctls)"

lemma in_domainRoutes:
  "r \<in> set (domainRoutes s ctls d) \<longleftrightarrow> (\<exists>k v. (k, v) \<in> set ctls \<and> newRoute s v = Some (d, r))"
proof (induction ctls)
  case (Cons kv ctls)
  obtain k v where kv: "kv = (k, v)" by fastforce
  have "domainRoutes s (kv # ctls) d =
      (case newRoute s v of Some (d', r') \<Rightarrow> if d' = d then r' # domainRoutes s ctls d else domainRoutes s ctls d
       | None \<Rightarrow> domainRoutes s ctls d)"
    by (simp add: domainRoutes_def kv List.map_filter_simps split: option.splits)
  then show ?case using Cons kv by (auto split: option.splits prod.splits)
qed (simp add: domainRoutes_def List.map_filter_simps)

lemma newRoute_domain:
  assumes "newRoute s v = Some (d, r)"
  shows "map_option domain (URL (pcSource v)) = Some d" "rtPrefix r = routePrefix v"
  using assms by (auto elim!: newRoute_Some simp: routePrefix_def)

lemma domainRoutes_known:
  assumes "makeRoutes s rn ctls = Some rc"
  shows "domainRoutes s ctls d \<noteq> [] \<longleftrightarrow> knownDomain ctls d"
proof
  assume "domainRoutes s ctls d \<noteq> []"
  then obtain r where "r \<in> set (domainRoutes s ctls d)" by (metis list.set_intros(1) neq_Nil_conv)
  then show "knownDomain ctls d"
    using newRoute_domain(1) by (fastforce simp: in_domainRoutes knownDomain_def list_ex_iff)
next
  assume "knownDomain ctls d"
  then obtain k v where v: "(k, v) \<in> set ctls" "map_option domain (URL (pcSource v)) = Some d"
    by (auto simp: knownDomain_def list_ex_iff)
  then have "newRoute s v \<noteq> None" using assms makeRoutes_None [of s rn ctls] newRoute_None by force
  then obtain d' r where "newRoute s v = Some (d', r)" by auto
  then have "r \<in> set (domainRoutes s ctls d)"
    using v newRoute_domain(1) [of s v d' r] by (auto simp: in_domainRoutes)
  then show "domainRoutes s ctls d \<noteq> []" by auto
qed

lemma makeRoutes_hosts:
  assumes "makeRoutes s rn ctls = Some rc"
  shows "distinct (map vhDomains (rcVirtualHosts rc))"
    and "vh \<in> set (rcVirtualHosts rc) \<Longrightarrow>
      \<exists>d. vh_ok d vh \<and> mset (vhRoutes vh) = mset (domainRoutes s ctls d)"
    and "(\<exists>vh \<in> set (rcVirtualHosts rc). vhDomains vh = [d]) \<longleftrightarrow> domainRoutes s ctls d \<noteq> []"
proof -
  obtain m where m: "routes_loop s ctls [] = Some m" and rc: "rcVirtualHosts rc = map snd m"
    using assms by (auto simp: makeRoutes_def)
  have spec: "go_wf m \<and> (\<forall>d vh. map_of m d = Some vh \<longrightarrow> vh_ok d vh)
      \<and> (\<forall>d. mset (routes_of m d) = mset (routes_of [] d) + mset (domainRoutes s ctls d))"
    by (rule routes_loop_spec [OF m]) simp_all
  then have wf: "go_wf m" and ok: "\<And>d vh. map_of m d = Some vh \<Longrightarrow> vh_ok d vh" by blast+
  have routes: "mset (routes_of m d) = mset (domainRoutes s ctls d)" for d
    using spec by (simp add: routes_of_def)
  have in_m: "map_of m d = Some vh \<longleftrightarrow> (d, vh) \<in> set m" for d vh using wf by (simp add: map_of_eq_Some_iff)
  have doms: "map vhDomains (map snd m) = map (\<lambda>d. [d]) (map fst m)"
    using ok in_m by (auto simp: vh_ok_def)
  show "distinct (map vhDomains (rcVirtualHosts rc))"
    unfolding rc doms using wf by (simp add: distinct_map inj_on_def)
  show "\<exists>d. vh_ok d vh \<and> mset (vhRoutes vh) = mset (domainRoutes s ctls d)" if "vh \<in> set (rcVirtualHosts rc)"
    using that ok in_m routes unfolding rc by (force simp: routes_of_def split: option.splits)
  show "(\<exists>vh \<in> set (rcVirtualHosts rc). vhDomains vh = [d]) \<longleftrightarrow> domainRoutes s ctls d \<noteq> []"
  proof
    assume "\<exists>vh \<in> set (rcVirtualHosts rc). vhDomains vh = [d]"
    then obtain vh where "map_of m d = Some vh" using ok in_m unfolding rc by (fastforce simp: vh_ok_def)
    then show "domainRoutes s ctls d \<noteq> []"
      using routes [of d] ok by (auto simp: routes_of_def vh_ok_def)
  next
    assume "domainRoutes s ctls d \<noteq> []"
    then obtain vh where "map_of m d = Some vh" using routes [of d] by (auto simp: routes_of_def split: option.splits)
    then show "\<exists>vh \<in> set (rcVirtualHosts rc). vhDomains vh = [d]"
      using ok in_m unfolding rc by (force simp: vh_ok_def)
  qed
qed

section \<open>Envoy's choice of a route\<close>

definition selectVirtualHost :: "routeConfiguration \<Rightarrow> string \<Rightarrow> virtualHost option" where
  "selectVirtualHost rc host =
     (case List.find (\<lambda>vh. host \<in> set (vhDomains vh)) (rcVirtualHosts rc) of
        Some vh \<Rightarrow> Some vh
      | None \<Rightarrow> List.find (\<lambda>vh. ''*'' \<in> set (vhDomains vh)) (rcVirtualHosts rc))"

definition selectRoute :: "routeConfiguration \<Rightarrow> string \<Rightarrow> string \<Rightarrow> route option" where
  "selectRoute rc host path =
     (case selectVirtualHost rc host of
        None \<Rightarrow> None
      | Some vh \<Rightarrow> List.find (\<lambda>r. HasPrefix path (rtPrefix r)) (vhRoutes vh))"

text \<open>In a list ordered by prefix length the first match is a longest one.\<close>

lemma first_match_longest:
  assumes "prefix_ordered rs" "List.find (\<lambda>r. HasPrefix path (rtPrefix r)) rs = Some r"
    "r' \<in> set rs" "HasPrefix path (rtPrefix r')"
  shows "length (rtPrefix r') \<le> length (rtPrefix r)"
  using assms by (induction rs) (auto simp: prefix_ordered_def split: if_splits)

lemma find_host:
  assumes "makeRoutes s rn ctls = Some rc"
  shows "List.find (\<lambda>vh. d \<in> set (vhDomains vh)) (rcVirtualHosts rc) = None \<longleftrightarrow> \<not> knownDomain ctls d"
    and "List.find (\<lambda>vh. d \<in> set (vhDomains vh)) (rcVirtualHosts rc) = Some vh \<Longrightarrow>
      prefix_ordered (vhRoutes vh) \<and> set (vhRoutes vh) = set (domainRoutes s ctls d)"
proof -
  have one: "d \<in> set (vhDomains vh) \<longleftrightarrow> vhDomains vh = [d]" if "vh \<in> set (rcVirtualHosts rc)" for vh
    using makeRoutes_hosts(2) [OF assms that] by (auto simp: vh_ok_def)
  show "List.find (\<lambda>vh. d \<in> set (vhDomains vh)) (rcVirtualHosts rc) = None \<longleftrightarrow> \<not> knownDomain ctls d"
    using makeRoutes_hosts(3) [OF assms, of d] domainRoutes_known [OF assms, of d] one by (auto simp: find_None_iff)
  assume f: "List.find (\<lambda>vh. d \<in> set (vhDomains vh)) (rcVirtualHosts rc) = Some vh"
  then have vh: "vh \<in> set (rcVirtualHosts rc)" "d \<in> set (vhDomains vh)" by (auto dest!: find_flagD)
  then obtain d' where "vh_ok d' vh" "mset (vhRoutes vh) = mset (domainRoutes s ctls d')"
    using makeRoutes_hosts(2) [OF assms] by blast
  moreover from this have "d' = d" using one vh by (simp add: vh_ok_def)
  ultimately show "prefix_ordered (vhRoutes vh) \<and> set (vhRoutes vh) = set (domainRoutes s ctls d)"
    by (metis mset_eq_setD vh_ok_def)
qed

lemma selectVirtualHost_routes:
  assumes "makeRoutes s rn ctls = Some rc" "d = (if knownDomain ctls host then host else ''*'')"
  shows "case selectVirtualHost rc host of
      None \<Rightarrow> domainRoutes s ctls d = []
    | Some vh \<Rightarrow> prefix_ordered (vhRoutes vh) \<and> set (vhRoutes vh) = set (domainRoutes s ctls d)"
proof (cases "knownDomain ctls host")
  case True
  then obtain vh where "List.find (\<lambda>vh. host \<in> set (vhDomains vh)) (rcVirtualHosts rc) = Some vh"
    using find_host(1) [OF assms(1), of host] by auto
  then show ?thesis using find_host(2) [OF assms(1)] True assms(2) by (simp add: selectVirtualHost_def)
next
  case False
  then have "selectVirtualHost rc host = List.find (\<lambda>vh. ''*'' \<in> set (vhDomains vh)) (rcVirtualHosts rc)"
    using find_host(1) [OF assms(1), of host] by (simp add: selectVirtualHost_def)
  then show ?thesis
    using False find_host [OF assms(1), of "''*''"] domainRoutes_known [OF assms(1), of "''*''"] assms(2)
    by (cases "List.find (\<lambda>vh. ''*'' \<in> set (vhDomains vh)) (rcVirtualHosts rc)") simp_all
qed

text \<open>The candidates are the matching routes of the domain.\<close>

lemma candidates_routes:
  assumes "makeRoutes s rn ctls = Some rc" "v \<in> set (candidates ctls d path)"
  obtains r where "newRoute s v = Some (d, r)" "r \<in> set (domainRoutes s ctls d)"
    "rtPrefix r = routePrefix v" "HasPrefix path (rtPrefix r)"
proof -
  obtain k where v: "(k, v) \<in> set ctls" "map_option domain (URL (pcSource v)) = Some d" "HasPrefix path (routePrefix v)"
    using assms(2) by (auto simp: candidates_def)
  then have "newRoute s v \<noteq> None" using assms(1) makeRoutes_None [of s rn ctls] newRoute_None by force
  then obtain d' r where r: "newRoute s v = Some (d', r)" by auto
  then have "d' = d" using newRoute_domain(1) [OF r] v(2) by simp
  then show ?thesis using that [of r] r v newRoute_domain(2) [OF r] by (auto simp: in_domainRoutes)
qed

lemma route_candidate:
  assumes "r \<in> set (domainRoutes s ctls d)" "HasPrefix path (rtPrefix r)"
  obtains v where "v \<in> set (candidates ctls d path)" "newRoute s v = Some (d, r)"
proof -
  obtain k v where v: "(k, v) \<in> set ctls" "newRoute s v = Some (d, r)"
    using assms(1) by (auto simp: in_domainRoutes)
  then have "v \<in> set (candidates ctls d path)"
    using assms(2) newRoute_domain [OF v(2)] by (force simp: candidates_def)
  then show ?thesis using that v(2) by blast
qed

text \<open>Every route that Envoy takes is that of a control.\<close>

lemma selectRoute_control:
  assumes "makeRoutes s rn ctls = Some rc" "selectRoute rc host path = Some r"
  obtains k v d where "(k, v) \<in> set ctls" "newRoute s v = Some (d, r)"
proof -
  obtain vh where vh: "selectVirtualHost rc host = Some vh" "r \<in> set (vhRoutes vh)"
    using assms(2) by (auto simp: selectRoute_def dest!: find_flagD split: option.splits)
  then have "r \<in> set (domainRoutes s ctls (if knownDomain ctls host then host else ''*''))"
    using selectVirtualHost_routes [OF assms(1) refl, of host] by simp
  then show ?thesis using that by (auto simp: in_domainRoutes)
qed

lemma selectRoute_exists:
  assumes "makeRoutes s rn ctls = Some rc" "d = (if knownDomain ctls host then host else ''*'')"
    "v \<in> set (candidates ctls d path)"
  shows "selectRoute rc host path \<noteq> None"
  using assms(1,3)
proof (rule candidates_routes)
  fix r assume r: "r \<in> set (domainRoutes s ctls d)" "HasPrefix path (rtPrefix r)"
  with selectVirtualHost_routes [OF assms(1,2)] obtain vh
    where "selectVirtualHost rc host = Some vh" "r \<in> set (vhRoutes vh)"
    by (cases "selectVirtualHost rc host") auto
  with r(2) show ?thesis by (auto simp: selectRoute_def find_None_iff)
qed

end
