(* ===== verification/EnvoyTheorems.thy ===== *)
theory EnvoyTheorems
  imports EnvoyRouting "HOL-Library.Code_Target_Numeral"
begin

text \<open>The properties of the configuration that Envoy is given.\<close>

section \<open>Routing\<close>

text \<open>
  C16: the routing table implements the controls. Envoy finds a route for a request exactly if a control
  of the request's domain (or of the wildcard, if no control has the domain) has a prefix of the
  path, and the route it picks is that of such a control with a longest prefix.
\<close>

theorem routing_longest_prefix:
  assumes "makeRoutes s rn ctls = Some rc"
  shows "let d = (if knownDomain ctls host then host else ''*''); cands = candidates ctls d path in
    case selectRoute rc host path of
      None \<Rightarrow> cands = []
    | Some r \<Rightarrow> \<exists>v \<in> set cands. newRoute s v = Some (d, r)
        \<and> list_all (\<lambda>v'. length (routePrefix v') \<le> length (routePrefix v)) cands"
proof -
  define d where "d = (if knownDomain ctls host then host else ''*'')"
  note cand = candidates_routes [OF assms, of _ d path]
  have vh: "case selectVirtualHost rc host of
      None \<Rightarrow> domainRoutes s ctls d = []
    | Some vh \<Rightarrow> prefix_ordered (vhRoutes vh) \<and> set (vhRoutes vh) = set (domainRoutes s ctls d)"
    by (rule selectVirtualHost_routes [OF assms d_def])
  show ?thesis
  proof (cases "selectRoute rc host path")
    case None
    then have "v \<notin> set (candidates ctls d path)" for v using selectRoute_exists [OF assms d_def] by blast
    then have "candidates ctls d path = []" by (cases "candidates ctls d path") auto
    with None show ?thesis unfolding d_def [symmetric] by (simp add: Let_def)
  next
    case (Some r)
    then obtain vh where v: "selectVirtualHost rc host = Some vh"
        "List.find (\<lambda>r. HasPrefix path (rtPrefix r)) (vhRoutes vh) = Some r"
      by (auto simp: selectRoute_def split: option.splits)
    then have ordered: "prefix_ordered (vhRoutes vh)" and set: "set (vhRoutes vh) = set (domainRoutes s ctls d)"
      using vh by auto
    have "r \<in> set (domainRoutes s ctls d)" "HasPrefix path (rtPrefix r)" using v(2) set by (auto dest!: find_flagD)
    then obtain u where u: "u \<in> set (candidates ctls d path)" "newRoute s u = Some (d, r)" by (rule route_candidate)
    have "length (routePrefix v') \<le> length (routePrefix u)" if "v' \<in> set (candidates ctls d path)" for v'
      using that
    proof (rule cand)
      fix r' assume r': "r' \<in> set (domainRoutes s ctls d)" "rtPrefix r' = routePrefix v'" "HasPrefix path (rtPrefix r')"
      have "length (rtPrefix r') \<le> length (rtPrefix r)"
        by (rule first_match_longest [OF ordered v(2)]) (use r' set in simp_all)
      then show ?thesis using r'(2) newRoute_domain(2) [OF u(2)] by simp
    qed
    then show ?thesis using Some u unfolding d_def [symmetric] by (auto simp: Let_def list_all_iff)
  qed
qed

definition demoXDS :: XDS where
  "demoXDS = (xdsArgs zero_app)\<lparr>ListenerAddress := ''0.0.0.0'', ListenerPort := 8000, NodeName := ''envoy''\<rparr>"

definition demoXdsServer :: xdsServer where
  "demoXdsServer = newXdsServer ((tokenSvcArgs zero_app)\<lparr>SubtokenHeader := ''x-subtoken''\<rparr>) demoXDS ''1.0''"

definition demoControl :: "string \<Rightarrow> string \<Rightarrow> string \<Rightarrow> ProxyControls" where
  "demoControl rid src dst =
     proxyControl (zero_RawSource\<lparr>rsID := rid,
       rsSource := (case NormalizeURL src of Inr u \<Rightarrow> u | Inl _ \<Rightarrow> zero_URLString),
       rsDestination := (case NormalizeURL dst of Inr u \<Rightarrow> u | Inl _ \<Rightarrow> zero_URLString)\<rparr>)"

definition demoControls :: "(string, ProxyControls) gomap" where
  "demoControls =
     [(demoID1, demoControl demoID1 ''https://a.example/'' ''http://one.example''),
      (demoID2, demoControl demoID2 ''https://a.example/api'' ''http://two.example:8080'')]"

definition demoRoutes :: routeConfiguration where
  "demoRoutes = (case makeRoutes demoXdsServer routeName demoControls of Some rc \<Rightarrow> rc | None \<Rightarrow> \<lparr>rcName = [], rcVirtualHosts = []\<rparr>)"

lemma demo_routes: "makeRoutes demoXdsServer routeName demoControls = Some demoRoutes"
proof -
  have "list_all (\<lambda>(k, v). routable demoXdsServer v) demoControls" by code_simp
  then have "makeRoutes demoXdsServer routeName demoControls \<noteq> None"
    by (auto simp: makeRoutes_None list_all_iff)
  then show ?thesis by (auto simp: demoRoutes_def)
qed

theorem routing_longest_prefix_witness:
  "\<exists>r v. selectRoute demoRoutes ''a.example'' ''/api/users'' = Some r
    \<and> newRoute demoXdsServer v = Some (''a.example'', r) \<and> routePrefix v = ''/api''"
proof -
  have "knownDomain demoControls ''a.example''" by code_simp
  moreover have "map routePrefix (candidates demoControls ''a.example'' ''/api/users'') = [''/'', ''/api'']" by code_simp
  ultimately show ?thesis
    using routing_longest_prefix [OF demo_routes, of "''a.example''" "''/api/users''"]
    by (auto simp: Let_def split: option.splits)
qed

section \<open>Clusters\<close>

text \<open>
  C21: every route leads to exactly one cluster of the snapshot, which resolves the host and port of a
  destination with the same cluster name. If the host names of the destinations are short and made of
  the characters that names keep, these are the host and port of the route's own destination.
\<close>

theorem routes_have_clusters:
  assumes "makeClusters s ctls = Some cs" "(k, v) \<in> set ctls" "newRoute s v = Some (d, r)"
  shows "\<exists>c dst dst'. filter (\<lambda>c. clName c = raCluster (rtAction r)) cs = [c]
    \<and> claClusterName (clLoadAssignment c) = clName c
    \<and> claEndpoints (clLoadAssignment c) =
        [[\<lparr>saProtocol = TCP, saAddress = Hostname dst', saPortValue = IdentifyPort dst'\<rparr>]]
    \<and> URL (pcDestination v) = Some dst \<and> dst' \<in> destinations ctls \<and> clusterName dst' = clusterName dst
    \<and> ((\<forall>u \<in> destinations ctls. list_all allowedPattern (Hostname u) \<and> length (Hostname u) \<le> 113)
        \<longrightarrow> Hostname dst' = Hostname dst \<and> IdentifyPort dst' = IdentifyPort dst)"
proof -
  obtain dst where dst: "URL (pcDestination v) = Some dst" "raCluster (rtAction r) = clusterName dst"
    using assms(3) by (rule newRoute_Some)
  then have d: "dst \<in> destinations ctls" using assms(2) by (auto simp: destinations_def)
  note spec = makeClusters_spec [OF assms(1)]
  obtain c where c: "c \<in> set cs" "clName c = clusterName dst" using spec(2) d by (metis image_iff)
  then obtain dst' where dst': "dst' \<in> destinations ctls" "c = makeCluster (xsXdsArgs s) dst'" using spec(3) by auto
  have "filter (\<lambda>c. clName c = clusterName dst) cs = [c]"
    by (rule distinct_key_filter) (use spec(1) c in simp_all)
  then show ?thesis
    using dst d dst' c(2) clusterName_inject [of dst' dst]
    by (intro exI [of _ c] exI [of _ dst] exI [of _ dst']) (auto simp: makeCluster_def makeEndpoint_def)
qed

theorem routes_have_clusters_witness:
  "\<exists>cs c. makeClusters demoXdsServer demoControls = Some cs
    \<and> filter (\<lambda>c. clName c = ''wh_two.example_8080'') cs = [c]
    \<and> claEndpoints (clLoadAssignment c) = [[\<lparr>saProtocol = TCP, saAddress = ''two.example'', saPortValue = 8080\<rparr>]]"
proof -
  let ?v = "demoControl demoID2 ''https://a.example/api'' ''http://two.example:8080''"
  have "list_all (\<lambda>(k, v). URL (pcDestination v) \<noteq> None) demoControls" by code_simp
  then have "makeClusters demoXdsServer demoControls \<noteq> None" by (auto simp: makeClusters_None list_all_iff)
  then obtain cs where cs: "makeClusters demoXdsServer demoControls = Some cs" by auto
  have "newRoute demoXdsServer ?v \<noteq> None" unfolding newRoute_None not_not by code_simp
  then obtain d r where r: "newRoute demoXdsServer ?v = Some (d, r)" by auto
  have v: "(demoID2, ?v) \<in> set demoControls" by (simp add: demoControls_def)
  obtain dst where dst: "URL (pcDestination ?v) = Some dst" "raCluster (rtAction r) = clusterName dst"
    using r by (rule newRoute_Some)
  have e: "map_option (\<lambda>u. (Hostname u, IdentifyPort u, clusterName u)) (URL (pcDestination ?v)) =
      Some (''two.example'', 8080, ''wh_two.example_8080'')" by code_simp
  have "list_all (\<lambda>(k, v). case URL (pcDestination v) of None \<Rightarrow> True
      | Some u \<Rightarrow> list_all allowedPattern (Hostname u) \<and> length (Hostname u) \<le> 113) demoControls" by code_simp
  then have "\<forall>u \<in> destinations demoControls. list_all allowedPattern (Hostname u) \<and> length (Hostname u) \<le> 113"
    by (force simp: destinations_def list_all_iff)
  then show ?thesis
    using routes_have_clusters [OF cs v r] dst e cs by auto
qed

text \<open>
  C22: names of resources have at most 127 characters, all of them letters, digits, dots, dashes or
  underscores, and two destinations with short host names of such characters share a cluster only if
  they have the same host and port.
\<close>

theorem cluster_names:
  "length (clusterName a) \<le> 127 \<and> list_all allowedPattern (clusterName a)
   \<and> (list_all allowedPattern (Hostname a) \<and> length (Hostname a) \<le> 113
      \<and> list_all allowedPattern (Hostname b) \<and> length (Hostname b) \<le> 113
      \<longrightarrow> (clusterName a = clusterName b \<longleftrightarrow> Hostname a = Hostname b \<and> IdentifyPort a = IdentifyPort b))"
  using clusterName_inject [of a b] normalizeName_bounds normalizeName_chars by (auto simp: clusterName_def)

theorem cluster_names_witness:
  "clusterName (empty_url\<lparr>Scheme := ''http'', Host := ''a.example''\<rparr>) \<noteq>
   clusterName (empty_url\<lparr>Scheme := ''https'', Host := ''a.example''\<rparr>)"
proof -
  have "list_all (\<lambda>u. list_all allowedPattern (Hostname u) \<and> length (Hostname u) \<le> 113)
      [empty_url\<lparr>Scheme := ''http'', Host := ''a.example''\<rparr>, empty_url\<lparr>Scheme := ''https'', Host := ''a.example''\<rparr>]"
    by code_simp
  moreover have "IdentifyPort (empty_url\<lparr>Scheme := ''http'', Host := ''a.example''\<rparr>) \<noteq>
      IdentifyPort (empty_url\<lparr>Scheme := ''https'', Host := ''a.example''\<rparr>)" by code_simp
  ultimately show ?thesis
    using cluster_names [of "empty_url\<lparr>Scheme := ''http'', Host := ''a.example''\<rparr>"
        "empty_url\<lparr>Scheme := ''https'', Host := ''a.example''\<rparr>"] by simp
qed



end
