(* ===== verification/SnapshotTheorems.thy ===== *)
theory SnapshotTheorems
  imports EnvoyTheorems
begin

text \<open>
  The properties of the header mutations, of the listener and of the snapshots: what reaches the
  authorization service, when a snapshot can be built, that it is consistent, and that the snapshot
  cache serves the controls of the last refresh.
\<close>

section \<open>Header mutations\<close>










section \<open>The listener\<close>






section \<open>Versions\<close>





section \<open>Snapshots\<close>

lemma buildSnapshot_None:
  "buildSnapshot s ctls = None \<longleftrightarrow>
     (\<exists>(k, v) \<in> set ctls. \<not> routable s v) \<or> \<not> list_all utf8_valid (listener_strings s)"
proof -
  have "utf8_valid routeName" by (rule utf8_valid_ascii) (simp add: routeName_def)
  then have l: "makeHTTPListener s (listenerName s) routeName = None \<longleftrightarrow> \<not> list_all utf8_valid (listener_strings s)"
    using makeHTTPListener_Some [of s "listenerName s" routeName] by auto
  have c: "makeClusters s ctls = None \<Longrightarrow> makeRoutes s routeName ctls = None"
    by (auto simp: makeClusters_None makeRoutes_None routable_def)
  show ?thesis
    unfolding makeRoutes_None [of s routeName, symmetric] l [symmetric] buildSnapshot_def
    using c by (auto split: bind_splits)
qed




text \<open>A cache without watches: the map of snapshots by node.\<close>

definition memSetSnapshot :: "(string, Snapshot) gomap setSnapshot" where
  "memSetSnapshot node sn w = (Inr (), mput node sn w)"






text \<open>
  C26: a route whose host is not UTF-8 stops the management server: the refresh after such a source was
  loaded panics. Nothing rejects the source before: the host may come from a percent-encoded URL that
  the validation of the registry accepts.
\<close>

theorem invalid_host_stops_xds:
  assumes "updateCtls i sources = Some i'" "lastSource (staticSrc i @ sources) rid = Some rs"
    and "\<not> rsNoAuth rs" "URL (rsSource rs) = Some u" "\<not> utf8_valid (Host u)"
  shows "refreshSnapshot s setSnapshot i' w = None"
proof -
  have "map_of (proxyCtls i') rid = Some (proxyControl rs)"
    using assms(2) by (simp add: updateCtls_Some [OF assms(1)] loadCtls_proxy)
  then have "(rid, proxyControl rs) \<in> set (FetchProxyControls i')"
    by (simp add: FetchProxyControls_def map_of_SomeD)
  moreover have "\<not> routable s (proxyControl rs)"
    using assms(3,4,5) by (auto simp: routable_def proxyControl_def authzContext_def Let_def header_defs)
  ultimately have "buildSnapshot s (FetchProxyControls i') = None" unfolding buildSnapshot_None by auto
  then show ?thesis by (simp add: refreshSnapshot_def generateSnapshot_def)
qed

definition badSource :: RawSource where
  "badSource =
     (case decode_RawSource (JObj [(''id'', JStr demoID1), (''src'', JStr ''https://%ff''), (''dst'', JStr ''http://up.example'')]) of
        Inr rs \<Rightarrow> rs | Inl _ \<Rightarrow> zero_RawSource)"

theorem invalid_host_stops_xds_witness:
  "validRawSource badSource \<and> (\<exists>i'. updateCtls (demoRegistry\<lparr>staticSrc := []\<rparr>) [badSource] = Some i'
     \<and> refreshSnapshot demoXdsServer memSetSnapshot i' [] = None)"
proof -
  let ?i = "demoRegistry\<lparr>staticSrc := []\<rparr>"
  have b: "validRawSource badSource" "rsID badSource = demoID1" "\<not> rsNoAuth badSource"
    "map_option Host (URL (rsSource badSource)) = Some [CHR 0xFF]" "\<not> utf8_valid [CHR 0xFF]" by code_simp+
  then obtain u where u: "URL (rsSource badSource) = Some u" "Host u = [CHR 0xFF]" by auto
  then obtain i' where i': "updateCtls ?i [badSource] = Some i'" by (simp add: updateCtls_def)
  have "lastSource (staticSrc ?i @ [badSource]) demoID1 = Some badSource" using b(2) by (simp add: lastSource_def)
  from invalid_host_stops_xds [OF i' this b(3) u(1), of demoXdsServer memSetSnapshot "[]"]
  show ?thesis using b(1,5) u(2) i' by simp
qed

end
