(* ===== verification/Spec2Isabelle.thy ===== *)
theory Spec2Isabelle
  imports AdminTheorems ServiceTheorems SnapshotTheorems TokenTheorems
begin

text \<open>
  \<^bold>\<open>Verification of Holepunch\<close>, the control and authorization service that runs beside an
  Envoy proxy (Go sources under \<^verbatim>\<open>src/internal\<close>).

  \<^bold>\<open>The program.\<close>  One binary with four commands.  \<^verbatim>\<open>envoy-auth\<close>: Envoy asks the authorization
  service (\<^verbatim>\<open>envoy/auth.go\<close>) about every request of a protected route.  The service authenticates the
  request with the token component (\<^verbatim>\<open>wormhole/token\<close>: an access token of its own format, or the cookies of an
  OAuth2 proxy; answers of the remote token service are kept in a NATS key-value bucket), authorizes
  the user with the route registry (\<^verbatim>\<open>wormhole/registry\<close>: routes from a static file and from the
  registry service, distributed over a NATS stream), obtains a subtoken when the route belongs to a
  community, and answers with the headers to set, a redirect to the login page or an error.  \<^verbatim>\<open>envoy-xds\<close>
  turns the same routes into Envoy's configuration (clusters, route table, listener) and serves it
  as versioned snapshots.  \<^verbatim>\<open>admin\<close> receives webhooks that revoke tokens or announce new routes.  \<^verbatim>\<open>cacher\<close>
  fetches the routes periodically and publishes them on the stream.

  \<^bold>\<open>The theories, in dependency order.\<close>
  \<^item> \<open>GoPrelude\<close>: Go strings, slices, maps as association lists in iteration order, word and list
    lemmas, the collections of simplification rules.  \<open>Codec\<close>, \<open>Digest\<close>, \<open>GoUrl\<close>, \<open>GoJson\<close>, \<open>JsonText\<close>, \<open>JsonPrint\<close>,
    \<open>GoTime\<close>, \<open>AesGcm\<close>: the parts of the standard library the program computes with (base64 and hex, SHA-256 and
    CRC-32, \<^verbatim>\<open>net/url\<close>, JSON values, the parsing and printing of JSON text, durations and dates, AES-GCM), as
    executable functions.
  \<^item> \<open>Keys\<close> (\<^verbatim>\<open>ctls/keys\<close>), \<open>Errs\<close> (\<^verbatim>\<open>ctls/errs\<close>), \<open>Rules\<close> (\<^verbatim>\<open>ctls/rules\<close>), \<open>Requests\<close>
    (\<^verbatim>\<open>ctls/requests\<close>), \<open>Cipher\<close> (\<^verbatim>\<open>ctls/aescipher\<close>, with its round trip), \<open>Args\<close> (\<^verbatim>\<open>args\<close> and the flags of
    \<^verbatim>\<open>cmd/holepunch\<close>), \<open>Streams\<close> (\<^verbatim>\<open>ctls/streams\<close>: connection, bucket, route stream), \<open>Logs\<close> (\<^verbatim>\<open>ctls/logs\<close>).
  \<^item> \<open>Wormhole\<close> (\<^verbatim>\<open>wormhole/wormhole.go\<close>): the token payload and the floating-point time stamps.
  \<^item> \<open>TokenCache\<close>, \<open>TokenFlow\<close> (\<^verbatim>\<open>wormhole/token\<close>): the record \<open>internal\<close> of the authenticator, the cache
    operations and the flows; \<open>TokenScenario\<close> is a concrete environment for the witnesses and
    \<open>TokenTheorems\<close> holds the properties: only vouched tokens are accepted, what the cache remembers,
    invalidation.
  \<^item> \<open>Registry\<close>, \<open>RegistryTheorems\<close> (\<^verbatim>\<open>wormhole/registry\<close>): sources, controls, authorization, fetching,
    publication and the reachable states of a process.
  \<^item> \<open>EnvoyAuth\<close> (\<^verbatim>\<open>envoy/auth.go\<close>, \<^verbatim>\<open>envoy/envoy.go\<close>): the handler \<open>Check\<close> and its responses; its properties,
    which rest on those of the token and registry components, are in this theory.  \<open>Interceptors\<close>
    (\<^verbatim>\<open>envoy/interceptors.go\<close>): the span around every gRPC call.
  \<^item> \<open>EnvoyResources\<close>, \<open>EnvoyListener\<close> (\<^verbatim>\<open>envoy/resources.go\<close>): the messages for Envoy as records with the
    fields the code sets.  \<open>EnvoySnapshot\<close> (\<^verbatim>\<open>envoy/snapshot.go\<close>, \<^verbatim>\<open>envoy/xds.go\<close>): the checksum, snapshots with
    the consistency check of the vendored library, the refresh loop.  \<open>EnvoyRouting\<close> is the
    specification of how Envoy selects a route; \<open>EnvoyTheorems\<close> and \<open>SnapshotTheorems\<close> hold the properties: the
    route table refines longest-prefix selection over the controls, every route has its cluster, client
    headers do not survive, the current routes are served.
  \<^item> \<open>AdminApi\<close>, \<open>AdminTheorems\<close> (\<^verbatim>\<open>server\<close>): handlers, multiplexer and middleware; revoked tokens are
    rejected and every request is answered.  \<open>CacherSvc\<close> (\<^verbatim>\<open>cacher\<close>): the refresh loop and its window of
    failures, which is as good as the whole history.
  \<^item> \<open>Cmd\<close>, \<open>ServiceTheorems\<close> (\<^verbatim>\<open>cmd/holepunch\<close>): the start of the commands and the authorization service on a
    sequence of route messages and requests.

  \<^bold>\<open>Conventions.\<close>  A Go struct is a record, an error a message or a \<open>StatusError\<close> in a sum, a panic
  \<open>None\<close>.  Code outside the repository is an argument: the HTTP round trip, the NATS library, bucket and
  stream, the snapshot cache, the tracing library, the clock, the random source and the resolver are
  functions on a world type \<open>'w\<close>, and what the code relies on is stated by the locales \<open>bucket\<close>, \<open>kvstore\<close>,
  \<open>route_stream\<close>, \<open>snapshot_cache\<close>, \<open>span_store\<close>, \<open>cipherer\<close>, \<open>aead\<close>, \<open>token_env\<close> and \<open>router\<close>.  Each is interpreted on
  definitions of the development: the ciphers and the registry on the program's own, the others
  on stores in memory.
  Bodies that carry JSON are strings and are parsed; headers are keyed by lower-case names.
  Every definition terminates and is executable; the only loop with a bound of its own in the code is the
  ten attempts of the registry client, which the model follows attempt by attempt.  Loops that run until
  the context is done run over the list of ticks, messages or requests that arrive until then.

  \<^bold>\<open>What is not modelled.\<close>  The text that \<^verbatim>\<open>slog\<close> makes of a record and the log lines inside the handlers
  of the other components, the transport of gRPC and HTTP, and the parsing of flag values from their
  text and the choice of the command, which are the libraries'.  Concurrency is the interleaving of whole operations: a check
  reads the registry once, under its lock, and the bucket is seen by one process at a time.  A nil and an empty
  slice are identified.  Each attempt of the registry client decodes into a fresh slice; in Go a
  failed attempt may leave elements behind that the next one overwrites field by field.  The generated
  mocks and the test tools are not part of the program.
\<close>

section \<open>From the routing table to the rules\<close>










section \<open>The authorization check\<close>

text \<open>
  C1: a request is let through only if it was authenticated, the registry authorized the
  authenticated user for the route, and its subtoken, if it needs one, was obtained; in particular
  the rules of the last loaded source with the route's ID permit the user, and a subtoken is used
  in its own community only.
\<close>

theorem check_allows_only_authorized:
  assumes "Check s req w = (resp, w')" "cpHttp resp = OkResponse hs rm"
    and "updateCtls i sources = Some (asRouteReg s)"
  shows "\<exists>tknCtx authResp w1 subtoken rs.
      RequestHeader (asTokenAuth s) (establishReqDetails s req) w = (Inr (tknCtx, authResp), w1)
    \<and> lastSource (staticSrc i @ sources) (sget (cqContextExtensions req) RouteIDHeader) = Some rs
    \<and> rules_permit rs (Username (tcPayload tknCtx)) (Groups (tcPayload tknCtx))
    \<and> (plExternalID (tcPayload tknCtx) = [] \<or> plExternalID (tcPayload tknCtx) = rsCommunityID rs)
    \<and> SubtokenFlow (asTokenAuth s) (establishReqDetails s req) tknCtx w1 = (Inr subtoken, w')"
proof -
  obtain tknCtx authResp w1 subtoken where c:
    "RequestHeader (asTokenAuth s) (establishReqDetails s req) w = (Inr (tknCtx, authResp), w1)"
    "AuthorizeProxy (asRouteReg s) (establishReqDetails s req) tknCtx = None"
    "SubtokenFlow (asTokenAuth s) (establishReqDetails s req) tknCtx w1 = (Inr subtoken, w')"
    using assms(1,2) by (rule Check_ok)
  have "asRouteReg s = loadCtls i sources" by (rule updateCtls_Some [OF assms(3)])
  then show ?thesis
    using c(1,3) c(2) [unfolded AuthorizeProxy_eq] authorize_load [of i sources "establishReqDetails s req" tknCtx]
    by auto
qed

definition demoServer :: "mem authServer" where
  "demoServer = \<lparr>asRouteReg = demoLoaded, asTokenAuth = demoInternal NoopCipher, asTokenSvc = demoArgs\<rparr>"

definition demoCheck :: CheckRequest where
  "demoCheck = \<lparr>cqMethod = ''GET'', cqPath = ''/'', cqHeaders = [(''x-token'', ''Bearer '' @ demoToken)],
     cqContextExtensions = [(RouteIDHeader, demoID1), (WormholeHostHeader, ''app.example''),
       (WormholeSchemeHeader, ''https'')]\<rparr>"

definition demoDetails :: RequestDetails where
  "demoDetails = \<lparr>rdHeaders = [(''x-token'', ''Bearer '' @ demoToken)], rdRouteID = demoID1, rdCommunityID = [],
     rdHost = ''app.example'', rdScheme = ''https'', rdPath = []\<rparr>"

lemma demo_details: "establishReqDetails demoServer demoCheck = demoDetails"
  by (simp add: establishReqDetails_def demoCheck_def demoServer_def demoArgs_def zero_app_def demoDetails_def
      header_defs Let_def)

lemma demo_header:
  "\<exists>w'. RequestHeader (demoInternal NoopCipher) demoDetails demoWorld =
    (Inr (\<lparr>WAT = demoToken, tcTokenID = demoTokenID, tcPayload = demoPayload\<rparr>,
          \<lparr>SetHeaders = setHeaders (demoInternal NoopCipher) demoJWT demoDetails, RemoveHeaders = []\<rparr>), w')"
proof -
  have "rdHeaders demoDetails = rdHeaders demoRequest" by (simp add: demoDetails_def demoRequest_def)
  then have "retrieveWAT (demoInternal NoopCipher) demoDetails =
      Inr (Some (zero_TokenContext\<lparr>WAT := demoToken, tcTokenID := demoTokenID\<rparr>))"
    using demoRequest_wat [of NoopCipher] by (simp add: retrieveWAT_def)
  from RequestHeader_wat [OF this, of demoWorld demoPayload demoJWT] demo_flow show ?thesis
    by (simp add: zero_TokenContext_def)
qed

lemma demo_authorized:
  "AuthorizeProxy demoLoaded demoDetails \<lparr>WAT = demoToken, tcTokenID = demoTokenID, tcPayload = demoPayload\<rparr> = None"
proof -
  have u: "uUIDRegex demoID1" by code_simp
  have l: "lastSource (staticSrc demoRegistry @ [demoSource1, demoSource2]) demoID1 = Some demoSource1"
    by (simp add: lastSource_def demoRegistry_def demoSource1_def demoSource2_def demoID1_def demoID2_def)
  show ?thesis
    unfolding AuthorizeProxy_eq demoLoaded_def authorize_load
    using u l by (simp add: demoDetails_def rules_permit_def demoSource1_def demoPayload_def zero_TokenPayload_def)
qed

lemma demo_check:
  "\<exists>w'. Check demoServer demoCheck demoWorld =
    (allowRequest \<lparr>SetHeaders = finalHeaders demoServer demoDetails []
        (setHeaders (demoInternal NoopCipher) demoJWT demoDetails), RemoveHeaders = []\<rparr>, w')"
proof -
  have s: "asRouteReg demoServer = demoLoaded" "asTokenAuth demoServer = demoInternal NoopCipher"
    "rdCommunityID demoDetails = []"
    by (simp_all add: demoServer_def demoDetails_def)
  obtain w' where r: "RequestHeader (demoInternal NoopCipher) demoDetails demoWorld =
    (Inr (\<lparr>WAT = demoToken, tcTokenID = demoTokenID, tcPayload = demoPayload\<rparr>,
          \<lparr>SetHeaders = setHeaders (demoInternal NoopCipher) demoJWT demoDetails, RemoveHeaders = []\<rparr>), w')"
    using demo_header by blast
  show ?thesis
    by (simp add: Check_def demo_details s r demo_authorized [unfolded AuthorizeProxy_eq] SubtokenFlow_def)
qed

theorem check_allows_only_authorized_witness:
  "\<exists>w' tknCtx authResp w1 rs. fst (Check demoServer demoCheck demoWorld) = allowRequest
      \<lparr>SetHeaders = finalHeaders demoServer demoDetails []
        (setHeaders (demoInternal NoopCipher) demoJWT demoDetails), RemoveHeaders = []\<rparr>
    \<and> RequestHeader (asTokenAuth demoServer) (establishReqDetails demoServer demoCheck) demoWorld
        = (Inr (tknCtx, authResp), w1)
    \<and> rules_permit rs (Username (tcPayload tknCtx)) (Groups (tcPayload tknCtx))"
proof -
  obtain w' where c: "Check demoServer demoCheck demoWorld = (allowRequest \<lparr>SetHeaders =
      finalHeaders demoServer demoDetails [] (setHeaders (demoInternal NoopCipher) demoJWT demoDetails),
      RemoveHeaders = []\<rparr>, w')"
    using demo_check by blast
  have u: "updateCtls demoRegistry [demoSource1, demoSource2] = Some (asRouteReg demoServer)"
    by (simp add: demoServer_def demo_update)
  from check_allows_only_authorized [OF c _ u] c show ?thesis by (auto simp: allowRequest_def)
qed

text \<open>
  C6: what an allowed request is sent upstream with: the token header carries the JWT of the token
  service in place of the caller's token, the route ID, host and scheme are those bound to the
  matched route, each header overwrites what the client sent, and no header occurs twice.
\<close>

theorem allowed_request_headers:
  assumes "Check s req w = (resp, w')" "cpHttp resp = OkResponse hs rm"
    and "cleanHeaderVal (sget (cqHeaders req) (TokenHeader (tokenSvc (asTokenAuth s)))) \<noteq> []"
    and "TokenHeader (tokenSvc (asTokenAuth s)) \<notin>
      {RouteIDHeader, CommunityHeader, WormholeHostHeader, WormholeSchemeHeader, SubtokenHeader (asTokenSvc s)}"
    and "DevHostHeader (asTokenSvc s) = []"
  shows "\<exists>tok jwt p w1.
      wormholeAccessTokenFlow (asTokenAuth s) tok (take 36 tok) w = (Inr (p, jwt), w1)
    \<and> tok = cleanHeaderVal (sget (cqHeaders req) (TokenHeader (tokenSvc (asTokenAuth s))))
    \<and> \<lparr>hvKey = TokenHeader (tokenSvc (asTokenAuth s)), hvValue = jwt, hvOverwrite = True\<rparr> \<in> set hs
    \<and> \<lparr>hvKey = RouteIDHeader, hvValue = sget (cqContextExtensions req) RouteIDHeader, hvOverwrite = True\<rparr> \<in> set hs
    \<and> \<lparr>hvKey = WormholeHostHeader, hvValue = sget (cqContextExtensions req) WormholeHostHeader, hvOverwrite = True\<rparr> \<in> set hs
    \<and> \<lparr>hvKey = WormholeSchemeHeader, hvValue = sget (cqContextExtensions req) WormholeSchemeHeader, hvOverwrite = True\<rparr> \<in> set hs
    \<and> distinct (map hvKey hs) \<and> (\<forall>h \<in> set hs. hvOverwrite h)"
proof -
  define d where "d = establishReqDetails s req"
  define i where "i = asTokenAuth s"
  obtain tknCtx authResp w1 subtoken where c:
    "RequestHeader i d w = (Inr (tknCtx, authResp), w1)"
    "resp = allowRequest (authResp\<lparr>SetHeaders := finalHeaders s d subtoken (SetHeaders authResp)\<rparr>)"
    using assms(1,2) unfolding d_def i_def by (rule Check_ok)
  define fh where "fh = finalHeaders s d subtoken (SetHeaders authResp)"
  have hs: "hs = map (\<lambda>(k, v). \<lparr>hvKey = k, hvValue = v, hvOverwrite = True\<rparr>) fh"
    using assms(2) by (simp add: c(2) allowRequest_def fh_def)
  have tok: "cleanHeaderVal (sget (rdHeaders d) (TokenHeader (tokenSvc i))) \<noteq> []"
    and ne: "TokenHeader (tokenSvc i) \<noteq> RouteIDHeader" "TokenHeader (tokenSvc i) \<noteq> CommunityHeader"
    using assms(3,4) by (simp_all add: d_def i_def)
  obtain jwt where h: "WAT tknCtx = cleanHeaderVal (sget (rdHeaders d) (TokenHeader (tokenSvc i)))"
    "tcTokenID tknCtx = take 36 (WAT tknCtx)"
    "wormholeAccessTokenFlow i (WAT tknCtx) (tcTokenID tknCtx) w = (Inr (tcPayload tknCtx, jwt), w1)"
    "SetHeaders authResp = setHeaders i jwt d"
    using RequestHeader_ok [OF c(1) tok] by auto
  have d: "rdRouteID d = sget (cqContextExtensions req) RouteIDHeader"
    "rdHost d = sget (cqContextExtensions req) WormholeHostHeader"
    "rdScheme d = sget (cqContextExtensions req) WormholeSchemeHeader" "rdHeaders d = cqHeaders req"
    using assms(5) by (simp_all add: d_def establishReqDetails_def Let_def)
  have wf: "go_wf fh" by (simp add: fh_def finalHeaders_def h(4) setHeaders_values(5) [OF ne])
  have v: "map_of fh (TokenHeader (tokenSvc i)) = Some jwt" "map_of fh RouteIDHeader = Some (rdRouteID d)"
    "map_of fh WormholeHostHeader = Some (rdHost d)" "map_of fh WormholeSchemeHeader = Some (rdScheme d)"
    using assms(4) setHeaders_values(2) [OF ne]
    by (simp_all add: fh_def finalHeaders_def h(4) i_def [symmetric] header_defs)
  have m: "map_of fh k = Some x \<Longrightarrow> \<lparr>hvKey = k, hvValue = x, hvOverwrite = True\<rparr> \<in> set hs" for k x
    unfolding hs by (drule map_of_SomeD) force
  have "map hvKey hs = map fst fh" by (simp add: hs case_prod_unfold comp_def)
  then have dk: "distinct (map hvKey hs)" using wf by simp
  have ow: "\<forall>h \<in> set hs. hvOverwrite h" by (auto simp: hs)
  have f: "wormholeAccessTokenFlow i (WAT tknCtx) (take 36 (WAT tknCtx)) w = (Inr (tcPayload tknCtx, jwt), w1)"
    using h(2,3) by simp
  have t: "WAT tknCtx = cleanHeaderVal (sget (cqHeaders req) (TokenHeader (tokenSvc i)))" using h(1) d(4) by simp
  show ?thesis
    unfolding i_def [symmetric]
    using f t m [OF v(1)] m [OF v(2), unfolded d] m [OF v(3), unfolded d] m [OF v(4), unfolded d] dk ow by blast
qed

theorem allowed_request_headers_witness:
  "\<exists>hs rm. cpHttp (fst (Check demoServer demoCheck demoWorld)) = OkResponse hs rm
    \<and> \<lparr>hvKey = ''x-token'', hvValue = demoJWT, hvOverwrite = True\<rparr> \<in> set hs
    \<and> \<lparr>hvKey = RouteIDHeader, hvValue = demoID1, hvOverwrite = True\<rparr> \<in> set hs"
proof -
  obtain resp w' hs rm where c: "Check demoServer demoCheck demoWorld = (resp, w')" "cpHttp resp = OkResponse hs rm"
    using demo_check by (auto simp: allowRequest_def)
  have t: "TokenHeader (tokenSvc (asTokenAuth demoServer)) = ''x-token''" "SubtokenHeader (asTokenSvc demoServer) = []"
    "DevHostHeader (asTokenSvc demoServer) = []"
    "cqHeaders demoCheck = rdHeaders demoRequest" "asTokenAuth demoServer = demoInternal NoopCipher"
    by (simp_all add: demoServer_def demoArgs_def zero_app_def demoCheck_def demoRequest_def)
  have ext: "sget (cqContextExtensions demoCheck) RouteIDHeader = demoID1" by (simp add: demoCheck_def)
  have "take 36 demoToken = demoTokenID" by code_simp
  moreover have "\<exists>tok jwt p w1.
      wormholeAccessTokenFlow (asTokenAuth demoServer) tok (take 36 tok) demoWorld = (Inr (p, jwt), w1)
    \<and> tok = cleanHeaderVal (sget (cqHeaders demoCheck) (TokenHeader (tokenSvc (asTokenAuth demoServer))))
    \<and> \<lparr>hvKey = TokenHeader (tokenSvc (asTokenAuth demoServer)), hvValue = jwt, hvOverwrite = True\<rparr> \<in> set hs
    \<and> \<lparr>hvKey = RouteIDHeader, hvValue = sget (cqContextExtensions demoCheck) RouteIDHeader, hvOverwrite = True\<rparr> \<in> set hs"
    using allowed_request_headers [OF c] by (simp add: t demoRequest_clean header_defs) blast
  ultimately show ?thesis
    using c by (auto simp: t demoRequest_clean demo_flow ext)
qed

lemma Check_denied:
  assumes "Check s req w = (resp, w')" "cpHttp resp = DeniedResponse code hs body"
  obtains e where "resp = denyRequest e" "err_ok e"
  | "resp = redirectRequest s (establishReqDetails s req)
        (NewRedirectErr (constructProxyRedirect (asTokenAuth s) (establishReqDetails s req)) [])"
proof -
  define d where "d = establishReqDetails s req"
  obtain r w1 where r: "RequestHeader (asTokenAuth s) d w = (r, w1)" by fastforce
  show ?thesis
  proof (cases r)
    case (Inl e)
    note e = RequestHeader_err [OF r [unfolded Inl]]
    show ?thesis
    proof (cases "seType e = RedirectErr")
      case True
      then have "resp = redirectRequest s d (NewRedirectErr (constructProxyRedirect (asTokenAuth s) d) [])"
        using assms(1) r Inl e by (simp add: Check_def d_def [symmetric] RedirectRequired_def)
      then show ?thesis using that(2) d_def by blast
    next
      case False
      then have "resp = denyRequest e"
        using assms(1) r Inl by (simp add: Check_def d_def [symmetric] RedirectRequired_def)
      then show ?thesis using that(1) e by blast
    qed
  next
    case (Inr x)
    obtain ctx ar where x: "x = (ctx, ar)" by fastforce
    show ?thesis
    proof (cases "authorizeProxyCtls (asRouteReg s) d ctx")
      case (Some e)
      then have "resp = denyRequest e" using assms(1) r Inr x by (simp add: Check_def d_def [symmetric])
      then show ?thesis using that(1) authorize_err_type [OF Some] by blast
    next
      case None
      obtain q w2 where q: "SubtokenFlow (asTokenAuth s) d ctx w1 = (q, w2)" by fastforce
      show ?thesis
      proof (cases q)
        case (Inl e)
        then have "resp = denyRequest e" using assms(1) r Inr x None q by (simp add: Check_def d_def [symmetric])
        then show ?thesis using that(1) SubtokenFlow_err [OF q [unfolded Inl]] by blast
      qed (use assms r Inr x None q in \<open>auto simp: Check_def d_def [symmetric] allowRequest_def\<close>)
    qed
  qed
qed

text \<open>
  C8: a request that is not let through carries a gRPC status other than OK and is answered with
  302, 400, 401, 404 or 500; every answer but the redirect has a JSON body with the gRPC status
  and its content type.
\<close>

theorem refused_request_status:
  assumes "Check s req w = (resp, w')" "cpHttp resp = DeniedResponse code hs body"
  shows "cpCode resp \<noteq> codes_OK \<and>
    (code = 302 \<or> code \<in> {400, 401, 404, 500} \<and> plainHeader ''content-type'' ''application/json'' \<in> set hs
       \<and> (\<exists>ms. body = JSONBody (JObj ((''code'', JNum (of_int (cpCode resp))) # ms))))"
proof -
  have deny: "cpCode (denyRequest e) \<noteq> codes_OK \<and> (\<exists>c h. cpHttp (denyRequest e) = DeniedResponse c h (JSONBody (Body e))
      \<and> c \<in> {400, 401, 404, 500} \<and> plainHeader ''content-type'' ''application/json'' \<in> set h)
      \<and> (\<exists>ms. Body e = JObj ((''code'', JNum (of_int (cpCode (denyRequest e)))) # ms))" if "err_ok e" for e
    using denyRequest_code [OF that] statusCode_not_ok [of e]
    by (simp add: denyRequest_def Body_def Code_def)
  from assms show ?thesis
  proof (cases rule: Check_denied)
    case (1 e)
    then show ?thesis using deny [OF 1(2)] assms(2) by auto
  next
    case 2
    define u where "u = constructProxyRedirect (asTokenAuth s) (establishReqDetails s req)"
    show ?thesis
    proof (cases "AllowedRedirect (asRouteReg s) u")
      case True
      then show ?thesis using 2 assms(2)
        by (auto simp: redirectRequest_def u_def [symmetric] RedirectRequired_def new_err_defs Let_def codes_defs status_defs)
    next
      case False
      then have "resp = denyRequest (SimpleBadReqErr (''invalid redirect URL: '' @ u))"
        using 2 by (simp add: redirectRequest_def u_def [symmetric] RedirectRequired_def new_err_defs)
      then show ?thesis using deny [of "SimpleBadReqErr (''invalid redirect URL: '' @ u)"] assms(2) by auto
    qed
  qed
qed

theorem refused_request_status_witness:
  "\<exists>resp w' code hs body. Check demoServer (demoCheck\<lparr>cqHeaders := []\<rparr>) demoWorld = (resp, w')
    \<and> cpHttp resp = DeniedResponse code hs body \<and> cpCode resp \<noteq> codes_OK \<and> code \<in> {302, 400, 401, 404, 500}"
proof -
  have e: "cleanHeaderVal [] = []" by code_simp
  have "RequestHeader (demoInternal NoopCipher) (establishReqDetails demoServer (demoCheck\<lparr>cqHeaders := []\<rparr>)) demoWorld
      = (Inl (SimpleAuthErr ''oauth2 support currently disabled''), demoWorld)"
    by (simp add: RequestHeader_def retrieveWAT_def e oauthFlow_def demoInternal_def memInternal_def demoBase_def)
  then have c: "Check demoServer (demoCheck\<lparr>cqHeaders := []\<rparr>) demoWorld
      = (denyRequest (SimpleAuthErr ''oauth2 support currently disabled''), demoWorld)"
    by (simp add: Check_def demoServer_def RedirectRequired_def)
  then obtain code hs body where d: "cpHttp (denyRequest (SimpleAuthErr ''oauth2 support currently disabled''))
      = DeniedResponse code hs body"
    by (simp add: denyRequest_def)
  from refused_request_status [OF c d] c d show ?thesis by auto
qed

text \<open>
  C7: a request is redirected only to the login URL that the token component built for it, and
  only if the host of that URL is trusted by the registry.
\<close>

theorem redirect_only_to_trusted_login:
  assumes "Check s req w = (resp, w')" "cpHttp resp = DeniedResponse StatusCode_Found hs body"
  shows "\<exists>u. u = constructProxyRedirect (asTokenAuth s) (establishReqDetails s req)
    \<and> AllowedRedirect (asRouteReg s) u \<and> plainHeader ''location'' u \<in> set hs
    \<and> cpCode resp = codes_Unauthenticated"
  using assms
proof (cases rule: Check_denied)
  case (1 e)
  then show ?thesis using assms(2) statusCode_not_ok [of e] by (auto simp: denyRequest_def status_defs)
next
  case 2
  define u where "u = constructProxyRedirect (asTokenAuth s) (establishReqDetails s req)"
  have a: "AllowedRedirect (asRouteReg s) u"
  proof (rule ccontr)
    assume "\<not> ?thesis"
    then have "cpHttp resp = cpHttp (denyRequest (SimpleBadReqErr (''invalid redirect URL: '' @ u)))"
      using 2 by (simp add: redirectRequest_def u_def [symmetric] RedirectRequired_def new_err_defs)
    then show False
      using assms(2) statusCode_not_ok [of "SimpleBadReqErr (''invalid redirect URL: '' @ u)"]
      by (auto simp: denyRequest_def status_defs)
  qed
  then have "resp = \<lparr>cpCode = codes_Unauthenticated, cpMessage = [], cpHttp = cpHttp resp\<rparr>"
    "plainHeader ''location'' u \<in> set hs"
    using 2 assms(2) by (auto simp: redirectRequest_def u_def [symmetric] RedirectRequired_def new_err_defs Let_def)
  then show ?thesis using a u_def by (metis CheckResponse.select_convs(1))
qed

definition loginServer :: "mem authServer" where
  "loginServer = demoServer\<lparr>asTokenAuth := (demoInternal NoopCipher)\<lparr>inClient := (\<lambda>_ w. (Inl ''down'', w)),
     oauth2Enabled := True, oauth2RedirectURL := empty_url\<lparr>Scheme := ''https'', Host := ''login.example'', Path := ''/oauth2/start''\<rparr>\<rparr>\<rparr>"

definition loginURL :: string where
  "loginURL = ''https://login.example/oauth2/start?rd=https%3A%2F%2Fapp.example''"

theorem redirect_only_to_trusted_login_witness:
  "\<exists>resp w' hs body. Check loginServer (demoCheck\<lparr>cqHeaders := []\<rparr>) demoWorld = (resp, w')
    \<and> cpHttp resp = DeniedResponse StatusCode_Found hs body \<and> plainHeader ''location'' loginURL \<in> set hs"
proof -
  define i where "i = asTokenAuth loginServer"
  define d where "d = establishReqDetails loginServer (demoCheck\<lparr>cqHeaders := []\<rparr>)"
  have d: "d = demoDetails\<lparr>rdHeaders := []\<rparr>"
    by (simp add: d_def establishReqDetails_def loginServer_def demoServer_def demoArgs_def zero_app_def demoCheck_def
        demoDetails_def header_defs Let_def)
  have e: "cleanHeaderVal [] = []" by code_simp
  have u: "constructProxyRedirect i d = loginURL"
  proof -
    have "url_String (redirectTarget (demoDetails\<lparr>rdHeaders := []\<rparr>)) = ''https://app.example''" by code_simp
    moreover have "oauth2RedirectURL i = empty_url\<lparr>Scheme := ''https'', Host := ''login.example'', Path := ''/oauth2/start''\<rparr>"
      by (simp add: i_def loginServer_def)
    moreover have "(let u2 = empty_url\<lparr>Scheme := ''https'', Host := ''login.example'', Path := ''/oauth2/start''\<rparr>;
          q = query_Set redirectParam ''https://app.example'' (parse_Query (RawQuery u2))
        in url_String (u2\<lparr>RawQuery := query_Encode q\<rparr>)) = loginURL" by code_simp
    ultimately show ?thesis by (simp add: constructProxyRedirect_def d)
  qed
  have "\<exists>e. GetHeaders (inClient i) sc x hs ck w = (Inl e, w)" for sc x hs ck w
    by (auto simp: GetHeaders_def runRequest_def i_def loginServer_def split: sum.splits)
  then obtain g where g: "GetHeaders (inClient i) (inSpan i) (url_String (oauth2AuthURL i))
      [(XForwardHostHeader, rdHost d), (XForwardProtoHeader, rdScheme d), (XForwardURIHeader, rdPath d)]
      (parseCookies d) demoWorld = (Inl g, demoWorld)" by blast
  have "callProxyAuth i d (parseCookies d) demoWorld = (Inl (NewRedirectErr loginURL []), demoWorld)"
    by (simp add: callProxyAuth_def g u)
  moreover have "oauth2Enabled i" by (simp add: i_def loginServer_def)
  moreover have "retrieveWAT i d = Inr None" by (simp add: retrieveWAT_def d e)
  ultimately have r: "RequestHeader i d demoWorld = (Inl (NewRedirectErr loginURL []), demoWorld)"
    by (simp add: RequestHeader_def oauthFlow_def)
  have n: "NormalizeURL loginURL = Inr \<lparr>Key = ''login.example'', URL = Some (empty_url\<lparr>Scheme := ''https'',
      Host := ''login.example'', Path := ''/oauth2/start'', RawQuery := ''rd=https%3A%2F%2Fapp.example''\<rparr>), Raw = loginURL\<rparr>"
    by code_simp
  have "mhas (redirectAllow demoLoaded) ''login.example''"
    unfolding demoLoaded_def loadCtls_redirect by (simp add: demoRegistry_def)
  then have a: "AllowedRedirect (asRouteReg loginServer) loginURL"
    by (simp add: AllowedRedirect_def n loginServer_def demoServer_def del: mhas_iff)
  have c: "Check loginServer (demoCheck\<lparr>cqHeaders := []\<rparr>) demoWorld =
      (redirectRequest loginServer d (NewRedirectErr loginURL []), demoWorld)"
    by (simp add: Check_def d_def [symmetric] i_def [symmetric] r RedirectRequired_def)
  then obtain hs body where h: "cpHttp (redirectRequest loginServer d (NewRedirectErr loginURL [])) =
      DeniedResponse StatusCode_Found hs body"
    using a by (auto simp: redirectRequest_def RedirectRequired_def new_err_defs Let_def)
  from redirect_only_to_trusted_login [OF c h] u h c show ?thesis
    unfolding i_def d_def by metis
qed



end
